(* ===== verification/Bridge_Prelude.thy ===== *)
theory Bridge_Prelude
  imports Complex_Main "HOL-Library.Sublist"
begin

text \<open>
  Shared vocabulary of the development: texts and times, the exceptions the bridge raises or
  catches, the result of code that may raise, the theorem collections the component theories
  extend, and generic lemmas that several components use.
\<close>

section \<open>Theorem collections\<close>

named_theorems text_simps \<open>evaluation rules of the str layer\<close>
named_theorems frame_simps \<open>fields that an operation leaves unchanged\<close>
named_theorems byte_bounds \<open>byte bounds of rendered texts\<close>

section \<open>Text and time\<close>

text \<open>
  A Python \<open>str\<close> is a sequence of Unicode code points, so it is a list of naturals here:
  \<open>len\<close> counts code points and slicing cuts between them. Wall-clock instants
  (\<open>datetime\<close>) are microseconds since the epoch; the readings of \<open>time.time\<close> and
  \<open>time.monotonic\<close> are rationals (the rounding of floats is not modelled).
\<close>

type_synonym str = "nat list"
type_synonym bytes = "nat list"
type_synonym instant = int
type_synonym seconds = rat

text \<open>A literal of the source; characters outside ASCII are appended as code points.\<close>

definition lit :: "string \<Rightarrow> str" where
  "lit s = map of_char s"

lemma lit_eq_iff [simp]: "lit s = lit t \<longleftrightarrow> s = t"
  by (simp add: lit_def inj_map_eq_map inj_of_char)

lemma lit_Nil [simp]: "lit [] = []"
  by (simp add: lit_def)

lemma lit_eq_Nil [simp]: "lit s = [] \<longleftrightarrow> s = []" "[] = lit s \<longleftrightarrow> s = []"
  by (auto simp: lit_def)

lemma length_lit [simp]: "length (lit s) = length s"
  by (simp add: lit_def)

lemma lit_Cons: "lit (c # s) = of_char c # lit s"
  by (simp add: lit_def)

section \<open>Exceptions and results\<close>

text \<open>
  The exception classes that a handler of the bridge distinguishes, or whose name or message
  it shows. \<open>OtherError\<close> carries the name of any further class.
\<close>

datatype exn_class =
    ValueError
  | UnicodeEncodeError
  | TypeError
  | KeyError
  | RuntimeError
  | NotImplementedError
  | AuditKeyError
  | OperationalError
  | IntegrityError
  | DatabaseError
  | OSError
  | TimeoutError
  | HTTPError
  | TelegramApiError
  | TelegramRateLimitError seconds
  | TelegramConflictError
  | CancelledError
  | OtherError str

text \<open>An exception: its class and \<open>str(exc)\<close>.\<close>

datatype exn = Exn (exn_class: exn_class) (exn_str: str)

type_synonym 'a result = "exn + 'a"

text \<open>\<open>exc.__class__.__name__\<close>.\<close>

fun class_name :: "exn_class \<Rightarrow> str" where
  "class_name ValueError = lit ''ValueError''"
| "class_name UnicodeEncodeError = lit ''UnicodeEncodeError''"
| "class_name TypeError = lit ''TypeError''"
| "class_name KeyError = lit ''KeyError''"
| "class_name RuntimeError = lit ''RuntimeError''"
| "class_name NotImplementedError = lit ''NotImplementedError''"
| "class_name AuditKeyError = lit ''AuditKeyError''"
| "class_name OperationalError = lit ''OperationalError''"
| "class_name IntegrityError = lit ''IntegrityError''"
| "class_name DatabaseError = lit ''DatabaseError''"
| "class_name OSError = lit ''OSError''"
| "class_name TimeoutError = lit ''TimeoutError''"
| "class_name HTTPError = lit ''HTTPError''"
| "class_name TelegramApiError = lit ''TelegramApiError''"
| "class_name (TelegramRateLimitError _) = lit ''TelegramRateLimitError''"
| "class_name TelegramConflictError = lit ''TelegramConflictError''"
| "class_name CancelledError = lit ''CancelledError''"
| "class_name (OtherError n) = n"

text \<open>
  The \<open>except\<close> clauses: \<open>sqlite3.Error\<close>, \<open>Exception\<close> (which \<open>CancelledError\<close> is not an
  instance of), \<open>RuntimeError\<close> with its subclasses, and the group of network errors that
  the Telegram code catches together.
\<close>

fun is_sqlite_error :: "exn \<Rightarrow> bool" where
  "is_sqlite_error (Exn c m) = (c \<in> {OperationalError, IntegrityError, DatabaseError})"

fun is_exception :: "exn \<Rightarrow> bool" where
  "is_exception (Exn c m) = (c \<noteq> CancelledError)"

fun is_rate_limit :: "exn \<Rightarrow> bool" where
  "is_rate_limit (Exn (TelegramRateLimitError _) m) = True"
| "is_rate_limit (Exn c m) = False"

fun retry_after :: "exn \<Rightarrow> seconds" where
  "retry_after (Exn (TelegramRateLimitError r) m) = r"
| "retry_after (Exn c m) = 0"

fun is_conflict :: "exn \<Rightarrow> bool" where
  "is_conflict (Exn c m) = (c = TelegramConflictError)"

fun is_runtime_error :: "exn \<Rightarrow> bool" where
  "is_runtime_error (Exn c m) =
     (c \<in> {RuntimeError, NotImplementedError, AuditKeyError, TelegramApiError,
           TelegramConflictError} \<or> is_rate_limit (Exn c m))"

fun is_network_error :: "exn \<Rightarrow> bool" where
  "is_network_error (Exn c m) =
     (c \<in> {TelegramApiError, TelegramConflictError, HTTPError, TimeoutError, OSError}
      \<or> is_rate_limit (Exn c m))"

abbreviation raise :: "exn_class \<Rightarrow> string \<Rightarrow> 'a result" where
  "raise c m \<equiv> Inl (Exn c (lit m))"

text \<open>The statement sequence \<open>x = r; f(x)\<close> where \<open>r\<close> may raise.\<close>

definition bind_result :: "'a result \<Rightarrow> ('a \<Rightarrow> 'b result) \<Rightarrow> 'b result" where
  "bind_result r f = (case r of Inl e \<Rightarrow> Inl e | Inr x \<Rightarrow> f x)"

lemma bind_result_simps [simp]:
  "bind_result (Inl e) f = Inl e" "bind_result (Inr x) f = f x"
  by (simp_all add: bind_result_def)

lemma bind_result_Inr_iff:
  "bind_result r f = Inr y \<longleftrightarrow> (\<exists>x. r = Inr x \<and> f x = Inr y)"
  by (cases r) auto

lemma bind_result_Inl_iff:
  "bind_result r f = Inl e \<longleftrightarrow> r = Inl e \<or> (\<exists>x. r = Inr x \<and> f x = Inl e)"
  by (cases r) auto

lemma bind_result_split:
  "P (bind_result r f) \<longleftrightarrow> (\<forall>e. r = Inl e \<longrightarrow> P (Inl e)) \<and> (\<forall>x. r = Inr x \<longrightarrow> P (f x))"
  by (cases r) auto

text \<open>A guard that raises: \<open>if not p: raise e\<close>.\<close>

definition check :: "bool \<Rightarrow> exn_class \<Rightarrow> str \<Rightarrow> unit result" where
  "check p c m = (if p then Inr () else Inl (Exn c m))"

lemma check_iff [simp]: "check p c m = Inr u \<longleftrightarrow> p" "check p c m = Inl e \<longleftrightarrow> \<not> p \<and> e = Exn c m"
  by (auto simp: check_def)

section \<open>Lists\<close>

lemma takeWhile_length_le: "length (takeWhile P xs) \<le> length xs"
  by (induction xs) auto

lemma filter_all_id: "list_all P xs \<Longrightarrow> filter P xs = xs"
  by (induction xs) auto

lemma list_all_take: "list_all P xs \<Longrightarrow> list_all P (take n xs)"
  by (auto simp: list_all_iff dest: in_set_takeD)

lemma list_all_dropWhile: "list_all P xs \<Longrightarrow> list_all P (dropWhile Q xs)"
  by (auto simp: list_all_iff dest: set_dropWhileD)

section \<open>Sequencing\<close>

text \<open>The sequence \<open>x = f(); g(x)\<close> where both may raise and change the state \<open>w\<close>.\<close>

definition seqw :: "'a result \<times> 'w \<Rightarrow> ('a \<Rightarrow> 'w \<Rightarrow> 'b result \<times> 'w) \<Rightarrow> 'b result \<times> 'w" where
  "seqw p f = (case p of (Inl e, w) \<Rightarrow> (Inl e, w) | (Inr x, w) \<Rightarrow> f x w)"

lemma seqw_simps [simp]:
  "seqw (Inl e, w) f = (Inl e, w)" "seqw (Inr x, w) f = f x w"
  by (simp_all add: seqw_def)

lemma seqw_eq_iff:
  "seqw p f = (Inr y, w') \<longleftrightarrow> (\<exists>x w. p = (Inr x, w) \<and> f x w = (Inr y, w'))"
  by (cases p; cases "fst p") auto

text \<open>A property of the state that both parts keep.\<close>

lemma seqw_keeps:
  assumes "P (snd p)" "\<And>x w. p = (Inr x, w) \<Longrightarrow> P w \<Longrightarrow> P (snd (f x w))"
  shows "P (snd (seqw p f))"
  using assms by (cases p; cases "fst p") auto

end
