(* ===== verification/PyText.thy ===== *)
theory PyText
  imports Bridge_Prelude
begin

text \<open>
  The \<open>str\<close> operations of Python that the bridge uses, on code points, and the UTF-8 codec
  with which it counts and cuts bytes. Case mapping covers ASCII, Latin-1 and the two signs
  that map into them; other letters are left alone, and since no other code point maps to
  ASCII, every comparison with the bridge's ASCII literals is exact.
\<close>

section \<open>White space and case\<close>

text \<open>\<open>str.isspace\<close> for one character, as \<open>strip\<close> and \<open>split\<close> use it.\<close>

definition is_space :: "nat \<Rightarrow> bool" where
  "is_space c \<longleftrightarrow> 9 \<le> c \<and> c \<le> 13 \<or> 28 \<le> c \<and> c \<le> 32 \<or> c = 133 \<or> c = 160 \<or> c = 5760
     \<or> 8192 \<le> c \<and> c \<le> 8202 \<or> c = 8232 \<or> c = 8233 \<or> c = 8239 \<or> c = 8287 \<or> c = 12288"

definition is_linebreak :: "nat \<Rightarrow> bool" where
  "is_linebreak c \<longleftrightarrow> 10 \<le> c \<and> c \<le> 13 \<or> 28 \<le> c \<and> c \<le> 30 \<or> c = 133 \<or> c = 8232 \<or> c = 8233"

definition lstrip :: "str \<Rightarrow> str" where
  "lstrip t = dropWhile is_space t"

definition rstrip :: "str \<Rightarrow> str" where
  "rstrip t = rev (dropWhile is_space (rev t))"

definition strip :: "str \<Rightarrow> str" where
  "strip t = rstrip (lstrip t)"

text \<open>\<open>t.rstrip('/')\<close>.\<close>

definition rstrip_slashes :: "str \<Rightarrow> str" where
  "rstrip_slashes t = rev (dropWhile (\<lambda>c. c = 47) (rev t))"

definition lower_cp :: "nat \<Rightarrow> str" where
  "lower_cp c =
     (if 65 \<le> c \<and> c \<le> 90 \<or> 192 \<le> c \<and> c \<le> 222 \<and> c \<noteq> 215 then [c + 32]
      else if c = 304 then [105, 775]
      else if c = 8490 then [107]
      else if c = 8491 then [229]
      else [c])"

definition upper_cp :: "nat \<Rightarrow> str" where
  "upper_cp c =
     (if 97 \<le> c \<and> c \<le> 122 \<or> 224 \<le> c \<and> c \<le> 254 \<and> c \<noteq> 247 then [c - 32]
      else if c = 181 then [924]
      else if c = 223 then [83, 83]
      else if c = 255 then [376]
      else [c])"

definition lower :: "str \<Rightarrow> str" where
  "lower t = concat (map lower_cp t)"

definition upper :: "str \<Rightarrow> str" where
  "upper t = concat (map upper_cp t)"

section \<open>Searching, splitting and joining\<close>

definition starts_with :: "str \<Rightarrow> str \<Rightarrow> bool" where
  "starts_with t p \<longleftrightarrow> take (length p) t = p"

definition ends_with :: "str \<Rightarrow> str \<Rightarrow> bool" where
  "ends_with t s \<longleftrightarrow> length s \<le> length t \<and> drop (length t - length s) t = s"

text \<open>\<open>needle in t\<close>.\<close>

fun contains :: "str \<Rightarrow> str \<Rightarrow> bool" where
  "contains [] n = (n = [])"
| "contains (c # cs) n = (starts_with (c # cs) n \<or> contains cs n)"

definition removeprefix :: "str \<Rightarrow> str \<Rightarrow> str" where
  "removeprefix t p = (if starts_with t p then drop (length p) t else t)"

text \<open>\<open>t.replace(old, new)\<close> for a non-empty \<open>old\<close>, left to right without overlaps.\<close>

function replace :: "str \<Rightarrow> str \<Rightarrow> str \<Rightarrow> str" where
  "replace old new t =
     (if old = [] \<or> t = [] then t
      else if starts_with t old then new @ replace old new (drop (length old) t)
      else hd t # replace old new (tl t))"
  by pat_completeness auto
termination
  by (relation "measure (\<lambda>(old, new, t). length t)") auto

declare replace.simps [simp del]

text \<open>\<open>t.split()\<close>: the maximal runs of characters that are not white space.\<close>

function split_ws :: "str \<Rightarrow> str list" where
  "split_ws t =
     (case lstrip t of
        [] \<Rightarrow> []
      | c # cs \<Rightarrow> (c # takeWhile (\<lambda>d. \<not> is_space d) cs)
                    # split_ws (dropWhile (\<lambda>d. \<not> is_space d) cs))"
  by pat_completeness auto
termination
proof (relation "measure length", goal_cases)
  case 1
  then show ?case by simp
next
  case (2 t c cs)
  have "length (dropWhile (\<lambda>d. \<not> is_space d) cs) \<le> length cs"
    by (rule length_dropWhile_le)
  moreover have "length (lstrip t) \<le> length t"
    by (simp add: lstrip_def length_dropWhile_le)
  ultimately show ?case using 2 by simp
qed

declare split_ws.simps [simp del]

text \<open>\<open>t.split(sep)\<close> for a separator of one character.\<close>

fun split_on :: "nat \<Rightarrow> str \<Rightarrow> str list" where
  "split_on s [] = [[]]"
| "split_on s (c # cs) =
     (if c = s then [] # split_on s cs
      else (case split_on s cs of [] \<Rightarrow> [[c]] | w # ws \<Rightarrow> (c # w) # ws))"

text \<open>\<open>t.splitlines()\<close>.\<close>

fun splitlines :: "str \<Rightarrow> str list" where
  "splitlines [] = []"
| "splitlines (c # cs) =
     (if is_linebreak c
      then (case cs of
              [] \<Rightarrow> [[]]
            | d # ds \<Rightarrow> [] # (if c = 13 \<and> d = 10 then splitlines ds else splitlines cs))
      else (case splitlines cs of [] \<Rightarrow> [[c]] | l # ls \<Rightarrow> (c # l) # ls))"

declare splitlines.simps(2) [simp del]

text \<open>\<open>sep.join(parts)\<close>.\<close>

fun join :: "str \<Rightarrow> str list \<Rightarrow> str" where
  "join sep [] = []"
| "join sep [p] = p"
| "join sep (p # q # ps) = p @ sep @ join sep (q # ps)"

section \<open>Numbers\<close>

text \<open>\<open>str(n)\<close> for an \<open>int\<close>.\<close>

fun dec_nat :: "nat \<Rightarrow> str" where
  "dec_nat n = (if n < 10 then [48 + n] else dec_nat (n div 10) @ [48 + n mod 10])"

declare dec_nat.simps [simp del]

lemma dec_nat_eval [text_simps]:
  "n < 10 \<Longrightarrow> dec_nat n = [48 + n]"
  "10 \<le> n \<Longrightarrow> dec_nat n = dec_nat (n div 10) @ [48 + n mod 10]"
  by (subst dec_nat.simps; simp)+

definition dec :: "int \<Rightarrow> str" where
  "dec i = (if i < 0 then 45 # dec_nat (nat (- i)) else dec_nat (nat i))"

section \<open>UTF-8\<close>

text \<open>Surrogates are code points of a \<open>str\<close> that \<open>encode\<close> refuses.\<close>

definition is_scalar :: "nat \<Rightarrow> bool" where
  "is_scalar c \<longleftrightarrow> c < 55296 \<or> 57344 \<le> c \<and> c < 1114112"

definition encodable :: "str \<Rightarrow> bool" where
  "encodable t \<longleftrightarrow> list_all is_scalar t"

definition encode_cp :: "nat \<Rightarrow> bytes" where
  "encode_cp c =
     (if c < 128 then [c]
      else if c < 2048 then [192 + c div 64, 128 + c mod 64]
      else if c < 65536 then [224 + c div 4096, 128 + c div 64 mod 64, 128 + c mod 64]
      else [240 + c div 262144, 128 + c div 4096 mod 64, 128 + c div 64 mod 64,
            128 + c mod 64])"

definition utf8 :: "str \<Rightarrow> bytes" where
  "utf8 t = concat (map encode_cp t)"

text \<open>\<open>t.encode("utf-8")\<close>.\<close>

definition encode :: "str \<Rightarrow> bytes result" where
  "encode t = (if encodable t then Inr (utf8 t) else raise UnicodeEncodeError ''surrogates not allowed'')"

definition is_cont :: "nat \<Rightarrow> bool" where
  "is_cont b \<longleftrightarrow> 128 \<le> b \<and> b < 192"

text \<open>The second bytes that may follow a lead byte of three or four bytes.\<close>

definition second_ok :: "nat \<Rightarrow> nat \<Rightarrow> bool" where
  "second_ok b c \<longleftrightarrow> is_cont c \<and> (b = 224 \<longrightarrow> 160 \<le> c) \<and> (b = 237 \<longrightarrow> c < 160)
     \<and> (b = 240 \<longrightarrow> 144 \<le> c) \<and> (b = 244 \<longrightarrow> c < 144)"

text \<open>
  \<open>b.decode("utf-8", errors="ignore")\<close>: a byte that starts no sequence is dropped, and so
  is the longest proper beginning of a sequence that the following byte does not continue.
\<close>

fun decode_ignore :: "bytes \<Rightarrow> str" where
  "decode_ignore [] = []"
| "decode_ignore (b # bs) =
     (if b < 128 then b # decode_ignore bs
      else if 194 \<le> b \<and> b < 224 then
        (case bs of
           c # cs \<Rightarrow> if is_cont c then ((b - 192) * 64 + (c - 128)) # decode_ignore cs
                      else decode_ignore bs
         | [] \<Rightarrow> [])
      else if 224 \<le> b \<and> b < 240 then
        (case bs of
           c # cs \<Rightarrow>
             if second_ok b c then
               (case cs of
                  d # ds \<Rightarrow>
                    if is_cont d
                    then ((b - 224) * 4096 + (c - 128) * 64 + (d - 128)) # decode_ignore ds
                    else decode_ignore cs
                | [] \<Rightarrow> [])
             else decode_ignore bs
         | [] \<Rightarrow> [])
      else if 240 \<le> b \<and> b < 245 then
        (case bs of
           c # cs \<Rightarrow>
             if second_ok b c then
               (case cs of
                  d # ds \<Rightarrow>
                    if is_cont d then
                      (case ds of
                         e # es \<Rightarrow>
                           if is_cont e
                           then ((b - 240) * 262144 + (c - 128) * 4096 + (d - 128) * 64
                                 + (e - 128)) # decode_ignore es
                           else decode_ignore ds
                       | [] \<Rightarrow> [])
                    else decode_ignore cs
                | [] \<Rightarrow> [])
             else decode_ignore bs
         | [] \<Rightarrow> [])
      else decode_ignore bs)"

text \<open>\<open>raw.decode("utf-8")\<close>: the text whose encoding the bytes are.\<close>

definition decode_utf8_strict :: "bytes \<Rightarrow> str option" where
  "decode_utf8_strict bs = (let t = decode_ignore bs in if utf8 t = bs then Some t else None)"

section \<open>Facts about stripping, splitting and joining\<close>

lemma length_lstrip_le: "length (lstrip t) \<le> length t"
  by (simp add: lstrip_def length_dropWhile_le)

lemma length_rstrip_le: "length (rstrip t) \<le> length t"
  by (metis length_dropWhile_le length_rev rstrip_def)

lemma set_lstrip: "set (lstrip t) \<subseteq> set t"
  by (auto simp: lstrip_def dest: set_dropWhileD)

lemma set_rstrip: "set (rstrip t) \<subseteq> set t"
  by (auto simp: rstrip_def dest: set_dropWhileD)

lemma set_strip: "set (strip t) \<subseteq> set t"
  using set_lstrip set_rstrip by (fastforce simp: strip_def)

lemma rstrip_prefix: "prefix (rstrip t) t"
proof -
  have "suffix (dropWhile is_space (rev t)) (rev t)"
    by (rule suffix_dropWhile)
  then show ?thesis by (simp add: rstrip_def suffix_to_prefix)
qed

lemma rstrip_take: "rstrip t = take (length (rstrip t)) t"
  using rstrip_prefix by (metis append_eq_conv_conj prefix_def)

lemma rstrip_Nil [simp]: "rstrip [] = []"
  by (simp add: rstrip_def)

lemma strip_Nil [simp]: "strip [] = []"
  by (simp add: strip_def lstrip_def)

lemma rstrip_eq_Nil_iff: "rstrip t = [] \<longleftrightarrow> list_all is_space t"
  by (auto simp: rstrip_def dropWhile_eq_Nil_conv list_all_iff)

lemma rstrip_snoc_nonspace: "\<not> is_space c \<Longrightarrow> rstrip (t @ [c]) = t @ [c]"
  by (simp add: rstrip_def)

lemma last_rstrip: "rstrip t \<noteq> [] \<Longrightarrow> \<not> is_space (last (rstrip t))"
  by (simp add: rstrip_def last_rev hd_dropWhile)

lemma strip_eq_Nil_iff: "strip t = [] \<longleftrightarrow> list_all is_space t"
proof
  assume "strip t = []"
  then have all: "list_all is_space (lstrip t)"
    by (simp add: strip_def rstrip_eq_Nil_iff)
  have "lstrip t = []"
  proof (rule ccontr)
    assume ne: "lstrip t \<noteq> []"
    then have "\<not> is_space (hd (lstrip t))"
      unfolding lstrip_def by (rule hd_dropWhile)
    with all ne show False by (cases "lstrip t") auto
  qed
  then show "list_all is_space t"
    by (auto simp: lstrip_def dropWhile_eq_Nil_conv list_all_iff)
next
  assume "list_all is_space t"
  then have "lstrip t = []"
    by (auto simp: lstrip_def dropWhile_eq_Nil_conv list_all_iff)
  then show "strip t = []" by (simp add: strip_def)
qed

lemma split_ws_words:
  "w \<in> set (split_ws t) \<Longrightarrow> w \<noteq> [] \<and> list_all (\<lambda>c. \<not> is_space c) w \<and> set w \<subseteq> set t"
proof (induction t arbitrary: w rule: split_ws.induct)
  case (1 t)
  show ?case
  proof (cases "lstrip t")
    case Nil
    with 1(2) show ?thesis by (simp add: split_ws.simps [of t])
  next
    case (Cons c cs)
    have sub: "set (c # cs) \<subseteq> set t" using set_lstrip [of t] Cons by simp
    have c: "\<not> is_space c"
      using Cons by (simp add: lstrip_def dropWhile_eq_Cons_conv)
    from 1(2) Cons consider
        "w = c # takeWhile (\<lambda>d. \<not> is_space d) cs"
      | "w \<in> set (split_ws (dropWhile (\<lambda>d. \<not> is_space d) cs))"
      by (auto simp: split_ws.simps [of t])
    then show ?thesis
    proof cases
      case 1
      then show ?thesis using c sub
        by (auto simp: list_all_iff dest: set_takeWhileD)
    next
      case 2
      from "1.IH" [OF Cons this] sub show ?thesis
        by (auto dest: set_dropWhileD)
    qed
  qed
qed

lemma split_ws_eq_Nil_iff: "split_ws t = [] \<longleftrightarrow> list_all is_space t"
proof -
  have "lstrip t = [] \<longleftrightarrow> list_all is_space t"
    by (auto simp: lstrip_def dropWhile_eq_Nil_conv list_all_iff)
  then show ?thesis by (auto simp: split_ws.simps [of t] split: list.splits)
qed

lemma set_join: "set (join sep ps) \<subseteq> set sep \<union> (\<Union>p \<in> set ps. set p)"
  by (induction sep ps rule: join.induct) auto

lemma starts_with_append [simp]: "starts_with (p @ t) p"
  by (simp add: starts_with_def)

lemma starts_with_prefix: "starts_with t p \<longleftrightarrow> prefix p t"
  by (metis append_eq_conv_conj prefix_def starts_with_def)

lemma removeprefix_append [simp]: "removeprefix (p @ t) p = t"
  by (simp add: removeprefix_def)

section \<open>Facts about the codec\<close>

lemma utf8_simps [simp]:
  "utf8 [] = []" "utf8 (c # t) = encode_cp c @ utf8 t"
  by (simp_all add: utf8_def)

lemma utf8_append [simp]: "utf8 (s @ t) = utf8 s @ utf8 t"
  by (simp add: utf8_def)

lemma length_encode_cp: "length (encode_cp c) =
    (if c < 128 then 1 else if c < 2048 then 2 else if c < 65536 then 3 else 4)"
  by (simp add: encode_cp_def)

lemma length_encode_cp_bounds: "1 \<le> length (encode_cp c)" "length (encode_cp c) \<le> 4"
  by (simp_all add: length_encode_cp)

lemma encode_cp_not_Nil [simp]: "encode_cp c \<noteq> []"
  by (simp add: encode_cp_def)

lemma length_utf8_ge: "length t \<le> length (utf8 t)"
proof (induction t)
  case Nil
  then show ?case by simp
next
  case (Cons c t)
  then show ?case using length_encode_cp_bounds(1) [of c] by simp
qed

lemma utf8_eq_Nil_iff [simp]: "utf8 t = [] \<longleftrightarrow> t = []"
  by (cases t) auto

lemma utf8_lit_length: "list_all (\<lambda>c. of_char c < (128::nat)) s \<Longrightarrow> length (utf8 (lit s)) = length s"
  by (induction s) (auto simp: lit_def encode_cp_def)

lemma encodable_simps [simp]:
  "encodable []" "encodable (c # t) \<longleftrightarrow> is_scalar c \<and> encodable t"
  "encodable (s @ t) \<longleftrightarrow> encodable s \<and> encodable t"
  by (auto simp: encodable_def)

lemma encodable_subset: "set s \<subseteq> set t \<Longrightarrow> encodable t \<Longrightarrow> encodable s"
  by (auto simp: encodable_def list_all_iff)

lemma encodable_take: "encodable t \<Longrightarrow> encodable (take n t)"
  by (rule encodable_subset [of _ t]) (auto dest: in_set_takeD)

lemma encodable_lit [simp]: "encodable (lit s)"
proof -
  have "of_char c < (256::nat)" for c
    by (metis of_char_mod_256 mod_less_divisor zero_less_numeral)
  then have "of_char c < (55296::nat)" for c
    by (rule less_trans) simp
  then show ?thesis
    by (simp add: encodable_def lit_def list_all_iff is_scalar_def)
qed

lemma encodable_strip: "encodable t \<Longrightarrow> encodable (strip t)"
  using set_strip encodable_subset by blast

lemma encodable_rstrip: "encodable t \<Longrightarrow> encodable (rstrip t)"
  using set_rstrip encodable_subset by blast

lemma encodable_join:
  "encodable sep \<Longrightarrow> list_all encodable ps \<Longrightarrow> encodable (join sep ps)"
  by (induction sep ps rule: join.induct) auto


section \<open>Cutting UTF-8 and decoding it back\<close>

text \<open>The longest prefix of a text whose encoding has at most \<open>n\<close> bytes.\<close>

fun byte_prefix :: "nat \<Rightarrow> str \<Rightarrow> str" where
  "byte_prefix n [] = []"
| "byte_prefix n (c # cs) =
     (if length (encode_cp c) \<le> n then c # byte_prefix (n - length (encode_cp c)) cs else [])"

lemma prefix_byte_prefix: "prefix (byte_prefix n t) t"
  by (induction n t rule: byte_prefix.induct) auto

lemma length_byte_prefix: "length (utf8 (byte_prefix n t)) \<le> n"
  by (induction n t rule: byte_prefix.induct) auto

lemma byte_prefix_longest:
  "prefix s t \<Longrightarrow> length (utf8 s) \<le> n \<Longrightarrow> prefix s (byte_prefix n t)"
proof (induction n t arbitrary: s rule: byte_prefix.induct)
  case (1 n)
  then show ?case by simp
next
  case (2 n c cs)
  then show ?case by (cases s) auto
qed

lemma byte_prefix_all: "length (utf8 t) \<le> n \<Longrightarrow> byte_prefix n t = t"
  by (induction n t rule: byte_prefix.induct) auto

lemma encodable_byte_prefix: "encodable t \<Longrightarrow> encodable (byte_prefix n t)"
  by (metis encodable_simps(3) prefix_byte_prefix prefix_def)

lemma digits3:
  obtains a b r :: nat where "c = 4096 * a + 64 * b + r" "b < 64" "r < 64"
    "c div 4096 = a" "c div 64 mod 64 = b" "c mod 64 = r"
proof
  have "c div 64 div 64 = c div 4096" by (simp flip: div_mult2_eq)
  moreover have "64 * (c div 64) + c mod 64 = c" by simp
  moreover have "64 * (c div 64 div 64) + c div 64 mod 64 = c div 64" by simp
  ultimately show "c = 4096 * (c div 4096) + 64 * (c div 64 mod 64) + c mod 64" by linarith
qed simp_all

lemma digits4:
  obtains a b d r :: nat where "c = 262144 * a + 4096 * b + 64 * d + r" "b < 64" "d < 64" "r < 64"
    "c div 262144 = a" "c div 4096 mod 64 = b" "c div 64 mod 64 = d" "c mod 64 = r"
proof
  have "c div 4096 div 64 = c div 262144" by (simp flip: div_mult2_eq)
  moreover have "64 * (c div 4096 div 64) + c div 4096 mod 64 = c div 4096" by simp
  moreover have "c = 4096 * (c div 4096) + 64 * (c div 64 mod 64) + c mod 64"
    by (rule digits3 [of c]) simp
  ultimately show "c = 262144 * (c div 262144) + 4096 * (c div 4096 mod 64)
      + 64 * (c div 64 mod 64) + c mod 64" by linarith
qed simp_all

lemma decode_encode_cp:
  assumes "is_scalar c"
  shows "decode_ignore (encode_cp c @ bs) = c # decode_ignore bs"
proof -
  consider "c < 128" | "128 \<le> c" "c < 2048" | "2048 \<le> c" "c < 65536"
    | "65536 \<le> c" "c < 1114112"
    using assms by (fastforce simp: is_scalar_def)
  then show ?thesis
  proof cases
    case 1
    then show ?thesis by (simp add: encode_cp_def)
  next
    case 2
    have d: "2 \<le> c div 64" "c div 64 < 32"
      using div_le_mono [OF 2(1), of 64] 2(2) by (simp_all add: less_mult_imp_div_less)
    with 2 show ?thesis by (simp add: encode_cp_def is_cont_def)
  next
    case 3
    obtain a b r where c: "c = 4096 * a + 64 * b + r" "b < 64" "r < 64"
      and ds: "c div 4096 = a" "c div 64 mod 64 = b" "c mod 64 = r"
      by (rule digits3)
    have "second_ok (224 + a) (128 + b)"
      using assms 3 c by (auto simp: second_ok_def is_cont_def is_scalar_def)
    moreover have "a < 16" using 3 c by linarith
    ultimately show ?thesis using 3 c(2,3) unfolding encode_cp_def ds
      by (simp add: is_cont_def c(1))
  next
    case 4
    obtain a b d r where c: "c = 262144 * a + 4096 * b + 64 * d + r" "b < 64" "d < 64" "r < 64"
      and ds: "c div 262144 = a" "c div 4096 mod 64 = b" "c div 64 mod 64 = d" "c mod 64 = r"
      by (rule digits4)
    have "second_ok (240 + a) (128 + b)"
      using 4 c by (auto simp: second_ok_def is_cont_def)
    moreover have "a < 5" using 4 c by linarith
    ultimately show ?thesis using 4 c(2-4) unfolding encode_cp_def ds
      by (simp add: is_cont_def c(1))
  qed
qed

lemma decode_cut_encode_cp:
  assumes "is_scalar c" "n < length (encode_cp c)"
  shows "decode_ignore (take n (encode_cp c)) = []"
proof -
  consider "c < 128" | "128 \<le> c" "c < 2048" | "2048 \<le> c" "c < 65536"
    | "65536 \<le> c" "c < 1114112"
    using assms(1) by (fastforce simp: is_scalar_def)
  then show ?thesis
  proof cases
    case 1
    with assms(2) show ?thesis by (simp add: encode_cp_def)
  next
    case 2
    with assms(2) have "n = 0 \<or> n = 1" by (auto simp: encode_cp_def)
    moreover have "2 \<le> c div 64" "c div 64 < 32"
      using div_le_mono [OF 2(1), of 64] 2(2) by (simp_all add: less_mult_imp_div_less)
    ultimately show ?thesis using 2 by (elim disjE) (simp_all add: encode_cp_def)
  next
    case 3
    obtain a b r where c: "c = 4096 * a + 64 * b + r" "b < 64" "r < 64"
      and ds: "c div 4096 = a" "c div 64 mod 64 = b" "c mod 64 = r"
      by (rule digits3)
    have "second_ok (224 + a) (128 + b)"
      using assms(1) 3 c by (auto simp: second_ok_def is_cont_def is_scalar_def)
    moreover have "a < 16" using 3 c by linarith
    moreover have "n = 0 \<or> n = 1 \<or> n = 2" using assms(2) 3 by (auto simp: encode_cp_def)
    ultimately show ?thesis using 3 c(2,3) unfolding encode_cp_def ds
      by (elim disjE) simp_all
  next
    case 4
    obtain a b d r where c: "c = 262144 * a + 4096 * b + 64 * d + r" "b < 64" "d < 64" "r < 64"
      and ds: "c div 262144 = a" "c div 4096 mod 64 = b" "c div 64 mod 64 = d" "c mod 64 = r"
      by (rule digits4)
    have "second_ok (240 + a) (128 + b)"
      using 4 c by (auto simp: second_ok_def is_cont_def)
    moreover have "a < 5" using 4 c by linarith
    moreover have "n = 0 \<or> n = 1 \<or> n = 2 \<or> n = 3" using assms(2) 4
      by (auto simp: encode_cp_def)
    ultimately show ?thesis using 4 c(2-4) unfolding encode_cp_def ds
      by (elim disjE) (simp_all add: is_cont_def)
  qed
qed

text \<open>
  Cutting the encoding after \<open>n\<close> bytes and decoding what is left, dropping a character
  that was cut in two, gives the longest prefix that fits.
\<close>

lemma decode_take_utf8: "encodable t \<Longrightarrow> decode_ignore (take n (utf8 t)) = byte_prefix n t"
proof (induction n t rule: byte_prefix.induct)
  case (1 n)
  then show ?case by simp
next
  case (2 n c cs)
  show ?case
  proof (cases "length (encode_cp c) \<le> n")
    case True
    with 2 show ?thesis by (simp add: decode_encode_cp)
  next
    case False
    with 2 show ?thesis by (simp add: decode_cut_encode_cp)
  qed
qed

lemma decode_utf8: "encodable t \<Longrightarrow> decode_ignore (utf8 t) = t"
  using decode_take_utf8 [of t "length (utf8 t)"] by (simp add: byte_prefix_all)

section \<open>Words\<close>

lemma strip_nonspace_ends:
  assumes "t \<noteq> []" "\<not> is_space (hd t)" "\<not> is_space (last t)"
  shows "strip t = t"
proof -
  from assms have "lstrip t = t" by (cases t) (simp_all add: lstrip_def)
  moreover from assms have "rstrip t = t"
    using rstrip_snoc_nonspace [of "last t" "butlast t"] by simp
  ultimately show ?thesis by (simp add: strip_def)
qed

lemma strip_strip [simp]: "strip (strip t) = strip t"
proof (cases "strip t = []")
  case False
  then have ne: "rstrip (lstrip t) \<noteq> []" by (simp add: strip_def)
  then obtain r where "lstrip t = rstrip (lstrip t) @ r" using rstrip_prefix [of "lstrip t"] by (auto simp: prefix_def)
  with ne have "hd (strip t) = hd (lstrip t)" "lstrip t \<noteq> []" unfolding strip_def by (metis hd_append, auto)
  moreover have "\<not> is_space (hd (lstrip t))" if "lstrip t \<noteq> []"
    using that by (simp add: lstrip_def hd_dropWhile)
  moreover have "\<not> is_space (last (strip t))" using last_rstrip [OF ne] by (simp add: strip_def)
  ultimately show ?thesis using False by (intro strip_nonspace_ends) auto
qed simp

text \<open>What \<open>split_ws\<close> returns, and what it returns again after a \<open>join\<close> with blanks.\<close>

definition is_word :: "str \<Rightarrow> bool" where
  "is_word w \<longleftrightarrow> w \<noteq> [] \<and> list_all (\<lambda>c. \<not> is_space c) w"

lemma lstrip_nonspace: "\<not> is_space c \<Longrightarrow> lstrip (c # t) = c # t"
  by (simp add: lstrip_def)

lemma lstrip_space: "is_space c \<Longrightarrow> lstrip (c # t) = lstrip t"
  by (simp add: lstrip_def)

lemma space32: "is_space 32" by (simp add: is_space_def)

lemma split_ws_word_end:
  assumes "is_word w"
  shows "split_ws w = [w]"
proof -
  obtain c cs where w: "w = c # cs" and c: "\<not> is_space c" "\<forall>d \<in> set cs. \<not> is_space d"
    using assms by (cases w) (auto simp: is_word_def list_all_iff)
  then have cut: "takeWhile (\<lambda>d. \<not> is_space d) cs = cs" "dropWhile (\<lambda>d. \<not> is_space d) cs = []"
    by (auto simp: takeWhile_eq_all_conv dropWhile_eq_Nil_conv)
  have "split_ws [] = []" by (simp add: split_ws_eq_Nil_iff)
  then show ?thesis
    unfolding w split_ws.simps [of "c # cs"] lstrip_nonspace [OF c(1)] list.case cut by simp
qed

lemma split_ws_word_sep:
  assumes "is_word w"
  shows "split_ws (w @ 32 # t) = w # split_ws t"
proof -
  obtain c cs where w: "w = c # cs" and c: "\<not> is_space c" "\<forall>d \<in> set cs. \<not> is_space d"
    using assms by (cases w) (auto simp: is_word_def list_all_iff)
  have "takeWhile (\<lambda>d. \<not> is_space d) (cs @ 32 # t) = cs"
    using c(2) by (simp add: takeWhile_append2 space32)
  moreover have "dropWhile (\<lambda>d. \<not> is_space d) (cs @ 32 # t) = 32 # t"
    using c(2) by (simp add: dropWhile_append2 space32)
  moreover have "split_ws (32 # t) = split_ws t"
    by (simp add: split_ws.simps [of "32 # t"] split_ws.simps [of t] lstrip_space space32)
  ultimately show ?thesis
    using c(1) by (simp add: w split_ws.simps [of "c # cs @ 32 # t"] lstrip_nonspace)
qed

lemma split_ws_join: "list_all is_word ws \<Longrightarrow> split_ws (join [32] ws) = ws"
proof (induction ws)
  case Nil
  show ?case by (simp add: split_ws.simps [of "[]"] lstrip_def)
next
  case (Cons w ws)
  then show ?case
    by (cases ws) (simp_all add: split_ws_word_end split_ws_word_sep)
qed

lemma join_words_ends:
  assumes "list_all is_word ws" "ws \<noteq> []"
  shows "join [32] ws \<noteq> [] \<and> \<not> is_space (hd (join [32] ws)) \<and> \<not> is_space (last (join [32] ws))"
  using assms
proof (induction ws)
  case (Cons w ws)
  then have w: "w \<noteq> []" "\<not> is_space (hd w)" "\<not> is_space (last w)"
    by (auto simp: is_word_def list_all_iff)
  with Cons show ?case by (cases ws) (auto simp: hd_append)
qed simp

lemma join_words_strip:
  assumes "list_all is_word ws"
  shows "strip (join [32] ws) = join [32] ws"
  using join_words_ends [OF assms] by (cases "ws = []") (auto intro: strip_nonspace_ends)

lemma split_ws_are_words: "list_all is_word (split_ws t)"
  using split_ws_words by (auto simp: list_all_iff is_word_def)

lemma join_append: "ws \<noteq> [] \<Longrightarrow> vs \<noteq> [] \<Longrightarrow> join s ws @ s @ join s vs = join s (ws @ vs)"
proof (induction ws)
  case (Cons w ws)
  then show ?case by (cases ws; cases vs) auto
qed simp

end
