(* ===== verification/PyJson.thy ===== *)
theory PyJson
  imports PyText "HOL-Library.List_Lexorder"
begin

text \<open>
  JSON values as Python's \<open>json\<close> module and the platforms' payloads have them: metadata,
  Telegram updates, Home Assistant events and configuration. A float is represented by its
  \<open>repr\<close>, which is what \<open>json.dumps\<close> writes.
\<close>

datatype json =
    JNull
  | JBool bool
  | JInt int
  | JFloat str
  | JStr str
  | JArr "json list"
  | JObj "(str \<times> json) list"

type_synonym jobject = "(str \<times> json) list"

section \<open>Reading\<close>

definition jget :: "jobject \<Rightarrow> str \<Rightarrow> json option" where
  "jget d k = map_of d k"

text \<open>\<open>d.get(k, default)\<close>.\<close>

definition jget_or :: "jobject \<Rightarrow> str \<Rightarrow> json \<Rightarrow> json" where
  "jget_or d k dflt = (case jget d k of None \<Rightarrow> dflt | Some v \<Rightarrow> v)"

text \<open>\<open>d.get(k)\<close>, whose default is \<open>None\<close>.\<close>

definition jget_null :: "jobject \<Rightarrow> str \<Rightarrow> json" where
  "jget_null d k = jget_or d k JNull"

fun truthy :: "json \<Rightarrow> bool" where
  "truthy JNull = False"
| "truthy (JBool b) = b"
| "truthy (JInt i) = (i \<noteq> 0)"
| "truthy (JFloat r) = (r \<noteq> [] \<and> r \<noteq> lit ''0.0'' \<and> r \<noteq> lit ''-0.0'')"
| "truthy (JStr s) = (s \<noteq> [])"
| "truthy (JArr xs) = (xs \<noteq> [])"
| "truthy (JObj kvs) = (kvs \<noteq> [])"

fun is_mapping :: "json \<Rightarrow> bool" where
  "is_mapping (JObj kvs) = True"
| "is_mapping _ = False"

fun obj_items :: "json \<Rightarrow> jobject" where
  "obj_items (JObj kvs) = kvs"
| "obj_items _ = []"

section \<open>Writing\<close>

definition hex_digit :: "nat \<Rightarrow> nat" where
  "hex_digit d = (if d < 10 then 48 + d else 87 + d)"

definition u_escape :: "nat \<Rightarrow> str" where
  "u_escape n = [92, 117, hex_digit (n div 4096 mod 16), hex_digit (n div 256 mod 16),
                 hex_digit (n div 16 mod 16), hex_digit (n mod 16)]"

text \<open>One character inside a string, with \<open>ensure_ascii=True\<close>.\<close>

definition json_char :: "nat \<Rightarrow> str" where
  "json_char c =
     (if c = 34 then [92, 34]
      else if c = 92 then [92, 92]
      else if c = 10 then [92, 110]
      else if c = 13 then [92, 114]
      else if c = 9 then [92, 116]
      else if c = 12 then [92, 102]
      else if c = 8 then [92, 98]
      else if 32 \<le> c \<and> c \<le> 126 then [c]
      else if c < 65536 then u_escape c
      else u_escape (55296 + (c - 65536) div 1024) @ u_escape (56320 + (c - 65536) mod 1024))"

definition json_string :: "str \<Rightarrow> str" where
  "json_string s = [34] @ concat (map json_char s) @ [34]"

text \<open>\<open>sort_keys=True\<close>: the objects at every depth with their keys in order.\<close>

fun json_sort :: "json \<Rightarrow> json" where
  "json_sort (JArr xs) = JArr (map json_sort xs)"
| "json_sort (JObj kvs) = JObj (sort_key fst (map (\<lambda>(k, v). (k, json_sort v)) kvs))"
| "json_sort j = j"

text \<open>\<open>json.dumps\<close> with the given separators.\<close>

fun json_dumps :: "str \<Rightarrow> str \<Rightarrow> json \<Rightarrow> str" where
  "json_dumps isep ksep JNull = lit ''null''"
| "json_dumps isep ksep (JBool b) = (if b then lit ''true'' else lit ''false'')"
| "json_dumps isep ksep (JInt i) = dec i"
| "json_dumps isep ksep (JFloat r) = r"
| "json_dumps isep ksep (JStr s) = json_string s"
| "json_dumps isep ksep (JArr xs) = [91] @ join isep (map (json_dumps isep ksep) xs) @ [93]"
| "json_dumps isep ksep (JObj kvs) =
     [123] @ join isep (map (\<lambda>(k, v). json_string k @ ksep @ json_dumps isep ksep v) kvs) @ [125]"

abbreviation dumps_default :: "json \<Rightarrow> str" where
  "dumps_default \<equiv> json_dumps (lit '', '') (lit '': '')"

abbreviation dumps_compact :: "json \<Rightarrow> str" where
  "dumps_compact \<equiv> json_dumps (lit '','') (lit '':'')"

section \<open>Showing\<close>

text \<open>
  \<open>str(v)\<close>, and \<open>repr(v)\<close> for the strings inside containers. Which characters are printable
  is decided for Latin-1; the later ones count as printable.
\<close>

definition repr_char :: "nat \<Rightarrow> nat \<Rightarrow> str" where
  "repr_char quote c =
     (if c = quote \<or> c = 92 then [92, c]
      else if c = 10 then [92, 110]
      else if c = 13 then [92, 114]
      else if c = 9 then [92, 116]
      else if c < 32 \<or> 127 \<le> c \<and> c \<le> 160 \<or> c = 173
      then [92, 120, hex_digit (c div 16), hex_digit (c mod 16)]
      else [c])"

definition py_repr_str :: "str \<Rightarrow> str" where
  "py_repr_str s =
     (let quote = (if 39 \<in> set s \<and> 34 \<notin> set s then 34 else 39)
      in [quote] @ concat (map (repr_char quote) s) @ [quote])"

fun py_repr :: "json \<Rightarrow> str" where
  "py_repr JNull = lit ''None''"
| "py_repr (JBool b) = (if b then lit ''True'' else lit ''False'')"
| "py_repr (JInt i) = dec i"
| "py_repr (JFloat r) = r"
| "py_repr (JStr s) = py_repr_str s"
| "py_repr (JArr xs) = [91] @ join (lit '', '') (map py_repr xs) @ [93]"
| "py_repr (JObj kvs) =
     [123] @ join (lit '', '') (map (\<lambda>(k, v). py_repr_str k @ lit '': '' @ py_repr v) kvs) @ [125]"

fun py_str :: "json \<Rightarrow> str" where
  "py_str (JStr s) = s"
| "py_str v = py_repr v"

text \<open>
  \<open>dict(v)\<close>: a copy of a mapping, or the pairs of a sequence. A key that is no text is left out,
  for the program looks up texts only.
\<close>

definition py_items :: "json \<Rightarrow> json list result" where
  "py_items v =
     (case v of
        JArr xs \<Rightarrow> Inr xs
      | JStr s \<Rightarrow> Inr (map (\<lambda>c. JStr [c]) s)
      | JObj d \<Rightarrow> Inr (map (\<lambda>kv. JStr (fst kv)) d)
      | _ \<Rightarrow> raise TypeError ''object is not iterable'')"

fun dict_pairs :: "json list \<Rightarrow> jobject result" where
  "dict_pairs [] = Inr []"
| "dict_pairs (x # xs) =
     bind_result (py_items x) (\<lambda>kv.
       case kv of
         [k, v] \<Rightarrow>
           (case k of
              JArr _ \<Rightarrow> raise TypeError ''unhashable type: list''
            | JObj _ \<Rightarrow> raise TypeError ''unhashable type: dict''
            | JStr s \<Rightarrow> bind_result (dict_pairs xs) (\<lambda>d. Inr ((s, v) # d))
            | _ \<Rightarrow> dict_pairs xs)
       | _ \<Rightarrow> raise ValueError ''dictionary update sequence element has not length 2'')"

definition py_dict :: "json \<Rightarrow> jobject result" where
  "py_dict v =
     (case v of
        JObj d \<Rightarrow> Inr d
      | _ \<Rightarrow> bind_result (py_items v) (\<lambda>xs. bind_result (dict_pairs xs) (\<lambda>d. Inr (rev d))))"

section \<open>Facts\<close>

lemma json_sort_atom [simp]:
  "json_sort (JStr s) = JStr s" "json_sort (JInt i) = JInt i" "json_sort (JBool b) = JBool b"
  "json_sort JNull = JNull" "json_sort (JFloat r) = JFloat r"
  by simp_all

lemma set_keys_json_sort: "set (map fst (obj_items (json_sort (JObj kvs)))) = set (map fst kvs)"
  by (force simp: image_iff split: prod.splits)

lemma is_mapping_json_sort [simp]: "is_mapping (json_sort j) = is_mapping j"
  by (cases j) auto

end
