(* ===== verification/Messages.thy ===== *)
theory Messages
  imports PyJson
begin

text \<open>
  The normalized message model of \<open>models.py\<close> and the fixed identities of
  \<open>telegram/identity.py\<close>. A frozen dataclass is a record; its constructor, which validates in
  \<open>__post_init__\<close>, is a function that returns the record or the exception. The optional
  fields of \<open>InboundMessage\<close> are filled in by its constructor; they stay optional here as they
  are in the code, whose readers test them. A fresh \<open>uuid.uuid4().hex\<close> is an argument.
\<close>

section \<open>Validation\<close>

definition normalized_message_schema_version :: int where
  "normalized_message_schema_version = 1"

definition max_metadata_bytes :: nat where
  "max_metadata_bytes = 8192"

definition room_kinds :: "str list" where
  "room_kinds = [lit ''meshcore_channel'', lit ''telegram_chat'', lit ''direct'', lit ''local'']"

definition identity_kinds :: "str list" where
  "identity_kinds =
     [lit ''meshcore_pubkey_prefix'', lit ''meshcore_node_id'', lit ''telegram_user_id'',
      lit ''telegram_sender_chat_id'', lit ''synthetic_test'', lit ''unknown'']"

definition validate_schema_text :: "str \<Rightarrow> str \<Rightarrow> unit result" where
  "validate_schema_text v name =
     check (strip v \<noteq> []) ValueError (name @ lit '' must be a non-empty string'')"

definition validate_kind :: "str \<Rightarrow> str list \<Rightarrow> str \<Rightarrow> unit result" where
  "validate_kind v allowed name =
     bind_result (validate_schema_text v name) (\<lambda>_.
       check (v \<in> set allowed \<or> starts_with v (lit ''custom:'')) ValueError
         (name @ lit '' is not supported: '' @ v))"

definition validate_schema_version :: "int \<Rightarrow> unit result" where
  "validate_schema_version v =
     check (v = normalized_message_schema_version) ValueError
       (lit ''unsupported message schema_version: '' @ dec v)"

text \<open>
  The metadata is copied by writing it with sorted keys and reading it back, so the copy has
  its keys in order at every depth. The size limit is on the ASCII text that is written.
\<close>

definition copy_metadata :: "json \<Rightarrow> json result" where
  "copy_metadata m =
     (if \<not> is_mapping m then raise ValueError ''metadata must be a mapping''
      else
        (let copied = json_sort m in
         if length (dumps_default copied) > max_metadata_bytes
         then raise ValueError ''metadata exceeds maximum size''
         else Inr copied))"

section \<open>Rooms and identities\<close>

record room_ref =
  rr_transport :: str
  rr_room_id :: str
  rr_room_kind :: str
  rr_display_name :: "str option"
  rr_metadata :: json

definition make_room_ref :: "str \<Rightarrow> str \<Rightarrow> str \<Rightarrow> str option \<Rightarrow> json \<Rightarrow> room_ref result" where
  "make_room_ref transport room_id room_kind display_name metadata =
     bind_result (validate_schema_text transport (lit ''room transport'')) (\<lambda>_.
     bind_result (validate_schema_text room_id (lit ''room_id'')) (\<lambda>_.
     bind_result (validate_kind room_kind room_kinds (lit ''room_kind'')) (\<lambda>_.
     bind_result (copy_metadata metadata) (\<lambda>m.
       Inr \<lparr>rr_transport = transport, rr_room_id = room_id, rr_room_kind = room_kind,
            rr_display_name = display_name, rr_metadata = m\<rparr>))))"

definition channel_room_id :: "str \<Rightarrow> int \<Rightarrow> str" where
  "channel_room_id transport channel_index = transport @ lit '':channel:'' @ dec channel_index"

definition room_channel :: "str \<Rightarrow> int \<Rightarrow> room_ref result" where
  "room_channel transport channel_index =
     make_room_ref transport (channel_room_id transport channel_index) (lit ''meshcore_channel'')
       None (JObj [(lit ''channel_index'', JInt channel_index)])"

record sender_identity =
  si_sender_id :: str
  si_transport_scope :: str
  si_identity_kind :: str
  si_stable :: bool
  si_display_name :: "str option"
  si_metadata :: json

definition make_sender_identity ::
    "str \<Rightarrow> str \<Rightarrow> str \<Rightarrow> bool \<Rightarrow> str option \<Rightarrow> json \<Rightarrow> sender_identity result" where
  "make_sender_identity sender_id scope kind is_stable display_name metadata =
     bind_result (validate_schema_text sender_id (lit ''sender_id'')) (\<lambda>_.
     bind_result (validate_schema_text scope (lit ''sender transport_scope'')) (\<lambda>_.
     bind_result (validate_kind kind identity_kinds (lit ''sender identity_kind'')) (\<lambda>_.
     bind_result (copy_metadata metadata) (\<lambda>m.
       Inr \<lparr>si_sender_id = sender_id, si_transport_scope = scope, si_identity_kind = kind,
            si_stable = is_stable, si_display_name = display_name, si_metadata = m\<rparr>))))"

text \<open>\<open>SenderIdentity.from_sender_id\<close>: what kind of sender an identifier claims to be.\<close>

definition identity_kind_of :: "str \<Rightarrow> str" where
  "identity_kind_of sender_id =
     (if starts_with sender_id (lit ''meshcore-pubkey-prefix:'') then lit ''meshcore_pubkey_prefix''
      else if starts_with sender_id (lit ''telegram-user:'') then lit ''telegram_user_id''
      else if starts_with sender_id (lit ''test:'') then lit ''synthetic_test''
      else lit ''unknown'')"

definition stable_of :: "str \<Rightarrow> bool" where
  "stable_of sender_id =
     (sender_id \<noteq> [] \<and> \<not> ends_with sender_id (lit '':unknown'')
      \<and> identity_kind_of sender_id \<noteq> lit ''synthetic_test'')"

definition from_sender_id :: "str \<Rightarrow> str \<Rightarrow> sender_identity result" where
  "from_sender_id sender_id scope =
     make_sender_identity sender_id scope (identity_kind_of sender_id) (stable_of sender_id)
       None (JObj [])"

record message_origin =
  mo_transport :: str
  mo_room_id :: str
  mo_message_id :: "str option"
  mo_bridge_instance_id :: "str option"

definition make_message_origin :: "str \<Rightarrow> str \<Rightarrow> str option \<Rightarrow> message_origin result" where
  "make_message_origin transport room_id message_id =
     bind_result (validate_schema_text transport (lit ''origin transport'')) (\<lambda>_.
     bind_result (validate_schema_text room_id (lit ''origin room_id'')) (\<lambda>_.
       Inr \<lparr>mo_transport = transport, mo_room_id = room_id, mo_message_id = message_id,
            mo_bridge_instance_id = None\<rparr>))"

record message_identity =
  mi_message_id :: "str option"
  mi_id_kind :: str
  mi_correlation_id :: str
  mi_origin :: message_origin

text \<open>The truth value of an optional text, \<open>bool(x)\<close> for \<open>x: str | None\<close>.\<close>

definition present :: "str option \<Rightarrow> bool" where
  "present s = (case s of None \<Rightarrow> False | Some t \<Rightarrow> t \<noteq> [])"

definition message_identity_from ::
    "str \<Rightarrow> str \<Rightarrow> str \<Rightarrow> str option \<Rightarrow> str option \<Rightarrow> message_identity result" where
  "message_identity_from uuid transport room_id message_id id_kind =
     (let kind = (if present id_kind then the id_kind
                  else if present message_id then lit ''platform'' else lit ''missing'');
          corr = lit ''corr:'' @ uuid
      in
      bind_result (make_message_origin transport room_id message_id) (\<lambda>origin.
      bind_result (validate_schema_text kind (lit ''message id_kind'')) (\<lambda>_.
      bind_result (validate_schema_text corr (lit ''correlation_id'')) (\<lambda>_.
      bind_result (check (kind \<in> {lit ''platform'', lit ''derived'', lit ''missing''}) ValueError
          (lit ''message id_kind must be one of: platform, derived, missing'')) (\<lambda>_.
        Inr \<lparr>mi_message_id = message_id, mi_id_kind = kind, mi_correlation_id = corr,
             mi_origin = origin\<rparr>)))))"

section \<open>Messages\<close>

record inbound_message =
  im_transport :: str
  im_message_id :: "str option"
  im_sender_id :: str
  im_channel_index :: int
  im_text :: str
  im_received_at :: instant
  im_metadata :: json
  im_schema_version :: int
  im_source_room :: "room_ref option"
  im_reply_target :: "room_ref option"
  im_sender :: "sender_identity option"
  im_message :: "message_identity option"

definition validate_transport_consistency ::
    "str \<Rightarrow> room_ref \<Rightarrow> room_ref \<Rightarrow> sender_identity \<Rightarrow> unit result" where
  "validate_transport_consistency envelope source_room reply_target sender =
     bind_result (check (rr_transport source_room = envelope) ValueError
         (lit ''source_room.transport must match message transport'')) (\<lambda>_.
     bind_result (check (rr_transport reply_target = rr_transport source_room) ValueError
         (lit ''reply_target.transport must match source_room.transport'')) (\<lambda>_.
       check (si_transport_scope sender = rr_transport source_room) ValueError
         (lit ''sender.transport_scope must match source_room.transport'')))"

text \<open>\<open>InboundMessage.__post_init__\<close>, on the fields the caller passed.\<close>

definition inbound_post_init :: "str \<Rightarrow> inbound_message \<Rightarrow> inbound_message result" where
  "inbound_post_init uuid m =
     bind_result (validate_schema_version (im_schema_version m)) (\<lambda>_.
     bind_result (validate_schema_text (im_transport m) (lit ''transport'')) (\<lambda>_.
     bind_result (validate_schema_text (im_sender_id m) (lit ''sender_id'')) (\<lambda>_.
     bind_result (copy_metadata (im_metadata m)) (\<lambda>meta.
     bind_result (case im_source_room m of Some r \<Rightarrow> Inr r
                  | None \<Rightarrow> room_channel (im_transport m) (im_channel_index m)) (\<lambda>source_room.
     let reply_target = (case im_reply_target m of Some r \<Rightarrow> r | None \<Rightarrow> source_room) in
     bind_result (case im_sender m of Some s \<Rightarrow> Inr s
                  | None \<Rightarrow> from_sender_id (im_sender_id m) (im_transport m)) (\<lambda>sender.
     bind_result (case im_message m of Some i \<Rightarrow> Inr i
                  | None \<Rightarrow> message_identity_from uuid (rr_transport source_room)
                              (rr_room_id source_room) (im_message_id m) None) (\<lambda>message.
     bind_result (validate_transport_consistency (im_transport m) source_room reply_target sender)
       (\<lambda>_. Inr (m\<lparr>im_metadata := meta, im_source_room := Some source_room,
                   im_reply_target := Some reply_target, im_sender := Some sender,
                   im_message := Some message\<rparr>)))))))))"

text \<open>\<open>message.sender.sender_id if message.sender is not None else message.sender_id\<close>.\<close>

definition sender_of :: "inbound_message \<Rightarrow> str" where
  "sender_of m = (case im_sender m of Some s \<Rightarrow> si_sender_id s | None \<Rightarrow> im_sender_id m)"

record outbound_message =
  om_destination :: str
  om_channel_index :: int
  om_text :: str
  om_reply_to :: "str option"
  om_metadata :: json
  om_schema_version :: int
  om_reply_target :: "room_ref option"

definition outbound_post_init :: "outbound_message \<Rightarrow> outbound_message result" where
  "outbound_post_init m =
     bind_result (validate_schema_version (om_schema_version m)) (\<lambda>_.
     bind_result (validate_schema_text (om_destination m) (lit ''destination'')) (\<lambda>_.
     bind_result (copy_metadata (om_metadata m)) (\<lambda>meta. Inr (m\<lparr>om_metadata := meta\<rparr>))))"

text \<open>The constructor call with the defaults of the fields the bridge does not pass.\<close>

definition make_outbound ::
    "str \<Rightarrow> int \<Rightarrow> str \<Rightarrow> str option \<Rightarrow> room_ref option \<Rightarrow> json \<Rightarrow> outbound_message result" where
  "make_outbound destination channel_index t reply_to reply_target metadata =
     outbound_post_init
       \<lparr>om_destination = destination, om_channel_index = channel_index, om_text = t,
        om_reply_to = reply_to, om_metadata = metadata,
        om_schema_version = normalized_message_schema_version, om_reply_target = reply_target\<rparr>"

section \<open>The Telegram identities\<close>

definition telegram_transport :: str where
  "telegram_transport = lit ''telegram''"

definition telegram_room_id :: str where
  "telegram_room_id = lit ''telegram:private:authorized''"

definition telegram_sender_id :: str where
  "telegram_sender_id = lit ''telegram-user:default:authorized''"

definition telegram_room :: "room_ref result" where
  "telegram_room =
     make_room_ref telegram_transport telegram_room_id (lit ''telegram_chat'') None
       (JObj [(lit ''chat_type'', JStr (lit ''private''))])"

definition telegram_sender :: "sender_identity result" where
  "telegram_sender =
     make_sender_identity telegram_sender_id telegram_transport (lit ''telegram_user_id'') True
       None (JObj [])"

section \<open>Well-formed messages\<close>

text \<open>What the constructor guarantees of every message it returns.\<close>

definition wf_inbound :: "inbound_message \<Rightarrow> bool" where
  "wf_inbound m =
     (im_schema_version m = normalized_message_schema_version
      \<and> strip (im_transport m) \<noteq> [] \<and> strip (im_sender_id m) \<noteq> []
      \<and> (case (im_source_room m, im_reply_target m, im_sender m, im_message m) of
           (Some room, Some target, Some sender, Some _) \<Rightarrow>
             rr_transport room = im_transport m \<and> rr_transport target = im_transport m
             \<and> si_transport_scope sender = im_transport m
         | _ \<Rightarrow> False))"

lemma inbound_post_init_wf:
  assumes "inbound_post_init uuid m = Inr m'"
  shows "wf_inbound m'"
  using assms
  by (auto simp: inbound_post_init_def bind_result_Inr_iff Let_def wf_inbound_def
      validate_transport_consistency_def validate_schema_version_def validate_schema_text_def)

text \<open>What it keeps of the fields it was given.\<close>

lemma inbound_post_init_keeps:
  assumes "inbound_post_init uuid m = Inr m'"
  shows "im_transport m' = im_transport m" "im_message_id m' = im_message_id m"
    "im_sender_id m' = im_sender_id m" "im_channel_index m' = im_channel_index m"
    "im_text m' = im_text m" "im_received_at m' = im_received_at m"
  using assms by (auto simp: inbound_post_init_def bind_result_Inr_iff Let_def)

lemma wf_inboundE:
  assumes "wf_inbound m"
  obtains room target sender ident where
    "im_source_room m = Some room" "im_reply_target m = Some target" "im_sender m = Some sender"
    "im_message m = Some ident" "rr_transport room = im_transport m"
    "rr_transport target = im_transport m" "si_transport_scope sender = im_transport m"
  using assms by (auto simp: wf_inbound_def split: option.splits)

lemma make_outbound_fields:
  assumes "make_outbound d c t r target m = Inr out"
  shows "om_destination out = d" "om_channel_index out = c" "om_text out = t"
    "om_reply_to out = r" "om_reply_target out = target"
  using assms by (auto simp: make_outbound_def outbound_post_init_def bind_result_Inr_iff)

lemma copy_metadata_empty [simp]: "copy_metadata (JObj []) = Inr (JObj [])"
  by (simp add: copy_metadata_def max_metadata_bytes_def)

lemma make_outbound_ok:
  "strip d \<noteq> [] \<Longrightarrow> make_outbound d c t r target (JObj []) =
     Inr \<lparr>om_destination = d, om_channel_index = c, om_text = t, om_reply_to = r,
          om_metadata = JObj [], om_schema_version = 1, om_reply_target = target\<rparr>"
  by (simp add: make_outbound_def outbound_post_init_def validate_schema_version_def
      normalized_message_schema_version_def validate_schema_text_def check_def)

end
