(* ===== verification/Authorization.thy ===== *)
theory Authorization
  imports Messages
begin

text \<open>
  \<open>auth/roles.py\<close> and \<open>auth/authorization.py\<close>: the ordered roles, and the authorizer, which
  holds the registered users and the policies of the rooms and decides which messages may run
  which command. Dictionaries are maps.
\<close>

section \<open>Roles\<close>

datatype role = Readonly | Home | Operator | Admin

text \<open>The values of the \<open>IntEnum\<close>, by which roles compare.\<close>

fun role_value :: "role \<Rightarrow> int" where
  "role_value Readonly = 10"
| "role_value Home = 20"
| "role_value Operator = 30"
| "role_value Admin = 40"

lemma role_value_inj [simp]: "role_value r = role_value s \<longleftrightarrow> r = s"
  by (cases r; cases s) auto

instantiation role :: linorder
begin

definition less_eq_role :: "role \<Rightarrow> role \<Rightarrow> bool" where
  "r \<le> s \<longleftrightarrow> role_value r \<le> role_value s"

definition less_role :: "role \<Rightarrow> role \<Rightarrow> bool" where
  "r < s \<longleftrightarrow> role_value r < role_value s"

instance
  by standard (auto simp: less_eq_role_def less_role_def)

end

lemma readonly_least [simp]: "Readonly \<le> r"
  by (cases r) (simp_all add: less_eq_role_def)

lemma admin_greatest [simp]: "r \<le> Admin"
  by (cases r) (simp_all add: less_eq_role_def)

definition role_names :: "(str \<times> role) list" where
  "role_names = [(lit ''readonly'', Readonly), (lit ''home'', Home), (lit ''operator'', Operator),
                 (lit ''admin'', Admin)]"

definition role_name :: "role \<Rightarrow> str" where
  "role_name r = (case r of Readonly \<Rightarrow> lit ''readonly'' | Home \<Rightarrow> lit ''home''
                  | Operator \<Rightarrow> lit ''operator'' | Admin \<Rightarrow> lit ''admin'')"

text \<open>The message quotes the value with \<open>repr\<close>; of it only the fixed part is written here.\<close>

definition parse_role :: "str \<Rightarrow> role result" where
  "parse_role v =
     (case map_of role_names (lower (strip v)) of
        Some r \<Rightarrow> Inr r
      | None \<Rightarrow> raise ValueError ''invalid role; expected one of: readonly, home, operator, admin'')"

section \<open>The authorizer\<close>

record authorized_user =
  au_sender_id :: str
  au_name :: str
  au_role :: role

record room_policy =
  rp_room_id :: str
  rp_enabled :: bool
  rp_minimum_role :: role
  rp_allow_commands :: bool

text \<open>
  Both dictionaries of the authorizer. Only whether the policies are empty matters beside
  their entries, so they are an association list.
\<close>

record authorizer =
  az_users :: "(str \<times> authorized_user) list"
  az_room_policies :: "(str \<times> room_policy) list"

definition get_user :: "authorizer \<Rightarrow> str \<Rightarrow> authorized_user option" where
  "get_user az sender_id = map_of (az_users az) sender_id"

definition require :: "authorizer \<Rightarrow> str \<Rightarrow> role \<Rightarrow> authorized_user option" where
  "require az sender_id minimum_role =
     (case get_user az sender_id of
        None \<Rightarrow> None
      | Some user \<Rightarrow> if au_role user < minimum_role then None else Some user)"

definition policy_of :: "authorizer \<Rightarrow> inbound_message \<Rightarrow> room_policy option" where
  "policy_of az m =
     (if az_room_policies az = [] then None
      else (case im_source_room m of
              None \<Rightarrow> None
            | Some room \<Rightarrow> map_of (az_room_policies az) (rr_room_id room)))"

definition allows_room :: "authorizer \<Rightarrow> inbound_message \<Rightarrow> bool" where
  "allows_room az m =
     (case policy_of az m of
        None \<Rightarrow> az_room_policies az = []
      | Some policy \<Rightarrow> rp_enabled policy \<and> rp_allow_commands policy)"

definition require_message :: "authorizer \<Rightarrow> inbound_message \<Rightarrow> role \<Rightarrow> authorized_user option" where
  "require_message az m minimum_role =
     (if \<not> allows_room az m then None
      else
        (case get_user az (sender_of m) of
           None \<Rightarrow> None
         | Some user \<Rightarrow>
             (let required_role =
                (case policy_of az m of
                   Some policy \<Rightarrow>
                     if rp_minimum_role policy > minimum_role then rp_minimum_role policy
                     else minimum_role
                 | None \<Rightarrow> minimum_role)
              in if au_role user < required_role then None else Some user)))"

section \<open>What an authorization means\<close>

text \<open>The permission the two tables express, stated without the order of the checks.\<close>

definition permitted :: "authorizer \<Rightarrow> inbound_message \<Rightarrow> role \<Rightarrow> authorized_user \<Rightarrow> bool" where
  "permitted az m minimum_role user \<longleftrightarrow>
     map_of (az_users az) (sender_of m) = Some user \<and> minimum_role \<le> au_role user
     \<and> (az_room_policies az = []
        \<or> (\<exists>room policy. im_source_room m = Some room
             \<and> map_of (az_room_policies az) (rr_room_id room) = Some policy
             \<and> rp_enabled policy \<and> rp_allow_commands policy
             \<and> rp_minimum_role policy \<le> au_role user))"

lemma require_message_permitted:
  "require_message az m r = Some user \<longleftrightarrow> permitted az m r user"
  by (auto simp: require_message_def permitted_def allows_room_def policy_of_def get_user_def
      Let_def not_less split: option.splits if_splits)

lemma require_message_antimono:
  "require_message az m r = Some user \<Longrightarrow> r' \<le> r \<Longrightarrow> require_message az m r' = Some user"
  by (auto simp: require_message_permitted permitted_def)

lemma require_message_None_room: "\<not> allows_room az m \<Longrightarrow> require_message az m r = None"
  by (simp add: require_message_def)

lemma parse_role_name: "parse_role (role_name r) = Inr r"
  by (cases r) (simp_all add: parse_role_def role_names_def role_name_def strip_def lstrip_def
      rstrip_def lower_def lower_cp_def is_space_def lit_def)

text \<open>
  C34. A command needs a registered sender with the declared role and, when there are room policies,
  a policy of the room the message came from that is enabled, allows commands and asks for no
  higher role; nothing else is needed.
\<close>

theorem permission_as_declared:
  "require_message az m r = Some user \<longleftrightarrow>
     map_of (az_users az) (sender_of m) = Some user \<and> r \<le> au_role user
     \<and> (az_room_policies az = []
        \<or> (\<exists>room policy. im_source_room m = Some room
             \<and> map_of (az_room_policies az) (rr_room_id room) = Some policy
             \<and> rp_enabled policy \<and> rp_allow_commands policy
             \<and> rp_minimum_role policy \<le> au_role user))"
  by (simp add: require_message_permitted permitted_def)

end
