(* ===== verification/PyNumber.thy ===== *)
theory PyNumber
  imports PyText
begin

text \<open>
  Reading numbers: \<open>int(text)\<close>, and the round trip with \<open>str(n)\<close>. Only ASCII digits are
  digits here; Python accepts those of other scripts as well.
\<close>

definition is_digit :: "nat \<Rightarrow> bool" where
  "is_digit c \<longleftrightarrow> 48 \<le> c \<and> c \<le> 57"

text \<open>Digits with single underscores between them; the flag says that a digit came last.\<close>

fun digits_value :: "bool \<Rightarrow> nat \<Rightarrow> str \<Rightarrow> nat option" where
  "digits_value after_digit acc [] = (if after_digit then Some acc else None)"
| "digits_value after_digit acc (c # cs) =
     (if is_digit c then digits_value True (10 * acc + (c - 48)) cs
      else if c = 95 \<and> after_digit then digits_value False acc cs
      else None)"

definition int_of_text :: "str \<Rightarrow> int option" where
  "int_of_text t =
     (let s = strip t in
      case s of
        [] \<Rightarrow> None
      | c # cs \<Rightarrow>
          if c = 45 then map_option (\<lambda>n. - int n) (digits_value False 0 cs)
          else if c = 43 then map_option int (digits_value False 0 cs)
          else map_option int (digits_value False 0 s))"

text \<open>The call \<open>int(text)\<close>; the message quotes the text with \<open>repr\<close>, which is left out.\<close>

definition py_int :: "str \<Rightarrow> int result" where
  "py_int t =
     (case int_of_text t of
        Some i \<Rightarrow> Inr i
      | None \<Rightarrow> raise ValueError ''invalid literal for int() with base 10'')"

text \<open>
  The call \<open>int(x)\<close> on a float, which is given as Python writes it. The double that a decimal
  stands for is its nearest: below \<open>2 ^ 53\<close> its whole part is the one of the decimal, above it is a
  whole number with 53 significant bits.
\<close>

function bit_length :: "int \<Rightarrow> nat" where
  "bit_length n = (if n \<le> 0 then 0 else Suc (bit_length (n div 2)))"
  by auto
termination by (relation "measure nat") auto

declare bit_length.simps [simp del]

definition nearest_double :: "int \<Rightarrow> int" where
  "nearest_double n =
     (if n < 2 ^ 53 then n
      else
        (let k = bit_length n - 53; q = n div 2 ^ k; r = n mod 2 ^ k; half = 2 ^ (k - 1) in
         (if r > half \<or> r = half \<and> odd q then q + 1 else q) * 2 ^ k))"

definition float_int :: "str \<Rightarrow> int result" where
  "float_int t =
     (let negative = (t \<noteq> [] \<and> hd t = 45); u = (if negative then tl t else t);
          mantissa = takeWhile (\<lambda>c. c \<noteq> 101) u; exponent = drop (Suc (length mantissa)) u;
          whole = takeWhile (\<lambda>c. c \<noteq> 46) mantissa; fraction = drop (Suc (length whole)) mantissa
      in
      if u = lit ''inf''
      then raise (OtherError (lit ''OverflowError'')) ''cannot convert float infinity to integer''
      else
        (case (digits_value False 0 (whole @ fraction),
               if exponent = [] then Some 0 else int_of_text exponent) of
           (Some d, Some e) \<Rightarrow>
             (let s = e - int (length fraction);
                  n = nearest_double (if s \<ge> 0 then int d * 10 ^ nat s else int d div 10 ^ nat (- s))
              in Inr (if negative then - n else n))
         | _ \<Rightarrow> raise ValueError ''cannot convert float NaN to integer''))"

section \<open>The round trip\<close>

lemma dec_nat_not_Nil [simp]: "dec_nat n \<noteq> []"
  by (subst dec_nat.simps) simp

lemma is_digit_of: "n < 10 \<Longrightarrow> is_digit (48 + n)"
  by (simp add: is_digit_def)

lemma dec_nat_digits: "list_all is_digit (dec_nat n)"
proof (induction n rule: dec_nat.induct)
  case (1 n)
  then show ?case by (subst dec_nat.simps) (simp add: is_digit_of)
qed

lemma digits_value_append:
  "list_all is_digit ds \<Longrightarrow>
     digits_value b acc (ds @ rest) =
       digits_value (b \<or> ds \<noteq> []) (foldl (\<lambda>a c. 10 * a + (c - 48)) acc ds) rest"
  by (induction ds arbitrary: b acc) auto

lemma dec_nat_value: "foldl (\<lambda>a c. 10 * a + (c - 48)) 0 (dec_nat n) = n"
proof (induction n rule: dec_nat.induct)
  case (1 n)
  then show ?case by (subst dec_nat.simps) simp
qed

lemma digits_value_dec_nat: "digits_value b 0 (dec_nat n) = Some n"
  using digits_value_append [OF dec_nat_digits, of b 0 n "[]"] by (simp add: dec_nat_value)

lemma digit_not_space: "is_digit c \<Longrightarrow> \<not> is_space c"
  by (auto simp: is_digit_def is_space_def)

lemma dec_nat_ends: "is_digit (hd (dec_nat n)) \<and> is_digit (last (dec_nat n))"
  using dec_nat_digits [of n] by (simp add: list_all_iff)

lemma strip_dec [simp]: "strip (dec i) = dec i"
  using dec_nat_ends digit_not_space
  by (intro strip_nonspace_ends) (auto simp: dec_def is_space_def)

lemma dec_nat_head: "hd (dec_nat n) \<noteq> 45 \<and> hd (dec_nat n) \<noteq> 43"
  using dec_nat_ends [of n] by (auto simp: is_digit_def)

lemma int_of_text_dec [simp]: "int_of_text (dec i) = Some i"
proof (cases "i < 0")
  case True
  then show ?thesis
    using strip_dec [of i] by (simp add: int_of_text_def dec_def digits_value_dec_nat)
next
  case False
  obtain c cs where d: "dec_nat (nat i) = c # cs" by (cases "dec_nat (nat i)") auto
  with dec_nat_head [of "nat i"] have "c \<noteq> 45" "c \<noteq> 43" by auto
  with False strip_dec [of i] d digits_value_dec_nat [of False "nat i"] show ?thesis
    by (simp add: int_of_text_def dec_def)
qed

lemma py_int_dec [simp]: "py_int (dec i) = Inr i"
  by (simp add: py_int_def)

end
