(* ===== verification/Config.thy ===== *)
theory Config
  imports Authorization PyJson PyNumber
begin

text \<open>
  \<open>config.py\<close>: the settings as records, the parsers of the sections of the file, and the
  validation of the whole. A value of the file is a \<open>json\<close>; \<open>getenv\<close> is the environment. The
  file as a whole is loaded in \<open>Config_File\<close>.
\<close>

section \<open>Records\<close>

record homeassistant_config =
  hc_base_url :: str
  hc_token :: str
  hc_verify_tls :: bool
  hc_timeout_seconds :: seconds
  hc_websocket_url :: "str option"

record meshcore_config =
  mk_transport :: str
  mk_channel_index :: int
  mk_serial_port :: "str option"
  mk_ha_entry_id :: "str option"
  mk_event_types :: "str list"
  mk_require_stable_sender :: bool
  mk_allow_channel_without_sender :: bool
  mk_healthcheck_path :: "str option"

record rate_limit_config =
  rc_commands :: int
  rc_window_seconds :: int

record health_config =
  hg_events_enabled :: bool
  hg_heartbeat_seconds :: int

record status_entity_config =
  sc_entity_id :: str
  sc_label :: str

record weather_config =
  wc_temperature_entity :: str
  wc_humidity_entity :: str
  wc_label :: str

record alarm_config =
  ac_entity_id :: str
  ac_door_entities :: "str list"
  ac_motion_entities :: "str list"

record home_config =
  ho_person_entities :: "str list"
  ho_presence_entities :: "str list"
  ho_door_entities :: "str list"
  ho_light_entities :: "str list"
  ho_temperature_entity :: str
  ho_humidity_entity :: str
  ho_ups_battery_entity :: str

record server_entry =
  se_alias :: str
  se_name :: str
  se_availability_entity :: str
  se_cpu_entity :: str
  se_memory_entity :: str
  se_disk_entity :: str
  se_temperature_entity :: str
  se_health_entity :: str

record network_config =
  nc_internet_entity :: str
  nc_router_entity :: str
  nc_dns_entity :: str
  nc_home_assistant_entity :: str
  nc_additional_entities :: "str list"

record home_status_config =
  hx_alarm :: alarm_config
  hx_home :: home_config
  hx_servers :: "server_entry list"
  hx_network :: network_config

record tg_config =
  tc_enabled :: bool
  tc_bot_token_import :: str
  tc_bot_token_file :: str
  tc_allowed_private_chat_id :: str
  tc_allowed_user_id :: str
  tc_authorized_user_role :: role
  tc_channel_index :: int
  tc_forward_mc_to_tg :: bool
  tc_forward_tg_to_mc :: bool
  tc_command_prefix :: str
  tc_max_meshcore_length :: int
  tc_max_telegram_length :: int
  tc_message_prefix :: str
  tc_mc_to_tg_prefix :: str
  tc_send_confirmation :: bool
  tc_forwarding_rate_limit :: rate_limit_config
  tc_inbound_rate_limit :: rate_limit_config

record app_config =
  cf_command_prefix :: str
  cf_database_path :: str
  cf_deduplication_window :: int
  cf_meshcore :: meshcore_config
  cf_homeassistant :: homeassistant_config
  cf_users :: "(str \<times> authorized_user) list"
  cf_room_policies :: "(str \<times> room_policy) list"
  cf_status_entities :: "(str \<times> status_entity_config) list"
  cf_weather_status :: weather_config
  cf_home_status :: home_status_config
  cf_telegram :: tg_config
  cf_health :: health_config
  cf_rate_limit :: rate_limit_config

section \<open>Validation\<close>

text \<open>A chain of guards: the first condition that holds raises its \<open>ValueError\<close>.\<close>

fun guards :: "(bool \<times> string) list \<Rightarrow> unit result" where
  "guards [] = Inr ()"
| "guards ((bad, m) # gs) = (if bad then raise ValueError m else guards gs)"

lemma guards_Inr_iff: "guards gs = Inr u \<longleftrightarrow> list_all (\<lambda>g. \<not> fst g) gs"
  by (induction gs rule: guards.induct) auto

lemma guards_Inl: "guards gs = Inl e \<Longrightarrow> exn_class e = ValueError"
  by (induction gs rule: guards.induct) (auto split: if_splits)

definition validate_config :: "app_config \<Rightarrow> unit result" where
  "validate_config c =
     (let mc = cf_meshcore c; ha = cf_homeassistant c; tg = cf_telegram c;
          homeassistant = (mk_transport mc = lit ''homeassistant'')
      in
      guards
       [(mk_channel_index mc = 0, ''MESHCORE_CHANNEL_INDEX must not be 0 for administration''),
        (mk_channel_index mc < 0, ''MESHCORE_CHANNEL_INDEX must be positive''),
        (cf_command_prefix c = [], ''command_prefix must not be empty''),
        (hc_base_url ha \<noteq> [] \<and> \<not> (starts_with (hc_base_url ha) (lit ''http://'')
           \<or> starts_with (hc_base_url ha) (lit ''https://'')),
         ''HA_BASE_URL must start with http:// or https://''),
        (hc_token ha \<noteq> [] \<and> length (hc_token ha) < 10, ''HA_TOKEN looks too short''),
        (mk_transport mc \<notin> {lit ''placeholder'', lit ''usb'', lit ''homeassistant'', lit ''fake''},
         ''meshcore.transport must be one of: placeholder, usb, homeassistant, fake''),
        (mk_transport mc = lit ''usb'' \<and> mk_serial_port mc \<in> {None, Some []},
         ''MESHCORE_SERIAL_PORT is required when meshcore.transport is usb''),
        (homeassistant \<and> hc_base_url ha = [],
         ''HA_BASE_URL is required when meshcore.transport is homeassistant''),
        (homeassistant \<and> hc_token ha = [],
         ''HA_TOKEN is required when meshcore.transport is homeassistant''),
        (homeassistant \<and> lit ''meshcore_message'' \<notin> set (mk_event_types mc),
         ''meshcore.event_types must include meshcore_message''),
        (rc_commands (cf_rate_limit c) < 1, ''rate_limit.commands must be positive''),
        (rc_window_seconds (cf_rate_limit c) < 1, ''rate_limit.window_seconds must be positive''),
        (tc_channel_index tg = 0, ''telegram.meshcore_channel_index must not be 0''),
        (tc_channel_index tg < 0, ''telegram.meshcore_channel_index must be positive''),
        (tc_command_prefix tg = [], ''telegram.command_prefix must not be empty''),
        (tc_max_meshcore_length tg < 1, ''telegram.max_meshcore_message_length must be positive''),
        (tc_max_telegram_length tg < 1, ''telegram.max_telegram_message_length must be positive''),
        (rc_commands (tc_forwarding_rate_limit tg) < 1,
         ''telegram.forwarding_rate_limit.messages must be positive''),
        (rc_window_seconds (tc_forwarding_rate_limit tg) < 1,
         ''telegram.forwarding_rate_limit.window_seconds must be positive''),
        (rc_commands (tc_inbound_rate_limit tg) < 1,
         ''telegram.inbound_forwarding_rate_limit.messages must be positive''),
        (rc_window_seconds (tc_inbound_rate_limit tg) < 1,
         ''telegram.inbound_forwarding_rate_limit.window_seconds must be positive''),
        (\<not> (15 \<le> hg_heartbeat_seconds (cf_health c) \<and> hg_heartbeat_seconds (cf_health c) \<le> 3600),
         ''health.heartbeat_seconds must be between 15 and 3600''),
        (tc_enabled tg \<and> tc_allowed_private_chat_id tg = [],
         ''telegram.allowed_private_chat_id is required when enabled''),
        (tc_enabled tg \<and> tc_allowed_user_id tg = [],
         ''telegram.allowed_user_id is required when enabled'')])"

section \<open>Conversions\<close>

text \<open>\<open>os.getenv(name, default)\<close>, and what the parsers do with a value that may be anything.\<close>

definition getenv_or :: "(str \<Rightarrow> str option) \<Rightarrow> string \<Rightarrow> json \<Rightarrow> json" where
  "getenv_or getenv name dflt = (case getenv (lit name) of Some v \<Rightarrow> JStr v | None \<Rightarrow> dflt)"

definition str_or_empty :: "json \<Rightarrow> str" where
  "str_or_empty v = (if truthy v then py_str v else [])"

definition env_bool :: "(str \<Rightarrow> str option) \<Rightarrow> string \<Rightarrow> json \<Rightarrow> bool" where
  "env_bool getenv name dflt =
     (case getenv (lit name) of
        None \<Rightarrow> truthy dflt
      | Some v \<Rightarrow> lower (strip v) \<in> {lit ''1'', lit ''true'', lit ''yes'', lit ''on''})"

definition env_int :: "(str \<Rightarrow> str option) \<Rightarrow> string \<Rightarrow> json \<Rightarrow> int result" where
  "env_int getenv name dflt = py_int (py_str (getenv_or getenv name dflt))"

definition strict_bool :: "json \<Rightarrow> str \<Rightarrow> bool result" where
  "strict_bool v field_name =
     (case v of
        JBool b \<Rightarrow> Inr b
      | _ \<Rightarrow> Inl (Exn ValueError (field_name @ lit '' must be a boolean'')))"

text \<open>\<open>[f(x) for x in xs]\<close> where \<open>f\<close> may raise.\<close>

fun each :: "('a \<Rightarrow> 'b result) \<Rightarrow> 'a list \<Rightarrow> 'b list result" where
  "each f [] = Inr []"
| "each f (x # xs) = bind_result (f x) (\<lambda>y. bind_result (each f xs) (\<lambda>ys. Inr (y # ys)))"

lemma each_Inr: "each f xs = Inr ys \<longleftrightarrow> list_all2 (\<lambda>x y. f x = Inr y) xs ys"
  by (induction xs arbitrary: ys) (auto simp: bind_result_Inr_iff list_all2_Cons1)

text \<open>The three checks that texts of the configuration share.\<close>

definition is_control :: "nat \<Rightarrow> bool" where
  "is_control c \<longleftrightarrow> c < 32 \<or> c = 127"

definition plain_text :: "str \<Rightarrow> nat \<Rightarrow> str \<Rightarrow> str result" where
  "plain_text field_name n t =
     (if 10 \<in> set t \<or> 13 \<in> set t
      then Inl (Exn ValueError (field_name @ lit '' must not contain newlines''))
      else if list_ex is_control t
      then Inl (Exn ValueError (field_name @ lit '' must not contain control characters''))
      else if length t > n
      then Inl (Exn ValueError (field_name @ lit '' must be '' @ dec (int n) @ lit '' characters or fewer''))
      else Inr t)"

lemma plain_text_Inr [simp]:
  "plain_text f n t = Inr u \<longleftrightarrow> u = t \<and> length t \<le> n \<and> \<not> list_ex is_control t"
  by (auto simp: plain_text_def list_ex_iff is_control_def)

definition entity_id :: "json \<Rightarrow> str \<Rightarrow> str result" where
  "entity_id v field_name =
     (case v of
        JNull \<Rightarrow> Inr []
      | JStr s \<Rightarrow> if s = [] then Inr [] else plain_text field_name 128 (strip s)
      | _ \<Rightarrow> Inl (Exn ValueError (field_name @ lit '' must be a string'')))"

definition entity_list :: "json \<Rightarrow> str \<Rightarrow> str list result" where
  "entity_list v field_name =
     (case v of
        JArr items \<Rightarrow>
          if length items > 50
          then Inl (Exn ValueError (field_name @ lit '' must contain 50 items or fewer''))
          else bind_result (each (\<lambda>i. entity_id i field_name) items)
                 (\<lambda>ids. Inr (filter (\<lambda>i. i \<noteq> []) ids))
      | _ \<Rightarrow> Inl (Exn ValueError (field_name @ lit '' must be a list'')))"

definition config_label :: "json \<Rightarrow> str \<Rightarrow> str result" where
  "config_label v field_name = plain_text field_name 48 (strip (str_or_empty v))"

definition mapping :: "json \<Rightarrow> str \<Rightarrow> jobject result" where
  "mapping v name =
     (case v of
        JNull \<Rightarrow> Inr []
      | JStr [] \<Rightarrow> Inr []
      | JObj d \<Rightarrow> Inr d
      | _ \<Rightarrow> Inl (Exn ValueError (name @ lit '' must be a mapping'')))"

section \<open>Sections of the file\<close>

text \<open>The messages quote the key with \<open>repr\<close>.\<close>

fun parse_users :: "jobject \<Rightarrow> (str \<times> authorized_user) list result" where
  "parse_users [] = Inr []"
| "parse_users ((sender_id, raw) # rest) =
     (case raw of
        JObj d \<Rightarrow>
          bind_result (parse_role (py_str (jget_or d (lit ''role'') (JStr (lit ''readonly''))))) (\<lambda>r.
          bind_result (parse_users rest) (\<lambda>users.
            Inr ((sender_id,
                  \<lparr>au_sender_id = sender_id,
                   au_name = py_str (jget_or d (lit ''name'') (JStr sender_id)), au_role = r\<rparr>)
                 # users)))
      | _ \<Rightarrow> Inl (Exn ValueError (lit ''user '' @ py_repr_str sender_id @ lit '' must be a mapping'')))"

definition transport_room_scope :: "str \<Rightarrow> str" where
  "transport_room_scope transport =
     (if transport = lit ''homeassistant'' then lit ''homeassistant-meshcore''
      else if transport = lit ''fake'' then lit ''fake''
      else if transport = lit ''usb'' then lit ''meshcore-usb''
      else transport)"

definition legacy_room_policies :: "meshcore_config \<Rightarrow> (str \<times> room_policy) list" where
  "legacy_room_policies mc =
     (let room_id = transport_room_scope (mk_transport mc) @ lit '':channel:'' @ dec (mk_channel_index mc)
      in [(room_id, \<lparr>rp_room_id = room_id, rp_enabled = True, rp_minimum_role = Readonly,
                     rp_allow_commands = True\<rparr>)])"

fun parse_status_entities :: "jobject \<Rightarrow> (str \<times> status_entity_config) list result" where
  "parse_status_entities [] = Inr []"
| "parse_status_entities ((alias, raw) # rest) =
     (case raw of
        JObj d \<Rightarrow>
          (let i = py_str (jget_or d (lit ''entity_id'') (JStr [])) in
           if i = []
           then Inl (Exn ValueError (lit ''status entity '' @ py_repr_str alias @ lit '' requires entity_id''))
           else bind_result (parse_status_entities rest) (\<lambda>entities.
             Inr ((alias, \<lparr>sc_entity_id = i, sc_label = py_str (jget_or d (lit ''label'') (JStr alias))\<rparr>)
                  # entities)))
      | _ \<Rightarrow> Inl (Exn ValueError (lit ''status entity '' @ py_repr_str alias @ lit '' must be a mapping'')))"

definition weather_label :: "json \<Rightarrow> str result" where
  "weather_label v =
     (let label = strip (if truthy v then py_str v else lit ''Exterior'') in
      plain_text (lit ''weather_status.label'') 32 (if label = [] then lit ''Exterior'' else label))"

definition parse_weather_status :: "json \<Rightarrow> weather_config result" where
  "parse_weather_status raw =
     (case raw of
        JObj d \<Rightarrow>
          bind_result (weather_label (jget_or d (lit ''label'') (JStr (lit ''Exterior'')))) (\<lambda>label.
            Inr \<lparr>wc_temperature_entity = strip (str_or_empty (jget_or d (lit ''temperature_entity'') (JStr []))),
                 wc_humidity_entity = strip (str_or_empty (jget_or d (lit ''humidity_entity'') (JStr []))),
                 wc_label = label\<rparr>)
      | _ \<Rightarrow> raise ValueError ''weather_status must be a mapping'')"

definition is_server_alias :: "str \<Rightarrow> bool" where
  "is_server_alias t \<longleftrightarrow>
     1 \<le> length t \<and> length t \<le> 32
     \<and> list_all (\<lambda>c. 97 \<le> c \<and> c \<le> 122 \<or> 48 \<le> c \<and> c \<le> 57 \<or> c = 95 \<or> c = 45) t"

text \<open>The field of an entry and of a section, with the name it has in the messages.\<close>

definition entity_field :: "jobject \<Rightarrow> str \<Rightarrow> string \<Rightarrow> str result" where
  "entity_field d path key = entity_id (jget_or d (lit key) (JStr [])) (path @ lit key)"

definition list_field :: "jobject \<Rightarrow> str \<Rightarrow> string \<Rightarrow> str list result" where
  "list_field d path key = entity_list (jget_or d (lit key) (JArr [])) (path @ lit key)"

definition parse_server :: "str list \<Rightarrow> json \<Rightarrow> server_entry result" where
  "parse_server aliases item =
     bind_result (mapping item (lit ''home_status.servers.entries item'')) (\<lambda>data.
       let alias = strip (str_or_empty (jget_or data (lit ''alias'') (JStr [])));
           path = lit ''home_status.servers.'' @ alias @ lit ''.''
       in
       if \<not> is_server_alias alias
       then raise ValueError
              ''home_status.servers.entries alias must use lowercase letters, numbers, - or _''
       else if alias \<in> set aliases
       then raise ValueError ''home_status.servers.entries aliases must be unique''
       else
         bind_result (config_label (jget_or data (lit ''name'') (JStr alias)) (path @ lit ''name'')) (\<lambda>name.
         bind_result (entity_field data path ''availability_entity'') (\<lambda>availability.
         bind_result (entity_field data path ''cpu_entity'') (\<lambda>cpu.
         bind_result (entity_field data path ''memory_entity'') (\<lambda>memory.
         bind_result (entity_field data path ''disk_entity'') (\<lambda>disk.
         bind_result (entity_field data path ''temperature_entity'') (\<lambda>temperature.
         bind_result (entity_field data path ''health_entity'') (\<lambda>h.
           Inr \<lparr>se_alias = alias, se_name = (if name = [] then alias else name),
                se_availability_entity = availability, se_cpu_entity = cpu,
                se_memory_entity = memory, se_disk_entity = disk,
                se_temperature_entity = temperature, se_health_entity = h\<rparr>))))))))"

fun parse_server_items :: "str list \<Rightarrow> json list \<Rightarrow> server_entry list result" where
  "parse_server_items aliases [] = Inr []"
| "parse_server_items aliases (item # items) =
     bind_result (parse_server aliases item) (\<lambda>e.
     bind_result (parse_server_items (se_alias e # aliases) items) (\<lambda>es. Inr (e # es)))"

definition parse_home_status_servers :: "json \<Rightarrow> server_entry list result" where
  "parse_home_status_servers v =
     (case v of
        JArr items \<Rightarrow>
          if length items > 20
          then raise ValueError ''home_status.servers.entries must contain 20 entries or fewer''
          else parse_server_items [] items
      | _ \<Rightarrow> raise ValueError ''home_status.servers.entries must be a list'')"

definition no_home_status :: home_status_config where
  "no_home_status =
     \<lparr>hx_alarm = \<lparr>ac_entity_id = [], ac_door_entities = [], ac_motion_entities = []\<rparr>,
      hx_home = \<lparr>ho_person_entities = [], ho_presence_entities = [], ho_door_entities = [],
                 ho_light_entities = [], ho_temperature_entity = [], ho_humidity_entity = [],
                 ho_ups_battery_entity = []\<rparr>,
      hx_servers = [],
      hx_network = \<lparr>nc_internet_entity = [], nc_router_entity = [], nc_dns_entity = [],
                    nc_home_assistant_entity = [], nc_additional_entities = []\<rparr>\<rparr>"

definition parse_alarm :: "jobject \<Rightarrow> alarm_config result" where
  "parse_alarm d =
     (let path = lit ''home_status.alarm.'' in
      bind_result (entity_field d path ''entity_id'') (\<lambda>i.
      bind_result (list_field d path ''door_entities'') (\<lambda>doors.
      bind_result (list_field d path ''motion_entities'') (\<lambda>motions.
        Inr \<lparr>ac_entity_id = i, ac_door_entities = doors, ac_motion_entities = motions\<rparr>))))"

definition parse_home :: "jobject \<Rightarrow> home_config result" where
  "parse_home d =
     (let path = lit ''home_status.home.'' in
      bind_result (list_field d path ''person_entities'') (\<lambda>persons.
      bind_result (list_field d path ''presence_entities'') (\<lambda>presence.
      bind_result (list_field d path ''door_entities'') (\<lambda>doors.
      bind_result (list_field d path ''light_entities'') (\<lambda>lights.
      bind_result (entity_field d path ''temperature_entity'') (\<lambda>temperature.
      bind_result (entity_field d path ''humidity_entity'') (\<lambda>humidity.
      bind_result (entity_field d path ''ups_battery_entity'') (\<lambda>ups.
        Inr \<lparr>ho_person_entities = persons, ho_presence_entities = presence,
             ho_door_entities = doors, ho_light_entities = lights,
             ho_temperature_entity = temperature, ho_humidity_entity = humidity,
             ho_ups_battery_entity = ups\<rparr>))))))))"

definition parse_network :: "jobject \<Rightarrow> network_config result" where
  "parse_network d =
     (let path = lit ''home_status.network.'' in
      bind_result (entity_field d path ''internet_entity'') (\<lambda>internet.
      bind_result (entity_field d path ''router_entity'') (\<lambda>router.
      bind_result (entity_field d path ''dns_entity'') (\<lambda>dns.
      bind_result (entity_field d path ''home_assistant_entity'') (\<lambda>ha.
      bind_result (list_field d path ''additional_entities'') (\<lambda>additional.
        Inr \<lparr>nc_internet_entity = internet, nc_router_entity = router, nc_dns_entity = dns,
             nc_home_assistant_entity = ha, nc_additional_entities = additional\<rparr>))))))"

definition parse_home_status :: "json \<Rightarrow> home_status_config result" where
  "parse_home_status raw =
     (let sub = (\<lambda>d key. mapping (jget_or d (lit key) (JObj [])) (lit ''home_status.'' @ lit key)) in
      case raw of
        JNull \<Rightarrow> Inr no_home_status
      | JStr [] \<Rightarrow> Inr no_home_status
      | JObj d \<Rightarrow>
          bind_result (sub d ''alarm'') (\<lambda>alarm_data.
          bind_result (sub d ''home'') (\<lambda>home_data.
          bind_result (sub d ''servers'') (\<lambda>servers_data.
          bind_result (sub d ''network'') (\<lambda>network_data.
          bind_result (parse_alarm alarm_data) (\<lambda>alarm.
          bind_result (parse_home home_data) (\<lambda>home.
          bind_result (parse_home_status_servers (jget_or servers_data (lit ''entries'') (JArr []))) (\<lambda>servers.
          bind_result (parse_network network_data) (\<lambda>network.
            Inr \<lparr>hx_alarm = alarm, hx_home = home, hx_servers = servers, hx_network = network\<rparr>))))))))
      | _ \<Rightarrow> raise ValueError ''home_status must be a mapping'')"

definition telegram_message_prefix :: "json \<Rightarrow> str \<Rightarrow> str result" where
  "telegram_message_prefix v field_name = plain_text field_name 16 (str_or_empty v)"

definition as_dict :: "json \<Rightarrow> jobject" where
  "as_dict v = (case v of JObj d \<Rightarrow> d | _ \<Rightarrow> [])"

definition parse_rate_limit :: "(str \<Rightarrow> str option) \<Rightarrow> json \<Rightarrow> rate_limit_config result" where
  "parse_rate_limit getenv raw =
     (let d = as_dict raw in
      bind_result (env_int getenv ''RATE_LIMIT_COMMANDS'' (jget_or d (lit ''commands'') (JInt 5))) (\<lambda>n.
      bind_result (env_int getenv ''RATE_LIMIT_WINDOW_SECONDS''
                     (jget_or d (lit ''window_seconds'') (JInt 60))) (\<lambda>s.
        Inr \<lparr>rc_commands = n, rc_window_seconds = s\<rparr>)))"

definition parse_forwarding_rate_limit ::
    "(str \<Rightarrow> str option) \<Rightarrow> json \<Rightarrow> string \<Rightarrow> int \<Rightarrow> rate_limit_config result" where
  "parse_forwarding_rate_limit getenv raw env_prefix default_messages =
     (let d = as_dict raw in
      bind_result (env_int getenv (env_prefix @ ''_MESSAGES'')
                     (jget_or d (lit ''messages'') (jget_or d (lit ''commands'') (JInt default_messages)))) (\<lambda>n.
      bind_result (env_int getenv (env_prefix @ ''_WINDOW_SECONDS'')
                     (jget_or d (lit ''window_seconds'') (JInt 60))) (\<lambda>s.
        Inr \<lparr>rc_commands = n, rc_window_seconds = s\<rparr>)))"

definition parse_health :: "(str \<Rightarrow> str option) \<Rightarrow> json \<Rightarrow> health_config result" where
  "parse_health getenv raw =
     (let d = as_dict raw in
      bind_result (strict_bool (jget_or d (lit ''home_assistant_events_enabled'') (JBool True))
                     (lit ''health.home_assistant_events_enabled'')) (\<lambda>b.
      bind_result (env_int getenv ''HEALTH_HEARTBEAT_SECONDS''
                     (jget_or d (lit ''heartbeat_seconds'') (JInt 60))) (\<lambda>s.
        Inr \<lparr>hg_events_enabled = b, hg_heartbeat_seconds = s\<rparr>)))"

definition parse_telegram :: "(str \<Rightarrow> str option) \<Rightarrow> json \<Rightarrow> tg_config result" where
  "parse_telegram getenv raw =
     (case raw of
        JObj d \<Rightarrow>
          (let get = (\<lambda>key dflt. jget_or d (lit key) dflt);
               token_file = str_or_empty (getenv_or getenv ''TELEGRAM_BOT_TOKEN_FILE''
                              (get ''bot_token_file'' (JStr (lit ''/data/telegram.bot_token''))));
               pfx = str_or_empty (get ''command_prefix'' (JStr (lit ''!'')))
           in
           bind_result (parse_role (py_str (getenv_or getenv ''TELEGRAM_AUTHORIZED_USER_ROLE''
                          (get ''authorized_user_role'' (JStr (lit ''readonly'')))))) (\<lambda>r.
           bind_result (env_int getenv ''TELEGRAM_MESHCORE_CHANNEL_INDEX''
                          (get ''meshcore_channel_index'' (JInt 1))) (\<lambda>channel.
           bind_result (env_int getenv ''TELEGRAM_MAX_MESHCORE_MESSAGE_LENGTH''
                          (get ''max_meshcore_message_length'' (JInt 180))) (\<lambda>max_mc.
           bind_result (env_int getenv ''TELEGRAM_MAX_TELEGRAM_MESSAGE_LENGTH''
                          (get ''max_telegram_message_length'' (JInt 3900))) (\<lambda>max_tg.
           bind_result (telegram_message_prefix (get ''message_prefix'' (JStr []))
                          (lit ''telegram.message_prefix'')) (\<lambda>message_prefix.
           bind_result (telegram_message_prefix (get ''meshcore_to_telegram_prefix'' (JStr (lit ''MC: '')))
                          (lit ''telegram.meshcore_to_telegram_prefix'')) (\<lambda>mc_prefix.
           bind_result (strict_bool (get ''send_forward_confirmation'' (JBool False))
                          (lit ''telegram.send_forward_confirmation'')) (\<lambda>confirmation.
           bind_result (parse_forwarding_rate_limit getenv (get ''forwarding_rate_limit'' (JObj []))
                          ''TELEGRAM_FORWARDING_RATE_LIMIT'' 5) (\<lambda>forwarding.
           bind_result (parse_forwarding_rate_limit getenv (get ''inbound_forwarding_rate_limit'' (JObj []))
                          ''TELEGRAM_INBOUND_FORWARDING_RATE_LIMIT'' 20) (\<lambda>inbound.
             Inr \<lparr>tc_enabled = env_bool getenv ''TELEGRAM_ENABLED'' (get ''enabled'' (JBool False)),
                  tc_bot_token_import = str_or_empty (get ''bot_token_import'' (JStr [])),
                  tc_bot_token_file = (if token_file = [] then lit ''/data/telegram.bot_token'' else token_file),
                  tc_allowed_private_chat_id =
                    strip (str_or_empty (getenv_or getenv ''TELEGRAM_ALLOWED_PRIVATE_CHAT_ID''
                      (get ''allowed_private_chat_id'' (JStr [])))),
                  tc_allowed_user_id =
                    strip (str_or_empty (getenv_or getenv ''TELEGRAM_ALLOWED_USER_ID''
                      (get ''allowed_user_id'' (JStr [])))),
                  tc_authorized_user_role = r, tc_channel_index = channel,
                  tc_forward_mc_to_tg = env_bool getenv ''TELEGRAM_FORWARD_MESHCORE_TO_TELEGRAM''
                    (get ''forward_meshcore_to_telegram'' (JBool True)),
                  tc_forward_tg_to_mc = env_bool getenv ''TELEGRAM_FORWARD_TELEGRAM_TO_MESHCORE''
                    (get ''forward_telegram_to_meshcore'' (JBool True)),
                  tc_command_prefix = (if pfx = [] then lit ''!'' else pfx),
                  tc_max_meshcore_length = max_mc, tc_max_telegram_length = max_tg,
                  tc_message_prefix = message_prefix, tc_mc_to_tg_prefix = mc_prefix,
                  tc_send_confirmation = confirmation, tc_forwarding_rate_limit = forwarding,
                  tc_inbound_rate_limit = inbound\<rparr>))))))))))
      | _ \<Rightarrow> raise ValueError ''telegram must be a mapping'')"

section \<open>Facts\<close>

text \<open>The aliases of the servers are distinct and in the vocabulary of the commands.\<close>

lemma parse_server_alias:
  "parse_server aliases item = Inr e \<Longrightarrow> is_server_alias (se_alias e) \<and> se_alias e \<notin> set aliases"
  by (auto simp: parse_server_def bind_result_Inr_iff Let_def split: if_splits)

lemma parse_server_items_aliases:
  "parse_server_items aliases items = Inr es \<Longrightarrow>
     distinct (map se_alias es) \<and> set (map se_alias es) \<inter> set aliases = {}
     \<and> list_all is_server_alias (map se_alias es) \<and> length es = length items"
proof (induction aliases items arbitrary: es rule: parse_server_items.induct)
  case (2 aliases item items)
  then obtain e rest where e: "parse_server aliases item = Inr e"
      "parse_server_items (se_alias e # aliases) items = Inr rest" "es = e # rest"
    by (auto simp: bind_result_Inr_iff)
  from 2(1) [OF e(2)] parse_server_alias [OF e(1)] e(3) show ?case by auto
qed simp

lemma entity_list_bounded:
  "entity_list v f = Inr ids \<Longrightarrow> length ids \<le> 50 \<and> [] \<notin> set ids"
  by (auto simp: entity_list_def bind_result_Inr_iff each_Inr split: json.splits if_splits
      dest!: list_all2_lengthD intro: order_trans [OF length_filter_le])

text \<open>
  The servers of an accepted configuration are at most 20, their aliases are different and have
  the documented form.
\<close>

theorem configured_servers:
  assumes "parse_home_status_servers v = Inr es"
  shows "length es \<le> 20 \<and> distinct (map se_alias es)
    \<and> (\<forall>e \<in> set es. is_server_alias (se_alias e))"
proof -
  from assms obtain items where "length items \<le> 20" "parse_server_items [] items = Inr es"
    by (cases v) (auto simp: parse_home_status_servers_def not_less split: if_splits)
  with parse_server_items_aliases [OF this(2)] show ?thesis by (simp add: list_all_iff)
qed

theorem configured_servers_witness:
  "\<exists>e. parse_home_status_servers (JArr [JObj [(lit ''alias'', JStr (lit ''nas''))]]) = Inr [e]
     \<and> is_server_alias (se_alias e)"
proof -
  have "\<exists>e. parse_server [] (JObj [(lit ''alias'', JStr (lit ''nas''))]) = Inr e"
    by (simp add: parse_server_def mapping_def is_server_alias_def jget_or_def jget_def str_or_empty_def
        strip_def lstrip_def rstrip_def is_space_def lit_eq_iff Let_def entity_field_def entity_id_def config_label_def plain_text_def
        lit_def is_control_def)
  then obtain e where "parse_home_status_servers (JArr [JObj [(lit ''alias'', JStr (lit ''nas''))]]) = Inr [e]"
    by (auto simp: parse_home_status_servers_def)
  from this configured_servers [OF this] show ?thesis by simp
qed

end
