(* ===== verification/PyTime.thy ===== *)
theory PyTime
  imports PyNumber
begin

text \<open>
  How the bridge writes instants: \<open>datetime.isoformat\<close> of a time in UTC, with the offset
  \<open>+00:00\<close> replaced by \<open>Z\<close> where the source does so. Dates are proleptic Gregorian.
\<close>

definition micros_per_day :: int where
  "micros_per_day = 86400000000"

text \<open>Year, month and day of a day counted from 1970-01-01.\<close>

definition civil_from_days :: "int \<Rightarrow> int \<times> int \<times> int" where
  "civil_from_days days =
     (let z = days + 719468;
          era = z div 146097;
          doe = z - era * 146097;
          yoe = (doe - doe div 1460 + doe div 36524 - doe div 146096) div 365;
          doy = doe - (365 * yoe + yoe div 4 - yoe div 100);
          mp = (5 * doy + 2) div 153;
          d = doy - (153 * mp + 2) div 5 + 1;
          m = (if mp < 10 then mp + 3 else mp - 9);
          y = yoe + era * 400 + (if m \<le> 2 then 1 else 0)
      in (y, m, d))"

text \<open>A non-negative number with leading zeros up to a width.\<close>

definition pad :: "nat \<Rightarrow> int \<Rightarrow> str" where
  "pad width n = (let ds = dec n in replicate (width - length ds) 48 @ ds)"

definition iso_seconds :: "instant \<Rightarrow> str" where
  "iso_seconds t =
     (let days = t div micros_per_day;
          secs = t mod micros_per_day div 1000000;
          (y, m, d) = civil_from_days days
      in pad 4 y @ [45] @ pad 2 m @ [45] @ pad 2 d @ [84]
         @ pad 2 (secs div 3600) @ [58] @ pad 2 (secs div 60 mod 60) @ [58] @ pad 2 (secs mod 60))"

text \<open>\<open>bridge_health._rfc3339\<close>: whole seconds.\<close>

definition rfc3339 :: "instant \<Rightarrow> str" where
  "rfc3339 t = iso_seconds t @ lit ''Z''"

text \<open>\<open>normalized_audit.utc_rfc3339\<close>: milliseconds, cut off.\<close>

definition utc_rfc3339 :: "instant \<Rightarrow> str" where
  "utc_rfc3339 t = iso_seconds t @ [46] @ pad 3 (t mod 1000000 div 1000) @ lit ''Z''"

text \<open>\<open>received_at.isoformat()\<close>: microseconds unless they are zero.\<close>

definition isoformat :: "instant \<Rightarrow> str" where
  "isoformat t =
     iso_seconds t
     @ (if t mod 1000000 = 0 then [] else [46] @ pad 6 (t mod 1000000)) @ lit ''+00:00''"

definition optional_rfc3339 :: "instant option \<Rightarrow> str option" where
  "optional_rfc3339 t = map_option rfc3339 t"

section \<open>Reading\<close>

text \<open>
  \<open>datetime.fromisoformat\<close> for the form that platforms send: a date, one separating character,
  a time with optional seconds and fraction, and an offset. A time without an offset is local
  time for Python; it counts as UTC here, the time zone of the containers.
\<close>

definition days_from_civil :: "int \<Rightarrow> int \<Rightarrow> int \<Rightarrow> int" where
  "days_from_civil year m d =
     (let y = (if m \<le> 2 then year - 1 else year);
          era = y div 400;
          yoe = y - era * 400;
          doy = (153 * (if m > 2 then m - 3 else m + 9) + 2) div 5 + d - 1;
          doe = yoe * 365 + yoe div 4 - yoe div 100 + doy
      in era * 146097 + doe - 719468)"

definition digits_int :: "nat \<Rightarrow> str \<Rightarrow> int option" where
  "digits_int n t =
     (if length t = n \<and> list_all is_digit t then map_option int (digits_value False 0 t) else None)"

definition month_days :: "int \<Rightarrow> int \<Rightarrow> int" where
  "month_days y m =
     (if m = 2 then (if y mod 4 = 0 \<and> (y mod 100 \<noteq> 0 \<or> y mod 400 = 0) then 29 else 28)
      else if m \<in> {4, 6, 9, 11} then 30 else 31)"

definition iso_date :: "str \<Rightarrow> int option" where
  "iso_date t =
     (if length t \<noteq> 10 \<or> t ! 4 \<noteq> 45 \<or> t ! 7 \<noteq> 45 then None
      else
        (case (digits_int 4 (take 4 t), digits_int 2 (take 2 (drop 5 t)), digits_int 2 (drop 8 t)) of
           (Some y, Some m, Some d) \<Rightarrow>
             if 1 \<le> y \<and> 1 \<le> m \<and> m \<le> 12 \<and> 1 \<le> d \<and> d \<le> month_days y m
             then Some (days_from_civil y m d) else None
         | _ \<Rightarrow> None))"

definition iso_hour_minute :: "str \<Rightarrow> int option" where
  "iso_hour_minute t =
     (if length t \<noteq> 5 \<or> t ! 2 \<noteq> 58 then None
      else
        (case (digits_int 2 (take 2 t), digits_int 2 (drop 3 t)) of
           (Some h, Some m) \<Rightarrow> if h < 24 \<and> m < 60 then Some (h * 60 + m) else None
         | _ \<Rightarrow> None))"

text \<open>Microseconds of a time of day, without its offset.\<close>

definition iso_time :: "str \<Rightarrow> int option" where
  "iso_time t =
     (case iso_hour_minute (take 5 t) of
        None \<Rightarrow> None
      | Some hm \<Rightarrow>
          (case drop 5 t of
             [] \<Rightarrow> Some (hm * 60000000)
           | c # rest \<Rightarrow>
               if c \<noteq> 58 then None
               else
                 (case digits_int 2 (take 2 rest) of
                    None \<Rightarrow> None
                  | Some s \<Rightarrow>
                      if s \<ge> 60 then None
                      else
                        (case drop 2 rest of
                           [] \<Rightarrow> Some (hm * 60000000 + s * 1000000)
                         | p # fs \<Rightarrow>
                             if p \<notin> {46, 44} \<or> fs = [] \<or> \<not> list_all is_digit fs then None
                             else
                               map_option (\<lambda>f. hm * 60000000 + s * 1000000 + f)
                                 (digits_int 6 (take 6 (fs @ replicate 6 48)))))))"

definition from_isoformat :: "str \<Rightarrow> instant option" where
  "from_isoformat t =
     (let time_part = drop 11 t;
          clock = takeWhile (\<lambda>c. c \<noteq> 43 \<and> c \<noteq> 45) time_part;
          offset = drop (length clock) time_part
      in
      case (iso_date (take 10 t), iso_time clock) of
        (Some days, Some micros) \<Rightarrow>
          (case offset of
             [] \<Rightarrow> Some (days * micros_per_day + micros)
           | sign # hm \<Rightarrow>
               map_option (\<lambda>o'. days * micros_per_day + micros
                                 - (if sign = 45 then - o' else o') * 60000000)
                 (iso_hour_minute hm))
      | _ \<Rightarrow> None)"

end
