(* ===== verification/Sqlite.thy ===== *)
theory Sqlite
  imports PyText
begin

text \<open>
  The write path of \<open>storage/database.py\<close>. SQLite itself is not under the repository: what
  is modelled is a connection with the tables it sees, the tables as they were at \<open>BEGIN\<close> and at
  each savepoint, and what its statements do to them. Every statement takes the next entry of
  a schedule of faults, \<open>None\<close> when the engine lets it through and an exception when it does not (a
  locked database, a full disk). The schedules are arbitrary, so a theorem over them holds for
  whatever the engine does; past their end nothing fails. A statement that fails has no effect, but
  a rollback that fails has: SQLite reports an error of \<open>ROLLBACK\<close> when the error before it has
  already undone the transaction. Exceptions are instances of \<open>Exception\<close> here, for nothing in a
  write can be cancelled.
\<close>

section \<open>The connection\<close>

text \<open>
  \<open>db_saved\<close>: the tables at the savepoints and the \<open>BEGIN\<close> that are open, the latest first.
  \<open>db_faults\<close> is the schedule of \<open>BEGIN\<close>, \<open>SAVEPOINT\<close> and \<open>SELECT\<close>, \<open>db_commit_faults\<close> that of
  \<open>COMMIT\<close> and \<open>RELEASE\<close>, \<open>db_rollback_faults\<close> that of \<open>ROLLBACK\<close> and \<open>ROLLBACK TO\<close>.
\<close>

record 't conn =
  db_tables :: 't
  db_saved :: "'t list"
  db_faults :: "exn option list"
  db_commit_faults :: "exn option list"
  db_rollback_faults :: "exn option list"
  db_slept :: "seconds list"

definition new_conn :: "'t \<Rightarrow> exn option list \<Rightarrow> 't conn" where
  "new_conn t faults =
     \<lparr>db_tables = t, db_saved = [], db_faults = faults, db_commit_faults = [], db_rollback_faults = [],
      db_slept = []\<rparr>"

text \<open>\<open>connection.in_transaction\<close>, and the tables that other connections see.\<close>

definition in_transaction :: "'t conn \<Rightarrow> bool" where
  "in_transaction c \<longleftrightarrow> db_saved c \<noteq> []"

definition committed_tables :: "'t conn \<Rightarrow> 't" where
  "committed_tables c = (if in_transaction c then last (db_saved c) else db_tables c)"

text \<open>The next faults of the schedules.\<close>

definition pop_fault :: "exn option list \<Rightarrow> exn option \<times> exn option list" where
  "pop_fault fs = (case fs of [] \<Rightarrow> (None, []) | f # rest \<Rightarrow> (f, rest))"

definition next_fault :: "'t conn \<Rightarrow> exn option \<times> 't conn" where
  "next_fault c = (case pop_fault (db_faults c) of (f, fs) \<Rightarrow> (f, c\<lparr>db_faults := fs\<rparr>))"

definition next_commit_fault :: "'t conn \<Rightarrow> exn option \<times> 't conn" where
  "next_commit_fault c =
     (case pop_fault (db_commit_faults c) of (f, fs) \<Rightarrow> (f, c\<lparr>db_commit_faults := fs\<rparr>))"

definition next_rollback_fault :: "'t conn \<Rightarrow> exn option \<times> 't conn" where
  "next_rollback_fault c =
     (case pop_fault (db_rollback_faults c) of (f, fs) \<Rightarrow> (f, c\<lparr>db_rollback_faults := fs\<rparr>))"

text \<open>
  The statements that open something, \<open>BEGIN IMMEDIATE\<close> and \<open>SAVEPOINT\<close>, remember the tables. A
  savepoint has a name of its own; it is known here by its depth \<open>n\<close>, the number of those that were
  open when it was set.
\<close>

definition open_tx :: "'t conn \<Rightarrow> unit result \<times> 't conn" where
  "open_tx c =
     (case next_fault c of
        (Some e, c') \<Rightarrow> (Inl e, c')
      | (None, c') \<Rightarrow> (Inr (), c'\<lparr>db_saved := db_tables c' # db_saved c'\<rparr>))"

text \<open>\<open>RELEASE\<close> of the savepoint of depth \<open>n\<close>; \<open>COMMIT\<close> is that of depth 0.\<close>

definition release_tx :: "nat \<Rightarrow> 't conn \<Rightarrow> unit result \<times> 't conn" where
  "release_tx n c =
     (case next_commit_fault c of
        (Some e, c') \<Rightarrow> (Inl e, c')
      | (None, c') \<Rightarrow> (Inr (), c'\<lparr>db_saved := drop (length (db_saved c') - n) (db_saved c')\<rparr>))"

definition commit_tx :: "'t conn \<Rightarrow> unit result \<times> 't conn" where
  "commit_tx c = release_tx 0 c"

text \<open>\<open>ROLLBACK TO\<close> the savepoint of depth \<open>n\<close>, which stays open.\<close>

definition rollback_to :: "nat \<Rightarrow> 't conn \<Rightarrow> unit result \<times> 't conn" where
  "rollback_to n c =
     (case next_rollback_fault c of
        (f, c') \<Rightarrow>
          (case f of None \<Rightarrow> Inr () | Some e \<Rightarrow> Inl e,
           c'\<lparr>db_tables := db_saved c' ! (length (db_saved c') - Suc n),
              db_saved := drop (length (db_saved c') - Suc n) (db_saved c')\<rparr>))"

text \<open>\<open>connection.rollback()\<close>, which does nothing when there is no transaction.\<close>

definition rollback_tx :: "'t conn \<Rightarrow> unit result \<times> 't conn" where
  "rollback_tx c =
     (if \<not> in_transaction c then (Inr (), c)
      else
        (case next_rollback_fault c of
           (f, c') \<Rightarrow>
             (case f of None \<Rightarrow> Inr () | Some e \<Rightarrow> Inl e,
              c'\<lparr>db_tables := last (db_saved c'), db_saved := []\<rparr>)))"

section \<open>Writing\<close>

definition sqlite_write_retries :: nat where
  "sqlite_write_retries = 3"

definition sqlite_write_retry_initial_seconds :: seconds where
  "sqlite_write_retry_initial_seconds = 1 / 20"

definition is_sqlite_locked :: "exn \<Rightarrow> bool" where
  "is_sqlite_locked e \<longleftrightarrow>
     exn_class e = OperationalError
     \<and> (let message = lower (exn_str e)
        in contains message (lit ''database is locked'')
           \<or> contains message (lit ''database table is locked''))"

text \<open>\<open>_rollback_quietly\<close>: only an error of SQLite is swallowed.\<close>

definition rollback_quietly :: "'t conn \<Rightarrow> unit result \<times> 't conn" where
  "rollback_quietly c =
     (case rollback_tx c of
        (Inl e, c') \<Rightarrow> (if is_sqlite_error e then Inr () else Inl e, c')
      | (Inr _, c') \<Rightarrow> (Inr (), c'))"

text \<open>
  One round of the loop: \<open>BEGIN IMMEDIATE\<close>, the operation, \<open>COMMIT\<close>, and the rollback on any
  exception. The operation works on the connection and may itself raise.
\<close>

definition attempt :: "('t conn \<Rightarrow> 'a result \<times> 't conn) \<Rightarrow> 't conn \<Rightarrow> 'a result \<times> 't conn" where
  "attempt operation c =
     (case seqw (open_tx c) (\<lambda>_ c. seqw (operation c) (\<lambda>x c. seqw (commit_tx c) (\<lambda>_ c. (Inr x, c)))) of
        (Inr x, c') \<Rightarrow> (Inr x, c')
      | (Inl e, c') \<Rightarrow> seqw (rollback_quietly c') (\<lambda>_ c. (Inl e, c)))"

text \<open>The retry loop, on the number of retries that are left.\<close>

fun write_attempts ::
    "nat \<Rightarrow> seconds \<Rightarrow> ('t conn \<Rightarrow> 'a result \<times> 't conn) \<Rightarrow> 't conn \<Rightarrow> 'a result \<times> 't conn" where
  "write_attempts n backoff operation c =
     (case attempt operation c of
        (Inr x, c') \<Rightarrow> (Inr x, c')
      | (Inl e, c') \<Rightarrow>
          (case n of
             0 \<Rightarrow> (Inl e, c')
           | Suc m \<Rightarrow>
               if is_sqlite_locked e
               then write_attempts m (backoff * 2) operation (c'\<lparr>db_slept := db_slept c' @ [backoff]\<rparr>)
               else (Inl e, c')))"

declare write_attempts.simps [simp del]

text \<open>
  Inside a transaction a savepoint is used and there is no retry; on an exception it is rolled back
  and released, where errors of SQLite are swallowed, and the exception is raised again.
\<close>

definition undo_savepoint :: "nat \<Rightarrow> exn \<Rightarrow> 't conn \<Rightarrow> 'a result \<times> 't conn" where
  "undo_savepoint n e c =
     (case seqw (rollback_to n c) (\<lambda>_ c. release_tx n c) of
        (Inl e', c') \<Rightarrow> (Inl (if is_sqlite_error e' then e else e'), c')
      | (Inr _, c') \<Rightarrow> (Inl e, c'))"

definition write_savepoint :: "('t conn \<Rightarrow> 'a result \<times> 't conn) \<Rightarrow> 't conn \<Rightarrow> 'a result \<times> 't conn" where
  "write_savepoint operation c =
     (let n = length (db_saved c) in
      seqw (open_tx c) (\<lambda>_ c1.
        case seqw (operation c1) (\<lambda>x c2. seqw (release_tx n c2) (\<lambda>_ c3. (Inr x, c3))) of
          (Inr x, c') \<Rightarrow> (Inr x, c')
        | (Inl e, c') \<Rightarrow> undo_savepoint n e c'))"

definition run_transaction :: "('t conn \<Rightarrow> 'a result \<times> 't conn) \<Rightarrow> 't conn \<Rightarrow> 'a result \<times> 't conn" where
  "run_transaction operation c =
     (if in_transaction c then write_savepoint operation c
      else write_attempts sqlite_write_retries sqlite_write_retry_initial_seconds operation c)"

text \<open>
  The operations of the stores execute statements on the tables and open no transaction. One that
  raises leaves the tables as they are at that point.
\<close>

definition on_tables :: "('t \<Rightarrow> 'a result \<times> 't) \<Rightarrow> 't conn \<Rightarrow> 'a result \<times> 't conn" where
  "on_tables operation c = (case operation (db_tables c) of (r, t) \<Rightarrow> (r, c\<lparr>db_tables := t\<rparr>))"

definition write_transaction :: "('t \<Rightarrow> 'a result \<times> 't) \<Rightarrow> 't conn \<Rightarrow> 'a result \<times> 't conn" where
  "write_transaction operation c = run_transaction (on_tables operation) c"

text \<open>A \<open>SELECT\<close> outside a transaction, which may fail like a write but is not retried.\<close>

definition read_query :: "('t \<Rightarrow> 'a) \<Rightarrow> 't conn \<Rightarrow> 'a result \<times> 't conn" where
  "read_query q c =
     (case next_fault c of
        (Some e, c') \<Rightarrow> (Inl e, c')
      | (None, c') \<Rightarrow> (Inr (q (db_tables c')), c'))"

text \<open>Two statements of one transaction: the second runs only if the first did not raise.\<close>

definition then_tx ::
    "('t \<Rightarrow> 'a result \<times> 't) \<Rightarrow> ('a \<Rightarrow> 't \<Rightarrow> 'b result \<times> 't) \<Rightarrow> 't \<Rightarrow> 'b result \<times> 't" where
  "then_tx f g t = (case f t of (Inl e, t') \<Rightarrow> (Inl e, t') | (Inr x, t') \<Rightarrow> g x t')"

text \<open>
  Binding a \<open>str\<close> parameter encodes it in UTF-8, which raises for a lone surrogate.
\<close>

definition bind_texts :: "str list \<Rightarrow> 't \<Rightarrow> unit result \<times> 't" where
  "bind_texts ts t =
     (if list_all encodable ts then Inr ()
      else raise UnicodeEncodeError ''utf-8 codec can't encode surrogates'', t)"

lemma then_tx_Inr_iff:
  "then_tx f g t = (Inr y, t'') \<longleftrightarrow> (\<exists>x t'. f t = (Inr x, t') \<and> g x t' = (Inr y, t''))"
  by (auto simp: then_tx_def split: prod.splits sum.splits)

lemma bind_texts_Inr_iff: "bind_texts ts t = (Inr u, t') \<longleftrightarrow> list_all encodable ts \<and> t' = t"
  by (auto simp: bind_texts_def)

section \<open>Atomicity\<close>

text \<open>
  The contract the repositories rely on: a write either reports its result and has applied
  the operation once, or raises and has left the tables alone.
\<close>

locale atomic_writes =
  fixes tx :: "('t \<Rightarrow> 'a result \<times> 't) \<Rightarrow> 'c \<Rightarrow> 'a result \<times> 'c"
    and tables :: "'c \<Rightarrow> 't"
  assumes write_commits: "tx operation c = (Inr x, c') \<Longrightarrow>
      operation (tables c) = (Inr x, tables c')"
    and write_rolls_back: "tx operation c = (Inl e, c') \<Longrightarrow> tables c' = tables c"
begin

lemma write_cases:
  obtains (committed) x where "fst (tx operation c) = Inr x"
      "operation (tables c) = (Inr x, tables (snd (tx operation c)))"
  | (rolled_back) e where "fst (tx operation c) = Inl e"
      "tables (snd (tx operation c)) = tables c"
proof (cases "tx operation c")
  case (Pair r c')
  then show ?thesis
    using write_commits [of operation c] write_rolls_back [of operation c] that by (cases r) auto
qed

text \<open>An invariant of the tables that the operation keeps is kept by the write.\<close>

lemma write_keeps:
  assumes "P (tables c)" "\<And>x t. operation (tables c) = (Inr x, t) \<Longrightarrow> P t"
  shows "P (tables (snd (tx operation c)))"
  by (rule write_cases [of operation c]) (use assms in auto)

end

lemma next_fault_keeps [simp]:
  "next_fault c = (f, c') \<Longrightarrow> db_tables c' = db_tables c"
  "next_fault c = (f, c') \<Longrightarrow> db_saved c' = db_saved c"
  "next_fault c = (f, c') \<Longrightarrow> db_slept c' = db_slept c"
  "next_commit_fault c = (f, c') \<Longrightarrow> db_tables c' = db_tables c"
  "next_commit_fault c = (f, c') \<Longrightarrow> db_saved c' = db_saved c"
  "next_commit_fault c = (f, c') \<Longrightarrow> db_slept c' = db_slept c"
  "next_commit_fault c = (f, c') \<Longrightarrow> db_faults c' = db_faults c"
  "next_rollback_fault c = (f, c') \<Longrightarrow> db_saved c' = db_saved c"
  "next_rollback_fault c = (f, c') \<Longrightarrow> db_slept c' = db_slept c"
  "next_rollback_fault c = (f, c') \<Longrightarrow> db_faults c' = db_faults c"
  by (auto simp: next_fault_def next_commit_fault_def next_rollback_fault_def split: prod.splits)

text \<open>What the statements do.\<close>

lemma open_tx_cases:
  assumes "open_tx c = (r, c')"
  shows "db_tables c' = db_tables c"
    "r = Inr () \<Longrightarrow> db_saved c' = db_tables c # db_saved c"
    "r = Inl e \<Longrightarrow> db_saved c' = db_saved c"
  using assms by (auto simp: open_tx_def split: prod.splits option.splits)

lemma release_tx_cases:
  assumes "release_tx n c = (r, c')"
  shows "db_tables c' = db_tables c"
    "r = Inr () \<Longrightarrow> db_saved c' = drop (length (db_saved c) - n) (db_saved c)"
    "r = Inl e \<Longrightarrow> db_saved c' = db_saved c"
  using assms by (auto simp: release_tx_def split: prod.splits option.splits)

lemma commit_tx_cases:
  assumes "commit_tx c = (r, c')"
  shows "db_tables c' = db_tables c" "r = Inr () \<Longrightarrow> db_saved c' = []" "r = Inl e \<Longrightarrow> db_saved c' = db_saved c"
  using release_tx_cases [OF assms [unfolded commit_tx_def]] by simp_all

lemma rollback_to_cases:
  assumes "rollback_to n c = (r, c')" "suffix (t # saved) (db_saved c)" "n = length saved"
  shows "db_tables c' = t" "db_saved c' = t # saved"
  using assms by (auto simp: rollback_to_def suffix_def nth_append split: prod.splits)

lemma rollback_tx_cases:
  assumes "rollback_tx c = (r, c')"
  shows "db_saved c' = []" "db_tables c' = committed_tables c"
  using assms by (auto simp: rollback_tx_def committed_tables_def in_transaction_def split: if_splits prod.splits)

lemma rollback_quietly_cases:
  assumes "rollback_quietly c = (r, c')"
  shows "db_saved c' = []" "db_tables c' = committed_tables c" "r = Inl e \<Longrightarrow> \<not> is_sqlite_error e"
  using assms rollback_tx_cases
  by (auto simp: rollback_quietly_def split: prod.splits sum.splits if_splits)

text \<open>
  An operation that keeps the transactions open in which it is called. The writes of the program
  are of this kind, and a write of such an operation is again one, so that they may be nested.
\<close>

definition keeps_open :: "('t conn \<Rightarrow> 'a result \<times> 't conn) \<Rightarrow> bool" where
  "keeps_open operation \<longleftrightarrow> (\<forall>c. suffix (db_saved c) (db_saved (snd (operation c))))"

lemma keeps_openD: "keeps_open operation \<Longrightarrow> operation c = (r, c') \<Longrightarrow> suffix (db_saved c) (db_saved c')"
  unfolding keeps_open_def by (metis snd_conv)

lemma keeps_open_seqw [intro]:
  assumes "keeps_open f" "\<And>x. keeps_open (g x)"
  shows "keeps_open (\<lambda>c. seqw (f c) g)"
proof -
  have "suffix (db_saved c) (db_saved (snd (seqw (f c) g)))" for c
  proof (cases "f c")
    case (Pair r d)
    with assms(1) have "suffix (db_saved c) (db_saved d)" by (rule keeps_openD)
    then show ?thesis
      using Pair assms(2) unfolding keeps_open_def
      by (cases r) (auto intro: suffix_order.trans)
  qed
  then show ?thesis by (simp add: keeps_open_def)
qed

lemma keeps_open_on_tables [simp]: "keeps_open (on_tables operation)"
  by (simp add: keeps_open_def on_tables_def split: prod.split)

text \<open>What a write of an operation does: it is done on the tables as they were, or not at all.\<close>

definition done_on :: "('t conn \<Rightarrow> 'a result \<times> 't conn) \<Rightarrow> 't \<Rightarrow> 'a \<Rightarrow> 't \<Rightarrow> bool" where
  "done_on operation t x t' \<longleftrightarrow>
     (\<exists>c c'. operation c = (Inr x, c') \<and> db_tables c = t \<and> db_tables c' = t')"

lemma done_on_tables [simp]: "done_on (on_tables operation) t x t' \<longleftrightarrow> operation t = (Inr x, t')"
proof
  assume "operation t = (Inr x, t')"
  then have "on_tables operation (new_conn t []) = (Inr x, new_conn t' [])"
    by (simp add: on_tables_def new_conn_def split: prod.split)
  then show "done_on (on_tables operation) t x t'"
    unfolding done_on_def by (intro exI [of _ "new_conn t []"] exI [of _ "new_conn t' []"]) (simp add: new_conn_def)
next
  assume "done_on (on_tables operation) t x t'"
  then obtain c c' where "on_tables operation c = (Inr x, c')" "db_tables c = t" "db_tables c' = t'"
    unfolding done_on_def by blast
  then show "operation t = (Inr x, t')" by (cases "operation t") (auto simp: on_tables_def)
qed

lemma attempt_atomic:
  assumes "keeps_open operation" "\<not> in_transaction c" "attempt operation c = (r, c')"
  shows "\<not> in_transaction c' \<and>
    (case r of Inr x \<Rightarrow> done_on operation (db_tables c) x (db_tables c') | Inl e \<Rightarrow> db_tables c' = db_tables c)"
proof -
  obtain r1 c1 where 1: "open_tx c = (r1, c1)" by force
  obtain r2 c2 where 2: "operation c1 = (r2, c2)" by force
  obtain r3 c3 where 3: "commit_tx c2 = (r3, c3)" by force
  have undone: "\<not> in_transaction c' \<and> db_tables c' = db_tables c \<and> (\<exists>e. r = Inl e)"
    if "seqw (rollback_quietly d) (\<lambda>_ c. (Inl e, c)) = (r, c')" "committed_tables d = db_tables c" for d e
  proof -
    obtain x d' where q: "rollback_quietly d = (x, d')" by force
    from that(1) q have "c' = d'" "\<exists>e. r = Inl e" by (cases x; auto)+
    with rollback_quietly_cases(1,2) [OF q] that(2) show ?thesis by (simp add: in_transaction_def)
  qed
  show ?thesis
  proof (cases r1)
    case (Inl e)
    with 1 open_tx_cases [OF 1] assms(2) have "committed_tables c1 = db_tables c"
      by (simp add: committed_tables_def in_transaction_def)
    with 1 Inl assms(3) undone [of c1 e] show ?thesis by (auto simp: attempt_def)
  next
    case (Inr u)
    with open_tx_cases [OF 1] assms(2) have s1: "db_saved c1 = [db_tables c]" "db_tables c1 = db_tables c"
      by (simp_all add: in_transaction_def)
    from keeps_openD [OF assms(1) 2] s1 have s2: "committed_tables c2 = db_tables c"
      by (auto simp: committed_tables_def in_transaction_def suffix_def)
    show ?thesis
    proof (cases "\<exists>x. r2 = Inr x \<and> r3 = Inr ()")
      case True
      then obtain x where "r2 = Inr x" "r3 = Inr ()" by blast
      note x = this
      from 2 x s1 commit_tx_cases(1) [OF 3] have "done_on operation (db_tables c) x (db_tables c3)"
        unfolding done_on_def by (intro exI [of _ c1] exI [of _ c2]) simp
      moreover from 1 2 3 Inr x assms(3) have "r = Inr x" "c' = c3" by (simp_all add: attempt_def)
      ultimately show ?thesis using commit_tx_cases(2) [OF 3 x(2)] by (simp add: in_transaction_def)
    next
      case False
      from commit_tx_cases [OF 3] s2 have "committed_tables c3 = db_tables c" if "r3 = Inl e" for e
        using that by (auto simp: committed_tables_def in_transaction_def)
      moreover from 1 2 3 Inr False assms(3) have
        "(\<exists>e. r2 = Inl e \<and> seqw (rollback_quietly c2) (\<lambda>_ c. (Inl e, c)) = (r, c'))
         \<or> (\<exists>e. r3 = Inl e \<and> seqw (rollback_quietly c3) (\<lambda>_ c. (Inl e, c)) = (r, c'))"
        by (cases r2; cases r3) (auto simp: attempt_def)
      ultimately show ?thesis using undone [OF _ s2] undone [of c3] by fastforce
    qed
  qed
qed

lemma write_attempts_atomic:
  assumes "keeps_open operation" "\<not> in_transaction c" "write_attempts n b operation c = (r, c')"
  shows "\<not> in_transaction c' \<and>
    (case r of Inr x \<Rightarrow> done_on operation (db_tables c) x (db_tables c') | Inl e \<Rightarrow> db_tables c' = db_tables c)"
  using assms(2,3)
proof (induction n arbitrary: b c)
  case 0
  obtain r1 c1 where a: "attempt operation c = (r1, c1)" by force
  with 0 have "r = r1" "c' = c1" by (auto simp: write_attempts.simps split: sum.splits)
  with attempt_atomic [OF assms(1) 0(1) a] show ?case by (cases r1) auto
next
  case (Suc n)
  obtain r1 c1 where a: "attempt operation c = (r1, c1)" by force
  note step = attempt_atomic [OF assms(1) Suc.prems(1) a]
  show ?case
  proof (cases "\<exists>e. r1 = Inl e \<and> is_sqlite_locked e")
    case True
    then obtain e where e: "r1 = Inl e" "is_sqlite_locked e" by blast
    let ?c = "c1\<lparr>db_slept := db_slept c1 @ [b]\<rparr>"
    from a e Suc.prems(2) have "write_attempts n (b * 2) operation ?c = (r, c')"
      by (subst (asm) write_attempts.simps) simp
    from Suc.IH [OF _ this] step e show ?thesis by (cases r) (simp_all add: in_transaction_def)
  next
    case False
    with a Suc.prems(2) have "r = r1" "c' = c1"
      by (auto simp: write_attempts.simps [of "Suc n"] split: sum.splits)
    with step show ?thesis by (cases r1) simp_all
  qed
qed

lemma write_savepoint_atomic:
  assumes "keeps_open operation" "write_savepoint operation c = (r, c')"
  shows "suffix (db_saved c) (db_saved c') \<and>
    (case r of Inr x \<Rightarrow> db_saved c' = db_saved c \<and> done_on operation (db_tables c) x (db_tables c')
     | Inl e \<Rightarrow> db_tables c' = db_tables c)"
proof -
  let ?n = "length (db_saved c)"
  obtain r1 c1 where 1: "open_tx c = (r1, c1)" by force
  obtain r2 c2 where 2: "operation c1 = (r2, c2)" by force
  obtain r3 c3 where 3: "release_tx ?n c2 = (r3, c3)" by force
  have undone: "suffix (db_saved c) (db_saved c') \<and> db_tables c' = db_tables c \<and> (\<exists>e. r = Inl e)"
    if "undo_savepoint ?n e d = (r, c')" "suffix (db_tables c # db_saved c) (db_saved d)" for e d
  proof -
    obtain x d1 where r: "rollback_to ?n d = (x, d1)" by force
    note s = rollback_to_cases [OF r that(2) refl]
    obtain y d2 where l: "release_tx ?n d1 = (y, d2)" by force
    from release_tx_cases [OF l] s have "suffix (db_saved c) (db_saved d2)" "db_tables d2 = db_tables c"
      by (cases y; auto simp: suffix_def)+
    with that(1) r l s show ?thesis
      by (cases x; cases y) (auto simp: undo_savepoint_def suffix_def)
  qed
  show ?thesis
  proof (cases r1)
    case (Inl e)
    with 1 open_tx_cases [OF 1] assms(2) show ?thesis by (auto simp: write_savepoint_def Let_def)
  next
    case (Inr u)
    with open_tx_cases [OF 1] have s1: "db_saved c1 = db_tables c # db_saved c" "db_tables c1 = db_tables c"
      by simp_all
    from keeps_openD [OF assms(1) 2] s1 have s2: "suffix (db_tables c # db_saved c) (db_saved c2)" by simp
    note s3 = release_tx_cases [OF 3]
    show ?thesis
    proof (cases "\<exists>x. r2 = Inr x \<and> r3 = Inr ()")
      case True
      then obtain x where x: "r2 = Inr x" "r3 = Inr ()" by blast
      with s2 s3 have "db_saved c3 = db_saved c" by (auto simp: suffix_def)
      moreover from 2 x s1 s3(1) have "done_on operation (db_tables c) x (db_tables c3)"
        unfolding done_on_def by (intro exI [of _ c1] exI [of _ c2]) simp
      moreover from 1 2 3 Inr x assms(2) have "r = Inr x" "c' = c3"
        by (simp_all add: write_savepoint_def Let_def)
      ultimately show ?thesis by simp
    next
      case False
      from s3 s2 have "suffix (db_tables c # db_saved c) (db_saved c3)" if "r3 = Inl e" for e
        using that by simp
      moreover from 1 2 3 Inr False assms(2) have
        "(\<exists>e. r2 = Inl e \<and> undo_savepoint ?n e c2 = (r, c')) \<or> (\<exists>e. r3 = Inl e \<and> undo_savepoint ?n e c3 = (r, c'))"
        by (cases r2; cases r3) (auto simp: write_savepoint_def Let_def)
      ultimately show ?thesis using undone [OF _ s2] undone by fastforce
    qed
  qed
qed

lemma run_transaction_atomic:
  assumes "keeps_open operation" "run_transaction operation c = (r, c')"
  shows "suffix (db_saved c) (db_saved c') \<and>
    (case r of Inr x \<Rightarrow> db_saved c' = db_saved c \<and> done_on operation (db_tables c) x (db_tables c')
     | Inl e \<Rightarrow> db_tables c' = db_tables c \<and> (\<not> in_transaction c \<longrightarrow> \<not> in_transaction c'))"
  using assms(2) write_savepoint_atomic [OF assms(1), of c r c']
    write_attempts_atomic [OF assms(1), of c sqlite_write_retries sqlite_write_retry_initial_seconds r c']
  by (cases "in_transaction c"; cases r) (auto simp: run_transaction_def in_transaction_def)

lemma keeps_open_run_transaction [intro]: "keeps_open operation \<Longrightarrow> keeps_open (run_transaction operation)"
  using run_transaction_atomic unfolding keeps_open_def [of "run_transaction operation"]
  by (metis prod.collapse)

lemma keeps_open_write: "keeps_open (write_transaction operation)"
proof -
  have "write_transaction operation = run_transaction (on_tables operation)"
    by (simp add: write_transaction_def fun_eq_iff)
  with keeps_open_run_transaction [OF keeps_open_on_tables] show ?thesis by metis
qed

interpretation sqlite: atomic_writes write_transaction db_tables
proof
  fix operation :: "'a \<Rightarrow> 'b result \<times> 'a" and c x c'
  assume "write_transaction operation c = (Inr x, c')"
  from run_transaction_atomic [OF keeps_open_on_tables this [unfolded write_transaction_def]]
  show "operation (db_tables c) = (Inr x, db_tables c')" by simp
next
  fix operation :: "'a \<Rightarrow> 'b result \<times> 'a" and c e c'
  assume "write_transaction operation c = (Inl e, c')"
  from run_transaction_atomic [OF keeps_open_on_tables this [unfolded write_transaction_def]]
  show "db_tables c' = db_tables c" by simp
qed

section \<open>Retries\<close>

text \<open>The delays slept by \<open>n\<close> retries that start at \<open>b\<close>.\<close>

fun backoffs :: "nat \<Rightarrow> seconds \<Rightarrow> seconds list" where
  "backoffs 0 b = []"
| "backoffs (Suc n) b = b # backoffs n (b * 2)"

text \<open>
  How a round of the loop moves through the schedule: the operations of the stores take no entries,
  so it is the one of \<open>BEGIN\<close>.
\<close>

lemma open_tx_frame [simp]:
  "db_faults (snd (open_tx c)) = drop 1 (db_faults c)" "db_slept (snd (open_tx c)) = db_slept c"
  by (cases "db_faults c"; auto simp: open_tx_def next_fault_def pop_fault_def split: option.split)+

lemma on_tables_frame [simp]:
  "db_faults (snd (on_tables operation c)) = db_faults c" "db_slept (snd (on_tables operation c)) = db_slept c"
  "db_saved (snd (on_tables operation c)) = db_saved c"
  by (simp_all add: on_tables_def split: prod.split)

lemma release_tx_frame [simp]:
  "db_faults (snd (release_tx n c)) = db_faults c" "db_slept (snd (release_tx n c)) = db_slept c"
  by (auto simp: release_tx_def split: prod.split option.split)

lemma rollback_frame [simp]:
  "db_faults (snd (rollback_to n c)) = db_faults c" "db_slept (snd (rollback_to n c)) = db_slept c"
  "db_faults (snd (rollback_quietly c)) = db_faults c" "db_slept (snd (rollback_quietly c)) = db_slept c"
  by (auto simp: rollback_to_def rollback_quietly_def rollback_tx_def split: prod.split sum.split)

text \<open>Both are kept by everything that is done after the beginning.\<close>

definition spent :: "'t conn \<Rightarrow> exn option list \<times> seconds list" where
  "spent c = (db_faults c, db_slept c)"

lemma spent_frame [simp]:
  "spent (snd (on_tables operation c)) = spent c" "spent (snd (release_tx n c)) = spent c"
  "spent (snd (commit_tx c)) = spent c" "spent (snd (rollback_to n c)) = spent c"
  "spent (snd (rollback_quietly c)) = spent c"
  "spent (snd (open_tx c)) = (drop 1 (db_faults c), db_slept c)"
  by (simp_all add: spent_def commit_tx_def)

lemma seqw_spent:
  "spent (snd p) = k \<Longrightarrow> (\<And>x c. spent c = k \<Longrightarrow> spent (snd (f x c)) = k) \<Longrightarrow> spent (snd (seqw p f)) = k"
  by (rule seqw_keeps)

lemma attempt_spent: "spent (snd (attempt (on_tables operation) c)) = (drop 1 (db_faults c), db_slept c)"
proof -
  let ?p = "seqw (open_tx c) (\<lambda>_ c. seqw (on_tables operation c) (\<lambda>x c. seqw (commit_tx c) (\<lambda>_ c. (Inr x, c))))"
  have p: "spent (snd ?p) = (drop 1 (db_faults c), db_slept c)"
    by (intro seqw_spent) simp_all
  show ?thesis
  proof (cases ?p)
    case (Pair r d)
    with p have d: "spent d = (drop 1 (db_faults c), db_slept c)" by simp
    have "spent (snd (seqw (rollback_quietly d) (\<lambda>_ c. (Inl e, c)))) = spent d" for e
      by (rule seqw_spent) simp_all
    with Pair d show ?thesis by (cases r) (simp_all add: attempt_def)
  qed
qed

lemma undo_savepoint_spent [simp]: "spent (snd (undo_savepoint n e d)) = spent d"
proof -
  have "spent (snd (seqw (rollback_to n d) (\<lambda>_ c. release_tx n c))) = spent d"
    by (rule seqw_spent) simp_all
  then show ?thesis
    by (cases "seqw (rollback_to n d) (\<lambda>_ c. release_tx n c)"; cases "fst (seqw (rollback_to n d) (\<lambda>_ c. release_tx n c))")
      (simp_all add: undo_savepoint_def)
qed

lemma write_savepoint_spent:
  "spent (snd (write_savepoint (on_tables operation) c)) = (drop 1 (db_faults c), db_slept c)"
proof -
  have body: "spent (snd (seqw (on_tables operation d) (\<lambda>x c. seqw (release_tx n c) (\<lambda>_ c. (Inr x, c))))) = spent d"
    for n d by (intro seqw_spent) simp_all
  show ?thesis
    unfolding write_savepoint_def Let_def
  proof (rule seqw_spent)
    fix c1 :: "'a conn"
    assume c1: "spent c1 = (drop 1 (db_faults c), db_slept c)"
    let ?n = "length (db_saved c)"
    obtain r c2 where b: "seqw (on_tables operation c1) (\<lambda>x c. seqw (release_tx ?n c) (\<lambda>_ c. (Inr x, c))) = (r, c2)"
      by force
    from body [of c1 ?n] b c1
    show "spent (snd (case seqw (on_tables operation c1) (\<lambda>x c. seqw (release_tx ?n c) (\<lambda>_ c. (Inr x, c))) of
          (Inr x, c') \<Rightarrow> (Inr x, c')
        | (Inl e, c') \<Rightarrow> undo_savepoint ?n e c')) = (drop 1 (db_faults c), db_slept c)"
      by (cases r) simp_all
  qed simp
qed

lemma write_attempts_spent:
  "\<exists>k ds. k \<le> Suc n \<and> prefix ds (backoffs n b)
     \<and> spent (snd (write_attempts n b (on_tables operation) c)) = (drop k (db_faults c), db_slept c @ ds)"
proof (induction n arbitrary: b c)
  case 0
  show ?case using attempt_spent [of operation c]
    by (subst write_attempts.simps)
      (auto split: prod.splits sum.splits intro!: exI [of _ 1])
next
  case (Suc n)
  obtain r d where a: "attempt (on_tables operation) c = (r, d)" by force
  with attempt_spent [of operation c] have d: "db_faults d = drop 1 (db_faults c)" "db_slept d = db_slept c"
    by (simp_all add: spent_def)
  show ?case
  proof (cases "\<exists>e. r = Inl e \<and> is_sqlite_locked e")
    case True
    then obtain e where e: "r = Inl e" "is_sqlite_locked e" by blast
    let ?c = "d\<lparr>db_slept := db_slept d @ [b]\<rparr>"
    from Suc.IH [of "b * 2" ?c] obtain k ds where
      "k \<le> Suc n" "prefix ds (backoffs n (b * 2))"
      "spent (snd (write_attempts n (b * 2) (on_tables operation) ?c)) = (drop k (db_faults ?c), db_slept ?c @ ds)"
      by blast
    with a e d show ?thesis
      by (subst write_attempts.simps) (auto intro!: exI [of _ "Suc k"] exI [of _ "b # ds"])
  next
    case False
    with a d show ?thesis
      by (subst write_attempts.simps)
        (auto simp: spent_def split: sum.splits intro!: exI [of _ 1] exI [of _ "[]"])
  qed
qed

lemma open_tx_let_through:
  "db_faults c = None # rest \<Longrightarrow> open_tx c = (Inr (), c\<lparr>db_faults := rest, db_saved := db_tables c # db_saved c\<rparr>)"
  "db_faults c = [] \<Longrightarrow> open_tx c = (Inr (), c\<lparr>db_saved := db_tables c # db_saved c\<rparr>)"
  by (simp_all add: open_tx_def next_fault_def pop_fault_def)

lemma commit_tx_let_through:
  "db_commit_faults c = [] \<Longrightarrow> commit_tx c = (Inr (), c\<lparr>db_saved := []\<rparr>)"
  by (simp add: commit_tx_def release_tx_def next_commit_fault_def pop_fault_def)

text \<open>
  When the first \<open>k\<close> attempts meet a locked database and the next one goes through, the
  operation's own result is returned.
\<close>

lemma write_attempts_recovers:
  assumes "db_faults c = map Some locks @ None # rest" "list_all is_sqlite_locked locks"
    "length locks \<le> n" "operation (db_tables c) = (Inr x, t)" "\<not> in_transaction c" "db_commit_faults c = []"
  shows "\<exists>c'. write_attempts n b (on_tables operation) c = (Inr x, c') \<and> db_tables c' = t \<and> \<not> in_transaction c'"
  using assms
proof (induction locks arbitrary: n b c)
  case Nil
  then show ?case
    by (subst write_attempts.simps)
      (simp add: attempt_def open_tx_let_through commit_tx_let_through on_tables_def in_transaction_def)
next
  case (Cons l locks)
  from Cons.prems(3) obtain m where n: "n = Suc m" by (cases n) auto
  let ?d = "c\<lparr>db_faults := map Some locks @ None # rest, db_slept := db_slept c @ [b]\<rparr>"
  have "attempt (on_tables operation) c = (Inl l, c\<lparr>db_faults := map Some locks @ None # rest\<rparr>)"
    using Cons.prems(1,5)
    by (simp add: attempt_def open_tx_def next_fault_def pop_fault_def rollback_quietly_def rollback_tx_def
        in_transaction_def)
  with Cons.prems(2) n have "write_attempts n b (on_tables operation) c = write_attempts m (b * 2) (on_tables operation) ?d"
    by (subst write_attempts.simps) simp
  moreover have "\<exists>c'. write_attempts m (b * 2) (on_tables operation) ?d = (Inr x, c') \<and> db_tables c' = t \<and> \<not> in_transaction c'"
    by (rule Cons.IH) (use Cons.prems n in \<open>simp_all add: in_transaction_def\<close>)
  ultimately show ?case by simp
qed

text \<open>A write that nothing disturbs.\<close>

lemma undisturbed_write:
  assumes "operation t = (Inr x, t')"
  shows "write_transaction operation (new_conn t []) = (Inr x, new_conn t' [])"
  using assms
  by (subst write_transaction_def)
    (simp add: run_transaction_def in_transaction_def new_conn_def write_attempts.simps [of sqlite_write_retries]
      attempt_def open_tx_let_through commit_tx_let_through on_tables_def)

lemma undisturbed [simp]:
  "\<not> isl (fst (operation t)) \<Longrightarrow>
     write_transaction operation (new_conn t []) = (fst (operation t), new_conn (snd (operation t)) [])"
  "read_query q (new_conn t []) = (Inr (q t), new_conn t [])"
  using undisturbed_write [of operation t "projr (fst (operation t))" "snd (operation t)"]
  by (cases "operation t"; cases "fst (operation t)"; simp)
    (simp add: read_query_def next_fault_def pop_fault_def new_conn_def)

lemma new_conn_sel [simp]: "db_tables (new_conn t fs) = t" "\<not> in_transaction (new_conn t fs)"
  by (simp_all add: new_conn_def in_transaction_def)

section \<open>Properties of the writes\<close>


text \<open>
  Writes may be nested: a write of an operation that itself writes on the connection is all or
  nothing, too. The inner write uses a savepoint.
\<close>

theorem nested_write_atomic:
  assumes "keeps_open before" "\<And>y. keeps_open (after y)"
    and "run_transaction (\<lambda>c. seqw (before c) (\<lambda>x c. seqw (write_transaction (inner x) c) after)) c = (Inl e, c')"
  shows "db_tables c' = db_tables c"
proof -
  have "keeps_open (\<lambda>c. seqw (before c) (\<lambda>x c. seqw (write_transaction (inner x) c) after))"
    by (intro keeps_open_seqw assms keeps_open_write)
  from run_transaction_atomic [OF this assms(3)] show ?thesis by simp
qed

text \<open>
  C29. A write ends: it makes at most four attempts, and what it sleeps between them is a beginning
  of 1/20, 1/10, 1/5 seconds.
\<close>

theorem write_transaction_ends:
  "(\<exists>k \<le> 4. db_faults (snd (write_transaction operation c)) = drop k (db_faults c))
   \<and> (\<exists>ds. prefix ds [1/20, 1/10, 1/5] \<and> db_slept (snd (write_transaction operation c)) = db_slept c @ ds)"
proof (cases "in_transaction c")
  case True
  with write_savepoint_spent [of operation c] show ?thesis
    by (auto simp: write_transaction_def run_transaction_def spent_def intro: exI [of _ 1] exI [of _ "[]"])
next
  case False
  with write_attempts_spent [of sqlite_write_retries sqlite_write_retry_initial_seconds operation c] show ?thesis
    by (auto simp: write_transaction_def run_transaction_def spent_def sqlite_write_retries_def
        sqlite_write_retry_initial_seconds_def eval_nat_numeral)
qed

text \<open>
  A database that is locked by someone else for at most three attempts loses nothing: the write
  succeeds with the result of the operation.
\<close>

theorem locked_database_recovers:
  assumes "db_faults c = map Some locks @ None # rest" "list_all is_sqlite_locked locks"
    "length locks \<le> 3" "\<not> in_transaction c" "db_commit_faults c = []" "operation (db_tables c) = (Inr x, t)"
  shows "fst (write_transaction operation c) = Inr x
    \<and> db_tables (snd (write_transaction operation c)) = t"
  using write_attempts_recovers [of c locks rest 3 operation x t sqlite_write_retry_initial_seconds] assms
  by (auto simp: write_transaction_def run_transaction_def sqlite_write_retries_def)

theorem locked_database_recovers_witness:
  "let locked = Exn OperationalError (lit ''database is locked'');
       c = new_conn (0::nat) [Some locked, Some locked, Some locked, None]
   in fst (write_transaction (\<lambda>t. (Inr (), t + 1)) c) = Inr ()
      \<and> db_tables (snd (write_transaction (\<lambda>t. (Inr (), t + 1)) c)) = 1"
proof -
  have l: "is_sqlite_locked (Exn OperationalError (lit ''database is locked''))"
    by (simp add: is_sqlite_locked_def lower_def lower_cp_def lit_def starts_with_def Let_def)
  let ?l = "Exn OperationalError (lit ''database is locked'')"
  show ?thesis
    using locked_database_recovers [of "new_conn (0::nat) [Some ?l, Some ?l, Some ?l, None]"
        "[?l, ?l, ?l]" "[]" "\<lambda>t. (Inr (), t + 1)" "()" 1] l
    by (simp add: new_conn_def in_transaction_def Let_def)
qed

end
