(* ===== verification/Audit_Events.thy ===== *)
theory Audit_Events
  imports Messages PyTime Sqlite
begin

text \<open>
  \<open>storage/normalized_audit.py\<close>: the key that turns identifiers into references, the audit
  events, the allow-list of their metadata, and the validation that every event passes before
  it is written. The digests of \<open>hashlib\<close> and \<open>hmac\<close> are parameters (\<open>crypto\<close>), so what is
  proved holds for every digest; where collisions would matter a theorem says so.
\<close>

section \<open>Digests and the audit key\<close>

text \<open>\<open>sha256(b).hexdigest()\<close> and \<open>hmac.new(key, b, sha256).hexdigest()\<close>.\<close>

record crypto =
  cr_sha256 :: "bytes \<Rightarrow> str"
  cr_hmac :: "bytes \<Rightarrow> bytes \<Rightarrow> str"

definition sha256_text :: "crypto \<Rightarrow> str \<Rightarrow> str result" where
  "sha256_text cr t = bind_result (encode t) (\<lambda>b. Inr (cr_sha256 cr b))"

record audit_key =
  ak_key :: bytes
  ak_key_id :: str

definition audit_key_min_bytes :: nat where
  "audit_key_min_bytes = 32"

text \<open>
  \<open>AuditKey(key, key_id)\<close>. \<open>str.isalnum\<close> of one character is the argument \<open>isalnum\<close>.
\<close>

definition make_audit_key :: "crypto \<Rightarrow> (nat \<Rightarrow> bool) \<Rightarrow> bytes \<Rightarrow> str option \<Rightarrow> audit_key result" where
  "make_audit_key cr isalnum key key_id =
     (if length key < audit_key_min_bytes
      then raise AuditKeyError ''audit key must be at least 32 bytes''
      else
        (case key_id of
           None \<Rightarrow>
             Inr \<lparr>ak_key = key,
                  ak_key_id = take 16 (cr_sha256 cr (lit ''audit-key-id:v1'' @ [0] @ key))\<rparr>
         | Some i \<Rightarrow>
             if i \<noteq> [] \<and> list_all (\<lambda>c. isalnum c \<or> c = 45 \<or> c = 95) i
             then Inr \<lparr>ak_key = key, ak_key_id = i\<rparr>
             else raise AuditKeyError ''audit key_id is invalid''))"

text \<open>\<open>_reference\<close>: a keyed digest of the material, with the identifier of the key.\<close>

definition key_reference :: "crypto \<Rightarrow> audit_key \<Rightarrow> str \<Rightarrow> str result" where
  "key_reference cr k material =
     bind_result (encode material) (\<lambda>b.
       Inr (lit ''hmac-sha256:v1:'' @ ak_key_id k @ [58] @ cr_hmac cr (ak_key k) b))"

definition sender_ref_hash :: "crypto \<Rightarrow> audit_key \<Rightarrow> str \<Rightarrow> str result" where
  "sender_ref_hash cr k sender_id = key_reference cr k (lit ''sender-ref:v1'' @ [0] @ sender_id)"

definition message_ref_hash :: "crypto \<Rightarrow> audit_key \<Rightarrow> str \<Rightarrow> str \<Rightarrow> str \<Rightarrow> str result" where
  "message_ref_hash cr k transport room_id message_id =
     key_reference cr k
       (lit ''message-ref:v1'' @ [0] @ transport @ [0] @ room_id @ [0] @ message_id)"

section \<open>Event types and their metadata\<close>

datatype event_type =
    MESSAGE_RECEIVED
  | MESSAGE_IGNORED
  | COMMAND_PARSED
  | COMMAND_AUTHORIZATION
  | COMMAND_EXECUTION
  | RESPONSE_SENT
  | RESPONSE_FAILED
  | BRIDGE_MESSAGE_RECEIVED
  | BRIDGE_MESSAGE_FORWARDED
  | BRIDGE_MESSAGE_IGNORED
  | BRIDGE_MESSAGE_FAILED
  | BRIDGE_RUNTIME_OVERRIDE_REQUESTED
  | BRIDGE_RUNTIME_OVERRIDE_APPLIED
  | BRIDGE_RUNTIME_OVERRIDE_DENIED
  | BRIDGE_RUNTIME_OVERRIDE_RESET

fun event_type_value :: "event_type \<Rightarrow> str" where
  "event_type_value MESSAGE_RECEIVED = lit ''message.received''"
| "event_type_value MESSAGE_IGNORED = lit ''message.ignored''"
| "event_type_value COMMAND_PARSED = lit ''command.parsed''"
| "event_type_value COMMAND_AUTHORIZATION = lit ''command.authorization''"
| "event_type_value COMMAND_EXECUTION = lit ''command.execution''"
| "event_type_value RESPONSE_SENT = lit ''response.sent''"
| "event_type_value RESPONSE_FAILED = lit ''response.failed''"
| "event_type_value BRIDGE_MESSAGE_RECEIVED = lit ''bridge.message.received''"
| "event_type_value BRIDGE_MESSAGE_FORWARDED = lit ''bridge.message.forwarded''"
| "event_type_value BRIDGE_MESSAGE_IGNORED = lit ''bridge.message.ignored''"
| "event_type_value BRIDGE_MESSAGE_FAILED = lit ''bridge.message.failed''"
| "event_type_value BRIDGE_RUNTIME_OVERRIDE_REQUESTED = lit ''bridge.runtime_override.requested''"
| "event_type_value BRIDGE_RUNTIME_OVERRIDE_APPLIED = lit ''bridge.runtime_override.applied''"
| "event_type_value BRIDGE_RUNTIME_OVERRIDE_DENIED = lit ''bridge.runtime_override.denied''"
| "event_type_value BRIDGE_RUNTIME_OVERRIDE_RESET = lit ''bridge.runtime_override.reset''"

fun metadata_allowlist :: "event_type \<Rightarrow> str list" where
  "metadata_allowlist MESSAGE_RECEIVED =
     [lit ''channel_index'', lit ''message_id_present'', lit ''identity_kind'', lit ''identity_stable'']"
| "metadata_allowlist MESSAGE_IGNORED =
     [lit ''channel_index'', lit ''ignore_reason'', lit ''deduplication_result'', lit ''rate_limit_result'']"
| "metadata_allowlist COMMAND_PARSED = [lit ''parse_result'', lit ''argument_count'']"
| "metadata_allowlist COMMAND_AUTHORIZATION =
     [lit ''authorization_result'', lit ''authorization_reason'']"
| "metadata_allowlist COMMAND_EXECUTION =
     [lit ''command_result'', lit ''entities_queried'', lit ''entities_available'',
      lit ''safe_failure_reason'']"
| "metadata_allowlist RESPONSE_SENT = [lit ''transport_service'', lit ''response_length'']"
| "metadata_allowlist RESPONSE_FAILED = [lit ''transport_service'']"
| "metadata_allowlist BRIDGE_MESSAGE_RECEIVED =
     [lit ''direction'', lit ''source_transport'', lit ''destination_transport'', lit ''size_bytes'']"
| "metadata_allowlist BRIDGE_MESSAGE_FORWARDED =
     [lit ''direction'', lit ''source_transport'', lit ''destination_transport'', lit ''result'',
      lit ''size_bytes'', lit ''truncated'']"
| "metadata_allowlist BRIDGE_MESSAGE_IGNORED =
     [lit ''direction'', lit ''source_transport'', lit ''destination_transport'', lit ''reason'',
      lit ''size_bytes'', lit ''truncated'']"
| "metadata_allowlist BRIDGE_MESSAGE_FAILED =
     [lit ''direction'', lit ''source_transport'', lit ''destination_transport'', lit ''result'',
      lit ''reason'', lit ''size_bytes'', lit ''truncated'']"
| "metadata_allowlist BRIDGE_RUNTIME_OVERRIDE_REQUESTED =
     [lit ''operation'', lit ''target'', lit ''requested_value'', lit ''transport'']"
| "metadata_allowlist BRIDGE_RUNTIME_OVERRIDE_APPLIED =
     [lit ''operation'', lit ''target'', lit ''previous_value'', lit ''new_value'',
      lit ''override_value'', lit ''transport'', lit ''result'']"
| "metadata_allowlist BRIDGE_RUNTIME_OVERRIDE_DENIED =
     [lit ''operation'', lit ''target'', lit ''requested_value'', lit ''transport'', lit ''reason'']"
| "metadata_allowlist BRIDGE_RUNTIME_OVERRIDE_RESET =
     [lit ''operation'', lit ''target'', lit ''previous_value'', lit ''new_value'',
      lit ''override_value'', lit ''transport'', lit ''result'']"

definition command_parse_results :: "str list" where
  "command_parse_results =
     [lit ''recognized'', lit ''unknown'', lit ''malformed'', lit ''not_a_command'']"

definition audit_metadata_max_bytes :: nat where
  "audit_metadata_max_bytes = 4096"

definition audit_metadata_max_depth :: nat where
  "audit_metadata_max_depth = 4"

definition audit_metadata_max_string_length :: nat where
  "audit_metadata_max_string_length = 256"

definition audit_metadata_max_items :: nat where
  "audit_metadata_max_items = 32"

text \<open>
  \<open>_validate_metadata_value\<close>: depth, string length and container size; the two companions
  are its loops over an object's entries and an array's elements.
\<close>

fun validate_value :: "nat \<Rightarrow> json \<Rightarrow> unit result"
  and validate_entries :: "nat \<Rightarrow> (str \<times> json) list \<Rightarrow> unit result"
  and validate_elements :: "nat \<Rightarrow> json list \<Rightarrow> unit result" where
  "validate_value depth v =
     (if depth > audit_metadata_max_depth then raise ValueError ''metadata exceeds maximum depth''
      else
        (case v of
           JStr s \<Rightarrow> check (length s \<le> audit_metadata_max_string_length) ValueError
                      (lit ''metadata string exceeds maximum length'')
         | JObj kvs \<Rightarrow>
             if length kvs > audit_metadata_max_items
             then raise ValueError ''metadata object has too many keys''
             else validate_entries depth kvs
         | JArr xs \<Rightarrow>
             if length xs > audit_metadata_max_items
             then raise ValueError ''metadata array has too many elements''
             else validate_elements depth xs
         | _ \<Rightarrow> Inr ()))"
| "validate_entries depth [] = Inr ()"
| "validate_entries depth ((k, v) # kvs) =
     (if length k > audit_metadata_max_string_length
      then raise ValueError ''metadata key exceeds maximum length''
      else bind_result (validate_value (depth + 1) v) (\<lambda>_. validate_entries depth kvs))"
| "validate_elements depth [] = Inr ()"
| "validate_elements depth (x # xs) =
     bind_result (validate_value (depth + 1) x) (\<lambda>_. validate_elements depth xs)"

definition validate_metadata :: "event_type \<Rightarrow> json \<Rightarrow> json result" where
  "validate_metadata ty m =
     (if \<not> is_mapping m then raise ValueError ''metadata must be a mapping''
      else if \<not> list_all (\<lambda>kv. fst kv \<in> set (metadata_allowlist ty)) (obj_items m)
      then raise ValueError ''metadata contains unknown keys''
      else if ty = COMMAND_PARSED
              \<and> jget_null (obj_items m) (lit ''parse_result'') \<notin> JStr ` set command_parse_results
      then raise ValueError ''metadata parse_result is invalid''
      else
        bind_result (validate_value 0 m) (\<lambda>_.
          if length (dumps_compact (json_sort m)) > audit_metadata_max_bytes
          then raise ValueError ''metadata_json exceeds maximum size''
          else Inr m))"

definition canonical_metadata_json :: "event_type \<Rightarrow> json \<Rightarrow> str result" where
  "canonical_metadata_json ty m =
     bind_result (validate_metadata ty m) (\<lambda>v. Inr (dumps_compact (json_sort v)))"

section \<open>Events\<close>

record audit_event =
  ae_event_type :: event_type
  ae_correlation_id :: str
  ae_transport :: str
  ae_source_room_id :: str
  ae_source_room_kind :: str
  ae_sender_stable :: bool
  ae_event_id :: str
  ae_causation_event_id :: "str option"
  ae_reply_target_transport :: "str option"
  ae_reply_target_room_id :: "str option"
  ae_reply_target_room_kind :: "str option"
  ae_sender_ref_hash :: "str option"
  ae_sender_identity_kind :: "str option"
  ae_message_ref_hash :: "str option"
  ae_command_name :: "str option"
  ae_command_result :: "str option"
  ae_duration_ms :: "int option"
  ae_metadata :: json
  ae_occurred_at :: instant
  ae_schema_version :: int

definition normalized_audit_schema_version :: int where
  "normalized_audit_schema_version = 1"

text \<open>What an event says beside its message: the keyword arguments of \<open>from_inbound\<close>.\<close>

record event_args =
  ea_metadata :: json
  ea_command_name :: "str option"
  ea_command_result :: "str option"
  ea_duration_ms :: "int option"
  ea_causation_event_id :: "str option"

definition plain_args :: "json \<Rightarrow> str option \<Rightarrow> event_args" where
  "plain_args m cause =
     \<lparr>ea_metadata = m, ea_command_name = None, ea_command_result = None, ea_duration_ms = None,
      ea_causation_event_id = cause\<rparr>"

text \<open>A computation on an optional value, \<open>f(x) if x is not None else None\<close>.\<close>

definition opt_result :: "('a \<Rightarrow> 'b result) \<Rightarrow> 'a option \<Rightarrow> 'b option result" where
  "opt_result f x = (case x of None \<Rightarrow> Inr None | Some a \<Rightarrow> bind_result (f a) (\<lambda>b. Inr (Some b)))"

definition new_event_id :: "str \<Rightarrow> str" where
  "new_event_id uuid = lit ''evt:'' @ uuid"

definition event_from_message ::
    "crypto \<Rightarrow> audit_key \<Rightarrow> str \<Rightarrow> event_type \<Rightarrow> inbound_message \<Rightarrow> str option \<Rightarrow> event_args
       \<Rightarrow> audit_event result" where
  "event_from_message cr k uuid ty m correlation_id args =
     (case im_source_room m of
        None \<Rightarrow> raise ValueError ''normalized audit requires source_room''
      | Some room \<Rightarrow>
          (case (if present correlation_id then correlation_id
                 else map_option mi_correlation_id (im_message m)) of
             None \<Rightarrow> raise ValueError
                        ''normalized audit requires MessageIdentity or explicit correlation_id''
           | Some corr \<Rightarrow>
               (let platform_message_id =
                      (case im_message m of Some i \<Rightarrow> mi_message_id i | None \<Rightarrow> im_message_id m)
                in
                bind_result (opt_result (\<lambda>s. sender_ref_hash cr k (si_sender_id s)) (im_sender m))
                  (\<lambda>sender_ref.
                bind_result
                  (if present platform_message_id
                   then bind_result (message_ref_hash cr k (rr_transport room) (rr_room_id room)
                                       (the platform_message_id)) (\<lambda>h. Inr (Some h))
                   else Inr None) (\<lambda>message_ref.
                  Inr \<lparr>ae_event_type = ty, ae_correlation_id = corr,
                       ae_transport = rr_transport room, ae_source_room_id = rr_room_id room,
                       ae_source_room_kind = rr_room_kind room,
                       ae_sender_stable =
                         (case im_sender m of Some s \<Rightarrow> si_stable s | None \<Rightarrow> False),
                       ae_event_id = new_event_id uuid,
                       ae_causation_event_id = ea_causation_event_id args,
                       ae_reply_target_transport = map_option rr_transport (im_reply_target m),
                       ae_reply_target_room_id = map_option rr_room_id (im_reply_target m),
                       ae_reply_target_room_kind = map_option rr_room_kind (im_reply_target m),
                       ae_sender_ref_hash = sender_ref,
                       ae_sender_identity_kind = map_option si_identity_kind (im_sender m),
                       ae_message_ref_hash = message_ref,
                       ae_command_name = ea_command_name args,
                       ae_command_result = ea_command_result args,
                       ae_duration_ms = ea_duration_ms args,
                       ae_metadata = ea_metadata args,
                       ae_occurred_at = im_received_at m,
                       ae_schema_version = normalized_audit_schema_version\<rparr>)))))"

section \<open>Validation of an event\<close>

definition is_lower_hex :: "nat \<Rightarrow> bool" where
  "is_lower_hex c \<longleftrightarrow> 48 \<le> c \<and> c \<le> 57 \<or> 97 \<le> c \<and> c \<le> 102"

definition is_key_id_char :: "nat \<Rightarrow> bool" where
  "is_key_id_char c \<longleftrightarrow> 48 \<le> c \<and> c \<le> 57 \<or> 65 \<le> c \<and> c \<le> 90 \<or> 97 \<le> c \<and> c \<le> 122 \<or> c = 45 \<or> c = 95"

text \<open>The pattern \<open>p[0-9a-f]{n}\<close>, matched to the end.\<close>

definition matches_prefixed_hex :: "str \<Rightarrow> nat \<Rightarrow> str \<Rightarrow> bool" where
  "matches_prefixed_hex p n t \<longleftrightarrow>
     starts_with t p \<and> length t = length p + n \<and> list_all is_lower_hex (drop (length p) t)"

definition matches_event_id :: "str \<Rightarrow> bool" where
  "matches_event_id t = matches_prefixed_hex (lit ''evt:'') 32 t"

definition matches_correlation_id :: "str \<Rightarrow> bool" where
  "matches_correlation_id t = matches_prefixed_hex (lit ''corr:'') 32 t"

text \<open>\<open>AUDIT_REFERENCE_PATTERN\<close>: the key identifier of a reference, if it is one.\<close>

definition reference_key_id :: "str \<Rightarrow> str option" where
  "reference_key_id t =
     (let p = lit ''hmac-sha256:v1:'' in
      if \<not> starts_with t p then None
      else
        (let rest = drop (length p) t;
             key_id = takeWhile is_key_id_char rest;
             tail = drop (length key_id) rest
         in if key_id \<noteq> [] \<and> matches_prefixed_hex [58] 64 tail then Some key_id else None))"

definition validate_required_text :: "str \<Rightarrow> str \<Rightarrow> unit result" where
  "validate_required_text v name =
     check (v \<noteq> [] \<and> strip v \<noteq> []) ValueError (name @ lit '' must not be empty'')"

definition validate_reference_format :: "str \<Rightarrow> str \<Rightarrow> str result" where
  "validate_reference_format v name =
     (case reference_key_id v of
        None \<Rightarrow> Inl (Exn ValueError (name @ lit '' has invalid audit reference format''))
      | Some i \<Rightarrow> Inr i)"

definition validate_reference_key_id :: "str option \<Rightarrow> str \<Rightarrow> str \<Rightarrow> unit result" where
  "validate_reference_key_id v expected name =
     (case v of
        None \<Rightarrow> Inr ()
      | Some r \<Rightarrow>
          bind_result (validate_reference_format r name) (\<lambda>i.
            check (i = expected) ValueError (name @ lit '' key_id does not match audit key'')))"

text \<open>A validator applied to an optional field.\<close>

definition validate_opt :: "('a \<Rightarrow> 'b result) \<Rightarrow> 'a option \<Rightarrow> unit result" where
  "validate_opt f v = (case v of None \<Rightarrow> Inr () | Some x \<Rightarrow> bind_result (f x) (\<lambda>_. Inr ()))"

definition validate_event_identity :: "audit_event \<Rightarrow> unit result" where
  "validate_event_identity e =
     bind_result (check (ae_schema_version e = normalized_audit_schema_version) ValueError
         (lit ''normalized audit schema_version is unsupported'')) (\<lambda>_.
     bind_result (check (matches_event_id (ae_event_id e)) ValueError
         (lit ''event_id has invalid format'')) (\<lambda>_.
     bind_result (check (matches_correlation_id (ae_correlation_id e)) ValueError
         (lit ''correlation_id has invalid format'')) (\<lambda>_.
     bind_result (validate_opt (\<lambda>c. check (matches_event_id c) ValueError
         (lit ''causation_event_id has invalid format'')) (ae_causation_event_id e)) (\<lambda>_.
     bind_result (validate_opt (\<lambda>d. check (0 \<le> d) ValueError
         (lit ''duration_ms must be greater than or equal to zero'')) (ae_duration_ms e)) (\<lambda>_.
     bind_result (validate_required_text (ae_transport e) (lit ''transport'')) (\<lambda>_.
     bind_result (validate_required_text (ae_source_room_id e) (lit ''source_room_id'')) (\<lambda>_.
     bind_result (validate_required_text (ae_source_room_kind e) (lit ''source_room_kind'')) (\<lambda>_.
     bind_result (validate_opt (\<lambda>t. validate_required_text t (lit ''reply_target_transport''))
         (ae_reply_target_transport e)) (\<lambda>_.
     bind_result (validate_opt (\<lambda>t. validate_required_text t (lit ''reply_target_room_id''))
         (ae_reply_target_room_id e)) (\<lambda>_.
     bind_result (validate_opt (\<lambda>t. validate_required_text t (lit ''reply_target_room_kind''))
         (ae_reply_target_room_kind e)) (\<lambda>_.
     bind_result (validate_opt (\<lambda>t. validate_reference_format t (lit ''sender_ref_hash''))
         (ae_sender_ref_hash e)) (\<lambda>_.
     bind_result (validate_opt (\<lambda>t. validate_reference_format t (lit ''message_ref_hash''))
         (ae_message_ref_hash e)) (\<lambda>_.
     bind_result (canonical_metadata_json (ae_event_type e) (ae_metadata e)) (\<lambda>_.
       Inr ()))))))))))))))"

definition validate_event :: "audit_key \<Rightarrow> audit_event \<Rightarrow> unit result" where
  "validate_event k e =
     bind_result (validate_event_identity e) (\<lambda>_.
     bind_result (validate_reference_key_id (ae_sender_ref_hash e) (ak_key_id k)
         (lit ''sender_ref_hash'')) (\<lambda>_.
       validate_reference_key_id (ae_message_ref_hash e) (ak_key_id k) (lit ''message_ref_hash'')))"

section \<open>Facts\<close>

lemma validate_metadata_allowlist:
  "validate_metadata ty m = Inr v \<Longrightarrow>
     v = m \<and> is_mapping m \<and> set (map fst (obj_items m)) \<subseteq> set (metadata_allowlist ty)
     \<and> length (dumps_compact (json_sort m)) \<le> audit_metadata_max_bytes"
  by (auto simp: validate_metadata_def bind_result_Inr_iff list_all_iff split: if_splits)

lemma event_from_message_fields:
  assumes "event_from_message cr k uuid ty m corr args = Inr e"
  shows "ae_event_type e = ty" "ae_metadata e = ea_metadata args"
    "ae_event_id e = new_event_id uuid" "ae_causation_event_id e = ea_causation_event_id args"
    "ae_command_name e = ea_command_name args" "ae_command_result e = ea_command_result args"
  using assms by (auto simp: event_from_message_def Let_def bind_result_Inr_iff split: option.splits)

end
