(* ===== verification/Bridge_Health.thy ===== *)
theory Bridge_Health
  imports PyJson PyTime
begin

text \<open>
  \<open>bridge_health.py\<close>: the counters and connection states of the bridge, the runtime overrides
  of its configuration, what is reported of them, and when a change is critical. An operation
  takes one reading \<open>now\<close> of the clock, where the program reads it a few times in a row. The
  change callback is represented by the flags it was called with, and the health file by the
  texts that were handed to its atomic replacement, which \<open>Health_File\<close> models.
\<close>

section \<open>State and snapshots\<close>

definition safe_failure_reasons :: "str list" where
  "safe_failure_reasons =
     [lit ''none'', lit ''database_locked'', lit ''storage_error'', lit ''transport_error'',
      lit ''transport_timeout'', lit ''transport_service_error'', lit ''rate_limited'',
      lit ''consumer_conflict'', lit ''websocket_disconnected'', lit ''telegram_disabled'',
      lit ''telegram_not_configured'', lit ''shutdown'']"

record health_snapshot =
  bs_version :: str
  bs_started_at :: instant
  bs_uptime_seconds :: int
  bs_ha_websocket_state :: str
  bs_meshcore_transport_state :: str
  bs_telegram_polling_state :: str
  bs_telegram_enabled :: bool
  bs_configured_telegram_to_meshcore :: bool
  bs_configured_meshcore_to_telegram :: bool
  bs_configured_confirmation :: bool
  bs_telegram_to_meshcore :: bool
  bs_meshcore_to_telegram :: bool
  bs_confirmation :: bool
  bs_override_telegram_to_meshcore :: "bool option"
  bs_override_meshcore_to_telegram :: "bool option"
  bs_override_confirmation :: "bool option"
  bs_last_tg_to_mc :: "instant option"
  bs_last_mc_to_tg :: "instant option"
  bs_last_failure :: "instant option"
  bs_last_failure_reason :: str
  bs_tg_to_mc_success :: int
  bs_tg_to_mc_failed :: int
  bs_mc_to_tg_success :: int
  bs_mc_to_tg_failed :: int
  bs_commands_processed :: int
  bs_audit_db_health :: str
  bs_telegram_db_health :: str

record health =
  hs_version :: str
  hs_healthcheck_path :: "str option"
  hs_started_at :: instant
  hs_ha_websocket_state :: str
  hs_meshcore_transport_state :: str
  hs_telegram_polling_state :: str
  hs_telegram_enabled :: bool
  hs_configured_telegram_to_meshcore :: bool
  hs_configured_meshcore_to_telegram :: bool
  hs_configured_confirmation :: bool
  hs_override_telegram_to_meshcore :: "bool option"
  hs_override_meshcore_to_telegram :: "bool option"
  hs_override_confirmation :: "bool option"
  hs_last_tg_to_mc :: "instant option"
  hs_last_mc_to_tg :: "instant option"
  hs_last_failure :: "instant option"
  hs_last_failure_reason :: str
  hs_tg_to_mc_success :: int
  hs_tg_to_mc_failed :: int
  hs_mc_to_tg_success :: int
  hs_mc_to_tg_failed :: int
  hs_commands_processed :: int
  hs_audit_db_health :: str
  hs_telegram_db_health :: str
  hs_change_callback :: bool
  hs_notified :: "bool list"
  hs_written :: "str list"

definition new_health :: "str \<Rightarrow> str option \<Rightarrow> instant \<Rightarrow> health" where
  "new_health version path started_at =
     \<lparr>hs_version = version, hs_healthcheck_path = path, hs_started_at = started_at,
      hs_ha_websocket_state = lit ''disconnected'',
      hs_meshcore_transport_state = lit ''disconnected'',
      hs_telegram_polling_state = lit ''disabled'', hs_telegram_enabled = False,
      hs_configured_telegram_to_meshcore = False, hs_configured_meshcore_to_telegram = False,
      hs_configured_confirmation = False, hs_override_telegram_to_meshcore = None,
      hs_override_meshcore_to_telegram = None, hs_override_confirmation = None,
      hs_last_tg_to_mc = None, hs_last_mc_to_tg = None, hs_last_failure = None,
      hs_last_failure_reason = lit ''none'', hs_tg_to_mc_success = 0, hs_tg_to_mc_failed = 0,
      hs_mc_to_tg_success = 0, hs_mc_to_tg_failed = 0, hs_commands_processed = 0,
      hs_audit_db_health = lit ''ok'', hs_telegram_db_health = lit ''ok'',
      hs_change_callback = False, hs_notified = [], hs_written = []\<rparr>"

text \<open>\<open>configured if override is None else override\<close>.\<close>

definition overridden :: "bool option \<Rightarrow> bool \<Rightarrow> bool" where
  "overridden ov configured = (case ov of None \<Rightarrow> configured | Some v \<Rightarrow> v)"

lemma overridden_simps [simp]: "overridden (Some v) c = v" "overridden None c = c"
  by (simp_all add: overridden_def)

definition effective_value :: "health \<Rightarrow> str \<Rightarrow> bool result" where
  "effective_value h target =
     (if target = lit ''telegram_to_meshcore''
      then Inr (overridden (hs_override_telegram_to_meshcore h) (hs_configured_telegram_to_meshcore h))
      else if target = lit ''meshcore_to_telegram''
      then Inr (overridden (hs_override_meshcore_to_telegram h) (hs_configured_meshcore_to_telegram h))
      else if target = lit ''confirmation''
      then Inr (overridden (hs_override_confirmation h) (hs_configured_confirmation h))
      else raise ValueError ''invalid runtime override target'')"

definition effective_telegram_to_meshcore :: "health \<Rightarrow> bool" where
  "effective_telegram_to_meshcore h =
     overridden (hs_override_telegram_to_meshcore h) (hs_configured_telegram_to_meshcore h)"

definition effective_meshcore_to_telegram :: "health \<Rightarrow> bool" where
  "effective_meshcore_to_telegram h =
     overridden (hs_override_meshcore_to_telegram h) (hs_configured_meshcore_to_telegram h)"

definition effective_forward_confirmation :: "health \<Rightarrow> bool" where
  "effective_forward_confirmation h =
     overridden (hs_override_confirmation h) (hs_configured_confirmation h)"

definition snapshot :: "instant \<Rightarrow> health \<Rightarrow> health_snapshot" where
  "snapshot now h =
     \<lparr>bs_version = hs_version h, bs_started_at = hs_started_at h,
      bs_uptime_seconds = max 0 ((now - hs_started_at h) div 1000000),
      bs_ha_websocket_state = hs_ha_websocket_state h,
      bs_meshcore_transport_state = hs_meshcore_transport_state h,
      bs_telegram_polling_state = hs_telegram_polling_state h,
      bs_telegram_enabled = hs_telegram_enabled h,
      bs_configured_telegram_to_meshcore = hs_configured_telegram_to_meshcore h,
      bs_configured_meshcore_to_telegram = hs_configured_meshcore_to_telegram h,
      bs_configured_confirmation = hs_configured_confirmation h,
      bs_telegram_to_meshcore = effective_telegram_to_meshcore h,
      bs_meshcore_to_telegram = effective_meshcore_to_telegram h,
      bs_confirmation = effective_forward_confirmation h,
      bs_override_telegram_to_meshcore = hs_override_telegram_to_meshcore h,
      bs_override_meshcore_to_telegram = hs_override_meshcore_to_telegram h,
      bs_override_confirmation = hs_override_confirmation h,
      bs_last_tg_to_mc = hs_last_tg_to_mc h, bs_last_mc_to_tg = hs_last_mc_to_tg h,
      bs_last_failure = hs_last_failure h, bs_last_failure_reason = hs_last_failure_reason h,
      bs_tg_to_mc_success = hs_tg_to_mc_success h, bs_tg_to_mc_failed = hs_tg_to_mc_failed h,
      bs_mc_to_tg_success = hs_mc_to_tg_success h, bs_mc_to_tg_failed = hs_mc_to_tg_failed h,
      bs_commands_processed = hs_commands_processed h,
      bs_audit_db_health = hs_audit_db_health h,
      bs_telegram_db_health = hs_telegram_db_health h\<rparr>"

section \<open>What a snapshot says\<close>

definition status :: "health_snapshot \<Rightarrow> str" where
  "status s =
     (if bs_meshcore_transport_state s = lit ''disconnected''
         \<or> bs_telegram_polling_state s = lit ''degraded''
         \<or> bs_audit_db_health s = lit ''degraded''
         \<or> bs_telegram_db_health s = lit ''degraded''
      then lit ''degraded'' else lit ''ok'')"

definition telegram_state :: "health_snapshot \<Rightarrow> str" where
  "telegram_state s =
     (if \<not> bs_telegram_enabled s then lit ''disabled''
      else if bs_telegram_polling_state s = lit ''connected'' then lit ''connected''
      else if bs_telegram_polling_state s \<in> {lit ''disabled'', lit ''disconnected''}
      then lit ''enabled''
      else lit ''degraded'')"

definition jbool_opt :: "bool option \<Rightarrow> json" where
  "jbool_opt b = (case b of None \<Rightarrow> JNull | Some v \<Rightarrow> JBool v)"

definition jstr_opt :: "str option \<Rightarrow> json" where
  "jstr_opt s = (case s of None \<Rightarrow> JNull | Some v \<Rightarrow> JStr v)"

definition forwarding_json :: "str \<Rightarrow> health_snapshot \<Rightarrow> json" where
  "forwarding_json confirmation_key s =
     JObj [(lit ''telegram_to_meshcore'', JBool (bs_telegram_to_meshcore s)),
           (lit ''meshcore_to_telegram'', JBool (bs_meshcore_to_telegram s)),
           (confirmation_key, JBool (bs_confirmation s))]"

definition overrides_json :: "health_snapshot \<Rightarrow> json" where
  "overrides_json s =
     JObj [(lit ''telegram_to_meshcore'', jbool_opt (bs_override_telegram_to_meshcore s)),
           (lit ''meshcore_to_telegram'', jbool_opt (bs_override_meshcore_to_telegram s)),
           (lit ''confirmation'', jbool_opt (bs_override_confirmation s))]"

definition databases_json :: "health_snapshot \<Rightarrow> json" where
  "databases_json s =
     JObj [(lit ''audit'', JStr (bs_audit_db_health s)),
           (lit ''telegram'', JStr (bs_telegram_db_health s))]"

definition counters_json :: "health_snapshot \<Rightarrow> json" where
  "counters_json s =
     JObj [(lit ''tg_to_mc_success'', JInt (bs_tg_to_mc_success s)),
           (lit ''tg_to_mc_failed'', JInt (bs_tg_to_mc_failed s)),
           (lit ''mc_to_tg_success'', JInt (bs_mc_to_tg_success s)),
           (lit ''mc_to_tg_failed'', JInt (bs_mc_to_tg_failed s)),
           (lit ''commands_processed'', JInt (bs_commands_processed s))]"

definition payload_items :: "int \<Rightarrow> jobject \<Rightarrow> health_snapshot \<Rightarrow> jobject" where
  "payload_items channel_index uptime s =
     [(lit ''schema_version'', JInt 1), (lit ''status'', JStr (status s)),
      (lit ''version'', JStr (bs_version s))] @ uptime @
     [(lit ''meshcore'', JStr (bs_meshcore_transport_state s)),
      (lit ''telegram'', JStr (telegram_state s)),
      (lit ''channel'', JInt channel_index),
      (lit ''forwarding'', forwarding_json (lit ''confirmation'') s),
      (lit ''runtime_overrides'', overrides_json s), (lit ''database'', databases_json s),
      (lit ''counters'', counters_json s),
      (lit ''last_activity'',
       JObj [(lit ''telegram_to_meshcore'', jstr_opt (optional_rfc3339 (bs_last_tg_to_mc s))),
             (lit ''meshcore_to_telegram'', jstr_opt (optional_rfc3339 (bs_last_mc_to_tg s)))]),
      (lit ''last_error'',
       JObj [(lit ''timestamp'', jstr_opt (optional_rfc3339 (bs_last_failure s))),
             (lit ''reason'', JStr (bs_last_failure_reason s))])]"

definition event_payload :: "int \<Rightarrow> health_snapshot \<Rightarrow> json" where
  "event_payload channel_index s =
     JObj (payload_items channel_index [(lit ''uptime_seconds'', JInt (bs_uptime_seconds s))] s)"

text \<open>The payload without its uptime, in canonical form.\<close>

definition event_fingerprint :: "int \<Rightarrow> health_snapshot \<Rightarrow> str" where
  "event_fingerprint channel_index s =
     dumps_compact (json_sort (JObj (payload_items channel_index [] s)))"

definition critical_transition_from :: "health_snapshot \<Rightarrow> health_snapshot option \<Rightarrow> bool" where
  "critical_transition_from s previous =
     (case previous of
        None \<Rightarrow> True
      | Some p \<Rightarrow>
          status s \<noteq> status p
          \<or> (bs_meshcore_transport_state s = lit ''disconnected''
             \<and> bs_meshcore_transport_state p \<noteq> lit ''disconnected'')
          \<or> (bs_telegram_polling_state s \<in> {lit ''degraded'', lit ''disconnected''}
             \<and> bs_telegram_polling_state s \<noteq> bs_telegram_polling_state p)
          \<or> bs_last_failure s \<noteq> bs_last_failure p)"

definition health_payload :: "instant \<Rightarrow> health \<Rightarrow> json" where
  "health_payload now h =
     (let s = snapshot now h in
      JObj [(lit ''status'', JStr (status s)), (lit ''version'', JStr (bs_version s)),
            (lit ''updated_at'', JStr (rfc3339 now)),
            (lit ''started_at'', JStr (rfc3339 (bs_started_at s))),
            (lit ''uptime_seconds'', JInt (bs_uptime_seconds s)),
            (lit ''homeassistant_websocket'', JStr (bs_ha_websocket_state s)),
            (lit ''meshcore'', JStr (bs_meshcore_transport_state s)),
            (lit ''telegram'', JStr (telegram_state s)),
            (lit ''forwarding'', forwarding_json (lit ''telegram_confirmation'') s),
            (lit ''runtime_overrides'', overrides_json s),
            (lit ''last_tg_to_mc'', jstr_opt (optional_rfc3339 (bs_last_tg_to_mc s))),
            (lit ''last_mc_to_tg'', jstr_opt (optional_rfc3339 (bs_last_mc_to_tg s))),
            (lit ''last_error'', JStr (bs_last_failure_reason s)),
            (lit ''counters'', counters_json s), (lit ''databases'', databases_json s)])"

section \<open>Changes\<close>

definition write_healthcheck :: "instant \<Rightarrow> health \<Rightarrow> health" where
  "write_healthcheck now h =
     (case hs_healthcheck_path h of
        None \<Rightarrow> h
      | Some path \<Rightarrow>
          if path = [] then h
          else h\<lparr>hs_written := hs_written h @ [dumps_default (json_sort (health_payload now h)) @ [10]]\<rparr>)"

definition after_change :: "instant \<Rightarrow> health_snapshot \<Rightarrow> health \<Rightarrow> health" where
  "after_change now previous h =
     (let h' = write_healthcheck now h;
          critical = critical_transition_from (snapshot now h') (Some previous)
      in if hs_change_callback h' then h'\<lparr>hs_notified := hs_notified h' @ [critical]\<rparr> else h')"

text \<open>The shape of every operation: a snapshot, the update, the notification.\<close>

definition changed :: "instant \<Rightarrow> (health \<Rightarrow> health) \<Rightarrow> health \<Rightarrow> health" where
  "changed now update h = after_change now (snapshot now h) (update h)"

definition set_change_callback :: "bool \<Rightarrow> health \<Rightarrow> health" where
  "set_change_callback callback h = h\<lparr>hs_change_callback := callback\<rparr>"

definition clear_overrides :: "health \<Rightarrow> health" where
  "clear_overrides h =
     h\<lparr>hs_override_telegram_to_meshcore := None, hs_override_meshcore_to_telegram := None,
       hs_override_confirmation := None\<rparr>"

definition configure :: "instant \<Rightarrow> bool \<Rightarrow> bool \<Rightarrow> bool \<Rightarrow> bool \<Rightarrow> health \<Rightarrow> health" where
  "configure now telegram_enabled tg_to_mc mc_to_tg confirmation =
     changed now (\<lambda>h. clear_overrides
       (h\<lparr>hs_telegram_enabled := telegram_enabled,
          hs_telegram_polling_state :=
            (if telegram_enabled then lit ''disconnected'' else lit ''disabled''),
          hs_configured_telegram_to_meshcore := tg_to_mc,
          hs_configured_meshcore_to_telegram := mc_to_tg,
          hs_configured_confirmation := confirmation\<rparr>))"

record override_change =
  oc_target :: str
  oc_previous_value :: bool
  oc_new_value :: bool
  oc_override_value :: "bool option"

definition with_override :: "str \<Rightarrow> bool option \<Rightarrow> health \<Rightarrow> health" where
  "with_override target v h =
     (if target = lit ''telegram_to_meshcore'' then h\<lparr>hs_override_telegram_to_meshcore := v\<rparr>
      else if target = lit ''meshcore_to_telegram'' then h\<lparr>hs_override_meshcore_to_telegram := v\<rparr>
      else h\<lparr>hs_override_confirmation := v\<rparr>)"

definition set_runtime_override ::
    "instant \<Rightarrow> str \<Rightarrow> bool \<Rightarrow> health \<Rightarrow> override_change result \<times> health" where
  "set_runtime_override now target v h =
     (case effective_value h target of
        Inl e \<Rightarrow> (Inl e, h)
      | Inr previous \<Rightarrow>
          (let h' = with_override target (Some v) h in
           (bind_result (effective_value h' target) (\<lambda>after.
              Inr \<lparr>oc_target = target, oc_previous_value = previous, oc_new_value = after,
                   oc_override_value = Some v\<rparr>),
            after_change now (snapshot now h) h')))"

definition reset_runtime_overrides :: "instant \<Rightarrow> health \<Rightarrow> override_change list \<times> health" where
  "reset_runtime_overrides now h =
     ([\<lparr>oc_target = lit ''telegram_to_meshcore'',
        oc_previous_value = effective_telegram_to_meshcore h,
        oc_new_value = hs_configured_telegram_to_meshcore h, oc_override_value = None\<rparr>,
       \<lparr>oc_target = lit ''meshcore_to_telegram'',
        oc_previous_value = effective_meshcore_to_telegram h,
        oc_new_value = hs_configured_meshcore_to_telegram h, oc_override_value = None\<rparr>,
       \<lparr>oc_target = lit ''confirmation'',
        oc_previous_value = effective_forward_confirmation h,
        oc_new_value = hs_configured_confirmation h, oc_override_value = None\<rparr>],
      changed now clear_overrides h)"

definition connection_word :: "bool \<Rightarrow> str" where
  "connection_word up = (if up then lit ''connected'' else lit ''disconnected'')"

definition set_meshcore_connected :: "instant \<Rightarrow> bool \<Rightarrow> health \<Rightarrow> health" where
  "set_meshcore_connected now up =
     changed now (\<lambda>h. h\<lparr>hs_meshcore_transport_state := connection_word up,
                        hs_ha_websocket_state := connection_word up\<rparr>)"

definition polling_states :: "str list" where
  "polling_states = [lit ''disabled'', lit ''connected'', lit ''degraded'', lit ''disconnected'']"

definition set_telegram_polling :: "instant \<Rightarrow> str \<Rightarrow> health \<Rightarrow> health" where
  "set_telegram_polling now state =
     (let state' = (if state \<in> set polling_states then state else lit ''degraded'') in
      changed now (\<lambda>h. h\<lparr>hs_telegram_polling_state := state'\<rparr>))"

definition safe_reason :: "str \<Rightarrow> str" where
  "safe_reason reason =
     (let normalized = replace [32] [95] (lower (strip reason)) in
      if normalized \<in> set safe_failure_reasons then normalized else lit ''storage_error'')"

definition note_failure :: "instant \<Rightarrow> str \<Rightarrow> health \<Rightarrow> health" where
  "note_failure now reason h =
     h\<lparr>hs_last_failure := Some now, hs_last_failure_reason := safe_reason reason\<rparr>"

definition record_command_processed :: "instant \<Rightarrow> health \<Rightarrow> health" where
  "record_command_processed now =
     changed now (\<lambda>h. h\<lparr>hs_commands_processed := hs_commands_processed h + 1\<rparr>)"

definition record_tg_to_mc :: "instant \<Rightarrow> bool \<Rightarrow> str \<Rightarrow> health \<Rightarrow> health" where
  "record_tg_to_mc now success reason =
     changed now (\<lambda>h.
       if success
       then h\<lparr>hs_tg_to_mc_success := hs_tg_to_mc_success h + 1, hs_last_tg_to_mc := Some now\<rparr>
       else note_failure now reason (h\<lparr>hs_tg_to_mc_failed := hs_tg_to_mc_failed h + 1\<rparr>))"

definition record_mc_to_tg :: "instant \<Rightarrow> bool \<Rightarrow> str \<Rightarrow> health \<Rightarrow> health" where
  "record_mc_to_tg now success reason =
     changed now (\<lambda>h.
       if success
       then h\<lparr>hs_mc_to_tg_success := hs_mc_to_tg_success h + 1, hs_last_mc_to_tg := Some now\<rparr>
       else note_failure now reason (h\<lparr>hs_mc_to_tg_failed := hs_mc_to_tg_failed h + 1\<rparr>))"

definition set_db_health :: "instant \<Rightarrow> bool \<Rightarrow> str \<Rightarrow> str option \<Rightarrow> health \<Rightarrow> health" where
  "set_db_health now audit state reason =
     (let state' = (if state \<in> {lit ''ok'', lit ''degraded''} then state else lit ''degraded'') in
      changed now (\<lambda>h.
        let h' = (if audit then h\<lparr>hs_audit_db_health := state'\<rparr>
                  else h\<lparr>hs_telegram_db_health := state'\<rparr>)
        in if state' = lit ''degraded''
           then note_failure now
                  (case reason of None \<Rightarrow> lit ''storage_error''
                   | Some r \<Rightarrow> if r = [] then lit ''storage_error'' else r) h'
           else h'))"

definition set_audit_db_health :: "instant \<Rightarrow> str \<Rightarrow> str option \<Rightarrow> health \<Rightarrow> health" where
  "set_audit_db_health now state reason = set_db_health now True state reason"

definition set_telegram_db_health :: "instant \<Rightarrow> str \<Rightarrow> str option \<Rightarrow> health \<Rightarrow> health" where
  "set_telegram_db_health now state reason = set_db_health now False state reason"

definition record_failure :: "instant \<Rightarrow> str \<Rightarrow> health \<Rightarrow> health" where
  "record_failure now reason = changed now (note_failure now reason)"

section \<open>Rendering\<close>

definition on_off :: "bool \<Rightarrow> str" where
  "on_off v = (if v then lit ''on'' else lit ''off'')"

definition on_off_override :: "bool \<Rightarrow> bool option \<Rightarrow> bool \<Rightarrow> str" where
  "on_off_override v ov short =
     (case ov of
        None \<Rightarrow> on_off v
      | Some _ \<Rightarrow> on_off v @ (if short then lit ''*'' else lit '' (override)''))"

definition short_connected :: "str \<Rightarrow> str" where
  "short_connected v = (if v = lit ''connected'' then lit ''on'' else lit ''off'')"

definition short_telegram :: "str \<Rightarrow> str" where
  "short_telegram v =
     (if v = lit ''disabled'' then lit ''off'' else if v = lit ''connected'' then lit ''on''
      else lit ''deg'')"

definition channel_unknown :: str where
  "channel_unknown = lit ''?''"

definition lines :: "str list \<Rightarrow> str" where
  "lines ls = join [10] ls"

definition render_bridge_status :: "health_snapshot \<Rightarrow> bool \<Rightarrow> str" where
  "render_bridge_status s short =
     (let telegram = telegram_state s;
          tg_to_mc = on_off_override (bs_telegram_to_meshcore s) (bs_override_telegram_to_meshcore s) short;
          mc_to_tg = on_off_override (bs_meshcore_to_telegram s) (bs_override_meshcore_to_telegram s) short;
          confirmation = on_off_override (bs_confirmation s) (bs_override_confirmation s) short
      in
      if short then
        lines [lit ''Bridge '' @ bs_version s,
               lit ''MC:'' @ short_connected (bs_meshcore_transport_state s)
                 @ lit '' TG:'' @ short_telegram telegram @ lit '' CH:'' @ channel_unknown,
               lit ''T2M:'' @ tg_to_mc @ lit '' M2T:'' @ mc_to_tg @ lit '' CF:'' @ confirmation,
               lit ''DB A:'' @ bs_audit_db_health s @ lit '' T:'' @ bs_telegram_db_health s,
               lit ''Err:'' @ bs_last_failure_reason s]
      else
        lines [lit ''Version: '' @ bs_version s,
               lit ''MeshCore: '' @ bs_meshcore_transport_state s,
               lit ''Telegram: '' @ telegram,
               lit ''Channel: {channel}'',
               lit ''TG->MC: '' @ tg_to_mc,
               lit ''MC->TG: '' @ mc_to_tg,
               lit ''TG confirm: '' @ confirmation,
               lit ''Audit DB: '' @ bs_audit_db_health s,
               lit ''Telegram DB: '' @ bs_telegram_db_health s,
               lit ''Last error: '' @ bs_last_failure_reason s])"

definition render_bridge_status_for_channel ::
    "health_snapshot \<Rightarrow> int \<Rightarrow> bool \<Rightarrow> bool option \<Rightarrow> int option \<Rightarrow> str" where
  "render_bridge_status_for_channel s channel_index short events_enabled heartbeat =
     (let t = replace (lit ''CH:?'') (lit ''CH:'' @ dec channel_index)
                (replace (lit ''{channel}'') (dec channel_index) (render_bridge_status s short))
      in
      case (events_enabled, heartbeat) of
        (Some enabled, Some seconds) \<Rightarrow>
          if short
          then t @ [10] @ lit ''HAE:'' @ on_off enabled @ lit '' HB:'' @ dec seconds
          else lines [t, lit ''HA events: '' @ on_off enabled,
                      lit ''Heartbeat: '' @ dec seconds @ lit ''s'']
      | _ \<Rightarrow> t)"

text \<open>\<open>relative_duration\<close>, on whole seconds.\<close>

definition relative_duration :: "int \<Rightarrow> bool \<Rightarrow> str" where
  "relative_duration secs short =
     (let seconds = max 0 secs;
          minutes = seconds div 60;
          hours = minutes div 60;
          separator = (if short then [] else lit '' '')
      in
      if seconds = 0 then lit ''now''
      else if seconds < 60 then dec seconds @ lit ''s''
      else if minutes < 60 then dec minutes @ lit ''m''
      else if hours < 24 then dec hours @ lit ''h'' @ separator @ dec (minutes mod 60) @ lit ''m''
      else dec (hours div 24) @ lit ''d'' @ separator @ dec (hours mod 24) @ lit ''h'')"

definition relative_time :: "instant option \<Rightarrow> instant \<Rightarrow> str" where
  "relative_time v now =
     (case v of
        None \<Rightarrow> lit ''never''
      | Some t \<Rightarrow>
          (let delta = (now - t) div 1000000 in
           if delta \<le> 0 then lit ''now'' else relative_duration delta True))"

definition with_ago :: "str \<Rightarrow> str" where
  "with_ago v = (if v \<in> {lit ''never'', lit ''now''} then v else v @ lit '' ago'')"

definition compact_count :: "int \<Rightarrow> str" where
  "compact_count v =
     (if v < 10000 then dec v
      else if v < 1000000 then dec (v div 1000) @ lit ''k''
      else lit ''999k+'')"

definition render_last_activity :: "health_snapshot \<Rightarrow> instant \<Rightarrow> bool \<Rightarrow> str" where
  "render_last_activity s now short =
     (let tg_to_mc = relative_time (bs_last_tg_to_mc s) now;
          mc_to_tg = relative_time (bs_last_mc_to_tg s) now;
          last_error_time = relative_time (bs_last_failure s) now;
          uptime = relative_duration (bs_uptime_seconds s) short;
          reason = bs_last_failure_reason s
      in
      if short then
        lines [lit ''Last'',
               lit ''T2M:'' @ tg_to_mc @ lit '' M2T:'' @ mc_to_tg,
               lit ''OK:'' @ compact_count (bs_tg_to_mc_success s) @ lit ''/''
                 @ compact_count (bs_mc_to_tg_success s) @ lit '' F:''
                 @ compact_count (bs_tg_to_mc_failed s) @ lit ''/''
                 @ compact_count (bs_mc_to_tg_failed s),
               lit ''Cmd:'' @ compact_count (bs_commands_processed s) @ lit '' Up:'' @ uptime,
               lit ''Err:'' @ reason]
      else
        lines [lit ''Last activity'', [],
               lit ''TG -> MC: '' @ with_ago tg_to_mc,
               lit ''MC -> TG: '' @ with_ago mc_to_tg,
               lit ''TG -> MC: '' @ dec (bs_tg_to_mc_success s) @ lit '' success / ''
                 @ dec (bs_tg_to_mc_failed s) @ lit '' failed'',
               lit ''MC -> TG: '' @ dec (bs_mc_to_tg_success s) @ lit '' success / ''
                 @ dec (bs_mc_to_tg_failed s) @ lit '' failed'',
               lit ''Commands: '' @ dec (bs_commands_processed s),
               lit ''Last error: '' @ reason,
               lit ''Last error time: '' @ with_ago last_error_time,
               lit ''Uptime: '' @ uptime])"

section \<open>The invariant\<close>

text \<open>
  The states stay within their vocabularies and the reported reason is one of the fixed safe
  reasons, whatever text an exception supplied.
\<close>

definition health_ok :: "health \<Rightarrow> bool" where
  "health_ok h \<longleftrightarrow>
     hs_last_failure_reason h \<in> set safe_failure_reasons
     \<and> hs_telegram_polling_state h \<in> set polling_states
     \<and> hs_meshcore_transport_state h \<in> {lit ''connected'', lit ''disconnected''}
     \<and> hs_ha_websocket_state h = hs_meshcore_transport_state h
     \<and> hs_audit_db_health h \<in> {lit ''ok'', lit ''degraded''}
     \<and> hs_telegram_db_health h \<in> {lit ''ok'', lit ''degraded''}
     \<and> 0 \<le> hs_tg_to_mc_success h \<and> 0 \<le> hs_tg_to_mc_failed h
     \<and> 0 \<le> hs_mc_to_tg_success h \<and> 0 \<le> hs_mc_to_tg_failed h \<and> 0 \<le> hs_commands_processed h"

lemma safe_reason_safe [simp]: "safe_reason r \<in> set safe_failure_reasons"
  by (simp add: safe_reason_def Let_def) (simp add: safe_failure_reasons_def)

lemma new_health_ok: "health_ok (new_health v p t)"
  by (simp add: health_ok_def new_health_def safe_failure_reasons_def polling_states_def)

text \<open>The notification touches only the two logs.\<close>

lemma after_change_fields:
  "after_change now p h =
     h\<lparr>hs_notified := hs_notified (after_change now p h), hs_written := hs_written (after_change now p h)\<rparr>"
  by (cases h) (auto simp: after_change_def write_healthcheck_def Let_def split: option.splits)

lemma after_change_frame [frame_simps]:
  "hs_override_telegram_to_meshcore (after_change now p h) = hs_override_telegram_to_meshcore h"
  "hs_override_meshcore_to_telegram (after_change now p h) = hs_override_meshcore_to_telegram h"
  "hs_override_confirmation (after_change now p h) = hs_override_confirmation h"
  "hs_configured_telegram_to_meshcore (after_change now p h) = hs_configured_telegram_to_meshcore h"
  "hs_configured_meshcore_to_telegram (after_change now p h) = hs_configured_meshcore_to_telegram h"
  "hs_configured_confirmation (after_change now p h) = hs_configured_confirmation h"
  "hs_telegram_polling_state (after_change now p h) = hs_telegram_polling_state h"
  "hs_meshcore_transport_state (after_change now p h) = hs_meshcore_transport_state h"
  "hs_audit_db_health (after_change now p h) = hs_audit_db_health h"
  "hs_telegram_db_health (after_change now p h) = hs_telegram_db_health h"
  "hs_last_failure (after_change now p h) = hs_last_failure h"
  "hs_last_failure_reason (after_change now p h) = hs_last_failure_reason h"
  "hs_commands_processed (after_change now p h) = hs_commands_processed h"
  "hs_tg_to_mc_success (after_change now p h) = hs_tg_to_mc_success h"
  "hs_tg_to_mc_failed (after_change now p h) = hs_tg_to_mc_failed h"
  "hs_mc_to_tg_success (after_change now p h) = hs_mc_to_tg_success h"
  "hs_mc_to_tg_failed (after_change now p h) = hs_mc_to_tg_failed h"
  "hs_last_tg_to_mc (after_change now p h) = hs_last_tg_to_mc h"
  "hs_last_mc_to_tg (after_change now p h) = hs_last_mc_to_tg h"
  "hs_change_callback (after_change now p h) = hs_change_callback h"
  "hs_telegram_enabled (after_change now p h) = hs_telegram_enabled h"
  by (simp_all add: after_change_def write_healthcheck_def Let_def split: option.splits)

lemma after_change_ok [simp]: "health_ok (after_change now p h) = health_ok h"
  by (subst after_change_fields) (simp add: health_ok_def)

lemma changed_ok: "(health_ok h \<Longrightarrow> health_ok (update h)) \<Longrightarrow> health_ok h \<Longrightarrow> health_ok (changed now update h)"
  by (simp add: changed_def)

lemma note_failure_ok: "health_ok h \<Longrightarrow> health_ok (note_failure now r h)"
  by (simp add: health_ok_def note_failure_def)

lemma configure_ok: "health_ok h \<Longrightarrow> health_ok (configure now e a b c h)"
  unfolding configure_def
  by (rule changed_ok) (simp_all add: health_ok_def clear_overrides_def polling_states_def)

lemma with_override_ok: "health_ok (with_override t v h) = health_ok h"
  by (simp add: health_ok_def with_override_def)

lemma set_runtime_override_ok: "health_ok h \<Longrightarrow> health_ok (snd (set_runtime_override now t v h))"
  by (auto simp: set_runtime_override_def Let_def with_override_ok split: sum.splits)

lemma reset_runtime_overrides_ok: "health_ok h \<Longrightarrow> health_ok (snd (reset_runtime_overrides now h))"
  unfolding reset_runtime_overrides_def snd_conv
  by (rule changed_ok) (simp_all add: health_ok_def clear_overrides_def)

lemma set_meshcore_connected_ok: "health_ok h \<Longrightarrow> health_ok (set_meshcore_connected now b h)"
  unfolding set_meshcore_connected_def
  by (rule changed_ok) (simp_all add: health_ok_def connection_word_def)

lemma set_telegram_polling_ok: "health_ok h \<Longrightarrow> health_ok (set_telegram_polling now s h)"
  unfolding set_telegram_polling_def Let_def
  by (rule changed_ok) (auto simp: health_ok_def polling_states_def)

lemma record_command_processed_ok: "health_ok h \<Longrightarrow> health_ok (record_command_processed now h)"
  unfolding record_command_processed_def by (rule changed_ok) (simp_all add: health_ok_def)

lemma record_tg_to_mc_ok: "health_ok h \<Longrightarrow> health_ok (record_tg_to_mc now b r h)"
  unfolding record_tg_to_mc_def
  by (rule changed_ok) (simp_all add: health_ok_def note_failure_def)

lemma record_mc_to_tg_ok: "health_ok h \<Longrightarrow> health_ok (record_mc_to_tg now b r h)"
  unfolding record_mc_to_tg_def
  by (rule changed_ok) (simp_all add: health_ok_def note_failure_def)

lemma set_db_health_ok: "health_ok h \<Longrightarrow> health_ok (set_db_health now a s r h)"
  unfolding set_db_health_def Let_def
  by (rule changed_ok) (auto simp: health_ok_def note_failure_def)

lemma record_failure_ok: "health_ok h \<Longrightarrow> health_ok (record_failure now r h)"
  unfolding record_failure_def by (rule changed_ok) (simp_all add: note_failure_ok)

lemmas health_ops_ok =
  configure_ok set_runtime_override_ok reset_runtime_overrides_ok set_meshcore_connected_ok
  set_telegram_polling_ok record_command_processed_ok record_tg_to_mc_ok record_mc_to_tg_ok
  set_db_health_ok record_failure_ok

lemma set_audit_db_health_ok: "health_ok h \<Longrightarrow> health_ok (set_audit_db_health now s r h)"
  by (simp add: set_audit_db_health_def set_db_health_ok)

lemma set_telegram_db_health_ok: "health_ok h \<Longrightarrow> health_ok (set_telegram_db_health now s r h)"
  by (simp add: set_telegram_db_health_def set_db_health_ok)

section \<open>Overrides\<close>

lemma effective_value_after_change [simp]: "effective_value (after_change now p h) t = effective_value h t"
  by (simp add: effective_value_def frame_simps)

lemma effective_value_with_override:
  "effective_value h t = Inr b \<Longrightarrow>
     effective_value (with_override t (Some v) h) u = (if u = t then Inr v else effective_value h u)"
  by (auto simp: effective_value_def with_override_def split: if_splits)

lemma set_runtime_override_effect:
  assumes "set_runtime_override now t v h = (Inr c, h')"
  shows "effective_value h' u = (if u = t then Inr v else effective_value h u)"
    "oc_new_value c = v" "effective_value h t = Inr (oc_previous_value c)"
  using assms
  by (auto simp: set_runtime_override_def Let_def effective_value_with_override split: sum.splits)

lemma set_runtime_override_invalid:
  "set_runtime_override now t v h = (Inl e, h') \<Longrightarrow> h' = h \<and> effective_value h t = Inl e"
  by (auto simp: set_runtime_override_def Let_def effective_value_with_override split: sum.splits)

lemma reset_runtime_overrides_effect:
  assumes "reset_runtime_overrides now h = (cs, h')"
  shows "effective_telegram_to_meshcore h' = hs_configured_telegram_to_meshcore h"
    "effective_meshcore_to_telegram h' = hs_configured_meshcore_to_telegram h"
    "effective_forward_confirmation h' = hs_configured_confirmation h"
  using assms
  by (auto simp: reset_runtime_overrides_def changed_def clear_overrides_def
      effective_telegram_to_meshcore_def effective_meshcore_to_telegram_def
      effective_forward_confirmation_def frame_simps)

section \<open>Reachable states\<close>

text \<open>Any operation of the health state, with any arguments.\<close>

inductive health_step :: "health \<Rightarrow> health \<Rightarrow> bool" where
  callback: "health_step h (set_change_callback b h)"
| configured: "health_step h (configure now e tg mc conf h)"
| override: "health_step h (snd (set_runtime_override now target v h))"
| reset: "health_step h (snd (reset_runtime_overrides now h))"
| transport: "health_step h (set_meshcore_connected now b h)"
| polling: "health_step h (set_telegram_polling now state h)"
| command: "health_step h (record_command_processed now h)"
| to_mesh: "health_step h (record_tg_to_mc now b reason h)"
| to_telegram: "health_step h (record_mc_to_tg now b reason h)"
| audit_db: "health_step h (set_audit_db_health now state r h)"
| telegram_db: "health_step h (set_telegram_db_health now state r h)"
| failure: "health_step h (record_failure now reason h)"

lemma set_change_callback_ok: "health_ok h \<Longrightarrow> health_ok (set_change_callback b h)"
  by (simp add: set_change_callback_def health_ok_def)

lemma health_step_ok: "health_step h h' \<Longrightarrow> health_ok h \<Longrightarrow> health_ok h'"
  by (induction rule: health_step.induct)
    (auto intro: set_change_callback_ok configure_ok set_runtime_override_ok reset_runtime_overrides_ok
      set_meshcore_connected_ok set_telegram_polling_ok record_command_processed_ok record_tg_to_mc_ok
      record_mc_to_tg_ok set_audit_db_health_ok set_telegram_db_health_ok record_failure_ok)

text \<open>
  C37. In every state that the operations reach, whatever they are called with, the reported failure
  reason is one of the fixed safe words, the states are known words, and no counter is negative.
\<close>

theorem reported_health_is_safe:
  assumes "health_step\<^sup>*\<^sup>* (new_health version path started) h"
  shows "hs_last_failure_reason h \<in> set safe_failure_reasons
    \<and> hs_telegram_polling_state h \<in> {lit ''disabled'', lit ''connected'', lit ''degraded'', lit ''disconnected''}
    \<and> hs_ha_websocket_state h = hs_meshcore_transport_state h
    \<and> hs_audit_db_health h \<in> {lit ''ok'', lit ''degraded''}
    \<and> hs_telegram_db_health h \<in> {lit ''ok'', lit ''degraded''}
    \<and> 0 \<le> hs_tg_to_mc_success h \<and> 0 \<le> hs_tg_to_mc_failed h
    \<and> 0 \<le> hs_mc_to_tg_success h \<and> 0 \<le> hs_mc_to_tg_failed h \<and> 0 \<le> hs_commands_processed h"
proof -
  from assms have "health_ok h"
    by (induction rule: rtranclp_induct) (auto intro: new_health_ok health_step_ok)
  then show ?thesis by (simp add: health_ok_def polling_states_def)
qed

theorem reported_health_is_safe_witness:
  "hs_last_failure_reason (record_failure 5 (lit ''token 123 leaked'') (new_health (lit ''1'') None 0))
     \<in> set safe_failure_reasons"
  using reported_health_is_safe [OF r_into_rtranclp [where r = health_step, OF health_step.failure]] by simp

end
