(* ===== verification/Mc_Transport.thy ===== *)
theory Mc_Transport
  imports Audit_Events Bridge_Health
begin

text \<open>
  \<open>transport/homeassistant_meshcore.py\<close>: how an event of Home Assistant becomes an inbound
  message of the mesh, and how a message is sent through the service call. The WebSocket
  client is the other side: its events, the config entries it lists and the outcome of a call
  are arguments.
\<close>

section \<open>Events\<close>

record ha_event =
  ve_event_type :: str
  ve_data :: jobject
  ve_time_fired :: "str option"
  ve_context_id :: "str option"

record mc_settings =
  ms_channel_index :: int
  ms_require_stable_sender :: bool
  ms_allow_channel_without_sender :: bool

definition mc_name :: str where
  "mc_name = lit ''homeassistant-meshcore''"

definition optional_str :: "json option \<Rightarrow> str option" where
  "optional_str v = (case v of Some (JStr s) \<Rightarrow> Some s | _ \<Rightarrow> None)"

text \<open>\<open>isinstance(v, int)\<close> holds for booleans too, which equal 0 and 1 as keys.\<close>

definition int_key :: "json option \<Rightarrow> int option" where
  "int_key v =
     (case v of Some (JInt i) \<Rightarrow> Some i | Some (JBool b) \<Rightarrow> Some (if b then 1 else 0) | _ \<Rightarrow> None)"

text \<open>\<open>_event_from_payload\<close> of \<open>homeassistant_ws.py\<close>.\<close>

definition event_from_payload :: "jobject \<Rightarrow> (int \<Rightarrow> str option) \<Rightarrow> ha_event option" where
  "event_from_payload payload subscriptions =
     (case jget payload (lit ''event'') of
        Some (JObj e) \<Rightarrow>
          (let data = (case jget e (lit ''data'') of Some (JObj d) \<Rightarrow> d | _ \<Rightarrow> []);
               raw = (case optional_str (jget e (lit ''event_type'')) of None \<Rightarrow> [] | Some t \<Rightarrow> t);
               name = (if raw \<noteq> [] then raw
                       else
                         (case int_key (jget payload (lit ''id'')) of
                            Some i \<Rightarrow> (case subscriptions i of None \<Rightarrow> [] | Some t \<Rightarrow> t)
                          | None \<Rightarrow> []))
           in Some \<lparr>ve_event_type = name, ve_data = data,
                    ve_time_fired = optional_str (jget e (lit ''time_fired'')),
                    ve_context_id =
                      (case jget e (lit ''context'') of
                         Some (JObj c) \<Rightarrow> optional_str (jget c (lit ''id''))
                       | _ \<Rightarrow> None)\<rparr>)
      | _ \<Rightarrow> None)"

text \<open>\<open>int(x)\<close> of a JSON value.\<close>

definition json_int :: "json \<Rightarrow> int result" where
  "json_int v =
     (case v of
        JInt i \<Rightarrow> Inr i
      | JBool b \<Rightarrow> Inr (if b then 1 else 0)
      | JStr s \<Rightarrow> py_int s
      | JFloat s \<Rightarrow> float_int s
      | _ \<Rightarrow> raise TypeError ''int() argument must be a string, a bytes-like object or a real number'')"

definition pubkey_prefix :: "jobject \<Rightarrow> str option" where
  "pubkey_prefix data =
     (case optional_str (jget data (lit ''pubkey_prefix'')) of
        Some p \<Rightarrow> if length p \<ge> 6 then Some p else None
      | None \<Rightarrow> None)"

definition has_stable_sender :: "jobject \<Rightarrow> bool" where
  "has_stable_sender data \<longleftrightarrow> pubkey_prefix data \<noteq> None"

definition unidentified_testing_sender_id :: "int \<Rightarrow> str" where
  "unidentified_testing_sender_id channel_index = lit ''test:unidentified:channel:'' @ dec channel_index"

definition mc_sender_id :: "mc_settings \<Rightarrow> jobject \<Rightarrow> str" where
  "mc_sender_id ms data =
     (case pubkey_prefix data of
        Some p \<Rightarrow> lit ''meshcore-pubkey-prefix:'' @ lower p
      | None \<Rightarrow>
          if ms_allow_channel_without_sender ms
          then unidentified_testing_sender_id (ms_channel_index ms)
          else lit ''meshcore-ha:channel:'' @ dec (ms_channel_index ms) @ lit '':unknown'')"

definition mc_message_id :: "crypto \<Rightarrow> ha_event \<Rightarrow> str result" where
  "mc_message_id cr e =
     (if present (ve_context_id e) then Inr (lit ''ha:'' @ the (ve_context_id e))
      else
        (let part = (\<lambda>key. py_str (jget_or (ve_data e) (lit key) (JStr []))) in
         bind_result (sha256_text cr (join (lit ''|'')
             [part ''timestamp'', part ''channel_idx'', part ''sender_name'', part ''message''])) (\<lambda>digest.
           Inr (lit ''ha-meshcore:'' @ take 16 digest))))"

definition parse_event_time :: "str option \<Rightarrow> instant option" where
  "parse_event_time v =
     (if present v then from_isoformat (replace (lit ''Z'') (lit ''+00:00'') (the v)) else None)"

definition mc_metadata_of :: "ha_event \<Rightarrow> jobject" where
  "mc_metadata_of e =
     (let data = ve_data e; get = (\<lambda>key. jget_null data (lit key)) in
      [(lit ''ha_event_type'', JStr (ve_event_type e)),
       (lit ''ha_context_id'', jstr_opt (ve_context_id e)),
       (lit ''message_type'', get ''message_type''),
       (lit ''sender_name'', get ''sender_name''),
       (lit ''pubkey_prefix_available'', JBool (truthy (get ''pubkey_prefix''))),
       (lit ''stable_sender'', JBool (has_stable_sender data)),
       (lit ''hop_count'', get ''hop_count''),
       (lit ''snr'', get ''snr''),
       (lit ''rx_log_count'',
        JInt (case get ''rx_log_data'' of JArr xs \<Rightarrow> int (length xs) | _ \<Rightarrow> 0))])"

text \<open>\<open>uuid\<close> is the fresh part of the correlation identifier.\<close>

definition event_to_inbound ::
    "crypto \<Rightarrow> str \<Rightarrow> instant \<Rightarrow> mc_settings \<Rightarrow> ha_event \<Rightarrow> inbound_message option result" where
  "event_to_inbound cr uuid now ms e =
     (let data = ve_data e; channel = ms_channel_index ms in
      if ve_event_type e \<noteq> lit ''meshcore_message'' then Inr None
      else if jget data (lit ''outgoing'') = Some (JBool True) then Inr None
      else if jget data (lit ''message_type'') \<noteq> Some (JStr (lit ''channel'')) then Inr None
      else
        bind_result (json_int (jget_or data (lit ''channel_idx'') (JInt (-1)))) (\<lambda>idx.
          if idx \<noteq> channel then Inr None
          else
            (let t = strip (py_str (jget_or data (lit ''message'') (JStr []))) in
             if t = [] then Inr None
             else if ms_require_stable_sender ms \<and> \<not> has_stable_sender data then Inr None
             else
               bind_result (room_channel mc_name channel) (\<lambda>room.
               bind_result (from_sender_id (mc_sender_id ms data) mc_name) (\<lambda>sender.
               bind_result (mc_message_id cr e) (\<lambda>message_id.
               bind_result (message_identity_from uuid mc_name (rr_room_id room) (Some message_id)
                   (Some (if present (ve_context_id e) then lit ''platform'' else lit ''derived''))) (\<lambda>ident.
               bind_result (inbound_post_init uuid
                   \<lparr>im_transport = mc_name, im_message_id = Some message_id,
                    im_sender_id = mc_sender_id ms data, im_channel_index = channel, im_text = t,
                    im_received_at = (case parse_event_time (ve_time_fired e) of Some x \<Rightarrow> x | None \<Rightarrow> now),
                    im_metadata = JObj (mc_metadata_of e),
                    im_schema_version = normalized_message_schema_version,
                    im_source_room = Some room, im_reply_target = Some room,
                    im_sender = Some sender, im_message = Some ident\<rparr>) (\<lambda>m.
                 Inr (Some m)))))))))"

text \<open>\<open>receive\<close> on the events that arrive: the first that is a message, or an exception.\<close>

fun receive_from ::
    "crypto \<Rightarrow> (nat \<Rightarrow> str) \<Rightarrow> instant \<Rightarrow> mc_settings \<Rightarrow> ha_event list
       \<Rightarrow> (inbound_message \<times> ha_event list) option result" where
  "receive_from cr uuids now ms [] = Inr None"
| "receive_from cr uuids now ms (e # es) =
     bind_result (event_to_inbound cr (uuids (length es)) now ms e) (\<lambda>r.
       case r of
         None \<Rightarrow> receive_from cr uuids now ms es
       | Some m \<Rightarrow> Inr (Some (m, es)))"

section \<open>The entry and the call\<close>

record mc_transport =
  mt_entry_id :: "str option"
  mt_calls :: "jobject list"
  mt_health :: "health option"
  mt_healthcheck_path :: "str option"
  mt_written :: "str list"

text \<open>\<open>_ensure_entry_id\<close>, given what \<open>get_config_entries\<close> answers.\<close>

definition ensure_entry_id :: "jobject list result \<Rightarrow> mc_transport \<Rightarrow> unit result \<times> mc_transport" where
  "ensure_entry_id answer mt =
     (if present (mt_entry_id mt) then (Inr (), mt)
      else
        (case answer of
           Inl e \<Rightarrow> (Inl e, mt)
         | Inr entries \<Rightarrow>
             (let mine = filter (\<lambda>d. jget d (lit ''domain'') = Some (JStr (lit ''meshcore''))) entries;
                  only = (case mine of [d] \<Rightarrow> optional_str (jget d (lit ''entry_id'')) | _ \<Rightarrow> None)
              in
              if present only then (Inr (), mt\<lparr>mt_entry_id := only\<rparr>)
              else if length mine > 1
              then (raise RuntimeError ''multiple MeshCore config entries found; set meshcore_entry_id'', mt)
              else (Inr (), mt\<lparr>mt_entry_id := None\<rparr>))))"

definition send_payload :: "str option \<Rightarrow> outbound_message \<Rightarrow> jobject" where
  "send_payload entry_id m =
     [(lit ''channel_idx'', JInt (om_channel_index m)), (lit ''message'', JStr (om_text m))]
     @ (if present entry_id then [(lit ''entry_id'', JStr (the entry_id))] else [])"

definition mc_send ::
    "instant \<Rightarrow> jobject list result \<Rightarrow> unit result \<Rightarrow> outbound_message \<Rightarrow> mc_transport
       \<Rightarrow> unit result \<times> mc_transport" where
  "mc_send now entries outcome m mt =
     (case ensure_entry_id entries mt of
        (Inl e, mt') \<Rightarrow> (Inl e, mt')
      | (Inr _, mt') \<Rightarrow>
          (let called = mt'\<lparr>mt_calls := mt_calls mt' @ [send_payload (mt_entry_id mt') m]\<rparr> in
           case outcome of
             Inr _ \<Rightarrow> (Inr (), called)
           | Inl e \<Rightarrow>
               (Inl e,
                if is_exception e
                then called\<lparr>mt_health := map_option (record_failure now (lit ''transport_error'')) (mt_health called)\<rparr>
                else called)))"

definition mark_connected :: "instant \<Rightarrow> mc_transport \<Rightarrow> mc_transport" where
  "mark_connected now mt = mt\<lparr>mt_health := map_option (set_meshcore_connected now True) (mt_health mt)\<rparr>"

text \<open>Without a health state the transport writes the health file itself.\<close>

definition mark_subscribed :: "instant \<Rightarrow> mc_transport \<Rightarrow> mc_transport" where
  "mark_subscribed now mt =
     (let mt' = mark_connected now mt in
      if mt_health mt' \<noteq> None \<or> \<not> present (mt_healthcheck_path mt') then mt'
      else
        mt'\<lparr>mt_written := mt_written mt' @
          [dumps_default (JObj
             [(lit ''status'', JStr (lit ''ok'')), (lit ''websocket'', JStr (lit ''connected'')),
              (lit ''subscription'', JStr (lit ''meshcore_message'')),
              (lit ''updated_at'', JStr (isoformat now))])]\<rparr>)"

definition mark_disconnected :: "instant \<Rightarrow> mc_transport \<Rightarrow> mc_transport" where
  "mark_disconnected now mt =
     mt\<lparr>mt_health := map_option (\<lambda>h. record_failure now (lit ''websocket_disconnected'')
                                      (set_meshcore_connected now False h)) (mt_health mt)\<rparr>"

definition mc_close :: "instant \<Rightarrow> mc_transport \<Rightarrow> mc_transport" where
  "mc_close now mt = mt\<lparr>mt_health := map_option (set_meshcore_connected now False) (mt_health mt)\<rparr>"

section \<open>Facts\<close>

lemma room_channel_fields:
  "room_channel t c = Inr r \<Longrightarrow> rr_transport r = t \<and> rr_room_id r = channel_room_id t c"
  by (auto simp: room_channel_def make_room_ref_def bind_result_Inr_iff)

lemma from_sender_id_fields:
  "from_sender_id s t = Inr r \<Longrightarrow> si_sender_id r = s \<and> si_stable r = stable_of s"
  by (auto simp: from_sender_id_def make_sender_identity_def bind_result_Inr_iff)

text \<open>What passes is a text of the configured channel, from a sender that counts as one.\<close>

lemma event_to_inbound_Some:
  assumes "event_to_inbound cr uuid now ms e = Inr (Some m)"
  shows "ve_event_type e = lit ''meshcore_message''"
    "jget (ve_data e) (lit ''outgoing'') \<noteq> Some (JBool True)"
    "jget (ve_data e) (lit ''message_type'') = Some (JStr (lit ''channel''))"
    "im_channel_index m = ms_channel_index ms"
    "im_text m \<noteq> []"
    "ms_require_stable_sender ms \<longrightarrow> has_stable_sender (ve_data e)"
    "im_sender_id m = mc_sender_id ms (ve_data e)"
    "wf_inbound m"
    "json_int (jget_or (ve_data e) (lit ''channel_idx'') (JInt (-1))) = Inr (ms_channel_index ms)"
    "im_text m = strip (py_str (jget_or (ve_data e) (lit ''message'') (JStr [])))"
  using assms
  by (auto simp: event_to_inbound_def Let_def bind_result_Inr_iff inbound_post_init_keeps
      inbound_post_init_wf split: if_splits)

lemma event_to_inbound_room:
  assumes "event_to_inbound cr uuid now ms e = Inr (Some m)"
  shows "\<exists>room. im_source_room m = Some room \<and> im_reply_target m = Some room
    \<and> rr_room_id room = channel_room_id mc_name (ms_channel_index ms)"
  using assms room_channel_fields
  by (fastforce simp: event_to_inbound_def Let_def bind_result_Inr_iff inbound_post_init_def split: if_splits)

lemma identified_sender:
  "has_stable_sender data \<Longrightarrow> identity_kind_of (mc_sender_id ms data) = lit ''meshcore_pubkey_prefix''"
  by (auto simp: has_stable_sender_def mc_sender_id_def identity_kind_of_def)

end
