(* ===== verification/HA_App_Options.thy ===== *)
theory HA_App_Options
  imports Config Mc_Transport "HOL-Library.AList"
begin

text \<open>
  \<open>homeassistant_app.py\<close>: the options of the Home Assistant App, which the Supervisor writes as
  JSON, read into records of their own and translated into the configuration of the bridge. The
  file is its parsed content (or the exception of reading it); \<open>getenv\<close> is the environment.
  \<open>validate_config\<close>, which checks the YAML configuration, is not called on this path: that the
  translated options would pass it is a theorem.
\<close>

section \<open>Records\<close>

record homeassistant_runtime =
  rt_rest_base_url :: str
  rt_websocket_url :: str
  rt_token :: str
  rt_verify_tls :: bool

record app_sender =
  ps_pubkey_prefix :: str
  ps_name :: str
  ps_role :: role

record app_status_entity =
  pe_alias :: str
  pe_entity_id :: str
  pe_label :: str

record app_weather =
  pw_temperature_entity :: str
  pw_humidity_entity :: str
  pw_label :: str

record app_alarm =
  pa_entity_id :: str
  pa_door_entities :: "str list"
  pa_motion_entities :: "str list"

record app_home =
  ph_person_entities :: "str list"
  ph_presence_entities :: "str list"
  ph_door_entities :: "str list"
  ph_light_entities :: "str list"
  ph_temperature_entity :: str
  ph_humidity_entity :: str
  ph_ups_battery_entity :: str

record app_server_entry =
  pv_alias :: str
  pv_name :: str
  pv_availability_entity :: str
  pv_cpu_entity :: str
  pv_memory_entity :: str
  pv_disk_entity :: str
  pv_temperature_entity :: str
  pv_health_entity :: str

record app_network =
  pn_internet_entity :: str
  pn_router_entity :: str
  pn_dns_entity :: str
  pn_home_assistant_entity :: str
  pn_additional_entities :: "str list"

record app_home_status =
  px_alarm :: app_alarm
  px_home :: app_home
  px_servers :: "app_server_entry list"
  px_network :: app_network

record app_telegram =
  pt_enabled :: bool
  pt_bot_token_import :: str
  pt_bot_token_file :: str
  pt_allowed_private_chat_id :: str
  pt_allowed_user_id :: str
  pt_authorized_user_role :: role
  pt_channel_index :: int
  pt_forward_mc_to_tg :: bool
  pt_forward_tg_to_mc :: bool
  pt_command_prefix :: str
  pt_max_meshcore_length :: int
  pt_max_telegram_length :: int
  pt_message_prefix :: str
  pt_mc_to_tg_prefix :: str
  pt_send_confirmation :: bool
  pt_forwarding_rate_limit :: rate_limit_config
  pt_inbound_rate_limit :: rate_limit_config

record app_health =
  pg_events_enabled :: bool
  pg_heartbeat_seconds :: int

record app_options =
  po_channel_index :: int
  po_meshcore_entry_id :: str
  po_command_prefix :: str
  po_authorized_senders :: "app_sender list"
  po_status_entities :: "app_status_entity list"
  po_weather_status :: app_weather
  po_home_status :: app_home_status
  po_telegram :: app_telegram
  po_health :: app_health
  po_rate_limit :: rate_limit_config
  po_log_level :: str
  po_allow_unidentified :: bool

section \<open>The runtime\<close>

definition runtime_from_environment :: "(str \<Rightarrow> str option) \<Rightarrow> homeassistant_runtime result" where
  "runtime_from_environment getenv =
     (case getenv (lit ''SUPERVISOR_TOKEN'') of
        None \<Rightarrow> raise RuntimeError ''SUPERVISOR_TOKEN is unavailable''
      | Some token \<Rightarrow>
          if token = [] then raise RuntimeError ''SUPERVISOR_TOKEN is unavailable''
          else Inr \<lparr>rt_rest_base_url = lit ''http://supervisor/core'',
                    rt_websocket_url = lit ''ws://supervisor/core/websocket'',
                    rt_token = token, rt_verify_tls = True\<rparr>)"

section \<open>Conversions\<close>

definition app_object :: "json \<Rightarrow> str \<Rightarrow> jobject result" where
  "app_object v name =
     (case v of
        JObj d \<Rightarrow> Inr d
      | _ \<Rightarrow> Inl (Exn ValueError (name @ lit '' must be an object'')))"

text \<open>Only \<open>TypeError\<close> and \<open>ValueError\<close> are caught: an infinite float passes its own exception on.\<close>

definition app_int :: "json \<Rightarrow> string \<Rightarrow> int result" where
  "app_int v name =
     (case json_int v of
        Inr i \<Rightarrow> Inr i
      | Inl e \<Rightarrow>
          if exn_class e \<in> {TypeError, ValueError}
          then Inl (Exn ValueError (lit name @ lit '' must be an integer''))
          else Inl e)"

definition app_entity :: "jobject \<Rightarrow> str \<Rightarrow> string \<Rightarrow> str result" where
  "app_entity d path key = entity_id (jget_or d (lit key) (JStr [])) (path @ lit key)"

definition app_entities :: "jobject \<Rightarrow> str \<Rightarrow> string \<Rightarrow> str list result" where
  "app_entities d path key = entity_list (jget_or d (lit key) (JArr [])) (path @ lit key)"

definition no_value :: "json \<Rightarrow> bool" where
  "no_value v \<longleftrightarrow> v = JNull \<or> v = JStr []"

section \<open>Sections of the options\<close>

text \<open>\<open>None\<close> is the option that is missing.\<close>

definition parse_app_sender :: "json \<Rightarrow> app_sender result" where
  "parse_app_sender item =
     bind_result (app_object item (lit ''authorized_senders item'')) (\<lambda>d.
       let prefix = strip (py_str (jget_or d (lit ''pubkey_prefix'') (JStr []))) in
       if length prefix < 6
       then raise ValueError ''authorized sender pubkey_prefix must be at least 6 characters''
       else
         bind_result (parse_role (py_str (jget_or d (lit ''role'') (JStr (lit ''readonly''))))) (\<lambda>r.
           Inr \<lparr>ps_pubkey_prefix = prefix,
                ps_name = py_str (jget_or d (lit ''name'') (JStr prefix)), ps_role = r\<rparr>))"

definition parse_authorized_senders :: "json option \<Rightarrow> app_sender list result" where
  "parse_authorized_senders v =
     (case v of
        None \<Rightarrow> Inr []
      | Some (JArr items) \<Rightarrow> each parse_app_sender items
      | Some _ \<Rightarrow> raise ValueError ''authorized_senders must be a list'')"

definition parse_app_status_entity :: "json \<Rightarrow> app_status_entity result" where
  "parse_app_status_entity item =
     bind_result (app_object item (lit ''status_entities item'')) (\<lambda>d.
       let alias = strip (py_str (jget_or d (lit ''alias'') (JStr [])));
           entity = strip (py_str (jget_or d (lit ''entity_id'') (JStr [])));
           label = strip (py_str (jget_or d (lit ''label'') (JStr alias)))
       in
       if alias = [] then raise ValueError ''status entity alias is required''
       else if entity = [] then raise ValueError ''status entity entity_id is required''
       else Inr \<lparr>pe_alias = alias, pe_entity_id = entity,
                 pe_label = (if label = [] then alias else label)\<rparr>)"

definition parse_app_status_entities :: "json \<Rightarrow> app_status_entity list result" where
  "parse_app_status_entities v =
     (case v of
        JArr items \<Rightarrow> each parse_app_status_entity items
      | _ \<Rightarrow> raise ValueError ''status_entities must be a list'')"

definition parse_app_weather :: "json \<Rightarrow> app_weather result" where
  "parse_app_weather v =
     (if no_value v
      then Inr \<lparr>pw_temperature_entity = [], pw_humidity_entity = [], pw_label = lit ''Exterior''\<rparr>
      else
        bind_result (app_object v (lit ''weather_status'')) (\<lambda>d.
        bind_result (weather_label (jget_or d (lit ''label'') (JStr (lit ''Exterior'')))) (\<lambda>label.
          Inr \<lparr>pw_temperature_entity = strip (str_or_empty (jget_or d (lit ''temperature_entity'') (JStr []))),
               pw_humidity_entity = strip (str_or_empty (jget_or d (lit ''humidity_entity'') (JStr []))),
               pw_label = label\<rparr>)))"

definition parse_app_server :: "str list \<Rightarrow> json \<Rightarrow> app_server_entry result" where
  "parse_app_server aliases item =
     bind_result (app_object item (lit ''home_status.servers.entries item'')) (\<lambda>d.
       let alias = strip (str_or_empty (jget_or d (lit ''alias'') (JStr [])));
           path = lit ''home_status.servers.'' @ alias @ lit ''.''
       in
       if \<not> is_server_alias alias
       then raise ValueError
              ''home_status.servers.entries alias must use lowercase letters, numbers, - or _''
       else if alias \<in> set aliases
       then raise ValueError ''home_status.servers.entries aliases must be unique''
       else
         bind_result (config_label (jget_or d (lit ''name'') (JStr alias)) (path @ lit ''name'')) (\<lambda>name.
         bind_result (app_entity d path ''availability_entity'') (\<lambda>availability.
         bind_result (app_entity d path ''cpu_entity'') (\<lambda>cpu.
         bind_result (app_entity d path ''memory_entity'') (\<lambda>memory.
         bind_result (app_entity d path ''disk_entity'') (\<lambda>disk.
         bind_result (app_entity d path ''temperature_entity'') (\<lambda>temperature.
         bind_result (app_entity d path ''health_entity'') (\<lambda>h.
           Inr \<lparr>pv_alias = alias, pv_name = (if name = [] then alias else name),
                pv_availability_entity = availability, pv_cpu_entity = cpu,
                pv_memory_entity = memory, pv_disk_entity = disk,
                pv_temperature_entity = temperature, pv_health_entity = h\<rparr>))))))))"

fun parse_app_server_items :: "str list \<Rightarrow> json list \<Rightarrow> app_server_entry list result" where
  "parse_app_server_items aliases [] = Inr []"
| "parse_app_server_items aliases (item # items) =
     bind_result (parse_app_server aliases item) (\<lambda>e.
     bind_result (parse_app_server_items (pv_alias e # aliases) items) (\<lambda>es. Inr (e # es)))"

definition parse_app_servers :: "json \<Rightarrow> app_server_entry list result" where
  "parse_app_servers v =
     (case v of
        JArr items \<Rightarrow>
          if length items > 20
          then raise ValueError ''home_status.servers.entries must contain 20 entries or fewer''
          else parse_app_server_items [] items
      | _ \<Rightarrow> raise ValueError ''home_status.servers.entries must be a list'')"

definition parse_app_alarm :: "jobject \<Rightarrow> app_alarm result" where
  "parse_app_alarm d =
     (let path = lit ''home_status.alarm.'' in
      bind_result (app_entity d path ''entity_id'') (\<lambda>i.
      bind_result (app_entities d path ''door_entities'') (\<lambda>doors.
      bind_result (app_entities d path ''motion_entities'') (\<lambda>motions.
        Inr \<lparr>pa_entity_id = i, pa_door_entities = doors, pa_motion_entities = motions\<rparr>))))"

definition parse_app_home :: "jobject \<Rightarrow> app_home result" where
  "parse_app_home d =
     (let path = lit ''home_status.home.'' in
      bind_result (app_entities d path ''person_entities'') (\<lambda>persons.
      bind_result (app_entities d path ''presence_entities'') (\<lambda>presence.
      bind_result (app_entities d path ''door_entities'') (\<lambda>doors.
      bind_result (app_entities d path ''light_entities'') (\<lambda>lights.
      bind_result (app_entity d path ''temperature_entity'') (\<lambda>temperature.
      bind_result (app_entity d path ''humidity_entity'') (\<lambda>humidity.
      bind_result (app_entity d path ''ups_battery_entity'') (\<lambda>ups.
        Inr \<lparr>ph_person_entities = persons, ph_presence_entities = presence,
             ph_door_entities = doors, ph_light_entities = lights,
             ph_temperature_entity = temperature, ph_humidity_entity = humidity,
             ph_ups_battery_entity = ups\<rparr>))))))))"

definition parse_app_network :: "jobject \<Rightarrow> app_network result" where
  "parse_app_network d =
     (let path = lit ''home_status.network.'' in
      bind_result (app_entity d path ''internet_entity'') (\<lambda>internet.
      bind_result (app_entity d path ''router_entity'') (\<lambda>router.
      bind_result (app_entity d path ''dns_entity'') (\<lambda>dns.
      bind_result (app_entity d path ''home_assistant_entity'') (\<lambda>ha.
      bind_result (app_entities d path ''additional_entities'') (\<lambda>additional.
        Inr \<lparr>pn_internet_entity = internet, pn_router_entity = router, pn_dns_entity = dns,
             pn_home_assistant_entity = ha, pn_additional_entities = additional\<rparr>))))))"

definition no_app_home_status :: app_home_status where
  "no_app_home_status =
     \<lparr>px_alarm = \<lparr>pa_entity_id = [], pa_door_entities = [], pa_motion_entities = []\<rparr>,
      px_home = \<lparr>ph_person_entities = [], ph_presence_entities = [], ph_door_entities = [],
                 ph_light_entities = [], ph_temperature_entity = [], ph_humidity_entity = [],
                 ph_ups_battery_entity = []\<rparr>,
      px_servers = [],
      px_network = \<lparr>pn_internet_entity = [], pn_router_entity = [], pn_dns_entity = [],
                    pn_home_assistant_entity = [], pn_additional_entities = []\<rparr>\<rparr>"

definition parse_app_home_status :: "json \<Rightarrow> app_home_status result" where
  "parse_app_home_status v =
     (let sub = (\<lambda>d key. app_object (jget_or d (lit key) (JObj [])) (lit ''home_status.'' @ lit key)) in
      if no_value v then Inr no_app_home_status
      else
        bind_result (app_object v (lit ''home_status'')) (\<lambda>d.
        bind_result (sub d ''alarm'') (\<lambda>alarm_data.
        bind_result (sub d ''home'') (\<lambda>home_data.
        bind_result (sub d ''servers'') (\<lambda>servers_data.
        bind_result (sub d ''network'') (\<lambda>network_data.
        bind_result (parse_app_alarm alarm_data) (\<lambda>alarm.
        bind_result (parse_app_home home_data) (\<lambda>home.
        bind_result (parse_app_servers (jget_or servers_data (lit ''entries'') (JArr []))) (\<lambda>servers.
        bind_result (parse_app_network network_data) (\<lambda>network.
          Inr \<lparr>px_alarm = alarm, px_home = home, px_servers = servers, px_network = network\<rparr>))))))))))"

text \<open>A limit of the Telegram section, whose first member counts messages.\<close>

definition app_forwarding_limit :: "jobject \<Rightarrow> string \<Rightarrow> int \<Rightarrow> rate_limit_config result" where
  "app_forwarding_limit d key default_messages =
     (let name = ''telegram.'' @ key in
      bind_result (app_object (jget_or d (lit key) (JObj [])) (lit name)) (\<lambda>limit.
      bind_result (app_int (jget_or limit (lit ''messages'') (JInt default_messages))
                     (name @ ''.messages'')) (\<lambda>messages.
      bind_result (app_int (jget_or limit (lit ''window_seconds'') (JInt 60))
                     (name @ ''.window_seconds'')) (\<lambda>window.
      bind_result (guards [(messages < 1, name @ ''.messages must be positive''),
                           (window < 1, name @ ''.window_seconds must be positive'')]) (\<lambda>_.
        Inr \<lparr>rc_commands = messages, rc_window_seconds = window\<rparr>)))))"

definition default_app_telegram :: app_telegram where
  "default_app_telegram =
     \<lparr>pt_enabled = False, pt_bot_token_import = [],
      pt_bot_token_file = lit ''/data/telegram.bot_token'', pt_allowed_private_chat_id = [],
      pt_allowed_user_id = [], pt_authorized_user_role = Readonly, pt_channel_index = 1,
      pt_forward_mc_to_tg = True, pt_forward_tg_to_mc = True, pt_command_prefix = lit ''!'',
      pt_max_meshcore_length = 180, pt_max_telegram_length = 3900,
      pt_message_prefix = lit ''TG: '', pt_mc_to_tg_prefix = lit ''MC: '',
      pt_send_confirmation = False,
      pt_forwarding_rate_limit = \<lparr>rc_commands = 5, rc_window_seconds = 60\<rparr>,
      pt_inbound_rate_limit = \<lparr>rc_commands = 20, rc_window_seconds = 60\<rparr>\<rparr>"

definition or_bang :: "json \<Rightarrow> str" where
  "or_bang v = (if truthy v then py_str v else lit ''!'')"

definition parse_app_telegram :: "json \<Rightarrow> app_telegram result" where
  "parse_app_telegram v =
     (if no_value v then Inr default_app_telegram
      else
        bind_result (app_object v (lit ''telegram'')) (\<lambda>d.
          let get = (\<lambda>key dflt. jget_or d (lit key) dflt);
              command_prefix = or_bang (get ''command_prefix'' (JStr (lit ''!'')))
          in
          bind_result (app_int (get ''meshcore_channel_index'' (JInt 1))
                         ''telegram.meshcore_channel_index'') (\<lambda>channel.
          bind_result (guards [(channel = 0, ''telegram.meshcore_channel_index 0/Public must not be used''),
                               (channel < 0, ''telegram.meshcore_channel_index must be positive'')]) (\<lambda>_.
          bind_result (app_int (get ''max_meshcore_message_length'' (JInt 180))
                         ''telegram.max_meshcore_message_length'') (\<lambda>max_mc.
          bind_result (guards [(max_mc < 1, ''telegram.max_meshcore_message_length must be positive'')]) (\<lambda>_.
          bind_result (app_int (get ''max_telegram_message_length'' (JInt 3900))
                         ''telegram.max_telegram_message_length'') (\<lambda>max_tg.
          bind_result (guards [(max_tg < 1, ''telegram.max_telegram_message_length must be positive''),
                               (command_prefix = [], ''telegram.command_prefix must not be empty'')]) (\<lambda>_.
          bind_result (telegram_message_prefix (get ''message_prefix'' (JStr (lit ''TG: '')))
                         (lit ''telegram.message_prefix'')) (\<lambda>message_prefix.
          bind_result (telegram_message_prefix (get ''meshcore_to_telegram_prefix'' (JStr (lit ''MC: '')))
                         (lit ''telegram.meshcore_to_telegram_prefix'')) (\<lambda>mc_prefix.
          bind_result (app_forwarding_limit d ''forwarding_rate_limit'' 5) (\<lambda>forwarding.
          bind_result (app_forwarding_limit d ''inbound_forwarding_rate_limit'' 20) (\<lambda>inbound.
          bind_result (parse_role (py_str (get ''authorized_user_role'' (JStr (lit ''readonly''))))) (\<lambda>r.
          bind_result (strict_bool (get ''send_forward_confirmation'' (JBool False))
                         (lit ''telegram.send_forward_confirmation'')) (\<lambda>confirmation.
            let options =
              \<lparr>pt_enabled = truthy (get ''enabled'' (JBool False)),
               pt_bot_token_import = str_or_empty (get ''bot_token_import'' (JStr [])),
               pt_bot_token_file =
                 str_or_empty (get ''bot_token_file'' (JStr (lit ''/data/telegram.bot_token''))),
               pt_allowed_private_chat_id =
                 strip (str_or_empty (get ''allowed_private_chat_id'' (JStr []))),
               pt_allowed_user_id = strip (str_or_empty (get ''allowed_user_id'' (JStr []))),
               pt_authorized_user_role = r, pt_channel_index = channel,
               pt_forward_mc_to_tg = truthy (get ''forward_meshcore_to_telegram'' (JBool True)),
               pt_forward_tg_to_mc = truthy (get ''forward_telegram_to_meshcore'' (JBool True)),
               pt_command_prefix = command_prefix, pt_max_meshcore_length = max_mc,
               pt_max_telegram_length = max_tg, pt_message_prefix = message_prefix,
               pt_mc_to_tg_prefix = mc_prefix, pt_send_confirmation = confirmation,
               pt_forwarding_rate_limit = forwarding, pt_inbound_rate_limit = inbound\<rparr>
            in
            bind_result (guards
               [(pt_enabled options \<and> pt_allowed_private_chat_id options = [],
                 ''telegram.allowed_private_chat_id is required when enabled''),
                (pt_enabled options \<and> pt_allowed_user_id options = [],
                 ''telegram.allowed_user_id is required when enabled''),
                (pt_enabled options \<and> pt_bot_token_file options = [],
                 ''telegram.bot_token_file is required when enabled'')]) (\<lambda>_.
              Inr options)))))))))))))))"

definition parse_app_health :: "json \<Rightarrow> app_health result" where
  "parse_app_health v =
     (if no_value v then Inr \<lparr>pg_events_enabled = True, pg_heartbeat_seconds = 60\<rparr>
      else
        bind_result (app_object v (lit ''health'')) (\<lambda>d.
        bind_result (app_int (jget_or d (lit ''heartbeat_seconds'') (JInt 60)) ''health.heartbeat_seconds'') (\<lambda>s.
          if \<not> (15 \<le> s \<and> s \<le> 3600)
          then raise ValueError ''health.heartbeat_seconds must be between 15 and 3600''
          else
            bind_result (strict_bool (jget_or d (lit ''home_assistant_events_enabled'') (JBool True))
                           (lit ''health.home_assistant_events_enabled'')) (\<lambda>enabled.
              Inr \<lparr>pg_events_enabled = enabled, pg_heartbeat_seconds = s\<rparr>))))"

section \<open>The options\<close>

definition app_options_from_mapping :: "jobject \<Rightarrow> app_options result" where
  "app_options_from_mapping payload =
     (let get = (\<lambda>key dflt. jget_or payload (lit key) dflt);
          log_level = lower (py_str (get ''log_level'' (JStr (lit ''info''))));
          senders_value = jget payload (lit ''authorized_senders'')
      in
      bind_result (app_int (get ''channel_index'' (JInt 1)) ''channel_index'') (\<lambda>channel.
      bind_result (guards [(channel = 0, ''channel_index 0/Public must not be used for administration''),
                           (channel < 0, ''channel_index must be positive''),
                           (log_level \<notin> {lit ''debug'', lit ''info'', lit ''warning'', lit ''error''},
                            ''log_level must be one of debug, info, warning, error'')]) (\<lambda>_.
      bind_result (app_object (get ''rate_limit'' (JObj [])) (lit ''rate_limit'')) (\<lambda>limit.
      bind_result (parse_authorized_senders senders_value) (\<lambda>senders.
      bind_result (parse_app_status_entities (get ''status_entities'' (JArr []))) (\<lambda>entities.
      bind_result (parse_app_weather (get ''weather_status'' (JObj []))) (\<lambda>weather.
      bind_result (parse_app_home_status (get ''home_status'' (JObj []))) (\<lambda>home_status.
      bind_result (parse_app_telegram (get ''telegram'' (JObj []))) (\<lambda>telegram.
      bind_result (parse_app_health (get ''health'' (JObj []))) (\<lambda>hlth.
      bind_result (app_int (jget_or limit (lit ''commands'') (JInt 5)) ''rate_limit.commands'') (\<lambda>commands.
      bind_result (app_int (jget_or limit (lit ''window_seconds'') (JInt 60))
                     ''rate_limit.window_seconds'') (\<lambda>window.
        let options =
          \<lparr>po_channel_index = channel,
           po_meshcore_entry_id = str_or_empty (get ''meshcore_entry_id'' (JStr [])),
           po_command_prefix = or_bang (get ''command_prefix'' (JStr (lit ''!''))),
           po_authorized_senders = senders, po_status_entities = entities,
           po_weather_status = weather, po_home_status = home_status, po_telegram = telegram,
           po_health = hlth, po_rate_limit = \<lparr>rc_commands = commands, rc_window_seconds = window\<rparr>,
           po_log_level = log_level,
           po_allow_unidentified = truthy (get ''allow_unidentified_readonly_testing'' (JBool False))\<rparr>;
          nobody = (senders = [] \<and> \<not> po_allow_unidentified options)
        in
        bind_result (guards
           [(commands < 1, ''rate_limit.commands must be positive''),
            (window < 1, ''rate_limit.window_seconds must be positive''),
            (nobody \<and> senders_value = None,
             ''authorized_senders is missing; configure at least one MeshCore authorized sender or enable unidentified readonly testing temporarily''),
            (nobody, ''at least one authorized sender is required'')]) (\<lambda>_.
          Inr options)))))))))))))"

definition app_options_from_file :: "json result \<Rightarrow> app_options result" where
  "app_options_from_file content =
     bind_result content (\<lambda>payload.
       case payload of
         JObj d \<Rightarrow> app_options_from_mapping d
       | _ \<Rightarrow> raise ValueError ''options.json root must be an object'')"

section \<open>Translation\<close>

definition app_sender_id :: "str \<Rightarrow> str" where
  "app_sender_id pk =
     (let normalized = lower (strip pk) in
      if starts_with normalized (lit ''meshcore-pubkey-prefix:'') then normalized
      else lit ''meshcore-pubkey-prefix:'' @ normalized)"

definition app_user_of :: "app_sender \<Rightarrow> str \<times> authorized_user" where
  "app_user_of s =
     (app_sender_id (ps_pubkey_prefix s),
      \<lparr>au_sender_id = app_sender_id (ps_pubkey_prefix s), au_name = ps_name s, au_role = ps_role s\<rparr>)"

text \<open>A dict comprehension: a later entry with the same key replaces the value of the earlier.\<close>

definition dict_of :: "('k \<times> 'v) list \<Rightarrow> ('k \<times> 'v) list" where
  "dict_of kvs = fold (\<lambda>kv. AList.update (fst kv) (snd kv)) kvs []"

definition app_users :: "app_options \<Rightarrow> (str \<times> authorized_user) list" where
  "app_users po =
     (let users = dict_of (map app_user_of (po_authorized_senders po));
          testing = unidentified_testing_sender_id (po_channel_index po)
      in
      if po_allow_unidentified po
      then AList.update testing
             \<lparr>au_sender_id = testing, au_name = lit ''unidentified-channel-testing'', au_role = Readonly\<rparr> users
      else users)"

definition app_status_config :: "app_status_entity \<Rightarrow> str \<times> status_entity_config" where
  "app_status_config e = (pe_alias e, \<lparr>sc_entity_id = pe_entity_id e, sc_label = pe_label e\<rparr>)"

definition app_server_config :: "app_server_entry \<Rightarrow> server_entry" where
  "app_server_config e =
     \<lparr>se_alias = pv_alias e, se_name = pv_name e, se_availability_entity = pv_availability_entity e,
      se_cpu_entity = pv_cpu_entity e, se_memory_entity = pv_memory_entity e,
      se_disk_entity = pv_disk_entity e, se_temperature_entity = pv_temperature_entity e,
      se_health_entity = pv_health_entity e\<rparr>"

definition app_home_status_config :: "app_home_status \<Rightarrow> home_status_config" where
  "app_home_status_config x =
     (let alarm = px_alarm x; home = px_home x; network = px_network x in
      \<lparr>hx_alarm =
         \<lparr>ac_entity_id = pa_entity_id alarm, ac_door_entities = pa_door_entities alarm,
          ac_motion_entities = pa_motion_entities alarm\<rparr>,
       hx_home =
         \<lparr>ho_person_entities = ph_person_entities home, ho_presence_entities = ph_presence_entities home,
          ho_door_entities = ph_door_entities home, ho_light_entities = ph_light_entities home,
          ho_temperature_entity = ph_temperature_entity home, ho_humidity_entity = ph_humidity_entity home,
          ho_ups_battery_entity = ph_ups_battery_entity home\<rparr>,
       hx_servers = map app_server_config (px_servers x),
       hx_network =
         \<lparr>nc_internet_entity = pn_internet_entity network, nc_router_entity = pn_router_entity network,
          nc_dns_entity = pn_dns_entity network,
          nc_home_assistant_entity = pn_home_assistant_entity network,
          nc_additional_entities = pn_additional_entities network\<rparr>\<rparr>)"

definition app_telegram_config :: "app_telegram \<Rightarrow> tg_config" where
  "app_telegram_config t =
     \<lparr>tc_enabled = pt_enabled t, tc_bot_token_import = pt_bot_token_import t,
      tc_bot_token_file = pt_bot_token_file t,
      tc_allowed_private_chat_id = pt_allowed_private_chat_id t,
      tc_allowed_user_id = pt_allowed_user_id t,
      tc_authorized_user_role = pt_authorized_user_role t, tc_channel_index = pt_channel_index t,
      tc_forward_mc_to_tg = pt_forward_mc_to_tg t, tc_forward_tg_to_mc = pt_forward_tg_to_mc t,
      tc_command_prefix = pt_command_prefix t, tc_max_meshcore_length = pt_max_meshcore_length t,
      tc_max_telegram_length = pt_max_telegram_length t, tc_message_prefix = pt_message_prefix t,
      tc_mc_to_tg_prefix = pt_mc_to_tg_prefix t, tc_send_confirmation = pt_send_confirmation t,
      tc_forwarding_rate_limit = pt_forwarding_rate_limit t,
      tc_inbound_rate_limit = pt_inbound_rate_limit t\<rparr>"

definition app_room_id :: "app_options \<Rightarrow> str" where
  "app_room_id po = lit ''homeassistant-meshcore:channel:'' @ dec (po_channel_index po)"

text \<open>The deduplication window keeps the default of \<open>AppConfig\<close>.\<close>

definition to_app_config :: "app_options \<Rightarrow> homeassistant_runtime \<Rightarrow> app_config" where
  "to_app_config po rt =
     \<lparr>cf_command_prefix = po_command_prefix po, cf_database_path = lit ''/data/audit.db'',
      cf_deduplication_window = 300,
      cf_meshcore =
        \<lparr>mk_transport = lit ''homeassistant'', mk_channel_index = po_channel_index po,
         mk_serial_port = None,
         mk_ha_entry_id = (if po_meshcore_entry_id po = [] then None else Some (po_meshcore_entry_id po)),
         mk_event_types = [lit ''meshcore_message''],
         mk_require_stable_sender = (\<not> po_allow_unidentified po),
         mk_allow_channel_without_sender = po_allow_unidentified po,
         mk_healthcheck_path = Some (lit ''/data/health.json'')\<rparr>,
      cf_homeassistant =
        \<lparr>hc_base_url = rt_rest_base_url rt, hc_token = rt_token rt, hc_verify_tls = rt_verify_tls rt,
         hc_timeout_seconds = 5, hc_websocket_url = Some (rt_websocket_url rt)\<rparr>,
      cf_users = app_users po,
      cf_room_policies =
        [(app_room_id po, \<lparr>rp_room_id = app_room_id po, rp_enabled = True,
                           rp_minimum_role = Readonly, rp_allow_commands = True\<rparr>)],
      cf_status_entities = dict_of (map app_status_config (po_status_entities po)),
      cf_weather_status =
        \<lparr>wc_temperature_entity = pw_temperature_entity (po_weather_status po),
         wc_humidity_entity = pw_humidity_entity (po_weather_status po),
         wc_label = pw_label (po_weather_status po)\<rparr>,
      cf_home_status = app_home_status_config (po_home_status po),
      cf_telegram = app_telegram_config (po_telegram po),
      cf_health =
        \<lparr>hg_events_enabled = pg_events_enabled (po_health po),
         hg_heartbeat_seconds = pg_heartbeat_seconds (po_health po)\<rparr>,
      cf_rate_limit = po_rate_limit po\<rparr>"

definition load_app_config ::
    "(str \<Rightarrow> str option) \<Rightarrow> json result \<Rightarrow> homeassistant_runtime option
       \<Rightarrow> (app_config \<times> app_options) result" where
  "load_app_config getenv content runtime =
     bind_result (case runtime of Some rt \<Rightarrow> Inr rt | None \<Rightarrow> runtime_from_environment getenv) (\<lambda>rt.
     bind_result (app_options_from_file content) (\<lambda>po. Inr (to_app_config po rt, po)))"

end
