(* ===== verification/Audit_Store.thy ===== *)
theory Audit_Store
  imports Audit_Events "HOL-Library.AList"
begin

text \<open>
  The tables of the audit database and the two repositories that write them:
  \<open>storage/repositories.py\<close> and \<open>NormalizedAuditRepository\<close> of
  \<open>storage/normalized_audit.py\<close>. The columns that SQLite fills in by itself (row numbers and
  \<open>created_at\<close> defaults) are left out. The deduplication keys are in the same database.
\<close>

section \<open>Tables\<close>

record inbound_row =
  ir_transport :: str
  ir_message_id :: "str option"
  ir_sender_id :: str
  ir_channel_index :: int
  ir_text_hash :: str
  ir_received_at :: str

record command_row =
  cx_message_id :: "str option"
  cx_sender_id :: str
  cx_command :: str
  cx_args_json :: str
  cx_result :: str
  cx_duration_ms :: int
  cx_error :: "str option"

record event_row =
  er_event_id :: str
  er_schema_version :: int
  er_event_type :: str
  er_correlation_id :: str
  er_causation_event_id :: "str option"
  er_transport :: str
  er_source_room_id :: str
  er_source_room_kind :: str
  er_reply_target_transport :: "str option"
  er_reply_target_room_id :: "str option"
  er_reply_target_room_kind :: "str option"
  er_sender_ref_hash :: "str option"
  er_sender_identity_kind :: "str option"
  er_sender_stable :: int
  er_message_ref_hash :: "str option"
  er_command_name :: "str option"
  er_command_result :: "str option"
  er_duration_ms :: "int option"
  er_metadata_json :: str
  er_occurred_at :: str
  er_created_at :: str

record audit_tables =
  at_inbound :: "inbound_row list"
  at_commands :: "command_row list"
  at_events :: "event_row list"
  at_metadata :: "(str \<times> str \<times> str) list"
  at_dedup :: "str \<rightharpoonup> seconds"

definition empty_tables :: audit_tables where
  "empty_tables = \<lparr>at_inbound = [], at_commands = [], at_events = [], at_metadata = [], at_dedup = Map.empty\<rparr>"

section \<open>The legacy repository\<close>

definition text_hash :: "crypto \<Rightarrow> str \<Rightarrow> str result" where
  "text_hash cr t = sha256_text cr t"

definition opt_list :: "'a option \<Rightarrow> 'a list" where
  "opt_list x = (case x of None \<Rightarrow> [] | Some a \<Rightarrow> [a])"

definition insert_inbound_message ::
    "crypto \<Rightarrow> inbound_message \<Rightarrow> audit_tables \<Rightarrow> unit result \<times> audit_tables" where
  "insert_inbound_message cr m t =
     (case text_hash cr (im_text m) of
        Inl e \<Rightarrow> (Inl e, t)
      | Inr h \<Rightarrow>
          then_tx (bind_texts ([im_transport m, im_sender_id m] @ opt_list (im_message_id m)))
            (\<lambda>_ t. (Inr (), t\<lparr>at_inbound := at_inbound t @
               [\<lparr>ir_transport = im_transport m, ir_message_id = im_message_id m,
                 ir_sender_id = im_sender_id m, ir_channel_index = im_channel_index m,
                 ir_text_hash = h, ir_received_at = isoformat (im_received_at m)\<rparr>]\<rparr>)) t)"

definition insert_command ::
    "inbound_message \<Rightarrow> str \<Rightarrow> str list \<Rightarrow> str \<Rightarrow> int \<Rightarrow> str option \<Rightarrow> audit_tables
       \<Rightarrow> unit result \<times> audit_tables" where
  "insert_command m command args res duration_ms error t =
     then_tx (bind_texts ([im_sender_id m, command, res]
                          @ opt_list (im_message_id m) @ opt_list error))
       (\<lambda>_ t. (Inr (), t\<lparr>at_commands := at_commands t @
          [\<lparr>cx_message_id = im_message_id m, cx_sender_id = im_sender_id m, cx_command = command,
            cx_args_json = dumps_default (JArr (map JStr args)), cx_result = res,
            cx_duration_ms = duration_ms, cx_error = error\<rparr>]\<rparr>)) t"

definition record_inbound_message ::
    "crypto \<Rightarrow> inbound_message \<Rightarrow> audit_tables conn \<Rightarrow> unit result \<times> audit_tables conn" where
  "record_inbound_message cr m c = write_transaction (insert_inbound_message cr m) c"

definition record_command ::
    "inbound_message \<Rightarrow> str \<Rightarrow> str list \<Rightarrow> str \<Rightarrow> int \<Rightarrow> str option \<Rightarrow> audit_tables conn
       \<Rightarrow> unit result \<times> audit_tables conn" where
  "record_command m command args res duration_ms error c =
     write_transaction (insert_command m command args res duration_ms error) c"

definition count_commands :: "audit_tables conn \<Rightarrow> int result \<times> audit_tables conn" where
  "count_commands c = read_query (\<lambda>t. int (length (at_commands t))) c"

section \<open>The normalized repository\<close>

record audit_settings =
  as_enabled :: bool
  as_audit_key :: "audit_key option"
  as_warn_disabled :: bool

definition legacy_disabled :: audit_settings where
  "legacy_disabled = \<lparr>as_enabled = False, as_audit_key = None, as_warn_disabled = True\<rparr>"

text \<open>
  The state an audit flow and its repositories share: the connection, whether the warning that
  the audit is off has been given, and how often it was logged.
\<close>

record audit_state =
  st_db :: "audit_tables conn"
  st_warned :: bool
  st_warnings :: nat

definition new_audit_state :: "audit_tables conn \<Rightarrow> audit_state" where
  "new_audit_state c = \<lparr>st_db = c, st_warned = False, st_warnings = 0\<rparr>"

definition warn_if_disabled :: "audit_settings \<Rightarrow> audit_state \<Rightarrow> audit_state" where
  "warn_if_disabled s st =
     (if as_enabled s then st
      else st\<lparr>st_warnings := st_warnings st + (if as_warn_disabled s \<and> \<not> st_warned st then 1 else 0),
              st_warned := True\<rparr>)"

definition event_from_inbound ::
    "crypto \<Rightarrow> audit_settings \<Rightarrow> str \<Rightarrow> event_type \<Rightarrow> inbound_message \<Rightarrow> str option \<Rightarrow> event_args
       \<Rightarrow> audit_event result" where
  "event_from_inbound cr s uuid ty m correlation_id args =
     (case as_audit_key s of
        None \<Rightarrow> raise AuditKeyError ''normalized audit event creation requires an audit key''
      | Some k \<Rightarrow> event_from_message cr k uuid ty m correlation_id args)"

definition record_metadata :: "str \<Rightarrow> str \<Rightarrow> str \<Rightarrow> audit_tables \<Rightarrow> audit_tables" where
  "record_metadata key v updated_at t = t\<lparr>at_metadata := AList.update key (v, updated_at) (at_metadata t)\<rparr>"

definition event_row_of :: "audit_event \<Rightarrow> str \<Rightarrow> str \<Rightarrow> event_row" where
  "event_row_of e metadata_json created_at =
     \<lparr>er_event_id = ae_event_id e, er_schema_version = ae_schema_version e,
      er_event_type = event_type_value (ae_event_type e),
      er_correlation_id = ae_correlation_id e,
      er_causation_event_id = ae_causation_event_id e, er_transport = ae_transport e,
      er_source_room_id = ae_source_room_id e, er_source_room_kind = ae_source_room_kind e,
      er_reply_target_transport = ae_reply_target_transport e,
      er_reply_target_room_id = ae_reply_target_room_id e,
      er_reply_target_room_kind = ae_reply_target_room_kind e,
      er_sender_ref_hash = ae_sender_ref_hash e,
      er_sender_identity_kind = ae_sender_identity_kind e,
      er_sender_stable = (if ae_sender_stable e then 1 else 0),
      er_message_ref_hash = ae_message_ref_hash e, er_command_name = ae_command_name e,
      er_command_result = ae_command_result e, er_duration_ms = ae_duration_ms e,
      er_metadata_json = metadata_json, er_occurred_at = utc_rfc3339 (ae_occurred_at e),
      er_created_at = created_at\<rparr>"

definition event_texts :: "audit_event \<Rightarrow> str list" where
  "event_texts e =
     [ae_transport e, ae_source_room_id e, ae_source_room_kind e]
     @ opt_list (ae_reply_target_transport e) @ opt_list (ae_reply_target_room_id e)
     @ opt_list (ae_reply_target_room_kind e) @ opt_list (ae_sender_identity_kind e)
     @ opt_list (ae_command_name e) @ opt_list (ae_command_result e)"

text \<open>The \<open>UNIQUE\<close> column of the table.\<close>

definition insert_event_row :: "event_row \<Rightarrow> audit_tables \<Rightarrow> unit result \<times> audit_tables" where
  "insert_event_row r t =
     (if er_event_id r \<in> er_event_id ` set (at_events t)
      then (raise IntegrityError ''UNIQUE constraint failed: normalized_audit_events.event_id'', t)
      else (Inr (), t\<lparr>at_events := at_events t @ [r]\<rparr>))"

text \<open>
  \<open>insert_event\<close>, inside a transaction; \<open>now\<close> is the reading of the clock for
  \<open>created_at\<close>. Its callers have given the warning of the disabled branch already.
\<close>

definition insert_event ::
    "audit_settings \<Rightarrow> instant \<Rightarrow> audit_event \<Rightarrow> audit_tables \<Rightarrow> bool result \<times> audit_tables" where
  "insert_event s now e t =
     (if \<not> as_enabled s then (Inr False, t)
      else
        (case as_audit_key s of
           None \<Rightarrow> (raise AuditKeyError ''normalized audit is enabled without an audit key'', t)
         | Some k \<Rightarrow>
             (case validate_event k e of
                Inl x \<Rightarrow> (Inl x, t)
              | Inr _ \<Rightarrow>
                  (case canonical_metadata_json (ae_event_type e) (ae_metadata e) of
                     Inl x \<Rightarrow> (Inl x, t)
                   | Inr metadata_json \<Rightarrow>
                       (let created_at = utc_rfc3339 now;
                            t = record_metadata (lit ''normalized_audit_schema_version'')
                                  (dec normalized_audit_schema_version) created_at t;
                            t = record_metadata (lit ''audit_key_id'') (ak_key_id k) created_at t
                        in
                        then_tx (bind_texts (event_texts e)) (\<lambda>_.
                          then_tx (insert_event_row (event_row_of e metadata_json created_at))
                            (\<lambda>_ t. (Inr True, t))) t)))))"

definition audit_record ::
    "audit_settings \<Rightarrow> instant \<Rightarrow> audit_event \<Rightarrow> audit_state \<Rightarrow> bool result \<times> audit_state" where
  "audit_record s now e st =
     (if \<not> as_enabled s then (Inr False, warn_if_disabled s st)
      else
        (case as_audit_key s of
           None \<Rightarrow> (raise AuditKeyError ''normalized audit is enabled without an audit key'', st)
         | Some k \<Rightarrow>
             (case validate_event k e of
                Inl x \<Rightarrow> (Inl x, st)
              | Inr _ \<Rightarrow>
                  (case write_transaction (insert_event s now e) (st_db st) of
                     (Inl x, c) \<Rightarrow> (Inl x, st\<lparr>st_db := c\<rparr>)
                   | (Inr _, c) \<Rightarrow> (Inr True, st\<lparr>st_db := c\<rparr>)))))"

section \<open>What is stored\<close>

text \<open>
  A stored event is pseudonymous and bounded: its identifiers have their formats, the
  references carry the key's identifier, and its metadata text is the canonical form of an
  object whose keys the allow-list of the event's type admits.
\<close>

definition stored_event_ok :: "audit_key \<Rightarrow> event_row \<Rightarrow> bool" where
  "stored_event_ok k r \<longleftrightarrow>
     matches_event_id (er_event_id r) \<and> matches_correlation_id (er_correlation_id r)
     \<and> (\<forall>h \<in> set (opt_list (er_sender_ref_hash r)) \<union> set (opt_list (er_message_ref_hash r)).
          reference_key_id h = Some (ak_key_id k))
     \<and> (\<forall>d \<in> set (opt_list (er_duration_ms r)). 0 \<le> d)
     \<and> length (er_metadata_json r) \<le> audit_metadata_max_bytes
     \<and> (\<exists>ty m. er_event_type r = event_type_value ty
          \<and> er_metadata_json r = dumps_compact (json_sort m)
          \<and> is_mapping m \<and> set (map fst (obj_items m)) \<subseteq> set (metadata_allowlist ty))"

definition events_ok :: "audit_key \<Rightarrow> audit_tables \<Rightarrow> bool" where
  "events_ok k t \<longleftrightarrow>
     distinct (map er_event_id (at_events t)) \<and> list_all (stored_event_ok k) (at_events t)"

lemma validate_reference_key_id_Inr:
  "validate_reference_key_id v i n = Inr () \<longleftrightarrow>
     (\<forall>h \<in> set (opt_list v). reference_key_id h = Some i)"
  by (auto simp: validate_reference_key_id_def validate_reference_format_def bind_result_Inr_iff
      opt_list_def split: option.splits)

lemma canonical_metadata_json_Inr:
  assumes "canonical_metadata_json ty m = Inr s"
  shows "s = dumps_compact (json_sort m)" "is_mapping m"
    "set (map fst (obj_items m)) \<subseteq> set (metadata_allowlist ty)"
    "length s \<le> audit_metadata_max_bytes"
proof -
  from assms obtain v where v: "validate_metadata ty m = Inr v" "s = dumps_compact (json_sort v)"
    by (auto simp: canonical_metadata_json_def bind_result_Inr_iff)
  with validate_metadata_allowlist [OF v(1)]
  show "s = dumps_compact (json_sort m)" "is_mapping m"
    "set (map fst (obj_items m)) \<subseteq> set (metadata_allowlist ty)"
    "length s \<le> audit_metadata_max_bytes" by auto
qed

lemma validate_event_stored:
  assumes v: "validate_event k e = Inr u"
    and j: "canonical_metadata_json (ae_event_type e) (ae_metadata e) = Inr s"
  shows "stored_event_ok k (event_row_of e s created)"
proof -
  from v have i: "validate_event_identity e = Inr ()"
      and refs: "validate_reference_key_id (ae_sender_ref_hash e) (ak_key_id k) (lit ''sender_ref_hash'') = Inr ()"
        "validate_reference_key_id (ae_message_ref_hash e) (ak_key_id k) (lit ''message_ref_hash'') = Inr ()"
    by (auto simp: validate_event_def bind_result_Inr_iff)
  have ids: "matches_event_id (ae_event_id e)" "matches_correlation_id (ae_correlation_id e)"
      "\<forall>d \<in> set (opt_list (ae_duration_ms e)). 0 \<le> d"
    using i unfolding validate_event_identity_def
    by (auto simp: bind_result_Inr_iff validate_opt_def opt_list_def split: option.splits)
  show ?thesis
    unfolding stored_event_ok_def
    using ids refs [unfolded validate_reference_key_id_Inr] canonical_metadata_json_Inr [OF j]
    by (auto simp: event_row_of_def)
qed

text \<open>A successful insertion appends exactly the row of the event, under a fresh identifier.\<close>

lemma insert_event_stored:
  assumes ins: "insert_event s now e t = (Inr True, t')" and k: "as_audit_key s = Some k"
  obtains r where "at_events t' = at_events t @ [r]" "er_event_id r = ae_event_id e"
    "stored_event_ok k r" "er_event_id r \<notin> er_event_id ` set (at_events t)"
    "er_event_type r = event_type_value (ae_event_type e)"
    "er_causation_event_id r = ae_causation_event_id e"
    "er_correlation_id r = ae_correlation_id e"
    "at_inbound t' = at_inbound t" "at_commands t' = at_commands t" "at_dedup t' = at_dedup t"
proof -
  from ins k have en: "as_enabled s" by (auto simp: insert_event_def split: if_splits)
  with ins k obtain u where v: "validate_event k e = Inr u"
    by (cases "validate_event k e") (auto simp: insert_event_def)
  with ins k en obtain m where m: "canonical_metadata_json (ae_event_type e) (ae_metadata e) = Inr m"
    by (cases "canonical_metadata_json (ae_event_type e) (ae_metadata e)") (auto simp: insert_event_def)
  show thesis
    by (rule that [of "event_row_of e m (utc_rfc3339 now)"])
      (use ins k en v m validate_event_stored [OF v m] in
        \<open>auto simp: insert_event_def Let_def then_tx_Inr_iff bind_texts_Inr_iff insert_event_row_def
          record_metadata_def event_row_of_def split: if_splits\<close>)
qed

lemma insert_event_cases:
  assumes "insert_event s now e t = (Inr b, t')"
  shows "(\<not> as_enabled s \<and> \<not> b \<and> t' = t) \<or> (as_enabled s \<and> b \<and> (\<exists>k. as_audit_key s = Some k))"
  using assms by (auto simp: insert_event_def Let_def then_tx_Inr_iff
      split: if_splits option.splits sum.splits)

lemma insert_event_keeps:
  assumes "events_ok k t" "insert_event s now e t = (Inr b, t')" "as_audit_key s = Some k"
  shows "events_ok k t'"
proof (cases "as_enabled s")
  case False
  with assms insert_event_cases [OF assms(2)] show ?thesis by simp
next
  case True
  with assms(2) insert_event_cases [OF assms(2)] have "insert_event s now e t = (Inr True, t')" by simp
  from insert_event_stored [OF this assms(3)] obtain r where
    "at_events t' = at_events t @ [r]" "stored_event_ok k r"
    "er_event_id r \<notin> er_event_id ` set (at_events t)" by metis
  with assms(1) show ?thesis by (auto simp: events_ok_def)
qed

text \<open>The other tables of the same database.\<close>

lemma insert_inbound_message_frame:
  "insert_inbound_message cr m t = (Inr u, t') \<Longrightarrow>
     at_events t' = at_events t \<and> at_commands t' = at_commands t \<and> at_dedup t' = at_dedup t
     \<and> (\<exists>r. at_inbound t' = at_inbound t @ [r])"
  by (auto simp: insert_inbound_message_def then_tx_Inr_iff bind_texts_Inr_iff split: sum.splits)

lemma insert_command_frame:
  "insert_command m c args res d err t = (Inr u, t') \<Longrightarrow>
     at_events t' = at_events t \<and> at_inbound t' = at_inbound t \<and> at_dedup t' = at_dedup t
     \<and> (\<exists>r. at_commands t' = at_commands t @ [r] \<and> cx_command r = c \<and> cx_result r = res
          \<and> cx_error r = err)"
  by (auto simp: insert_command_def then_tx_Inr_iff bind_texts_Inr_iff)

lemma event_type_value_inj: "inj event_type_value"
proof (rule injI)
  fix x y assume "event_type_value x = event_type_value y"
  then show "x = y" by (cases x; cases y) simp_all
qed

end
