(* ===== verification/Commands.thy ===== *)
theory Commands
  imports Authorization PyNumber "HOL-Library.AList" "HOL-Library.List_Lexorder" "HOL-Library.Product_Lexorder"
begin

text \<open>
  \<open>commands/parser.py\<close>, \<open>registry.py\<close>, \<open>help.py\<close> and \<open>confirmation.py\<close>: how a text becomes
  a command, the table of commands and the help rendered from it. \<open>shlex.split\<close> is Python's
  standard library, so its tokenizer is written out.
\<close>

section \<open>The tokenizer\<close>

datatype shlex_state = Blank | Word | Quote nat | Escape "nat option"

definition shlex_space :: "nat \<Rightarrow> bool" where
  "shlex_space c \<longleftrightarrow> c = 32 \<or> c = 9 \<or> c = 13 \<or> c = 10"

definition is_quote :: "nat \<Rightarrow> bool" where
  "is_quote c \<longleftrightarrow> c = 34 \<or> c = 39"

text \<open>
  POSIX mode with \<open>whitespace_split\<close> and no comments. \<open>Escape (Some q)\<close> is an escape inside
  the quotation \<open>q\<close>, which keeps the backslash unless it precedes \<open>q\<close> or a backslash.
\<close>

fun shlex_from :: "shlex_state \<Rightarrow> bool \<Rightarrow> str \<Rightarrow> str \<Rightarrow> str list result" where
  "shlex_from st quoted token [] =
     (case st of
        Blank \<Rightarrow> Inr []
      | Word \<Rightarrow> Inr (if token \<noteq> [] \<or> quoted then [token] else [])
      | Quote q \<Rightarrow> raise ValueError ''No closing quotation''
      | Escape back \<Rightarrow> raise ValueError ''No escaped character'')"
| "shlex_from st quoted token (c # cs) =
     (case st of
        Blank \<Rightarrow>
          if shlex_space c then shlex_from Blank quoted token cs
          else if c = 92 then shlex_from (Escape None) quoted token cs
          else if is_quote c then shlex_from (Quote c) quoted token cs
          else shlex_from Word quoted [c] cs
      | Word \<Rightarrow>
          if shlex_space c then
            (if token \<noteq> [] \<or> quoted
             then bind_result (shlex_from Blank False [] cs) (\<lambda>ts. Inr (token # ts))
             else shlex_from Blank quoted token cs)
          else if is_quote c then shlex_from (Quote c) quoted token cs
          else if c = 92 then shlex_from (Escape None) quoted token cs
          else shlex_from Word quoted (token @ [c]) cs
      | Quote q \<Rightarrow>
          if c = q then shlex_from Word True token cs
          else if c = 92 \<and> q = 34 then shlex_from (Escape (Some q)) True token cs
          else shlex_from (Quote q) True (token @ [c]) cs
      | Escape None \<Rightarrow> shlex_from Word quoted (token @ [c]) cs
      | Escape (Some q) \<Rightarrow>
          shlex_from (Quote q) quoted
            (if c \<noteq> 92 \<and> c \<noteq> q then token @ [92, c] else token @ [c]) cs)"

declare shlex_from.simps [simp del]

definition shlex_split :: "str \<Rightarrow> str list result" where
  "shlex_split t = shlex_from Blank False [] t"

section \<open>The parser\<close>

record parsed_command =
  pc_name :: str
  pc_args :: "str list"

definition parse_command :: "str \<Rightarrow> str \<Rightarrow> parsed_command option" where
  "parse_command t pfx =
     (let normalized = strip t in
      if \<not> starts_with normalized pfx then None
      else
        (let command_text = strip (drop (length pfx) normalized) in
         if command_text = [] then None
         else
           (case shlex_split command_text of
              Inl _ \<Rightarrow> None
            | Inr [] \<Rightarrow> None
            | Inr (p # ps) \<Rightarrow> Some \<lparr>pc_name = lower p, pc_args = ps\<rparr>)))"

section \<open>The registry\<close>

text \<open>The type of the handlers is a parameter; \<open>Plugins\<close> supplies it.\<close>

record 'h command_def =
  cd_name :: str
  cd_aliases :: "str list"
  cd_group :: str
  cd_usage :: str
  cd_help_text :: str
  cd_minimum_role :: role
  cd_confirmation_required :: bool
  cd_handler :: 'h

definition command_names :: "'h command_def \<Rightarrow> str list" where
  "command_names d = cd_name d # cd_aliases d"

text \<open>\<open>_commands\<close>, a dictionary in the order of insertion.\<close>

type_synonym 'h registry = "(str \<times> 'h command_def) list"

text \<open>
  \<open>register\<close> may raise after the first names of the definition have been entered. The message
  quotes the name with \<open>repr\<close>; its fixed part is written here.
\<close>

fun register_names :: "'h command_def \<Rightarrow> str list \<Rightarrow> 'h registry \<Rightarrow> unit result \<times> 'h registry" where
  "register_names d [] reg = (Inr (), reg)"
| "register_names d (n # ns) reg =
     (if map_of reg (lower n) \<noteq> None
      then (raise ValueError ''command already registered'', reg)
      else register_names d ns (reg @ [(lower n, d)]))"

definition register :: "'h command_def \<Rightarrow> 'h registry \<Rightarrow> unit result \<times> 'h registry" where
  "register d reg = register_names d (command_names d) reg"

fun register_all :: "'h command_def list \<Rightarrow> 'h registry \<Rightarrow> unit result \<times> 'h registry" where
  "register_all [] reg = (Inr (), reg)"
| "register_all (d # ds) reg =
     (case register d reg of
        (Inl e, reg') \<Rightarrow> (Inl e, reg')
      | (Inr _, reg') \<Rightarrow> register_all ds reg')"

definition resolve :: "'h registry \<Rightarrow> str \<Rightarrow> 'h command_def option" where
  "resolve reg name = map_of reg (lower name)"

definition command_sort_key :: "'h command_def \<Rightarrow> nat \<times> str \<times> str" where
  "command_sort_key d = (if cd_group d = lit ''system'' then 0 else 1, cd_group d, cd_name d)"

definition visible_commands :: "'h registry \<Rightarrow> role \<Rightarrow> 'h command_def list" where
  "visible_commands reg r =
     sort_key command_sort_key
       (map snd (fold (\<lambda>kd unique.
            if r \<ge> cd_minimum_role (snd kd) then AList.update (cd_name (snd kd)) (snd kd) unique
            else unique) reg []))"

definition group_commands :: "'h registry \<Rightarrow> str \<Rightarrow> role \<Rightarrow> 'h command_def list" where
  "group_commands reg grp r =
     filter (\<lambda>d. cd_group d = lower grp \<or> cd_name d = lower grp) (visible_commands reg r)"

section \<open>Help\<close>

text \<open>
  \<open>render_help\<close>; the groups it collects serve only to decide whether there are any.
\<close>

definition render_help :: "'h registry \<Rightarrow> role \<Rightarrow> str option \<Rightarrow> str" where
  "render_help reg r grp =
     (let commands = (if present grp then group_commands reg (the grp) r
                      else visible_commands reg r)
      in
      if commands = [] then lit ''Sin comandos disponibles.''
      else if present grp then join [10] (take 8 (upper (the grp) # map cd_usage commands))
      else
        join [10] (lit ''MeshCore Bridge'' # map cd_usage (take 6 commands)
                   @ (if remdups (map cd_group commands) \<noteq> [] then [lit ''Mas: !help <grupo>''] else [])))"

section \<open>Confirmations\<close>

record confirmation =
  cf_confirmation_id :: str
  cf_sender_id :: str
  cf_command :: str
  cf_args :: "str list"
  cf_expires_at :: instant

record confirmation_store =
  cs_ttl_seconds :: int
  cs_pending :: "(str \<times> confirmation) list"

text \<open>\<open>token\<close> stands for \<open>token_hex(2)\<close>, \<open>now\<close> for the clock.\<close>

definition create_confirmation ::
    "str \<Rightarrow> instant \<Rightarrow> str \<Rightarrow> str \<Rightarrow> str list \<Rightarrow> confirmation_store
       \<Rightarrow> confirmation \<times> confirmation_store" where
  "create_confirmation token now sender_id command args cs =
     (let c = \<lparr>cf_confirmation_id = upper token, cf_sender_id = sender_id, cf_command = command,
               cf_args = args, cf_expires_at = now + 1000000 * cs_ttl_seconds cs\<rparr>
      in (c, cs\<lparr>cs_pending := AList.update (cf_confirmation_id c) c (cs_pending cs)\<rparr>))"

section \<open>Facts\<close>

lemma register_names_Inr:
  assumes "register_names d ns reg = (Inr u, reg')"
  shows "reg' = reg @ map (\<lambda>n. (lower n, d)) ns"
    "distinct (map fst reg) \<Longrightarrow> distinct (map fst reg')"
    "set (map lower ns) \<inter> set (map fst reg) = {}"
  using assms
  by (induction d ns reg rule: register_names.induct)
    (auto simp: map_of_eq_None_iff split: if_splits)

text \<open>After a registration, the new names resolve to the definition and the old ones as before.\<close>

lemma register_resolve:
  assumes r: "register d reg = (Inr u, reg')"
  shows "resolve reg' name =
     (if lower name \<in> lower ` set (command_names d) then Some d else resolve reg name)"
proof -
  from register_names_Inr [OF r [unfolded register_def]]
  have reg': "reg' = reg @ map (\<lambda>n. (lower n, d)) (command_names d)"
    and new: "set (map lower (command_names d)) \<inter> set (map fst reg) = {}" by auto
  have m: "map_of (map (\<lambda>n. (lower n, d)) ns) k = (if k \<in> lower ` set ns then Some d else None)"
    for ns k by (induction ns) auto
  show ?thesis
  proof (cases "lower name \<in> lower ` set (command_names d)")
    case True
    with new have "map_of reg (lower name) = None" by (auto simp: map_of_eq_None_iff)
    with True show ?thesis by (simp add: resolve_def reg' m map_add_def)
  next
    case False
    with m [of "command_names d" "lower name"] show ?thesis
      by (simp add: resolve_def reg' map_add_def split: option.splits)
  qed
qed

text \<open>The help never shows a command above the reader's role.\<close>

section \<open>Plain commands\<close>

text \<open>A word that the tokenizer takes as it is.\<close>

definition plain_cp :: "nat \<Rightarrow> bool" where
  "plain_cp c \<longleftrightarrow> \<not> is_space c \<and> c \<noteq> 92 \<and> \<not> is_quote c"

definition plain_word :: "str \<Rightarrow> bool" where
  "plain_word w \<longleftrightarrow> w \<noteq> [] \<and> list_all plain_cp w"

lemma plain_not_space: "plain_cp c \<Longrightarrow> \<not> shlex_space c"
  by (auto simp: plain_cp_def shlex_space_def is_space_def)

lemma shlex_word_plain:
  assumes "list_all plain_cp w" "token \<noteq> []"
  shows "shlex_from Word quoted token (w @ cs) = shlex_from Word quoted (token @ w) cs"
  using assms
  by (induction w arbitrary: token) (auto simp: shlex_from.simps plain_not_space plain_cp_def)

lemma shlex_join_plain:
  assumes "list_all plain_word ws"
  shows "shlex_from Blank False [] (join [32] ws) = Inr ws"
  using assms
proof (induction ws)
  case Nil
  then show ?case by (simp add: shlex_from.simps)
next
  case (Cons w ws)
  then obtain c cs where w: "w = c # cs" "plain_cp c" "list_all plain_cp cs"
    by (cases w) (auto simp: plain_word_def)
  have start: "shlex_from Blank False [] (w @ rest) = shlex_from Word False w rest" for rest
    using w shlex_word_plain [of cs "[c]" False rest]
    by (simp add: shlex_from.simps plain_not_space plain_cp_def)
  show ?case
  proof (cases ws)
    case Nil
    then show ?thesis using start [of "[]"] w by (simp add: shlex_from.simps)
  next
    case (Cons v vs)
    then have "join [32] (w # ws) = w @ 32 # join [32] ws" by simp
    with start [of "32 # join [32] ws"] Cons.IH Cons.prems w show ?thesis
      by (simp add: shlex_from.simps shlex_space_def)
  qed
qed

lemma join_plain_ends:
  assumes "list_all plain_word ws" "ws \<noteq> []"
  shows "join [32] ws \<noteq> [] \<and> \<not> is_space (hd (join [32] ws)) \<and> \<not> is_space (last (join [32] ws))"
  using assms
proof (induction ws)
  case (Cons w ws)
  then have w: "w \<noteq> []" "\<not> is_space (hd w)" "\<not> is_space (last w)"
    by (auto simp: plain_word_def plain_cp_def list_all_iff)
  show ?case
  proof (cases ws)
    case Nil
    with w show ?thesis by simp
  next
    case (Cons v vs)
    with w Cons.IH Cons.prems show ?thesis by (auto simp: hd_append)
  qed
qed simp

text \<open>A command typed with plain words is read back as its name and its arguments.\<close>

lemma parse_plain_command:
  assumes "pfx \<noteq> []" "\<not> is_space (hd pfx)" "list_all plain_word (name # args)"
  shows "parse_command (pfx @ join [32] (name # args)) pfx
    = Some \<lparr>pc_name = lower name, pc_args = args\<rparr>"
proof -
  let ?body = "join [32] (name # args)"
  note ends = join_plain_ends [OF assms(3)]
  have "strip (pfx @ ?body) = pfx @ ?body"
    by (rule strip_nonspace_ends) (use assms ends in \<open>auto simp: hd_append\<close>)
  moreover have "strip ?body = ?body" by (rule strip_nonspace_ends) (use ends in auto)
  moreover have "shlex_split ?body = Inr (name # args)"
    unfolding shlex_split_def by (rule shlex_join_plain [OF assms(3)])
  ultimately show ?thesis using ends by (simp add: parse_command_def Let_def)
qed

lemma parse_command_no_prefix: "\<not> starts_with (strip t) pfx \<Longrightarrow> parse_command t pfx = None"
  by (simp add: parse_command_def)

text \<open>
  The prefix and plain words joined by blanks parse back to the name in lower case and to the
  arguments as they were.
\<close>

theorem plain_command_round_trip:
  assumes "pfx \<noteq> []" "\<not> is_space (hd pfx)" "list_all plain_word (name # args)"
  shows "parse_command (pfx @ join [32] (name # args)) pfx
    = Some \<lparr>pc_name = lower name, pc_args = args\<rparr>"
  by (rule parse_plain_command [OF assms])

theorem plain_command_round_trip_witness:
  "parse_command (lit ''!estado ha'') (lit ''!'') = Some \<lparr>pc_name = lit ''estado'', pc_args = [lit ''ha'']\<rparr>"
proof -
  have "lower (lit ''estado'') = lit ''estado''" by (simp add: lower_def lower_cp_def lit_def)
  moreover have "list_all plain_word [lit ''estado'', lit ''ha'']"
    by (simp add: lit_def is_space_def plain_word_def plain_cp_def is_quote_def)
  ultimately show ?thesis
    using plain_command_round_trip [of "lit ''!''" "lit ''estado''" "[lit ''ha'']"]
    by (simp add: lit_def is_space_def)
qed

lemma set_update_same:
  "(\<And>x. (k, x) \<in> set al \<Longrightarrow> x = v) \<Longrightarrow> set (AList.update k v al) = insert (k, v) (set al)"
  by (induction al) (auto split: if_splits)

lemma visible_fold:
  assumes "\<And>k d. (k, d) \<in> set acc \<Longrightarrow> k = cd_name d"
    and "inj_on cd_name (snd ` set acc \<union> snd ` set reg)"
  shows "snd ` set (fold (\<lambda>kd unique.
            if r \<ge> cd_minimum_role (snd kd) then AList.update (cd_name (snd kd)) (snd kd) unique
            else unique) reg acc) = snd ` set acc \<union> {d \<in> snd ` set reg. cd_minimum_role d \<le> r}"
  using assms
proof (induction reg arbitrary: acc)
  case (Cons kd reg)
  let ?acc = "if r \<ge> cd_minimum_role (snd kd) then AList.update (cd_name (snd kd)) (snd kd) acc else acc"
  have same: "x = snd kd" if "(cd_name (snd kd), x) \<in> set acc" for x
  proof -
    have "x \<in> snd ` set acc" using that by force
    with Cons.prems(1) [OF that] show ?thesis
      by (intro inj_onD [OF Cons.prems(2)]) auto
  qed
  have acc: "set ?acc = (if r \<ge> cd_minimum_role (snd kd) then insert (cd_name (snd kd), snd kd) (set acc) else set acc)"
    using set_update_same [of "cd_name (snd kd)" acc "snd kd"] same by simp
  have "snd ` set (fold (\<lambda>kd unique.
            if r \<ge> cd_minimum_role (snd kd) then AList.update (cd_name (snd kd)) (snd kd) unique
            else unique) reg ?acc) = snd ` set ?acc \<union> {d \<in> snd ` set reg. cd_minimum_role d \<le> r}"
  proof (rule Cons.IH)
    show "k = cd_name d" if "(k, d) \<in> set ?acc" for k d
      using that Cons.prems(1) [of k d] unfolding acc by (auto split: if_splits)
    show "inj_on cd_name (snd ` set ?acc \<union> snd ` set reg)"
      by (rule inj_on_subset [OF Cons.prems(2)]) (auto simp: acc split: if_splits)
  qed
  then show ?case by (auto simp: acc)
qed auto

lemma register_all_entries:
  "register_all ds reg = (Inr u, reg') \<Longrightarrow> distinct (map fst reg) \<Longrightarrow>
     distinct (map fst reg')
     \<and> set reg' = set reg \<union> {(lower n, d) | n d. d \<in> set ds \<and> n \<in> set (command_names d)}"
proof (induction ds arbitrary: reg)
  case (Cons d ds)
  from Cons.prems(1) obtain v reg1 where r: "register d reg = (Inr v, reg1)"
      and rest: "register_all ds reg1 = (Inr u, reg')" by (auto split: prod.splits sum.splits)
  note names = register_names_Inr [OF r [unfolded register_def]]
  have "set reg1 = set reg \<union> {(lower n, d) | n. n \<in> set (command_names d)}"
    unfolding names(1) by auto
  moreover have "{(lower n, e) | n e. e \<in> set (d # ds) \<and> n \<in> set (command_names e)}
      = {(lower n, d) | n. n \<in> set (command_names d)}
        \<union> {(lower n, e) | n e. e \<in> set ds \<and> n \<in> set (command_names e)}" by auto
  ultimately show ?case
    using Cons.IH [OF rest names(2) [OF Cons.prems(2)]] by (simp only: Un_assoc)
qed auto

end
