(* ===== verification/Audit_Flow.thy ===== *)
theory Audit_Flow
  imports Audit_Store Commands
begin

text \<open>
  \<open>storage/audit_flow.py\<close>: one operation per stage of a message, each of which writes the
  stage's event with the previous event of the same message as its cause. The trail is a
  mutable object of the program that every holder shares; here it is passed on, and an
  operation returns the trail as the program leaves it.
\<close>

definition ignore_reasons :: "str list" where
  "ignore_reasons =
     [lit ''wrong_channel'', lit ''room_not_allowed'', lit ''duplicate'', lit ''rate_limited'',
      lit ''not_a_command'', lit ''sender_not_registered'']"

definition authorization_results :: "str list" where
  "authorization_results = [lit ''allowed'', lit ''denied'']"

definition authorization_reasons :: "str list" where
  "authorization_reasons =
     [lit ''allowed'', lit ''sender_not_registered'', lit ''room_not_allowed'',
      lit ''command_not_readonly'', lit ''insufficient_role'']"

definition command_results :: "str list" where
  "command_results =
     [lit ''ignored'', lit ''unknown'', lit ''unauthorized'', lit ''succeeded'', lit ''failed'']"

record audit_trail =
  tr_message :: inbound_message
  tr_received_event_id :: "str option"
  tr_latest_event_id :: "str option"
  tr_correlation_id :: str

definition child :: "str option \<Rightarrow> audit_trail \<Rightarrow> audit_trail" where
  "child event_id tr =
     (case event_id of None \<Rightarrow> tr | Some i \<Rightarrow> tr\<lparr>tr_latest_event_id := Some i\<rparr>)"

definition message_correlation_id :: "inbound_message \<Rightarrow> str result" where
  "message_correlation_id m =
     (case im_message m of
        None \<Rightarrow> raise ValueError ''normalized audit flow requires MessageIdentity''
      | Some i \<Rightarrow> Inr (mi_correlation_id i))"

text \<open>
  The configuration of a flow: the digests and the settings. Each operation takes the value
  \<open>uuid4().hex\<close> would give for its event and the reading of the clock for \<open>created_at\<close>.
\<close>

record flow_config =
  fc_crypto :: crypto
  fc_settings :: audit_settings

definition flow_enabled :: "flow_config \<Rightarrow> bool" where
  "flow_enabled fc = as_enabled (fc_settings fc)"

text \<open>\<open>AuditFlow.disabled\<close>.\<close>

definition disabled_flow :: "crypto \<Rightarrow> flow_config" where
  "disabled_flow cr = \<lparr>fc_crypto = cr, fc_settings = legacy_disabled\<rparr>"

text \<open>A write of the flow on the connection it holds.\<close>

definition flow_write ::
    "(audit_tables \<Rightarrow> 'a result \<times> audit_tables) \<Rightarrow> audit_state \<Rightarrow> 'a result \<times> audit_state" where
  "flow_write operation st =
     (case write_transaction operation (st_db st) of (r, c) \<Rightarrow> (r, st\<lparr>st_db := c\<rparr>))"

definition message_received ::
    "flow_config \<Rightarrow> str \<Rightarrow> instant \<Rightarrow> inbound_message \<Rightarrow> audit_state
       \<Rightarrow> audit_trail result \<times> audit_state" where
  "message_received fc uuid now m st =
     (case message_correlation_id m of
        Inl e \<Rightarrow> (Inl e, st)
      | Inr corr \<Rightarrow>
          if \<not> flow_enabled fc
          then (Inr \<lparr>tr_message = m, tr_received_event_id = None, tr_latest_event_id = None,
                     tr_correlation_id = corr\<rparr>,
                warn_if_disabled (fc_settings fc) st)
          else
            (case event_from_inbound (fc_crypto fc) (fc_settings fc) uuid MESSAGE_RECEIVED m
                    (Some corr)
                    (plain_args
                       (JObj [(lit ''channel_index'', JInt (im_channel_index m)),
                              (lit ''message_id_present'',
                               JBool (present (case im_message m of Some i \<Rightarrow> mi_message_id i
                                               | None \<Rightarrow> im_message_id m))),
                              (lit ''identity_kind'',
                               JStr (case im_sender m of Some s \<Rightarrow> si_identity_kind s
                                     | None \<Rightarrow> lit ''unknown'')),
                              (lit ''identity_stable'',
                               JBool (case im_sender m of Some s \<Rightarrow> si_stable s | None \<Rightarrow> False))])
                       None) of
               Inl e \<Rightarrow> (Inl e, st)
             | Inr event \<Rightarrow>
                 (case flow_write (insert_event (fc_settings fc) now event) st of
                    (Inl e, st') \<Rightarrow> (Inl e, st')
                  | (Inr _, st') \<Rightarrow>
                      (Inr \<lparr>tr_message = m, tr_received_event_id = Some (ae_event_id event),
                            tr_latest_event_id = Some (ae_event_id event),
                            tr_correlation_id = corr\<rparr>, st'))))"

definition degraded_trail :: "inbound_message \<Rightarrow> audit_trail result" where
  "degraded_trail m =
     bind_result (message_correlation_id m) (\<lambda>corr.
       Inr \<lparr>tr_message = m, tr_received_event_id = None, tr_latest_event_id = None,
            tr_correlation_id = corr\<rparr>)"

text \<open>\<open>_record_normalized_only\<close>.\<close>

definition record_normalized_only ::
    "flow_config \<Rightarrow> instant \<Rightarrow> audit_trail \<Rightarrow> audit_event \<Rightarrow> audit_state
       \<Rightarrow> audit_trail result \<times> audit_state" where
  "record_normalized_only fc now tr event st =
     (if \<not> flow_enabled fc then (Inr tr, st)
      else
        (case flow_write (insert_event (fc_settings fc) now event) st of
           (Inl e, st') \<Rightarrow> (Inl e, st')
         | (Inr _, st') \<Rightarrow> (Inr (child (Some (ae_event_id event)) tr), st')))"

text \<open>
  What the stages with an event of their own share: make the event, then record it. \<open>cause\<close>
  is \<open>trail.latest_event_id\<close> except for an ignored message (\<open>_event\<close>).
\<close>

definition flow_event ::
    "flow_config \<Rightarrow> str \<Rightarrow> audit_trail \<Rightarrow> event_type \<Rightarrow> event_args \<Rightarrow> audit_event result" where
  "flow_event fc uuid tr ty args =
     event_from_inbound (fc_crypto fc) (fc_settings fc) uuid ty (tr_message tr)
       (Some (tr_correlation_id tr)) (args\<lparr>ea_causation_event_id := tr_latest_event_id tr\<rparr>)"

definition record_made ::
    "flow_config \<Rightarrow> instant \<Rightarrow> audit_trail \<Rightarrow> audit_event result \<Rightarrow> audit_state
       \<Rightarrow> audit_trail result \<times> audit_state" where
  "record_made fc now tr made st =
     (case made of
        Inl e \<Rightarrow> (Inl e, st)
      | Inr event \<Rightarrow> record_normalized_only fc now tr event st)"

definition message_ignored ::
    "flow_config \<Rightarrow> str \<Rightarrow> instant \<Rightarrow> audit_trail \<Rightarrow> str \<Rightarrow> audit_state
       \<Rightarrow> audit_trail result \<times> audit_state" where
  "message_ignored fc uuid now tr reason st =
     (if reason \<notin> set ignore_reasons then (raise ValueError ''invalid audit ignore reason'', st)
      else if \<not> flow_enabled fc then (Inr tr, st)
      else
        record_made fc now tr
          (event_from_inbound (fc_crypto fc) (fc_settings fc) uuid MESSAGE_IGNORED (tr_message tr)
             (Some (tr_correlation_id tr))
             (plain_args
                (JObj [(lit ''ignore_reason'', JStr reason),
                       (lit ''channel_index'', JInt (im_channel_index (tr_message tr)))])
                (tr_received_event_id tr))) st)"

definition parse_result :: "parsed_command option \<Rightarrow> 'h registry \<Rightarrow> str" where
  "parse_result parsed reg =
     (case parsed of
        None \<Rightarrow> lit ''not_a_command''
      | Some p \<Rightarrow>
          if pc_name p = [] then lit ''malformed''
          else if resolve reg (pc_name p) = None then lit ''unknown''
          else lit ''recognized'')"

definition command_parsed ::
    "flow_config \<Rightarrow> str \<Rightarrow> instant \<Rightarrow> audit_trail \<Rightarrow> parsed_command option \<Rightarrow> 'h registry
       \<Rightarrow> audit_state \<Rightarrow> audit_trail result \<times> audit_state" where
  "command_parsed fc uuid now tr parsed reg st =
     (let metadata = JObj ((lit ''parse_result'', JStr (parse_result parsed reg))
                       # (case parsed of None \<Rightarrow> []
                          | Some p \<Rightarrow> [(lit ''argument_count'', JInt (int (length (pc_args p))))]));
          command_name = (case parsed of None \<Rightarrow> None
                          | Some p \<Rightarrow> if resolve reg (pc_name p) \<noteq> None then Some (pc_name p)
                                     else None)
      in
      if \<not> flow_enabled fc then (Inr tr, st)
      else record_made fc now tr
             (flow_event fc uuid tr COMMAND_PARSED
                ((plain_args metadata None)\<lparr>ea_command_name := command_name\<rparr>)) st)"

definition command_authorization ::
    "flow_config \<Rightarrow> str \<Rightarrow> instant \<Rightarrow> audit_trail \<Rightarrow> str \<Rightarrow> str \<Rightarrow> str option
       \<Rightarrow> audit_state \<Rightarrow> audit_trail result \<times> audit_state" where
  "command_authorization fc uuid now tr res reason command_name st =
     (if res \<notin> set authorization_results
      then (raise ValueError ''invalid authorization result'', st)
      else if reason \<notin> set authorization_reasons
      then (raise ValueError ''invalid authorization reason'', st)
      else if \<not> flow_enabled fc then (Inr tr, st)
      else record_made fc now tr
             (flow_event fc uuid tr COMMAND_AUTHORIZATION
                ((plain_args (JObj [(lit ''authorization_result'', JStr res),
                                    (lit ''authorization_reason'', JStr reason)]) None)
                   \<lparr>ea_command_name := command_name\<rparr>)) st)"

text \<open>A dictionary display with an unpacked dictionary, \<open>{..., **d}\<close>.\<close>

definition unpacked :: "jobject \<Rightarrow> jobject \<Rightarrow> jobject" where
  "unpacked d e = fold (\<lambda>kv. AList.update (fst kv) (snd kv)) e d"

text \<open>The two rows of the legacy tables.\<close>

definition insert_legacy ::
    "crypto \<Rightarrow> inbound_message \<Rightarrow> str \<Rightarrow> str list \<Rightarrow> str \<Rightarrow> int \<Rightarrow> str option
       \<Rightarrow> audit_tables \<Rightarrow> unit result \<times> audit_tables" where
  "insert_legacy cr m command args res duration_ms error =
     then_tx (insert_inbound_message cr m)
       (\<lambda>_. insert_command m command args res duration_ms error)"

definition command_execution ::
    "flow_config \<Rightarrow> str \<Rightarrow> instant \<Rightarrow> audit_trail \<Rightarrow> str \<Rightarrow> str list \<Rightarrow> str \<Rightarrow> int \<Rightarrow> str option
       \<Rightarrow> bool \<Rightarrow> jobject \<Rightarrow> audit_state \<Rightarrow> audit_trail result \<times> audit_state" where
  "command_execution fc uuid now tr command args res duration_ms error registered_command
     extra_metadata st =
     (let legacy = insert_legacy (fc_crypto fc) (tr_message tr) command args res duration_ms error
      in
      if res \<notin> set command_results then (raise ValueError ''invalid command result'', st)
      else if \<not> flow_enabled fc
      then
        (case flow_write legacy st of
           (Inl e, st') \<Rightarrow> (Inl e, st')
         | (Inr _, st') \<Rightarrow> (Inr tr, st'))
      else
        (case flow_event fc uuid tr COMMAND_EXECUTION
                \<lparr>ea_metadata = JObj (unpacked [(lit ''command_result'', JStr res)] extra_metadata),
                 ea_command_name = (if registered_command then Some command else None),
                 ea_command_result = Some res, ea_duration_ms = Some duration_ms,
                 ea_causation_event_id = None\<rparr> of
           Inl e \<Rightarrow> (Inl e, st)
         | Inr event \<Rightarrow>
             (case flow_write (then_tx legacy (\<lambda>_. insert_event (fc_settings fc) now event)) st of
                (Inl e, st') \<Rightarrow> (Inl e, st')
              | (Inr _, st') \<Rightarrow> (Inr (child (Some (ae_event_id event)) tr), st'))))"

definition response_sent ::
    "flow_config \<Rightarrow> str \<Rightarrow> instant \<Rightarrow> audit_trail \<Rightarrow> outbound_message \<Rightarrow> audit_state
       \<Rightarrow> audit_trail result \<times> audit_state" where
  "response_sent fc uuid now tr out st =
     (if \<not> flow_enabled fc then (Inr tr, st)
      else record_made fc now tr
             (flow_event fc uuid tr RESPONSE_SENT
                (plain_args (JObj [(lit ''transport_service'', JStr (lit ''transport.send'')),
                                   (lit ''response_length'', JInt (int (length (om_text out))))])
                   None)) st)"

definition response_failed ::
    "flow_config \<Rightarrow> str \<Rightarrow> instant \<Rightarrow> audit_trail \<Rightarrow> audit_state
       \<Rightarrow> audit_trail result \<times> audit_state" where
  "response_failed fc uuid now tr st =
     (if \<not> flow_enabled fc then (Inr tr, st)
      else record_made fc now tr
             (flow_event fc uuid tr RESPONSE_FAILED
                (plain_args (JObj [(lit ''transport_service'', JStr (lit ''transport.send''))])
                   None)) st)"

definition override_event_types :: "event_type list" where
  "override_event_types =
     [BRIDGE_RUNTIME_OVERRIDE_REQUESTED, BRIDGE_RUNTIME_OVERRIDE_APPLIED,
      BRIDGE_RUNTIME_OVERRIDE_DENIED, BRIDGE_RUNTIME_OVERRIDE_RESET]"

definition runtime_override_event ::
    "flow_config \<Rightarrow> str \<Rightarrow> instant \<Rightarrow> audit_trail \<Rightarrow> event_type \<Rightarrow> json \<Rightarrow> audit_state
       \<Rightarrow> audit_trail result \<times> audit_state" where
  "runtime_override_event fc uuid now tr ty metadata st =
     (if ty \<notin> set override_event_types
      then (raise ValueError ''invalid runtime override audit event'', st)
      else if \<not> flow_enabled fc then (Inr tr, st)
      else record_made fc now tr (flow_event fc uuid tr ty (plain_args metadata None)) st)"

section \<open>The invariant of the audit log\<close>

definition stored_events :: "audit_state \<Rightarrow> event_row list" where
  "stored_events st = at_events (db_tables (st_db st))"

text \<open>Every event that names a cause names an event stored before it.\<close>

definition caused :: "event_row list \<Rightarrow> bool" where
  "caused rows \<longleftrightarrow>
     (\<forall>i < length rows. set (opt_list (er_causation_event_id (rows ! i)))
                        \<subseteq> er_event_id ` set (take i rows))"

lemma caused_Nil [simp]: "caused []"
  by (simp add: caused_def)

lemma caused_snoc [simp]:
  "caused (rows @ [r]) \<longleftrightarrow>
     caused rows \<and> set (opt_list (er_causation_event_id r)) \<subseteq> er_event_id ` set rows"
  by (auto simp: caused_def nth_append less_Suc_eq)

definition audit_inv :: "flow_config \<Rightarrow> audit_state \<Rightarrow> bool" where
  "audit_inv fc st \<longleftrightarrow>
     caused (stored_events st)
     \<and> (\<forall>k. as_audit_key (fc_settings fc) = Some k \<longrightarrow> events_ok k (db_tables (st_db st)))"

text \<open>A trail is good for a state when the events it points to are stored.\<close>

definition trail_inv :: "flow_config \<Rightarrow> audit_trail \<Rightarrow> audit_state \<Rightarrow> bool" where
  "trail_inv fc tr st \<longleftrightarrow>
     audit_inv fc st
     \<and> set (opt_list (tr_latest_event_id tr)) \<union> set (opt_list (tr_received_event_id tr))
         \<subseteq> er_event_id ` set (stored_events st)"

lemma opt_list_simps [simp]: "opt_list None = []" "opt_list (Some x) = [x]"
  by (simp_all add: opt_list_def)

lemma audit_inv_same_events:
  assumes "audit_inv fc st" "stored_events st' = stored_events st"
  shows "audit_inv fc st'"
  using assms by (auto simp: audit_inv_def events_ok_def stored_events_def)

lemma audit_inv_insert:
  assumes "audit_inv fc st" and ins: "insert_event (fc_settings fc) now e t = (Inr True, t')"
    and t: "at_events t = stored_events st" and t': "db_tables (st_db st') = t'"
    and cause: "set (opt_list (ae_causation_event_id e)) \<subseteq> er_event_id ` set (stored_events st)"
  shows "audit_inv fc st' \<and> er_event_id ` set (stored_events st')
    = insert (ae_event_id e) (er_event_id ` set (stored_events st))"
proof -
  from insert_event_cases [OF ins] obtain k where k: "as_audit_key (fc_settings fc) = Some k" by auto
  from insert_event_stored [OF ins k] obtain r where r: "at_events t' = at_events t @ [r]"
      "er_event_id r = ae_event_id e" "er_causation_event_id r = ae_causation_event_id e"
    by metis
  have "events_ok k t" using assms(1) k t by (auto simp: audit_inv_def events_ok_def stored_events_def)
  from insert_event_keeps [OF this ins k] assms(1) k r t t' cause show ?thesis
    by (auto simp: audit_inv_def stored_events_def)
qed

lemma flow_write_raises:
  "flow_write operation st = (Inl e, st') \<Longrightarrow> db_tables (st_db st') = db_tables (st_db st)"
  by (auto simp: flow_write_def split: prod.splits dest: sqlite.write_rolls_back)

lemma flow_write_commits:
  "flow_write operation st = (Inr x, st') \<Longrightarrow>
     operation (db_tables (st_db st)) = (Inr x, db_tables (st_db st'))"
  by (auto simp: flow_write_def split: prod.splits dest: sqlite.write_commits)

lemma warn_if_disabled_db [simp]: "st_db (warn_if_disabled s st) = st_db st"
  by (simp add: warn_if_disabled_def)

lemma event_from_inbound_fields:
  "event_from_inbound cr s uuid ty m corr args = Inr e \<Longrightarrow>
     ae_causation_event_id e = ea_causation_event_id args \<and> ae_event_id e = new_event_id uuid
     \<and> ae_event_type e = ty"
  by (auto simp: event_from_inbound_def split: option.splits dest: event_from_message_fields)

section \<open>Stages\<close>

text \<open>
  What the bridge relies on in every stage: it keeps the invariant, it does not change what
  the trail is about, and a stage that raises has written nothing. \<open>attempted\<close> is the way
  \<open>app.py\<close> and \<open>router.py\<close> call a stage: any exception is logged and the trail kept.
\<close>

definition attempted ::
    "(audit_trail \<Rightarrow> audit_state \<Rightarrow> audit_trail result \<times> audit_state)
       \<Rightarrow> audit_trail \<Rightarrow> audit_state \<Rightarrow> audit_trail \<times> exn option \<times> audit_state" where
  "attempted stage tr st =
     (case stage tr st of
        (Inr tr', st') \<Rightarrow> (tr', None, st')
      | (Inl e, st') \<Rightarrow> (tr, Some e, st'))"

locale audit_stage =
  fixes fc :: flow_config
    and stage :: "audit_trail \<Rightarrow> audit_state \<Rightarrow> audit_trail result \<times> audit_state"
  assumes stage_returns: "trail_inv fc tr st \<Longrightarrow> stage tr st = (Inr tr', st') \<Longrightarrow> trail_inv fc tr' st'"
    and stage_raises: "stage tr st = (Inl e, st') \<Longrightarrow> db_tables (st_db st') = db_tables (st_db st)"
    and stage_about: "stage tr st = (Inr tr', st') \<Longrightarrow>
      tr_message tr' = tr_message tr \<and> tr_correlation_id tr' = tr_correlation_id tr"
begin

lemma attempted_inv:
  assumes "trail_inv fc tr st" "attempted stage tr st = (tr', e, st')"
  shows "trail_inv fc tr' st'"
proof (cases "fst (stage tr st)")
  case (Inl x)
  with assms(2) have s: "stage tr st = (Inl x, st')" "tr' = tr"
    by (auto simp: attempted_def split: prod.splits)
  from stage_raises [OF s(1)] assms(1) s(2) show ?thesis
    by (simp add: trail_inv_def audit_inv_def stored_events_def)
next
  case (Inr x)
  with assms show ?thesis
    by (auto simp: attempted_def split: prod.splits intro: stage_returns)
qed

lemma attempted_about:
  "attempted stage tr st = (tr', e, st') \<Longrightarrow>
     tr_message tr' = tr_message tr \<and> tr_correlation_id tr' = tr_correlation_id tr"
  by (auto simp: attempted_def split: prod.splits sum.splits dest: stage_about)

end

lemma record_made_stage:
  assumes cause: "\<And>tr e. made tr = Inr e \<Longrightarrow>
      set (opt_list (ae_causation_event_id e))
        \<subseteq> set (opt_list (tr_latest_event_id tr)) \<union> set (opt_list (tr_received_event_id tr))"
  shows "audit_stage fc (\<lambda>tr. record_made fc now tr (made tr))"
proof
  fix tr st tr' st'
  assume inv: "trail_inv fc tr st" and r: "record_made fc now tr (made tr) st = (Inr tr', st')"
  then obtain e where e: "made tr = Inr e" by (auto simp: record_made_def split: sum.splits)
  show "trail_inv fc tr' st'"
  proof (cases "flow_enabled fc")
    case False
    with r e inv show ?thesis by (simp add: record_made_def record_normalized_only_def)
  next
    case True
    with r e obtain b where w: "flow_write (insert_event (fc_settings fc) now e) st = (Inr b, st')"
        and tr': "tr' = child (Some (ae_event_id e)) tr"
      by (auto simp: record_made_def record_normalized_only_def split: prod.splits sum.splits)
    note ins = flow_write_commits [OF w]
    with insert_event_cases [OF ins] True have ins: "insert_event (fc_settings fc) now e
        (db_tables (st_db st)) = (Inr True, db_tables (st_db st'))"
      by (simp add: flow_enabled_def)
    from inv have "audit_inv fc st" and sub: "set (opt_list (tr_latest_event_id tr))
        \<union> set (opt_list (tr_received_event_id tr)) \<subseteq> er_event_id ` set (stored_events st)"
      by (auto simp: trail_inv_def)
    from cause [OF e] sub have "set (opt_list (ae_causation_event_id e))
        \<subseteq> er_event_id ` set (stored_events st)" by blast
    with audit_inv_insert [OF \<open>audit_inv fc st\<close> ins, where st' = st']
    have "audit_inv fc st' \<and> er_event_id ` set (stored_events st')
        = insert (ae_event_id e) (er_event_id ` set (stored_events st))"
      by (simp add: stored_events_def)
    with sub tr' show ?thesis by (auto simp: trail_inv_def child_def)
  qed
next
  fix tr st e st'
  assume "record_made fc now tr (made tr) st = (Inl e, st')"
  then show "db_tables (st_db st') = db_tables (st_db st)"
    by (auto simp: record_made_def record_normalized_only_def split: sum.splits if_splits prod.splits
        dest: flow_write_raises)
next
  fix tr st tr' st'
  assume "record_made fc now tr (made tr) st = (Inr tr', st')"
  then show "tr_message tr' = tr_message tr \<and> tr_correlation_id tr' = tr_correlation_id tr"
    by (auto simp: record_made_def record_normalized_only_def child_def
        split: sum.splits if_splits prod.splits)
qed

text \<open>A guard that raises before the stage, or that leaves the trail alone, is a stage as well.\<close>

lemma guarded_stage:
  assumes "audit_stage fc stage"
  shows "audit_stage fc (\<lambda>tr st. if p then (Inl e, st) else stage tr st)"
  using assms by (auto simp: audit_stage_def)

lemma skipped_stage:
  assumes "audit_stage fc stage"
  shows "audit_stage fc (\<lambda>tr st. if p then (Inr tr, st) else stage tr st)"
  using assms by (auto simp: audit_stage_def)

lemma flow_event_cause:
  "flow_event fc uuid tr ty args = Inr e \<Longrightarrow>
     set (opt_list (ae_causation_event_id e))
       \<subseteq> set (opt_list (tr_latest_event_id tr)) \<union> set (opt_list (tr_received_event_id tr))"
  by (auto simp: flow_event_def dest!: event_from_inbound_fields)

section \<open>Every operation is a stage\<close>

interpretation ignored: audit_stage fc "\<lambda>tr. message_ignored fc uuid now tr reason"
  for fc uuid now reason
  unfolding message_ignored_def
  by (intro guarded_stage skipped_stage record_made_stage)
    (auto simp: plain_args_def dest!: event_from_inbound_fields)

interpretation parsed: audit_stage fc "\<lambda>tr. command_parsed fc uuid now tr p reg"
  for fc uuid now p reg
  unfolding command_parsed_def Let_def
  by (intro skipped_stage record_made_stage) (rule flow_event_cause)

interpretation authorization: audit_stage fc
  "\<lambda>tr. command_authorization fc uuid now tr res reason name"
  for fc uuid now res reason name
  unfolding command_authorization_def
  by (intro guarded_stage skipped_stage record_made_stage) (rule flow_event_cause)

interpretation sent: audit_stage fc "\<lambda>tr. response_sent fc uuid now tr out"
  for fc uuid now out
  unfolding response_sent_def
  by (intro skipped_stage record_made_stage) (rule flow_event_cause)

interpretation not_sent: audit_stage fc "\<lambda>tr. response_failed fc uuid now tr"
  for fc uuid now
  unfolding response_failed_def
  by (intro skipped_stage record_made_stage) (rule flow_event_cause)

interpretation overridden: audit_stage fc
  "\<lambda>tr. runtime_override_event fc uuid now tr ty metadata"
  for fc uuid now ty metadata
  unfolding runtime_override_event_def
  by (intro guarded_stage skipped_stage record_made_stage) (rule flow_event_cause)

lemma insert_legacy_frame:
  "insert_legacy cr m c args res d err t = (Inr u, t') \<Longrightarrow> at_events t' = at_events t \<and> at_dedup t' = at_dedup t
     \<and> (\<exists>r. at_commands t' = at_commands t @ [r] \<and> cx_command r = c \<and> cx_result r = res \<and> cx_error r = err)"
  by (auto simp: insert_legacy_def then_tx_Inr_iff
      dest!: insert_inbound_message_frame insert_command_frame)

lemma events_only_frame:
  "at_events t' = at_events t \<Longrightarrow> events_ok k t' = events_ok k t"
  by (simp add: events_ok_def)

interpretation execution: audit_stage fc
  "\<lambda>tr. command_execution fc uuid now tr command args res d error reg extra"
  for fc uuid now command args res d error reg extra
proof
  fix tr st tr' st'
  assume inv: "trail_inv fc tr st"
    and x: "command_execution fc uuid now tr command args res d error reg extra st = (Inr tr', st')"
  let ?legacy = "insert_legacy (fc_crypto fc) (tr_message tr) command args res d error"
  show "trail_inv fc tr' st'"
  proof (cases "flow_enabled fc")
    case False
    with x obtain u where w: "flow_write ?legacy st = (Inr u, st')" and "tr' = tr"
      by (auto simp: command_execution_def Let_def split: if_splits prod.splits sum.splits)
    with insert_legacy_frame [OF flow_write_commits [OF w]] inv show ?thesis
      by (simp add: trail_inv_def audit_inv_def stored_events_def events_ok_def)
  next
    case True
    with x obtain e args' b where e: "flow_event fc uuid tr COMMAND_EXECUTION args' = Inr e"
        and w: "flow_write (then_tx ?legacy (\<lambda>_. insert_event (fc_settings fc) now e)) st = (Inr b, st')"
        and tr': "tr' = child (Some (ae_event_id e)) tr"
      by (auto simp: command_execution_def Let_def split: if_splits prod.splits sum.splits)
    from flow_write_commits [OF w] obtain t u where
        t: "?legacy (db_tables (st_db st)) = (Inr u, t)"
        and ins: "insert_event (fc_settings fc) now e t = (Inr b, db_tables (st_db st'))"
      by (auto simp: then_tx_Inr_iff)
    with insert_event_cases [OF ins] True have ins: "insert_event (fc_settings fc) now e t
        = (Inr True, db_tables (st_db st'))" by (simp add: flow_enabled_def)
    from inv have a: "audit_inv fc st" and sub: "set (opt_list (tr_latest_event_id tr))
        \<union> set (opt_list (tr_received_event_id tr)) \<subseteq> er_event_id ` set (stored_events st)"
      by (auto simp: trail_inv_def)
    have same: "at_events t = stored_events st"
      using insert_legacy_frame [OF t] by (simp add: stored_events_def)
    have "set (opt_list (ae_causation_event_id e)) \<subseteq> er_event_id ` set (stored_events st)"
      using flow_event_cause [OF e] sub by blast
    from audit_inv_insert [OF a ins same refl this] sub tr' show ?thesis
      by (auto simp: trail_inv_def child_def)
  qed
next
  fix tr st e st'
  assume "command_execution fc uuid now tr command args res d error reg extra st = (Inl e, st')"
  then show "db_tables (st_db st') = db_tables (st_db st)"
    by (auto simp: command_execution_def Let_def split: if_splits prod.splits sum.splits
        dest: flow_write_raises)
next
  fix tr st tr' st'
  assume "command_execution fc uuid now tr command args res d error reg extra st = (Inr tr', st')"
  then show "tr_message tr' = tr_message tr \<and> tr_correlation_id tr' = tr_correlation_id tr"
    by (auto simp: command_execution_def Let_def child_def split: if_splits prod.splits sum.splits)
qed

text \<open>The first stage makes the trail.\<close>

lemma message_received_inv:
  assumes "audit_inv fc st" "message_received fc uuid now m st = (Inr tr, st')"
  shows "trail_inv fc tr st' \<and> tr_message tr = m"
proof (cases "flow_enabled fc")
  case False
  with assms show ?thesis
    by (auto simp: message_received_def trail_inv_def audit_inv_def stored_events_def split: sum.splits)
next
  case True
  with assms(2) obtain e b where
      e: "\<exists>args corr. event_from_inbound (fc_crypto fc) (fc_settings fc) uuid MESSAGE_RECEIVED m
            corr args = Inr e \<and> ea_causation_event_id args = None"
      and w: "flow_write (insert_event (fc_settings fc) now e) st = (Inr b, st')"
      and tr: "tr_latest_event_id tr = Some (ae_event_id e)"
        "tr_received_event_id tr = Some (ae_event_id e)" "tr_message tr = m"
    by (fastforce simp: message_received_def plain_args_def split: sum.splits prod.splits)
  note ins = flow_write_commits [OF w]
  with insert_event_cases [OF ins] True have ins: "insert_event (fc_settings fc) now e
      (db_tables (st_db st)) = (Inr True, db_tables (st_db st'))" by (simp add: flow_enabled_def)
  from e have "ae_causation_event_id e = None" by (auto dest: event_from_inbound_fields)
  with audit_inv_insert [OF assms(1) ins, where st' = st'] tr show ?thesis
    by (simp add: trail_inv_def stored_events_def)
qed

lemma message_received_raises:
  "message_received fc uuid now m st = (Inl e, st') \<Longrightarrow> db_tables (st_db st') = db_tables (st_db st)"
  by (auto simp: message_received_def split: if_splits prod.splits sum.splits dest: flow_write_raises)

end
