(* ===== verification/Admission.thy ===== *)
theory Admission
  imports Bridge_Prelude
begin

text \<open>
  The interface of every gate that remembers, per key, when it last let a request through and
  forgets what is too old: the rate limiter, the deduplicator of mesh messages and the table
  of seen Telegram updates. The sliding-window bound is proved once, for whole runs of timed
  requests, from the laws of one step.
\<close>

section \<open>Runs of requests\<close>

text \<open>The requests that a gate admits out of a sequence of timed requests.\<close>

fun admitted :: "(seconds \<Rightarrow> 'r \<Rightarrow> 's \<Rightarrow> bool \<times> 's) \<Rightarrow> 's \<Rightarrow> (seconds \<times> 'r) list \<Rightarrow> (seconds \<times> 'r) list" where
  "admitted admit s [] = []"
| "admitted admit s ((now, r) # rs) =
     (case admit now r s of
        (ok, s') \<Rightarrow> (if ok then [(now, r)] else []) @ admitted admit s' rs)"

text \<open>The times of the requests that have a given key.\<close>

definition times_of :: "('r \<Rightarrow> 'k) \<Rightarrow> 'k \<Rightarrow> (seconds \<times> 'r) list \<Rightarrow> seconds list" where
  "times_of key k rs = map fst (filter (\<lambda>r. key (snd r) = k) rs)"

lemma times_of_simps [simp]:
  "times_of key k [] = []"
  "times_of key k ((t, r) # rs) = (if key r = k then t # times_of key k rs else times_of key k rs)"
  "times_of key k (rs @ rs') = times_of key k rs @ times_of key k rs'"
  by (simp_all add: times_of_def)

text \<open>
  Of \<open>n + 1\<close> consecutive times the first is over, in the gate's own sense, when the last comes.
\<close>

definition spaced :: "(seconds \<Rightarrow> seconds \<Rightarrow> bool) \<Rightarrow> nat \<Rightarrow> seconds list \<Rightarrow> bool" where
  "spaced over n ts \<longleftrightarrow> (\<forall>i. i + n < length ts \<longrightarrow> over (ts ! (i + n)) (ts ! i))"

lemma spaced_Nil [simp]: "spaced over n []"
  by (simp add: spaced_def)

lemma spaced_snoc:
  assumes "spaced over n ts" "ts = gone @ new" "\<forall>t \<in> set gone. over now t" "length new < n"
  shows "spaced over n (ts @ [now])"
  unfolding spaced_def
proof (intro allI impI)
  fix i
  assume i: "i + n < length (ts @ [now])"
  show "over ((ts @ [now]) ! (i + n)) ((ts @ [now]) ! i)"
  proof (cases "i + n < length ts")
    case True
    with assms(1) show ?thesis by (simp add: spaced_def nth_append)
  next
    case False
    with i have last: "i + n = length ts" by simp
    with assms(2,4) have "i < length gone" by simp
    with assms(2,3) have "over now (ts ! i)" by (simp add: nth_append)
    with last assms(4) show ?thesis by (simp add: nth_append)
  qed
qed

section \<open>The interface\<close>

locale admission =
  fixes admit :: "seconds \<Rightarrow> 'r \<Rightarrow> 's \<Rightarrow> bool \<times> 's"
    and key :: "'r \<Rightarrow> 'k"
    and recent :: "'s \<Rightarrow> 'k \<Rightarrow> seconds list"
    and limit :: "'s \<Rightarrow> nat"
    and over :: "'s \<Rightarrow> seconds \<Rightarrow> seconds \<Rightarrow> bool"
  assumes admit_accepts: "admit now r s = (True, s') \<Longrightarrow>
      \<exists>old new. recent s (key r) = old @ new \<and> (\<forall>t \<in> set old. over s now t)
        \<and> length new < limit s \<and> recent s' (key r) = new @ [now]"
    and admit_forgets: "admit now r s = (ok, s') \<Longrightarrow> \<not> ok \<or> key r \<noteq> k \<Longrightarrow>
      \<exists>old new. recent s k = old @ new \<and> (\<forall>t \<in> set old. over s now t) \<and> recent s' k = new"
    and admit_limit: "admit now r s = (ok, s') \<Longrightarrow> limit s' = limit s"
    and admit_over: "admit now r s = (ok, s') \<Longrightarrow> over s' = over s"
    and over_mono: "over s now t \<Longrightarrow> now \<le> now' \<Longrightarrow> over s now' t"
begin

text \<open>
  The history of a key is split into the part that is over for good and the part the gate
  still remembers.
\<close>

definition history_ok :: "seconds \<Rightarrow> 's \<Rightarrow> 'k \<Rightarrow> seconds list \<Rightarrow> bool" where
  "history_ok now s k past \<longleftrightarrow>
     spaced (over s) (limit s) past
     \<and> (\<exists>gone. past = gone @ recent s k \<and> (\<forall>t \<in> set gone. over s now t))"

lemma history_later: "history_ok now s k past \<Longrightarrow> now \<le> now' \<Longrightarrow> history_ok now' s k past"
  unfolding history_ok_def using over_mono by blast

lemma history_step:
  assumes h: "history_ok now s k past" and a: "admit now r s = (ok, s')"
  shows "history_ok now s' k (if ok \<and> key r = k then past @ [now] else past)"
proof -
  from h obtain gone where sp: "spaced (over s) (limit s) past"
      and past: "past = gone @ recent s k" and gone: "\<forall>t \<in> set gone. over s now t"
    by (auto simp: history_ok_def)
  show ?thesis
  proof (cases "ok \<and> key r = k")
    case True
    with a have "admit now r s = (True, s')" by simp
    from admit_accepts [OF this] True obtain old new where
      on: "recent s k = old @ new" "\<forall>t \<in> set old. over s now t"
        "length new < limit s" "recent s' k = new @ [now]" by blast
    have "spaced (over s) (limit s) (past @ [now])"
      by (rule spaced_snoc [OF sp, of "gone @ old" new]) (use past on gone in auto)
    moreover have "past @ [now] = (gone @ old) @ recent s' k" using past on(1,4) by simp
    moreover have "\<forall>t \<in> set (gone @ old). over s now t" using gone on(2) by auto
    ultimately have "history_ok now s' k (past @ [now])"
      unfolding history_ok_def admit_limit [OF a] admit_over [OF a] by blast
    with True show ?thesis by simp
  next
    case False
    with admit_forgets [OF a, of k] obtain old new where
      on: "recent s k = old @ new" "\<forall>t \<in> set old. over s now t" "recent s' k = new" by blast
    then have "past = (gone @ old) @ recent s' k" using past by simp
    moreover have "\<forall>t \<in> set (gone @ old). over s now t" using gone on(2) by auto
    ultimately have "history_ok now s' k past"
      unfolding history_ok_def admit_limit [OF a] admit_over [OF a] using sp by blast
    with False show ?thesis by auto
  qed
qed

lemma run_history:
  assumes "history_ok now s k past" "sorted (now # map fst rs)"
  shows "spaced (over s) (limit s) (past @ times_of key k (admitted admit s rs))"
  using assms
proof (induction rs arbitrary: s now past)
  case Nil
  then show ?case by (simp add: history_ok_def)
next
  case (Cons q rs)
  obtain t r where q: "q = (t, r)" by (cases q)
  obtain ok s' where a: "admit t r s = (ok, s')" by (cases "admit t r s")
  have later: "now \<le> t" "sorted (t # map fst rs)" using Cons.prems(2) q by auto
  have "history_ok t s k past" by (rule history_later [OF Cons.prems(1) later(1)])
  then have "history_ok t s' k (if ok \<and> key r = k then past @ [t] else past)"
    using a by (rule history_step)
  from Cons.IH [OF this later(2)] have "spaced (over s') (limit s')
      ((if ok \<and> key r = k then past @ [t] else past) @ times_of key k (admitted admit s' rs))" .
  then show ?case using a q
    by (auto simp: admit_limit [OF a] admit_over [OF a] split: if_splits)
qed

text \<open>From a gate with no memory of a key, the admitted requests of that key are spaced.\<close>

lemma run_spaced:
  assumes "recent s k = []" "sorted (map fst rs)"
  shows "spaced (over s) (limit s) (times_of key k (admitted admit s rs))"
proof (cases rs)
  case Nil
  then show ?thesis by simp
next
  case (Cons q rs')
  have "history_ok (fst q) s k []" using assms(1) by (simp add: history_ok_def)
  with run_history [of "fst q" s k "[]" rs] assms(2) Cons show ?thesis by simp
qed

end

text \<open>The accepted requests keep the order and the times of the requests.\<close>

lemma admitted_times: "set (times_of key k (admitted admit s rs)) \<subseteq> fst ` set rs"
proof (induction rs arbitrary: s)
  case (Cons r rs)
  obtain now x where r: "r = (now, x)" by force
  obtain ok s' where a: "admit now x s = (ok, s')" by force
  from Cons [of s'] show ?case by (auto simp: r a)
qed simp

lemma admitted_sorted:
  "sorted (map fst rs) \<Longrightarrow> sorted (times_of key k (admitted admit s rs))"
proof (induction rs arbitrary: s)
  case (Cons r rs)
  obtain now x where r: "r = (now, x)" by force
  obtain ok s' where a: "admit now x s = (ok, s')" by force
  from Cons.IH [of s'] Cons.prems admitted_times [of key k admit s' rs] show ?case
    by (auto simp: r a)
qed simp

end
