(* ===== verification/Deduplication.thy ===== *)
theory Deduplication
  imports Audit_Store Admission
begin

text \<open>
  \<open>security/deduplication.py\<close>. The key of a message is a digest of what identifies it; the
  table remembers a key until its expiry time. Keys written by older versions of the program
  are looked up as well. Through the database, the check is an \<open>admission\<close> gate with limit 1.
\<close>

section \<open>Keys\<close>

definition hash_private :: "crypto \<Rightarrow> str \<Rightarrow> str result" where
  "hash_private cr v = sha256_text cr v"

definition normalize_text :: "str \<Rightarrow> str" where
  "normalize_text t = join (lit '' '') (split_ws (strip t))"

definition dedup_material :: "crypto \<Rightarrow> inbound_message \<Rightarrow> str result" where
  "dedup_material cr m =
     (let source_transport = (case im_source_room m of Some r \<Rightarrow> rr_transport r
                              | None \<Rightarrow> im_transport m);
          room_id = (case im_source_room m of Some r \<Rightarrow> rr_room_id r
                     | None \<Rightarrow> channel_room_id (im_transport m) (im_channel_index m));
          sender_id = sender_of m;
          platform_message_id = (case im_message m of Some i \<Rightarrow> mi_message_id i
                                 | None \<Rightarrow> im_message_id m)
      in
      bind_result (hash_private cr sender_id) (\<lambda>h.
        if present platform_message_id
        then Inr (lit ''id:v2:'' @ source_transport @ [58] @ room_id @ [58] @ h @ [58]
                  @ the platform_message_id)
        else
          bind_result (hash_private cr (normalize_text (im_text m))) (\<lambda>th.
            Inr (lit ''hash:v2:'' @ source_transport @ [58] @ room_id @ [58] @ h @ [58] @ th))))"

definition dedup_key :: "crypto \<Rightarrow> inbound_message \<Rightarrow> str result" where
  "dedup_key cr m = bind_result (dedup_material cr m) (sha256_text cr)"

text \<open>
  \<open>_legacy_keys\<close>. The floor division of the timestamp by the window raises for a window of
  zero seconds.
\<close>

definition legacy_key :: "crypto \<Rightarrow> int \<Rightarrow> inbound_message \<Rightarrow> str result" where
  "legacy_key cr window_seconds m =
     bind_result
       (if present (im_message_id m)
        then Inr (lit ''id:'' @ im_transport m @ [58] @ im_sender_id m @ [58]
                  @ dec (im_channel_index m) @ [58] @ the (im_message_id m))
        else if window_seconds = 0
        then Inl (Exn (OtherError (lit ''ZeroDivisionError'')) (lit ''float floor division by zero''))
        else
          (let bucket = im_received_at m div (1000000 * window_seconds)
           in Inr (lit ''hash:'' @ im_transport m @ [58] @ im_sender_id m @ [58]
                   @ dec (im_channel_index m) @ [58] @ dec bucket @ [58] @ strip (im_text m))))
       (sha256_text cr)"

section \<open>The check\<close>

definition purge_keys :: "seconds \<Rightarrow> (str \<rightharpoonup> seconds) \<Rightarrow> (str \<rightharpoonup> seconds)" where
  "purge_keys now d = (\<lambda>k. case d k of None \<Rightarrow> None | Some e \<Rightarrow> if e < now then None else Some e)"

text \<open>\<open>store_key\<close>, the operation of the transaction.\<close>

definition store_key ::
    "int \<Rightarrow> seconds \<Rightarrow> str \<times> str list \<Rightarrow> audit_tables \<Rightarrow> bool result \<times> audit_tables" where
  "store_key window_seconds now keys t =
     (let d = purge_keys now (at_dedup t) in
      if list_ex (\<lambda>k. d k \<noteq> None) (fst keys # snd keys)
      then (Inr True, t\<lparr>at_dedup := d\<rparr>)
      else (Inr False, t\<lparr>at_dedup := d(fst keys \<mapsto> now + of_int window_seconds)\<rparr>))"

definition seen_or_store ::
    "crypto \<Rightarrow> int \<Rightarrow> seconds \<Rightarrow> inbound_message \<Rightarrow> audit_tables conn
       \<Rightarrow> bool result \<times> audit_tables conn" where
  "seen_or_store cr window_seconds now m c =
     (case dedup_key cr m of
        Inl e \<Rightarrow> (Inl e, c)
      | Inr k \<Rightarrow>
          (case legacy_key cr window_seconds m of
             Inl e \<Rightarrow> (Inl e, c)
           | Inr l \<Rightarrow> write_transaction (store_key window_seconds now (k, [l])) c))"

section \<open>The check is an admission gate\<close>

text \<open>A message goes on when the check answers \<open>False\<close>; a failing database lets nothing on.\<close>

definition dedup_admit ::
    "int \<Rightarrow> seconds \<Rightarrow> str \<times> str list \<Rightarrow> audit_tables conn \<Rightarrow> bool \<times> audit_tables conn" where
  "dedup_admit window_seconds now keys c =
     (case write_transaction (store_key window_seconds now keys) c of
        (r, c') \<Rightarrow> (r = Inr False, c'))"

text \<open>When the remembered keys were stored.\<close>

definition stored_at :: "int \<Rightarrow> audit_tables conn \<Rightarrow> str \<Rightarrow> seconds list" where
  "stored_at window_seconds c k =
     (case at_dedup (db_tables c) k of None \<Rightarrow> [] | Some e \<Rightarrow> [e - of_int window_seconds])"

definition window_over :: "int \<Rightarrow> seconds \<Rightarrow> seconds \<Rightarrow> bool" where
  "window_over w now t \<longleftrightarrow> now - t > of_int w"

lemma store_key_False:
  "store_key w now ks t = (Inr False, t') \<Longrightarrow>
     purge_keys now (at_dedup t) (fst ks) = None
     \<and> at_dedup t' = (purge_keys now (at_dedup t))(fst ks \<mapsto> now + of_int w)"
  by (auto simp: store_key_def Let_def split: if_splits)

lemma store_key_True:
  "store_key w now ks t = (Inr True, t') \<Longrightarrow> at_dedup t' = purge_keys now (at_dedup t)"
  by (auto simp: store_key_def Let_def split: if_splits)

lemma store_key_frame:
  "store_key w now ks t = (r, t') \<Longrightarrow>
     at_events t' = at_events t \<and> at_commands t' = at_commands t \<and> at_inbound t' = at_inbound t"
  by (auto simp: store_key_def Let_def split: if_splits)

lemma purge_forgets:
  "\<exists>old new. (case d k of None \<Rightarrow> [] | Some e \<Rightarrow> [e - of_int w]) = old @ new
     \<and> (\<forall>t \<in> set old. window_over w now t)
     \<and> (case purge_keys now d k of None \<Rightarrow> [] | Some e \<Rightarrow> [e - of_int w]) = new"
  by (auto simp: purge_keys_def window_over_def split: option.splits)

interpretation dedup: admission "dedup_admit w" fst "stored_at w" "\<lambda>_. 1" "\<lambda>_. window_over w"
  for w :: int
proof
  fix now and r :: "str \<times> str list" and s s' :: "audit_tables conn"
  assume "dedup_admit w now r s = (True, s')"
  then have "write_transaction (store_key w now r) s = (Inr False, s')"
    by (auto simp: dedup_admit_def split: prod.splits)
  from store_key_False [OF sqlite.write_commits [OF this]]
    purge_forgets [where d = "at_dedup (db_tables s)" and k = "fst r" and w = w and now = now]
  show "\<exists>old new. stored_at w s (fst r) = old @ new \<and> (\<forall>t \<in> set old. window_over w now t)
      \<and> length new < 1 \<and> stored_at w s' (fst r) = new @ [now]"
    by (fastforce simp: stored_at_def)
next
  fix now and r :: "str \<times> str list" and ok k and s s' :: "audit_tables conn"
  assume a: "dedup_admit w now r s = (ok, s')" and no: "\<not> ok \<or> fst r \<noteq> k"
  show "\<exists>old new. stored_at w s k = old @ new \<and> (\<forall>t \<in> set old. window_over w now t)
      \<and> stored_at w s' k = new"
  proof (cases "fst (write_transaction (store_key w now r) s)")
    case (Inl e)
    with a have "write_transaction (store_key w now r) s = (Inl e, s')"
      by (auto simp: dedup_admit_def split: prod.splits)
    then have "stored_at w s' k = stored_at w s k"
      by (simp add: stored_at_def sqlite.write_rolls_back)
    then show ?thesis by (intro exI [of _ "[]"] exI [of _ "stored_at w s k"]) simp
  next
    case (Inr b)
    with a have w: "write_transaction (store_key w now r) s = (Inr b, s')" and ok: "ok = (\<not> b)"
      by (auto simp: dedup_admit_def split: prod.splits)
    have "at_dedup (db_tables s') k = purge_keys now (at_dedup (db_tables s)) k"
      using sqlite.write_commits [OF w] no ok
      by (cases b) (auto dest: store_key_True store_key_False)
    with purge_forgets [where d = "at_dedup (db_tables s)" and k = k and w = w and now = now] show ?thesis
      by (simp add: stored_at_def)
  qed
qed (simp_all add: window_over_def)

text \<open>What the check answers, on every branch.\<close>

lemma seen_or_store_committed:
  assumes "seen_or_store cr w now m c = (Inr b, c')"
  obtains k l where "dedup_key cr m = Inr k" "legacy_key cr w m = Inr l"
    "store_key w now (k, [l]) (db_tables c) = (Inr b, db_tables c')"
proof -
  from assms obtain k l where "dedup_key cr m = Inr k" "legacy_key cr w m = Inr l"
      "write_transaction (store_key w now (k, [l])) c = (Inr b, c')"
    by (auto simp: seen_or_store_def split: sum.splits)
  from that [OF this(1,2) sqlite.write_commits [OF this(3)]] show thesis .
qed

lemma seen_or_store_frame:
  "at_events (db_tables (snd (seen_or_store cr w now m c))) = at_events (db_tables c)
   \<and> at_commands (db_tables (snd (seen_or_store cr w now m c))) = at_commands (db_tables c)
   \<and> at_inbound (db_tables (snd (seen_or_store cr w now m c))) = at_inbound (db_tables c)"
proof -
  let ?P = "\<lambda>t. at_events t = at_events (db_tables c) \<and> at_commands t = at_commands (db_tables c)
     \<and> at_inbound t = at_inbound (db_tables c)"
  have "?P (db_tables (snd (write_transaction (store_key w now ks) c)))" for ks
    by (rule sqlite.write_keeps [of ?P]) (auto dest: store_key_frame)
  then show ?thesis by (auto simp: seen_or_store_def split: sum.splits)
qed

end
