(* ===== verification/Rate_Limit.thy ===== *)
theory Rate_Limit
  imports Admission
begin

text \<open>
  \<open>security/rate_limit.py\<close>: per sender, the times of the accepted events of the current
  window. The \<open>defaultdict(deque)\<close> is a total function. The limiter is an \<open>admission\<close> gate.
\<close>

section \<open>The limiter\<close>

record limiter =
  rl_max_commands :: int
  rl_window_seconds :: int
  rl_events :: "str \<Rightarrow> seconds list"

definition new_limiter :: "int \<Rightarrow> int \<Rightarrow> limiter" where
  "new_limiter max_commands window_seconds =
     \<lparr>rl_max_commands = max_commands, rl_window_seconds = window_seconds, rl_events = (\<lambda>_. [])\<rparr>"

definition expired :: "seconds \<Rightarrow> seconds \<Rightarrow> seconds \<Rightarrow> bool" where
  "expired window now t \<longleftrightarrow> now - t > window"

definition allow :: "seconds \<Rightarrow> str \<Rightarrow> limiter \<Rightarrow> bool \<times> limiter" where
  "allow now sender_id rl =
     (if sender_id = [] then (False, rl)
      else
        (let events = dropWhile (expired (of_int (rl_window_seconds rl)) now) (rl_events rl sender_id)
         in if int (length events) \<ge> rl_max_commands rl
            then (False, rl\<lparr>rl_events := (rl_events rl)(sender_id := events)\<rparr>)
            else (True, rl\<lparr>rl_events := (rl_events rl)(sender_id := events @ [now])\<rparr>)))"

lemma allow_frame [frame_simps]:
  "rl_max_commands (snd (allow now k rl)) = rl_max_commands rl"
  "rl_window_seconds (snd (allow now k rl)) = rl_window_seconds rl"
  by (simp_all add: allow_def Let_def)

section \<open>The limiter is an admission gate\<close>

lemma expired_split:
  "ts = takeWhile (expired w now) ts @ dropWhile (expired w now) ts
   \<and> (\<forall>t \<in> set (takeWhile (expired w now) ts). expired w now t)"
  by (auto dest: set_takeWhileD)

interpretation gate: admission allow "\<lambda>k. k" rl_events "\<lambda>rl. nat (rl_max_commands rl)"
  "\<lambda>rl. expired (of_int (rl_window_seconds rl))"
proof
  fix now r and s s' :: limiter
  let ?e = "expired (of_int (rl_window_seconds s)) now"
  assume "allow now r s = (True, s')"
  with expired_split [of "rl_events s r" "of_int (rl_window_seconds s)" now]
  show "\<exists>old new. rl_events s r = old @ new \<and> (\<forall>t \<in> set old. ?e t)
      \<and> length new < nat (rl_max_commands s) \<and> rl_events s' r = new @ [now]"
    by (intro exI [of _ "takeWhile ?e (rl_events s r)"] exI [of _ "dropWhile ?e (rl_events s r)"])
      (auto simp: allow_def Let_def split: if_splits)
next
  fix now r k ok and s s' :: limiter
  let ?e = "expired (of_int (rl_window_seconds s)) now"
  assume a: "allow now r s = (ok, s')" and "\<not> ok \<or> r \<noteq> k"
  show "\<exists>old new. rl_events s k = old @ new \<and> (\<forall>t \<in> set old. ?e t) \<and> rl_events s' k = new"
  proof (cases "r = k \<and> r \<noteq> []")
    case True
    with a \<open>\<not> ok \<or> r \<noteq> k\<close> expired_split [of "rl_events s k" "of_int (rl_window_seconds s)" now]
    show ?thesis
      by (intro exI [of _ "takeWhile ?e (rl_events s k)"] exI [of _ "dropWhile ?e (rl_events s k)"])
        (auto simp: allow_def Let_def split: if_splits)
  next
    case False
    with a have "rl_events s' k = rl_events s k"
      by (auto simp: allow_def Let_def split: if_splits)
    then show ?thesis by (intro exI [of _ "[]"] exI [of _ "rl_events s k"]) simp
  qed
next
  fix now r ok and s s' :: limiter
  assume a: "allow now r s = (ok, s')"
  show "nat (rl_max_commands s') = nat (rl_max_commands s)"
    and "expired (of_int (rl_window_seconds s')) = expired (of_int (rl_window_seconds s))"
    using a allow_frame [of now r s] by simp_all
qed (simp add: expired_def)

text \<open>The memory of a key never exceeds the limit.\<close>

lemma allow_events_bound:
  assumes "int (length (rl_events rl k)) \<le> max 0 (rl_max_commands rl)"
  shows "int (length (rl_events (snd (allow now j rl)) k)) \<le> max 0 (rl_max_commands rl)"
proof (cases "j = [] \<or> j \<noteq> k")
  case True
  with assms show ?thesis by (auto simp: allow_def Let_def)
next
  case False
  let ?es = "dropWhile (expired (of_int (rl_window_seconds rl)) now) (rl_events rl k)"
  have "length ?es \<le> length (rl_events rl k)" by (rule length_dropWhile_le)
  with assms False show ?thesis by (auto simp: allow_def Let_def)
qed

text \<open>
  C30. Of the commands of one sender that the limiter accepts, two that are a whole quota apart are
  further apart in time than the window.
\<close>

theorem limiter_window:
  assumes "sorted (map fst rs)"
    and "accepted = times_of (\<lambda>k. k) sender (admitted allow (new_limiter n window) rs)"
    and "i + nat n < length accepted"
  shows "accepted ! (i + nat n) - accepted ! i > of_int window"
proof -
  have "rl_events (new_limiter n window) sender = []" by (simp add: new_limiter_def)
  from gate.run_spaced [OF this assms(1)] assms(2,3) show ?thesis
    by (simp add: spaced_def new_limiter_def expired_def)
qed

theorem limiter_window_witness:
  "admitted allow (new_limiter 1 10) [(0, [97]), (5, [97]), (11, [97])] = [(0, [97]), (11, [97])]
   \<and> (11::rat) - 0 > 10"
proof -
  have a: "admitted allow (new_limiter 1 10) [(0, [97]), (5, [97]), (11, [97])] = [(0, [97]), (11, [97])]"
    by (simp add: allow_def new_limiter_def expired_def)
  have "times_of (\<lambda>k. k) [97] [(0, [97]), (11, [97])] ! 1
      - times_of (\<lambda>k. k) [97] [(0, [97]), (11, [97])] ! 0 > of_int 10"
    using limiter_window [of "[(0, [97]), (5, [97]), (11, [97])]" _ "[97]" 1 10 0, OF _ refl]
    by (simp add: a)
  with a show ?thesis by simp
qed

end
