(* ===== verification/Tg_Store.thy ===== *)
theory Tg_Store
  imports Audit_Store Admission PyNumber
begin

text \<open>
  \<open>telegram/store.py\<close> and \<open>telegram/database.py\<close>: the state of the Telegram side that survives
  a restart. Tables with a primary key and no order that matters are maps; the pending bridge
  records keep their order of insertion. The default columns \<open>created_at\<close> and
  \<open>updated_at\<close> are left out.
\<close>

section \<open>Tables\<close>

definition telegram_reasons :: "str list" where
  "telegram_reasons =
     [lit ''accepted'', lit ''bot_message'', lit ''chat_not_authorized'', lit ''duplicate'',
      lit ''edited_message'', lit ''empty_text'', lit ''foundation_only'', lit ''group_ignored'',
      lit ''multimedia_ignored'', lit ''supergroup_ignored'', lit ''channel_ignored'',
      lit ''command'', lit ''forwarded'', lit ''forward_disabled'', lit ''rate_limited'',
      lit ''dropped'', lit ''failed'', lit ''user_not_authorized'']"

definition bridge_statuses :: "str list" where
  "bridge_statuses =
     [lit ''accepted_by_meshcore_transport'', lit ''accepted_by_telegram'', lit ''observed_echo'',
      lit ''failed'', lit ''dropped'']"

definition telegram_update_dedup_window :: seconds where
  "telegram_update_dedup_window = 3600"

definition bridge_pending_window :: seconds where
  "bridge_pending_window = 600"

record tg_refs =
  tf_update_ref_hash :: "str option"
  tf_chat_ref_hash :: "str option"
  tf_user_ref_hash :: "str option"

record bridge_record =
  br_bridge_message_id :: str
  br_correlation_id :: str
  br_destination_transport :: str
  br_destination_room_id :: str
  br_content_ref_hash :: str
  br_size_bytes :: int
  br_status :: str
  br_created_at :: seconds
  br_expires_at :: seconds

record tg_audit_row =
  ta_event_type :: str
  ta_refs :: tg_refs
  ta_chat_type :: "str option"
  ta_message_type :: "str option"
  ta_reason :: str

record tg_tables =
  tt_state :: "str \<rightharpoonup> str"
  tt_updates :: "str \<rightharpoonup> seconds"
  tt_audit :: "tg_audit_row list"
  tt_pending :: "bridge_record list"

definition empty_tg_tables :: tg_tables where
  "empty_tg_tables = \<lparr>tt_state = Map.empty, tt_updates = Map.empty, tt_audit = [], tt_pending = []\<rparr>"

section \<open>The state table\<close>

definition get_state :: "str \<Rightarrow> tg_tables conn \<Rightarrow> str option result \<times> tg_tables conn" where
  "get_state key c = read_query (\<lambda>t. tt_state t key) c"

definition put_state :: "str \<Rightarrow> str \<Rightarrow> tg_tables \<Rightarrow> unit result \<times> tg_tables" where
  "put_state key v t = (Inr (), t\<lparr>tt_state := (tt_state t)(key \<mapsto> v)\<rparr>)"

definition set_state :: "str \<Rightarrow> str \<Rightarrow> tg_tables conn \<Rightarrow> unit result \<times> tg_tables conn" where
  "set_state key v c = write_transaction (put_state key v) c"

definition is_activated :: "tg_tables conn \<Rightarrow> bool result \<times> tg_tables conn" where
  "is_activated c =
     (case get_state (lit ''activated'') c of
        (r, c') \<Rightarrow> (bind_result r (\<lambda>v. Inr (v = Some (lit ''1''))), c'))"

definition mark_activated :: "tg_tables conn \<Rightarrow> unit result \<times> tg_tables conn" where
  "mark_activated c = set_state (lit ''activated'') (lit ''1'') c"

definition last_update_id :: "tg_tables conn \<Rightarrow> int option result \<times> tg_tables conn" where
  "last_update_id c =
     (case get_state (lit ''last_update_id'') c of
        (r, c') \<Rightarrow> (bind_result r (\<lambda>v. opt_result py_int v), c'))"

definition persist_last_update_id :: "int \<Rightarrow> tg_tables conn \<Rightarrow> unit result \<times> tg_tables conn" where
  "persist_last_update_id update_id c = set_state (lit ''last_update_id'') (dec update_id) c"

section \<open>References\<close>

definition update_ref_hash :: "crypto \<Rightarrow> audit_key \<Rightarrow> int \<Rightarrow> str result" where
  "update_ref_hash cr k update_id =
     key_reference cr k (lit ''telegram-update:v1'' @ [0] @ dec update_id)"

definition chat_ref_hash :: "crypto \<Rightarrow> audit_key \<Rightarrow> str \<Rightarrow> str result" where
  "chat_ref_hash cr k chat_id = key_reference cr k (lit ''telegram-chat:v1'' @ [0] @ chat_id)"

definition user_ref_hash :: "crypto \<Rightarrow> audit_key \<Rightarrow> str \<Rightarrow> str result" where
  "user_ref_hash cr k user_id = key_reference cr k (lit ''telegram-user:v1'' @ [0] @ user_id)"

definition content_ref_hash :: "crypto \<Rightarrow> audit_key \<Rightarrow> str \<Rightarrow> str result" where
  "content_ref_hash cr k content = key_reference cr k (lit ''bridge-content:v1'' @ [0] @ content)"

definition refs :: "crypto \<Rightarrow> audit_key \<Rightarrow> int option \<Rightarrow> str option \<Rightarrow> str option \<Rightarrow> tg_refs result" where
  "refs cr k update_id chat_id user_id =
     bind_result (opt_result (update_ref_hash cr k) update_id) (\<lambda>u.
     bind_result (opt_result (chat_ref_hash cr k) (if present chat_id then chat_id else None)) (\<lambda>c.
     bind_result (opt_result (user_ref_hash cr k) (if present user_id then user_id else None)) (\<lambda>s.
       Inr \<lparr>tf_update_ref_hash = u, tf_chat_ref_hash = c, tf_user_ref_hash = s\<rparr>)))"

section \<open>Seen updates\<close>

definition purge_updates :: "seconds \<Rightarrow> (str \<rightharpoonup> seconds) \<Rightarrow> (str \<rightharpoonup> seconds)" where
  "purge_updates now d = (\<lambda>k. case d k of None \<Rightarrow> None | Some e \<Rightarrow> if e \<le> now then None else Some e)"

definition store_update :: "seconds \<Rightarrow> str \<Rightarrow> tg_tables \<Rightarrow> bool result \<times> tg_tables" where
  "store_update now update_ref t =
     (let d = purge_updates now (tt_updates t) in
      if d update_ref \<noteq> None then (Inr True, t\<lparr>tt_updates := d\<rparr>)
      else (Inr False, t\<lparr>tt_updates := d(update_ref \<mapsto> now + telegram_update_dedup_window)\<rparr>))"

definition seen_or_store_update ::
    "crypto \<Rightarrow> audit_key \<Rightarrow> seconds \<Rightarrow> int \<Rightarrow> tg_tables conn \<Rightarrow> bool result \<times> tg_tables conn" where
  "seen_or_store_update cr k now update_id c =
     (case update_ref_hash cr k update_id of
        Inl e \<Rightarrow> (Inl e, c)
      | Inr update_ref \<Rightarrow> write_transaction (store_update now update_ref) c)"

section \<open>Audit rows\<close>

definition insert_tg_audit :: "tg_audit_row \<Rightarrow> tg_tables \<Rightarrow> unit result \<times> tg_tables" where
  "insert_tg_audit row t =
     then_tx (bind_texts (opt_list (ta_chat_type row) @ opt_list (ta_message_type row)))
       (\<lambda>_ t. (Inr (), t\<lparr>tt_audit := tt_audit t @ [row]\<rparr>)) t"

definition tg_audit_event ::
    "str \<Rightarrow> str \<Rightarrow> tg_refs \<Rightarrow> str option \<Rightarrow> str option \<Rightarrow> tg_tables conn
       \<Rightarrow> unit result \<times> tg_tables conn" where
  "tg_audit_event event_type reason rf chat_type message_type c =
     (if reason \<notin> set telegram_reasons
      then (raise ValueError ''Telegram audit reason is not allowed'', c)
      else
        write_transaction
          (insert_tg_audit
             \<lparr>ta_event_type = event_type, ta_refs = rf, ta_chat_type = chat_type,
              ta_message_type = message_type, ta_reason = reason\<rparr>) c)"

text \<open>
  \<open>audit_bridge_event\<close> writes to the audit database, through the normalized repository, when
  there is one. Its result is the identifier of the event.
\<close>

definition audit_bridge_event ::
    "crypto \<Rightarrow> audit_settings option \<Rightarrow> str \<Rightarrow> instant \<Rightarrow> event_type \<Rightarrow> inbound_message \<Rightarrow> str
       \<Rightarrow> json \<Rightarrow> str option \<Rightarrow> audit_state \<Rightarrow> str option result \<times> audit_state" where
  "audit_bridge_event cr repository uuid now ty m correlation_id metadata cause st =
     (case repository of
        None \<Rightarrow> (Inr None, st)
      | Some s \<Rightarrow>
          if \<not> as_enabled s then (Inr None, st)
          else
            (case event_from_inbound cr s uuid ty m (Some correlation_id) (plain_args metadata cause) of
               Inl e \<Rightarrow> (Inl e, st)
             | Inr event \<Rightarrow>
                 (case audit_record s now event st of
                    (Inl e, st') \<Rightarrow> (Inl e, st')
                  | (Inr _, st') \<Rightarrow> (Inr (Some (ae_event_id event)), st'))))"

section \<open>Bridge records\<close>

definition purge_pending :: "seconds \<Rightarrow> bridge_record list \<Rightarrow> bridge_record list" where
  "purge_pending now rs = filter (\<lambda>r. \<not> br_expires_at r \<le> now) rs"

definition store_record :: "seconds \<Rightarrow> bridge_record \<Rightarrow> tg_tables \<Rightarrow> unit result \<times> tg_tables" where
  "store_record now r t =
     (let ps = purge_pending now (tt_pending t) in
      then_tx (bind_texts [br_correlation_id r, br_destination_room_id r]) (\<lambda>_ t.
        if br_bridge_message_id r \<in> br_bridge_message_id ` set ps
        then (raise IntegrityError ''UNIQUE constraint failed: telegram_bridge_pending.bridge_message_id'', t)
        else (Inr (), t\<lparr>tt_pending := ps @ [r]\<rparr>)) t)"

definition create_bridge_record ::
    "crypto \<Rightarrow> audit_key \<Rightarrow> str \<Rightarrow> seconds \<Rightarrow> str \<Rightarrow> str \<Rightarrow> str \<Rightarrow> str \<Rightarrow> int \<Rightarrow> str
       \<Rightarrow> tg_tables conn \<Rightarrow> bridge_record result \<times> tg_tables conn" where
  "create_bridge_record cr k uuid now correlation_id transport room_id content size_bytes st c =
     (if st \<notin> set bridge_statuses
      then (raise ValueError ''Telegram bridge status is not allowed'', c)
      else
        (case content_ref_hash cr k content of
           Inl e \<Rightarrow> (Inl e, c)
         | Inr h \<Rightarrow>
             (let r = \<lparr>br_bridge_message_id = lit ''bridge:'' @ uuid,
                       br_correlation_id = correlation_id, br_destination_transport = transport,
                       br_destination_room_id = room_id, br_content_ref_hash = h,
                       br_size_bytes = size_bytes, br_status = st, br_created_at = now,
                       br_expires_at = now + bridge_pending_window\<rparr>
              in
              case write_transaction (store_record now r) c of
                (Inl e, c') \<Rightarrow> (Inl e, c')
              | (Inr _, c') \<Rightarrow> (Inr r, c'))))"

text \<open>The record that a message seen on the mesh is the echo of.\<close>

definition matches_echo :: "seconds \<Rightarrow> str \<Rightarrow> str \<Rightarrow> str \<Rightarrow> int \<Rightarrow> bridge_record \<Rightarrow> bool" where
  "matches_echo now transport room_id content_hash size_bytes r \<longleftrightarrow>
     br_destination_transport r = transport \<and> br_destination_room_id r = room_id
     \<and> br_content_ref_hash r = content_hash \<and> br_size_bytes r = size_bytes
     \<and> br_status r = lit ''accepted_by_meshcore_transport'' \<and> br_expires_at r > now"

text \<open>\<open>consume_record\<close>: the oldest match, whose status is changed.\<close>

definition consume_record ::
    "seconds \<Rightarrow> str \<Rightarrow> str \<Rightarrow> str \<Rightarrow> int \<Rightarrow> tg_tables \<Rightarrow> bridge_record option result \<times> tg_tables" where
  "consume_record now transport room_id content_hash size_bytes t =
     (let ps = purge_pending now (tt_pending t) in
      case sort_key br_created_at (filter (matches_echo now transport room_id content_hash size_bytes) ps) of
        [] \<Rightarrow> (Inr None, t\<lparr>tt_pending := ps\<rparr>)
      | r # _ \<Rightarrow>
          (Inr (Some r),
           t\<lparr>tt_pending :=
               map (\<lambda>p. if br_bridge_message_id p = br_bridge_message_id r
                        then p\<lparr>br_status := lit ''observed_echo''\<rparr> else p) ps\<rparr>))"

definition consume_pending_echo ::
    "crypto \<Rightarrow> audit_key \<Rightarrow> seconds \<Rightarrow> str \<Rightarrow> str \<Rightarrow> str \<Rightarrow> int \<Rightarrow> tg_tables conn
       \<Rightarrow> bridge_record option result \<times> tg_tables conn" where
  "consume_pending_echo cr k now transport room_id content size_bytes c =
     (case content_ref_hash cr k content of
        Inl e \<Rightarrow> (Inl e, c)
      | Inr h \<Rightarrow>
          (case write_transaction
                  (then_tx (bind_texts [room_id]) (\<lambda>_. consume_record now transport room_id h size_bytes)) c of
             (Inl e, c') \<Rightarrow> (Inl e, c')
           | (Inr r, c') \<Rightarrow>
               (Inr (map_option (\<lambda>p. p\<lparr>br_status := lit ''observed_echo''\<rparr>) r), c')))"

section \<open>Migration\<close>

text \<open>
  \<open>migrate_telegram_tables\<close>: the rows of the legacy tables are inserted unless their key is
  taken, and the whole copy is one transaction of the target. Audit rows carry their row
  number as key, which is the position here.
\<close>

definition add_missing :: "('k \<rightharpoonup> 'v) \<Rightarrow> ('k \<rightharpoonup> 'v) \<Rightarrow> ('k \<rightharpoonup> 'v)" where
  "add_missing source target = source ++ target"

definition copy_tables :: "tg_tables \<Rightarrow> tg_tables \<Rightarrow> unit result \<times> tg_tables" where
  "copy_tables source t =
     (Inr (),
      t\<lparr>tt_state := add_missing (tt_state source) (tt_state t),
        tt_updates := add_missing (tt_updates source) (tt_updates t),
        tt_audit := tt_audit t @ drop (length (tt_audit t)) (tt_audit source),
        tt_pending := tt_pending t
          @ filter (\<lambda>r. br_bridge_message_id r \<notin> br_bridge_message_id ` set (tt_pending t))
              (tt_pending source)\<rparr>)"

definition migrate_telegram_tables ::
    "tg_tables \<Rightarrow> tg_tables conn \<Rightarrow> unit result \<times> tg_tables conn" where
  "migrate_telegram_tables source c = write_transaction (copy_tables source) c"

section \<open>Seen updates are an admission gate\<close>

definition update_admit :: "seconds \<Rightarrow> str \<Rightarrow> tg_tables conn \<Rightarrow> bool \<times> tg_tables conn" where
  "update_admit now update_ref c =
     (case write_transaction (store_update now update_ref) c of (r, c') \<Rightarrow> (r = Inr False, c'))"

definition update_stored_at :: "tg_tables conn \<Rightarrow> str \<Rightarrow> seconds list" where
  "update_stored_at c k =
     (case tt_updates (db_tables c) k of None \<Rightarrow> [] | Some e \<Rightarrow> [e - telegram_update_dedup_window])"

definition update_window_over :: "seconds \<Rightarrow> seconds \<Rightarrow> bool" where
  "update_window_over now t \<longleftrightarrow> now - t \<ge> telegram_update_dedup_window"

lemma store_update_False:
  "store_update now k t = (Inr False, t') \<Longrightarrow>
     purge_updates now (tt_updates t) k = None
     \<and> tt_updates t' = (purge_updates now (tt_updates t))(k \<mapsto> now + telegram_update_dedup_window)"
  by (auto simp: store_update_def Let_def split: if_splits)

lemma store_update_True:
  "store_update now k t = (Inr True, t') \<Longrightarrow> tt_updates t' = purge_updates now (tt_updates t)"
  by (auto simp: store_update_def Let_def split: if_splits)

lemma purge_updates_forgets:
  "\<exists>old new. (case d k of None \<Rightarrow> [] | Some e \<Rightarrow> [e - telegram_update_dedup_window]) = old @ new
     \<and> (\<forall>t \<in> set old. update_window_over now t)
     \<and> (case purge_updates now d k of None \<Rightarrow> [] | Some e \<Rightarrow> [e - telegram_update_dedup_window]) = new"
  by (auto simp: purge_updates_def update_window_over_def split: option.splits)

interpretation updates: admission update_admit "\<lambda>k. k" update_stored_at "\<lambda>_. 1"
  "\<lambda>_. update_window_over"
proof
  fix now r and s s' :: "tg_tables conn"
  assume "update_admit now r s = (True, s')"
  then have "write_transaction (store_update now r) s = (Inr False, s')"
    by (auto simp: update_admit_def split: prod.splits)
  from store_update_False [OF sqlite.write_commits [OF this]]
    purge_updates_forgets [where d = "tt_updates (db_tables s)" and k = r and now = now]
  show "\<exists>old new. update_stored_at s r = old @ new \<and> (\<forall>t \<in> set old. update_window_over now t)
      \<and> length new < 1 \<and> update_stored_at s' r = new @ [now]"
    by (fastforce simp: update_stored_at_def)
next
  fix now r ok k and s s' :: "tg_tables conn"
  assume a: "update_admit now r s = (ok, s')" and no: "\<not> ok \<or> r \<noteq> k"
  show "\<exists>old new. update_stored_at s k = old @ new \<and> (\<forall>t \<in> set old. update_window_over now t)
      \<and> update_stored_at s' k = new"
  proof (cases "fst (write_transaction (store_update now r) s)")
    case (Inl e)
    with a have "write_transaction (store_update now r) s = (Inl e, s')"
      by (auto simp: update_admit_def split: prod.splits)
    then have "update_stored_at s' k = update_stored_at s k"
      by (simp add: update_stored_at_def sqlite.write_rolls_back)
    then show ?thesis by (intro exI [of _ "[]"] exI [of _ "update_stored_at s k"]) simp
  next
    case (Inr b)
    with a have w: "write_transaction (store_update now r) s = (Inr b, s')" and ok: "ok = (\<not> b)"
      by (auto simp: update_admit_def split: prod.splits)
    have "tt_updates (db_tables s') k = purge_updates now (tt_updates (db_tables s)) k"
      using sqlite.write_commits [OF w] no ok
      by (cases b) (auto dest: store_update_True store_update_False)
    with purge_updates_forgets [where d = "tt_updates (db_tables s)" and k = k and now = now]
    show ?thesis by (simp add: update_stored_at_def)
  qed
qed (simp_all add: update_window_over_def)

section \<open>Facts\<close>

text \<open>The offset that was persisted is the one that is read back.\<close>

lemma persisted_offset_read:
  assumes p: "persist_last_update_id i c = (Inr u, c')" and r: "last_update_id c' = (Inr v, c'')"
  shows "v = Some i"
proof -
  from sqlite.write_commits [OF p [unfolded persist_last_update_id_def set_state_def]]
  have "db_tables c' = snd (put_state (lit ''last_update_id'') (dec i) (db_tables c))" by simp
  then have "tt_state (db_tables c') (lit ''last_update_id'') = Some (dec i)"
    by (simp add: put_state_def)
  with r show ?thesis
    by (auto simp: last_update_id_def get_state_def read_query_def opt_result_def
        split: prod.splits option.splits)
qed

text \<open>Expired records never match, and a consumed record does not match again.\<close>

definition distinct_ids :: "tg_tables \<Rightarrow> bool" where
  "distinct_ids t \<longleftrightarrow> distinct (map br_bridge_message_id (tt_pending t))"

lemma store_record_distinct:
  "distinct_ids t \<Longrightarrow> store_record now r t = (Inr u, t') \<Longrightarrow> distinct_ids t'"
  by (auto simp: distinct_ids_def store_record_def purge_pending_def then_tx_Inr_iff
      bind_texts_Inr_iff distinct_map_filter split: if_splits)

lemma consume_record_distinct:
  "distinct_ids t \<Longrightarrow> consume_record now tr room h n t = (x, t') \<Longrightarrow> distinct_ids t'"
  by (auto simp: distinct_ids_def consume_record_def purge_pending_def Let_def o_def if_distrib
      distinct_map_filter cong: if_cong split: list.splits)

lemma consume_record_Some:
  assumes "consume_record now tr room h n t = (Inr (Some r), t')"
  shows "matches_echo now tr room h n r" "r \<in> set (tt_pending t)"
    "\<forall>p \<in> set (tt_pending t'). br_bridge_message_id p = br_bridge_message_id r \<longrightarrow>
       br_status p = lit ''observed_echo''"
proof -
  let ?ms = "filter (matches_echo now tr room h n) (purge_pending now (tt_pending t))"
  from assms obtain rs where sorted: "sort_key br_created_at ?ms = r # rs"
      and t': "tt_pending t' = map (\<lambda>p. if br_bridge_message_id p = br_bridge_message_id r
                 then p\<lparr>br_status := lit ''observed_echo''\<rparr> else p) (purge_pending now (tt_pending t))"
    by (auto simp: consume_record_def Let_def split: list.splits)
  from sorted have "r \<in> set ?ms" by (metis list.set_intros(1) set_sort)
  then show "matches_echo now tr room h n r" "r \<in> set (tt_pending t)"
    by (auto simp: purge_pending_def)
  from t' show "\<forall>p \<in> set (tt_pending t'). br_bridge_message_id p = br_bridge_message_id r \<longrightarrow>
       br_status p = lit ''observed_echo''" by auto
qed

lemma consume_record_None:
  assumes "consume_record now tr room h n t = (Inr None, t')"
  shows "\<forall>r \<in> set (tt_pending t). \<not> matches_echo now tr room h n r"
proof -
  let ?ms = "filter (matches_echo now tr room h n) (purge_pending now (tt_pending t))"
  from assms have "sort_key br_created_at ?ms = []"
    by (auto simp: consume_record_def Let_def split: list.splits)
  then have "?ms = []" by (metis set_empty2 set_sort set_empty)
  then show ?thesis by (auto simp: filter_empty_conv purge_pending_def matches_echo_def)
qed

text \<open>
  An update that Telegram delivers again within an hour is not processed again: any two
  acceptances of one update are at least 3600 seconds apart.
\<close>

theorem update_passes_once:
  assumes "sorted (map fst us)" "tt_updates (db_tables c) ref = None"
    and "accepted = times_of (\<lambda>k. k) ref (admitted update_admit c us)"
    and "i < j" "j < length accepted"
  shows "accepted ! j - accepted ! i \<ge> 3600"
proof -
  have "update_stored_at c ref = []" using assms(2) by (simp add: update_stored_at_def)
  from updates.run_spaced [OF this assms(1)] have s: "spaced update_window_over 1 accepted"
    by (simp add: assms(3))
  have sorted: "sorted accepted" using assms(1) by (simp add: assms(3) admitted_sorted)
  from s assms(4,5) have "accepted ! Suc i - accepted ! i \<ge> 3600"
    by (auto simp: spaced_def update_window_over_def telegram_update_dedup_window_def)
  moreover from sorted assms(4,5) have "accepted ! Suc i \<le> accepted ! j" by (simp add: sorted_nth_mono)
  ultimately show ?thesis by linarith
qed

theorem update_passes_once_witness:
  "times_of (\<lambda>k. k) [97] (admitted update_admit (new_conn empty_tg_tables []) [(0, [97]), (3600, [97])]) = [0, 3600]
   \<and> (3600::rat) - 0 \<ge> 3600"
  using update_passes_once [of "[(0, [97]), (3600, [97])]" "new_conn empty_tg_tables []" "[97]" _ 0 1, OF _ _ refl]
  by (simp add: update_admit_def store_update_def purge_updates_def Let_def telegram_update_dedup_window_def
      empty_tg_tables_def)

end
