(* ===== verification/World.thy ===== *)
theory World
  imports Audit_Flow Deduplication Rate_Limit Bridge_Health Tg_Store
begin

text \<open>
  What the services share while they run. The environment answers the calls whose results the
  program does not determine: fresh identifiers, the clocks and the digests, indexed by the
  number of such calls so far (\<open>w_tick\<close>). The world holds the databases, the limiters, the
  health state, and the two network peers, each as a log of the calls made to it and a
  schedule of the failures it will answer with (past its end the calls succeed).
\<close>

record env =
  ev_crypto :: crypto
  ev_uuid :: "nat \<Rightarrow> str"
  ev_now :: "nat \<Rightarrow> instant"
  ev_time :: "nat \<Rightarrow> seconds"
  ev_mono :: "nat \<Rightarrow> seconds"

record world =
  w_tick :: nat
  w_audit :: audit_state
  w_telegram :: "tg_tables conn"
  w_health :: "health option"
  w_limiter :: limiter
  w_tg_limiter :: limiter
  w_mc_limiter :: limiter
  w_sent :: "outbound_message list"
  w_send_faults :: "exn option list"
  w_tg_sent :: "(str \<times> str) list"
  w_tg_faults :: "exn option list"
  w_tg_offsets :: "int option list"
  w_webhook_drops :: nat
  w_slept :: "seconds list"
  w_stopping :: bool
  w_forward_stopping :: bool
  w_transport_closed :: nat
  w_closed :: bool

definition tick :: "world \<Rightarrow> world" where
  "tick w = w\<lparr>w_tick := Suc (w_tick w)\<rparr>"

text \<open>An operation of the health state, when there is one.\<close>

definition on_health :: "env \<Rightarrow> (instant \<Rightarrow> health \<Rightarrow> health) \<Rightarrow> world \<Rightarrow> world" where
  "on_health ev f w =
     (case w_health w of
        None \<Rightarrow> w
      | Some h \<Rightarrow> tick (w\<lparr>w_health := Some (f (ev_now ev (w_tick w)) h)\<rparr>))"

text \<open>\<open>await transport.send(outbound)\<close>: every call is logged, whether it fails or not.\<close>

definition transport_send :: "outbound_message \<Rightarrow> world \<Rightarrow> unit result \<times> world" where
  "transport_send out w =
     (let w' = w\<lparr>w_sent := w_sent w @ [out]\<rparr> in
      case w_send_faults w' of
        [] \<Rightarrow> (Inr (), w')
      | f # fs \<Rightarrow>
          (case f of
             None \<Rightarrow> (Inr (), w'\<lparr>w_send_faults := fs\<rparr>)
           | Some e \<Rightarrow> (Inl e, w'\<lparr>w_send_faults := fs\<rparr>)))"

text \<open>\<open>await client.send_message(chat_id=..., text=...)\<close>.\<close>

definition telegram_send :: "str \<Rightarrow> str \<Rightarrow> world \<Rightarrow> unit result \<times> world" where
  "telegram_send chat_id t w =
     (let w' = w\<lparr>w_tg_sent := w_tg_sent w @ [(chat_id, t)]\<rparr> in
      case w_tg_faults w' of
        [] \<Rightarrow> (Inr (), w')
      | f # fs \<Rightarrow>
          (case f of
             None \<Rightarrow> (Inr (), w'\<lparr>w_tg_faults := fs\<rparr>)
           | Some e \<Rightarrow> (Inl e, w'\<lparr>w_tg_faults := fs\<rparr>)))"

text \<open>
  \<open>_sleep_or_stop\<close>, given the \<open>_stopping\<close> flag of the object: the service and the forwarder
  each have one.
\<close>

definition sleep_or_stop :: "bool \<Rightarrow> seconds \<Rightarrow> world \<Rightarrow> world" where
  "sleep_or_stop stopping delay w =
     (if stopping then w else w\<lparr>w_slept := w_slept w @ [delay]\<rparr>)"

text \<open>An operation of the telegram database.\<close>

definition on_telegram ::
    "(tg_tables conn \<Rightarrow> 'a result \<times> tg_tables conn) \<Rightarrow> world \<Rightarrow> 'a result \<times> world" where
  "on_telegram f w = (case f (w_telegram w) of (r, c) \<Rightarrow> (r, w\<lparr>w_telegram := c\<rparr>))"

text \<open>
  A stage of the audit flow, called the way \<open>app.py\<close> and \<open>router.py\<close> do: it never raises; the
  exception it caught is returned for the callers that report it.
\<close>

definition staged ::
    "env \<Rightarrow> (str \<Rightarrow> instant \<Rightarrow> audit_trail \<Rightarrow> audit_state \<Rightarrow> audit_trail result \<times> audit_state)
       \<Rightarrow> audit_trail \<Rightarrow> world \<Rightarrow> audit_trail \<times> exn option \<times> world" where
  "staged ev stage tr w =
     (case attempted (stage (ev_uuid ev (w_tick w)) (ev_now ev (w_tick w))) tr (w_audit w) of
        (tr', e, st) \<Rightarrow> (tr', e, tick (w\<lparr>w_audit := st\<rparr>)))"

section \<open>Frames\<close>

text \<open>Whether the bridge has been closed, and how often the transport has.\<close>

definition closing :: "world \<Rightarrow> bool \<times> nat" where
  "closing w = (w_closed w, w_transport_closed w)"

lemma closing_update [simp, frame_simps]:
  "closing (w\<lparr>w_tick := x0\<rparr>) = closing w"
  "closing (w\<lparr>w_audit := x1\<rparr>) = closing w"
  "closing (w\<lparr>w_telegram := x2\<rparr>) = closing w"
  "closing (w\<lparr>w_health := x3\<rparr>) = closing w"
  "closing (w\<lparr>w_limiter := x4\<rparr>) = closing w"
  "closing (w\<lparr>w_tg_limiter := x5\<rparr>) = closing w"
  "closing (w\<lparr>w_mc_limiter := x6\<rparr>) = closing w"
  "closing (w\<lparr>w_sent := x7\<rparr>) = closing w"
  "closing (w\<lparr>w_send_faults := x8\<rparr>) = closing w"
  "closing (w\<lparr>w_tg_sent := x9\<rparr>) = closing w"
  "closing (w\<lparr>w_tg_faults := x10\<rparr>) = closing w"
  "closing (w\<lparr>w_tg_offsets := x11\<rparr>) = closing w"
  "closing (w\<lparr>w_webhook_drops := x12\<rparr>) = closing w"
  "closing (w\<lparr>w_slept := x13\<rparr>) = closing w"
  "closing (w\<lparr>w_stopping := x14\<rparr>) = closing w"
  "closing (w\<lparr>w_forward_stopping := x15\<rparr>) = closing w"
  by (simp_all add: closing_def)

text \<open>The part of the world that other components than the audit and the health see.\<close>

lemma tick_frame [frame_simps]:
  "w_audit (tick w) = w_audit w" "w_telegram (tick w) = w_telegram w"
  "w_health (tick w) = w_health w" "w_limiter (tick w) = w_limiter w"
  "w_tg_limiter (tick w) = w_tg_limiter w" "w_mc_limiter (tick w) = w_mc_limiter w"
  "w_sent (tick w) = w_sent w" "w_send_faults (tick w) = w_send_faults w"
  "w_tg_sent (tick w) = w_tg_sent w" "w_tg_faults (tick w) = w_tg_faults w"
  "w_closed (tick w) = w_closed w" "w_stopping (tick w) = w_stopping w"
  "w_forward_stopping (tick w) = w_forward_stopping w"
  "w_slept (tick w) = w_slept w" "closing (tick w) = closing w"
  by (simp_all add: tick_def)

lemma on_health_frame [frame_simps]:
  "w_audit (on_health ev f w) = w_audit w" "w_telegram (on_health ev f w) = w_telegram w"
  "w_limiter (on_health ev f w) = w_limiter w"
  "w_tg_limiter (on_health ev f w) = w_tg_limiter w"
  "w_mc_limiter (on_health ev f w) = w_mc_limiter w"
  "w_sent (on_health ev f w) = w_sent w" "w_send_faults (on_health ev f w) = w_send_faults w"
  "w_tg_sent (on_health ev f w) = w_tg_sent w" "w_tg_faults (on_health ev f w) = w_tg_faults w"
  "w_closed (on_health ev f w) = w_closed w" "w_stopping (on_health ev f w) = w_stopping w"
  "w_slept (on_health ev f w) = w_slept w"
  "closing (on_health ev f w) = closing w"
  by (simp_all add: on_health_def frame_simps split: option.splits)

lemma transport_send_frame [frame_simps]:
  "w_sent (snd (transport_send out w)) = w_sent w @ [out]"
  "w_audit (snd (transport_send out w)) = w_audit w"
  "w_telegram (snd (transport_send out w)) = w_telegram w"
  "w_health (snd (transport_send out w)) = w_health w"
  "w_tg_sent (snd (transport_send out w)) = w_tg_sent w"
  "w_limiter (snd (transport_send out w)) = w_limiter w"
  "w_tg_limiter (snd (transport_send out w)) = w_tg_limiter w"
  "w_mc_limiter (snd (transport_send out w)) = w_mc_limiter w"
  "closing (snd (transport_send out w)) = closing w"
  by (simp_all add: transport_send_def Let_def split: list.splits option.splits)

lemma telegram_send_frame [frame_simps]:
  "w_tg_sent (snd (telegram_send c t w)) = w_tg_sent w @ [(c, t)]"
  "w_audit (snd (telegram_send c t w)) = w_audit w"
  "w_telegram (snd (telegram_send c t w)) = w_telegram w"
  "w_health (snd (telegram_send c t w)) = w_health w"
  "w_sent (snd (telegram_send c t w)) = w_sent w"
  "w_limiter (snd (telegram_send c t w)) = w_limiter w"
  "w_tg_limiter (snd (telegram_send c t w)) = w_tg_limiter w"
  "w_mc_limiter (snd (telegram_send c t w)) = w_mc_limiter w"
  "closing (snd (telegram_send c t w)) = closing w"
  by (simp_all add: telegram_send_def Let_def split: list.splits option.splits)

lemma sleep_or_stop_frame [frame_simps]:
  "w_sent (sleep_or_stop b d w) = w_sent w" "w_tg_sent (sleep_or_stop b d w) = w_tg_sent w"
  "w_audit (sleep_or_stop b d w) = w_audit w" "w_telegram (sleep_or_stop b d w) = w_telegram w"
  "w_health (sleep_or_stop b d w) = w_health w" "w_limiter (sleep_or_stop b d w) = w_limiter w"
  "w_tg_limiter (sleep_or_stop b d w) = w_tg_limiter w"
  "w_mc_limiter (sleep_or_stop b d w) = w_mc_limiter w"
  "closing (sleep_or_stop b d w) = closing w"
  by (simp_all add: sleep_or_stop_def)

lemma on_telegram_frame [frame_simps]:
  "w_sent (snd (on_telegram f w)) = w_sent w" "w_tg_sent (snd (on_telegram f w)) = w_tg_sent w"
  "w_audit (snd (on_telegram f w)) = w_audit w" "w_health (snd (on_telegram f w)) = w_health w"
  "w_limiter (snd (on_telegram f w)) = w_limiter w"
  "w_tg_limiter (snd (on_telegram f w)) = w_tg_limiter w"
  "w_mc_limiter (snd (on_telegram f w)) = w_mc_limiter w"
  "closing (snd (on_telegram f w)) = closing w"
  by (simp_all add: on_telegram_def split: prod.splits)

lemma staged_frame [frame_simps]:
  "w_sent (snd (snd (staged ev stage tr w))) = w_sent w"
  "w_tg_sent (snd (snd (staged ev stage tr w))) = w_tg_sent w"
  "w_telegram (snd (snd (staged ev stage tr w))) = w_telegram w"
  "w_health (snd (snd (staged ev stage tr w))) = w_health w"
  "w_limiter (snd (snd (staged ev stage tr w))) = w_limiter w"
  "w_tg_limiter (snd (snd (staged ev stage tr w))) = w_tg_limiter w"
  "w_mc_limiter (snd (snd (staged ev stage tr w))) = w_mc_limiter w"
  "closing (snd (snd (staged ev stage tr w))) = closing w"
  by (simp_all add: staged_def frame_simps split: prod.splits)

end
