(* ===== verification/Router.thy ===== *)
theory Router
  imports World
begin

text \<open>
  \<open>commands/router.py\<close>. The handlers of the commands are run by a parameter \<open>run\<close>, which
  \<open>Plugins\<close> supplies for the built-in commands; so what is proved of the router holds for any
  handlers. A handler receives the context and returns it as it leaves it.
\<close>

record command_context =
  cx_message :: inbound_message
  cx_user :: authorized_user
  cx_audit_trail :: "audit_trail option"
  cx_audit_metadata :: jobject

record 'h router =
  ro_registry :: "'h registry"
  ro_authorizer :: authorizer
  ro_flow :: "flow_config option"
  ro_prefix :: str

type_synonym 'h runner =
  "env \<Rightarrow> 'h \<Rightarrow> command_context \<Rightarrow> str list \<Rightarrow> world \<Rightarrow> str result \<times> command_context \<times> world"

definition authorization_denial_reason :: "authorized_user option \<Rightarrow> role \<Rightarrow> bool \<Rightarrow> str" where
  "authorization_denial_reason user minimum_role room_allowed =
     (if \<not> room_allowed then lit ''room_not_allowed''
      else if user = None then lit ''sender_not_registered''
      else if minimum_role > Readonly then lit ''command_not_readonly''
      else lit ''insufficient_role'')"

text \<open>The stages that the router calls, each when there is a flow and a trail.\<close>

definition router_staged ::
    "env \<Rightarrow> 'h router
       \<Rightarrow> (flow_config \<Rightarrow> str \<Rightarrow> instant \<Rightarrow> audit_trail \<Rightarrow> audit_state \<Rightarrow> audit_trail result \<times> audit_state)
       \<Rightarrow> audit_trail option \<Rightarrow> world \<Rightarrow> audit_trail option \<times> world" where
  "router_staged ev ro stage trail w =
     (case (ro_flow ro, trail) of
        (Some fc, Some tr) \<Rightarrow> (case staged ev (stage fc) tr w of (tr', _, w') \<Rightarrow> (Some tr', w'))
      | _ \<Rightarrow> (trail, w))"

definition audit_command_parsed ::
    "env \<Rightarrow> 'h router \<Rightarrow> parsed_command option \<Rightarrow> audit_trail option \<Rightarrow> world
       \<Rightarrow> audit_trail option \<times> world" where
  "audit_command_parsed ev ro parsed =
     router_staged ev ro (\<lambda>fc uuid now tr. command_parsed fc uuid now tr parsed (ro_registry ro))"

definition audit_command_authorization ::
    "env \<Rightarrow> 'h router \<Rightarrow> str \<Rightarrow> str \<Rightarrow> str \<Rightarrow> audit_trail option \<Rightarrow> world
       \<Rightarrow> audit_trail option \<times> world" where
  "audit_command_authorization ev ro res reason command_name =
     router_staged ev ro (\<lambda>fc uuid now tr.
       command_authorization fc uuid now tr res reason (Some command_name))"

definition audit_command_execution ::
    "env \<Rightarrow> 'h router \<Rightarrow> str \<Rightarrow> str list \<Rightarrow> str \<Rightarrow> int \<Rightarrow> str option \<Rightarrow> bool \<Rightarrow> jobject
       \<Rightarrow> audit_trail option \<Rightarrow> world \<Rightarrow> audit_trail option \<times> world" where
  "audit_command_execution ev ro command args res d error registered extra =
     router_staged ev ro (\<lambda>fc uuid now tr.
       command_execution fc uuid now tr command args res d error registered extra)"

text \<open>\<open>_audit_legacy_command\<close>: two writes of their own; whatever they raise is swallowed.\<close>

definition audit_legacy_command ::
    "env \<Rightarrow> inbound_message \<Rightarrow> str \<Rightarrow> str list \<Rightarrow> str \<Rightarrow> int \<Rightarrow> str option \<Rightarrow> world \<Rightarrow> world" where
  "audit_legacy_command ev m command args res d error w =
     (let st = w_audit w in
      case record_inbound_message (ev_crypto ev) m (st_db st) of
        (Inl e, c) \<Rightarrow> w\<lparr>w_audit := st\<lparr>st_db := c\<rparr>\<rparr>
      | (Inr _, c) \<Rightarrow>
          (case record_command m command args res d error c of
             (_, c') \<Rightarrow> w\<lparr>w_audit := st\<lparr>st_db := c'\<rparr>\<rparr>))"

text \<open>
  What the \<open>try\<close> block leaves for the \<open>finally\<close> clause: the reply or the exception that goes
  on, and the local variables.
\<close>

record handled =
  hd_reply :: "str result"
  hd_result :: str
  hd_error :: "str option"
  hd_registered :: bool
  hd_extra :: jobject
  hd_trail :: "audit_trail option"

definition handle_command ::
    "'h runner \<Rightarrow> env \<Rightarrow> 'h router \<Rightarrow> inbound_message \<Rightarrow> parsed_command
       \<Rightarrow> audit_trail option \<Rightarrow> world \<Rightarrow> handled \<times> world" where
  "handle_command run ev ro m parsed trail w =
     (case resolve (ro_registry ro) (pc_name parsed) of
        None \<Rightarrow>
          (\<lparr>hd_reply = Inr (lit ''Comando desconocido. Usa !help''), hd_result = lit ''unknown'',
            hd_error = None, hd_registered = False, hd_extra = [], hd_trail = trail\<rparr>, w)
      | Some d \<Rightarrow>
          (case require_message (ro_authorizer ro) m (cd_minimum_role d) of
             None \<Rightarrow>
               (let reason = authorization_denial_reason (get_user (ro_authorizer ro) (sender_of m))
                               (cd_minimum_role d) (allows_room (ro_authorizer ro) m);
                    (trail', w') = audit_command_authorization ev ro (lit ''denied'') reason
                                     (cd_name d) trail w
                in (\<lparr>hd_reply = Inr (lit ''No autorizado.''), hd_result = lit ''unauthorized'',
                     hd_error = None, hd_registered = True, hd_extra = [], hd_trail = trail'\<rparr>, w'))
           | Some user \<Rightarrow>
               (let (trail', w') = audit_command_authorization ev ro (lit ''allowed'')
                                     (lit ''allowed'') (cd_name d) trail w;
                    cx = \<lparr>cx_message = m, cx_user = user, cx_audit_trail = trail',
                          cx_audit_metadata = []\<rparr>
                in
                case run ev (cd_handler d) cx (pc_args parsed) w' of
                  (Inr reply, cx', w'') \<Rightarrow>
                    (\<lparr>hd_reply = Inr reply, hd_result = lit ''succeeded'', hd_error = None,
                      hd_registered = True, hd_extra = cx_audit_metadata cx',
                      hd_trail = cx_audit_trail cx'\<rparr>,
                     on_health ev record_command_processed w'')
                | (Inl e, cx', w'') \<Rightarrow>
                    if is_exception e
                    then (\<lparr>hd_reply = Inr (lit ''ERROR '' @ exn_str e), hd_result = lit ''failed'',
                           hd_error = Some (class_name (exn_class e)), hd_registered = True,
                           hd_extra = [], hd_trail = cx_audit_trail cx'\<rparr>, w'')
                    else (\<lparr>hd_reply = Inl e, hd_result = lit ''ignored'', hd_error = None,
                           hd_registered = True, hd_extra = [], hd_trail = cx_audit_trail cx'\<rparr>, w''))))"

definition handle_finally ::
    "env \<Rightarrow> 'h router \<Rightarrow> inbound_message \<Rightarrow> parsed_command \<Rightarrow> seconds \<Rightarrow> handled \<Rightarrow> world
       \<Rightarrow> audit_trail option \<times> world" where
  "handle_finally ev ro m parsed started h w =
     (let d = \<lfloor>(ev_mono ev (w_tick w) - started) * 1000\<rfloor>; w' = tick w in
      case (ro_flow ro, hd_trail h) of
        (Some _, Some _) \<Rightarrow>
          audit_command_execution ev ro (pc_name parsed) (pc_args parsed) (hd_result h) d
            (hd_error h) (hd_registered h) (hd_extra h) (hd_trail h) w'
      | _ \<Rightarrow>
          (hd_trail h,
           audit_legacy_command ev m (pc_name parsed) (pc_args parsed) (hd_result h) d
             (hd_error h) w'))"

text \<open>\<open>CommandRouter.handle\<close>; the trail is the caller's, as the calls left it.\<close>

definition handle ::
    "'h runner \<Rightarrow> env \<Rightarrow> 'h router \<Rightarrow> inbound_message \<Rightarrow> audit_trail option \<Rightarrow> world
       \<Rightarrow> str option result \<times> audit_trail option \<times> world" where
  "handle run ev ro m trail w =
     (let parsed = parse_command (im_text m) (ro_prefix ro);
          (trail1, w1) = audit_command_parsed ev ro parsed trail w
      in
      case parsed of
        None \<Rightarrow> (Inr None, trail1, w1)
      | Some p \<Rightarrow>
          (let started = ev_mono ev (w_tick w1);
               (h, w2) = handle_command run ev ro m p trail1 (tick w1);
               (trail3, w3) = handle_finally ev ro m p started h w2
           in (bind_result (hd_reply h) (\<lambda>reply. Inr (Some reply)), trail3, w3)))"

end
