(* ===== verification/Byte_Fit.thy ===== *)
theory Byte_Fit
  imports PyText
begin

text \<open>
  Fitting texts into the byte limits of the two radio and chat transports:
  \<open>app._trim_lora_response\<close>, \<open>plugins.home_status.fit_lora\<close> and the rendering functions of
  \<open>telegram/service.py\<close>. A text with a lone surrogate makes \<open>encode\<close> raise, so the functions
  return a result; once a text has been encoded its pieces encode too, and the later
  \<open>encode\<close> calls on them are plain byte counts.
\<close>

section \<open>Responses with a marker\<close>

definition normalize_lines :: "str \<Rightarrow> str" where
  "normalize_lines t = join [10] (map rstrip (splitlines (strip t)))"

text \<open>\<open>_truncate_utf8\<close>, on a text that is known to be encodable.\<close>

definition truncate_utf8 :: "str \<Rightarrow> int \<Rightarrow> str" where
  "truncate_utf8 t max_bytes =
     (if max_bytes \<le> 0 then []
      else if int (length (utf8 t)) \<le> max_bytes then t
      else decode_ignore (take (nat max_bytes) (utf8 t)))"

text \<open>The loop that drops trailing characters while the body with its marker is too long.\<close>

function shrink_body :: "str \<Rightarrow> int \<Rightarrow> str \<Rightarrow> str" where
  "shrink_body marker max_bytes body =
     (if body \<noteq> [] \<and> int (length (utf8 (body @ marker))) > max_bytes
      then shrink_body marker max_bytes (rstrip (butlast body))
      else body)"
  by pat_completeness auto
termination
proof (relation "measure (\<lambda>(marker, max_bytes, body). length body)", goal_cases)
  case 1
  then show ?case by simp
next
  case (2 marker max_bytes body)
  have "length (rstrip (butlast body)) \<le> length (butlast body)"
    by (rule length_rstrip_le)
  also have "\<dots> < length body" using 2 by simp
  finally show ?case by simp
qed

declare shrink_body.simps [simp del]

definition fit_marked :: "str \<Rightarrow> str \<Rightarrow> int \<Rightarrow> str result" where
  "fit_marked marker t max_bytes =
     (let normalized = normalize_lines t in
      bind_result (encode normalized) (\<lambda>encoded.
        if int (length encoded) \<le> max_bytes then Inr normalized
        else if max_bytes \<le> int (length (utf8 marker)) then Inr (truncate_utf8 normalized max_bytes)
        else
          (let body = rstrip (truncate_utf8 normalized (max_bytes - int (length (utf8 marker))))
           in Inr (shrink_body marker max_bytes body @ marker))))"

definition lora_suffix :: str where
  "lora_suffix = 10 # lit ''... pide detalle''"

definition trim_lora_response :: "str \<Rightarrow> int \<Rightarrow> str result" where
  "trim_lora_response t max_bytes = fit_marked lora_suffix t max_bytes"

definition fit_lora :: "str \<Rightarrow> int \<Rightarrow> str result" where
  "fit_lora t max_bytes = fit_marked (10 # lit ''...'') t max_bytes"

section \<open>Forwarded messages\<close>

definition normalized_bridge_text :: "str \<Rightarrow> str" where
  "normalized_bridge_text t = join [32] (split_ws (strip t))"

record render_result =
  fr_text :: "str option"
  fr_truncated :: bool

definition truncate_utf8_boundary :: "str \<Rightarrow> int \<Rightarrow> str" where
  "truncate_utf8_boundary t max_bytes =
     (if int (length (utf8 t)) \<le> max_bytes then t
      else decode_ignore (take (nat max_bytes) (utf8 t)))"

text \<open>The loop of \<open>_truncate_utf8_words\<close>: it stops at the first word that does not fit.\<close>

fun pack_words :: "int \<Rightarrow> str \<Rightarrow> str list \<Rightarrow> str" where
  "pack_words budget out [] = out"
| "pack_words budget out (w # ws) =
     (let candidate = (if out = [] then w else out @ [32] @ w)
      in if int (length (utf8 candidate)) \<le> budget then pack_words budget candidate ws
         else out)"

definition ellipsis :: str where
  "ellipsis = lit ''...''"

definition truncate_utf8_words :: "str \<Rightarrow> int \<Rightarrow> str option" where
  "truncate_utf8_words v max_bytes =
     (if max_bytes < int (length (utf8 ellipsis)) + 1 then None
      else
        (let budget = max_bytes - int (length (utf8 ellipsis));
             packed = pack_words budget [] (split_on 32 v);
             out = (if packed = [] then rstrip (truncate_utf8_boundary v budget) else packed);
             out = rstrip out
         in if out = [] then None else Some (out @ ellipsis)))"

definition truncate_utf8_with_suffix :: "str \<Rightarrow> int \<Rightarrow> str \<Rightarrow> str option" where
  "truncate_utf8_with_suffix v max_bytes sfx =
     (if max_bytes < int (length (utf8 sfx)) + 1 then None
      else
        (let budget = max_bytes - int (length (utf8 sfx));
             out = rstrip (truncate_utf8_boundary v budget)
         in if out = [] then None else Some (out @ sfx)))"

definition render_meshcore_forward_message :: "str \<Rightarrow> str \<Rightarrow> int \<Rightarrow> render_result result" where
  "render_meshcore_forward_message t pfx max_bytes =
     (let normalized_text = normalized_bridge_text t in
      if normalized_text = [] then Inr \<lparr>fr_text = None, fr_truncated = False\<rparr>
      else
        (let candidate = pfx @ normalized_text in
         bind_result (encode candidate) (\<lambda>encoded.
           if int (length encoded) \<le> max_bytes
           then Inr \<lparr>fr_text = Some candidate, fr_truncated = False\<rparr>
           else Inr \<lparr>fr_text = truncate_utf8_words candidate max_bytes, fr_truncated = True\<rparr>)))"

definition telegram_suffix :: str where
  "telegram_suffix = lit ''... truncado''"

definition render_telegram_forward_message :: "str \<Rightarrow> str \<Rightarrow> int \<Rightarrow> render_result result" where
  "render_telegram_forward_message t pfx max_bytes =
     (let normalized_text = normalized_bridge_text t in
      if normalized_text = [] then Inr \<lparr>fr_text = None, fr_truncated = False\<rparr>
      else
        (let candidate = pfx @ normalized_text in
         bind_result (encode candidate) (\<lambda>encoded.
           if int (length encoded) \<le> max_bytes
           then Inr \<lparr>fr_text = Some candidate, fr_truncated = False\<rparr>
           else Inr \<lparr>fr_text = truncate_utf8_with_suffix candidate max_bytes telegram_suffix,
                     fr_truncated = True\<rparr>)))"

definition telegram_response_max_chars :: nat where
  "telegram_response_max_chars = 3900"

text \<open>Telegram limits characters, so nothing is encoded here.\<close>

definition trim_telegram_response :: "str \<Rightarrow> str" where
  "trim_telegram_response t =
     (let normalized = normalize_lines t in
      if length normalized \<le> telegram_response_max_chars then normalized
      else rstrip (take (telegram_response_max_chars - 14) normalized) @ (10 # lit ''... truncado''))"

section \<open>The length of cut texts\<close>

lemma length_utf8_prefix: "prefix s t \<Longrightarrow> length (utf8 s) \<le> length (utf8 t)"
  by (auto simp: prefix_def)

lemma length_utf8_rstrip: "length (utf8 (rstrip t)) \<le> length (utf8 t)"
  by (rule length_utf8_prefix) (rule rstrip_prefix)

lemma truncate_utf8_byte_prefix:
  assumes "encodable t"
  shows "truncate_utf8 t n = byte_prefix (nat n) t"
proof -
  have "byte_prefix 0 t = []" by (cases t) auto
  moreover have "byte_prefix (nat n) t = t" if "int (length (utf8 t)) \<le> n"
    using that by (intro byte_prefix_all) linarith
  ultimately show ?thesis
    using assms by (simp add: truncate_utf8_def decode_take_utf8)
qed

lemma truncate_utf8_boundary_byte_prefix:
  assumes "encodable t"
  shows "truncate_utf8_boundary t n = byte_prefix (nat n) t"
proof -
  have "byte_prefix (nat n) t = t" if "int (length (utf8 t)) \<le> n"
    using that by (intro byte_prefix_all) linarith
  then show ?thesis
    using assms by (simp add: truncate_utf8_boundary_def decode_take_utf8)
qed

lemma length_truncate_utf8:
  assumes "encodable t" "0 \<le> n"
  shows "int (length (utf8 (truncate_utf8 t n))) \<le> n"
  using length_byte_prefix [of "nat n" t] assms by (simp add: truncate_utf8_byte_prefix)

lemma length_truncate_utf8_boundary:
  assumes "encodable t" "0 \<le> n"
  shows "int (length (utf8 (truncate_utf8_boundary t n))) \<le> n"
  using length_byte_prefix [of "nat n" t] assms
  by (simp add: truncate_utf8_boundary_byte_prefix)

text \<open>A body that fits already is not shrunk: the loop of the source never runs.\<close>

lemma shrink_body_fits:
  "int (length (utf8 (body @ marker))) \<le> max_bytes \<Longrightarrow> shrink_body marker max_bytes body = body"
  by (subst shrink_body.simps) simp

text \<open>What the marked fit computes: the longest cut that leaves room for the marker.\<close>

lemma fit_marked_eq:
  assumes enc: "encodable (normalize_lines t)"
  shows "fit_marked marker t n =
     Inr (if int (length (utf8 (normalize_lines t))) \<le> n then normalize_lines t
          else if n \<le> int (length (utf8 marker)) then byte_prefix (nat n) (normalize_lines t)
          else rstrip (byte_prefix (nat (n - int (length (utf8 marker)))) (normalize_lines t)) @ marker)"
proof -
  let ?m = "n - int (length (utf8 marker))"
  let ?body = "rstrip (truncate_utf8 (normalize_lines t) ?m)"
  have "shrink_body marker n ?body = ?body" if "\<not> n \<le> int (length (utf8 marker))"
  proof (rule shrink_body_fits)
    have "int (length (utf8 ?body)) \<le> ?m"
      using length_truncate_utf8 [OF enc, of ?m] that
        length_utf8_rstrip [of "truncate_utf8 (normalize_lines t) ?m"] by linarith
    then show "int (length (utf8 (?body @ marker))) \<le> n" by simp
  qed
  then show ?thesis
    using enc by (simp add: fit_marked_def Let_def encode_def truncate_utf8_byte_prefix)
qed

lemma fit_marked_not_encodable:
  "\<not> encodable (normalize_lines t) \<Longrightarrow> \<exists>m. fit_marked marker t n = Inl (Exn UnicodeEncodeError m)"
  by (simp add: fit_marked_def encode_def)

lemma fit_marked_bound [byte_bounds]:
  assumes "fit_marked marker t n = Inr s" "0 \<le> n"
  shows "int (length (utf8 s)) \<le> n"
proof -
  let ?u = "normalize_lines t"
  have enc: "encodable ?u"
    using assms(1) fit_marked_not_encodable [of t marker n] by fastforce
  have "int (length (utf8 (byte_prefix (nat k) ?u))) \<le> k" if "0 \<le> k" for k
    using length_byte_prefix [of "nat k" ?u] that by linarith
  moreover have "int (length (utf8 (rstrip (byte_prefix (nat (n - k)) ?u)))) + k \<le> n"
    if "\<not> n \<le> k" for k
    using length_byte_prefix [of "nat (n - k)" ?u]
      length_utf8_rstrip [of "byte_prefix (nat (n - k)) ?u"] that
    by linarith
  ultimately show ?thesis
    using assms by (auto simp: fit_marked_eq [OF enc] split: if_splits)
qed


section \<open>Bounds of the forwarded texts\<close>

lemma pack_words_bound:
  "int (length (utf8 out)) \<le> budget \<Longrightarrow> int (length (utf8 (pack_words budget out ws))) \<le> budget"
  by (induction budget out ws rule: pack_words.induct) (simp_all add: Let_def)

lemma join_split_on: "join [s] (split_on s t) = t"
proof (induction s t rule: split_on.induct)
  case (1 s)
  then show ?case by simp
next
  case (2 s c cs)
  have "split_on s cs \<noteq> []"
    by (cases cs) (auto split: list.splits)
  then obtain w ws where ws: "split_on s cs = w # ws" by (cases "split_on s cs") auto
  with 2 show ?case by (cases ws) auto
qed

lemma pack_words_prefix:
  assumes "out \<noteq> []"
  shows "prefix (pack_words budget out ws) (join [32] (out # ws))"
  using assms
proof (induction budget out ws rule: pack_words.induct)
  case (1 budget out)
  then show ?case by simp
next
  case (2 budget out w ws)
  have "prefix out (join [32] (out # w # ws))" by simp
  moreover have "join [32] ((out @ [32] @ w) # ws) = join [32] (out # w # ws)"
    by (cases ws) auto
  ultimately show ?case using 2 by (auto simp: Let_def)
qed

lemma pack_words_join_prefix:
  "pack_words budget [] ws \<noteq> [] \<Longrightarrow>
   \<exists>sp. set sp \<subseteq> {32} \<and> prefix (sp @ pack_words budget [] ws) (join [32] ws)"
proof (induction ws)
  case Nil
  then show ?case by simp
next
  case (Cons w ws)
  show ?case
  proof (cases "w = []")
    case True
    with Cons obtain sp where "set sp \<subseteq> {32}"
        "prefix (sp @ pack_words budget [] ws) (join [32] ws)"
      by (auto simp: Let_def split: if_splits)
    with True Cons.prems show ?thesis
      by (intro exI [of _ "32 # sp"]) (cases ws; auto simp: Let_def split: if_splits)
  next
    case False
    with Cons.prems have "pack_words budget [] (w # ws) = pack_words budget w ws"
      by (auto simp: Let_def split: if_splits)
    with pack_words_prefix [OF False, of budget ws] show ?thesis
      by (intro exI [of _ "[]"]) simp
  qed
qed

lemma truncate_utf8_words_bound [byte_bounds]:
  assumes "truncate_utf8_words v n = Some s" "encodable v"
  shows "int (length (utf8 s)) \<le> n"
proof -
  let ?b = "n - int (length (utf8 ellipsis))"
  let ?packed = "pack_words ?b [] (split_on 32 v)"
  let ?out = "if ?packed = [] then rstrip (truncate_utf8_boundary v ?b) else ?packed"
  from assms(1) have n: "int (length (utf8 ellipsis)) + 1 \<le> n" and s: "s = rstrip ?out @ ellipsis"
    by (auto simp: truncate_utf8_words_def Let_def split: if_splits)
  from n have b: "0 \<le> ?b" by simp
  then have "int (length (utf8 ?packed)) \<le> ?b" by (intro pack_words_bound) simp
  moreover have "int (length (utf8 (rstrip (truncate_utf8_boundary v ?b)))) \<le> ?b"
    using length_truncate_utf8_boundary [OF assms(2) b]
      length_utf8_rstrip [of "truncate_utf8_boundary v ?b"] by linarith
  ultimately have "int (length (utf8 ?out)) \<le> ?b" by simp
  with length_utf8_rstrip [of ?out] have "int (length (utf8 (rstrip ?out))) \<le> ?b" by linarith
  with s show ?thesis by simp
qed

lemma truncate_utf8_with_suffix_bound [byte_bounds]:
  assumes "truncate_utf8_with_suffix v n sfx = Some s" "encodable v"
  shows "int (length (utf8 s)) \<le> n"
proof -
  let ?b = "n - int (length (utf8 sfx))"
  from assms(1) have n: "int (length (utf8 sfx)) + 1 \<le> n"
      and s: "s = rstrip (truncate_utf8_boundary v ?b) @ sfx"
    by (auto simp: truncate_utf8_with_suffix_def Let_def split: if_splits)
  then have "int (length (utf8 (rstrip (truncate_utf8_boundary v ?b)))) \<le> ?b"
    using length_truncate_utf8_boundary [OF assms(2), of ?b]
      length_utf8_rstrip [of "truncate_utf8_boundary v ?b"] by linarith
  with s show ?thesis by simp
qed

lemma encodable_append_normalized:
  "encode (p @ t) = Inr b \<Longrightarrow> encodable (p @ t) \<and> b = utf8 (p @ t)"
  by (auto simp: encode_def split: if_splits)

lemma render_meshcore_bound [byte_bounds]:
  assumes "render_meshcore_forward_message t pfx n = Inr r" "fr_text r = Some s"
  shows "int (length (utf8 s)) \<le> n"
  using assms
  by (auto simp: render_meshcore_forward_message_def Let_def bind_result_Inr_iff
        dest!: encodable_append_normalized split: if_splits intro: truncate_utf8_words_bound)

lemma render_telegram_bound [byte_bounds]:
  assumes "render_telegram_forward_message t pfx n = Inr r" "fr_text r = Some s"
  shows "int (length (utf8 s)) \<le> n"
  using assms
  by (auto simp: render_telegram_forward_message_def Let_def bind_result_Inr_iff
        dest!: encodable_append_normalized split: if_splits intro: truncate_utf8_with_suffix_bound)

section \<open>Properties of the texts that go out\<close>

lemma length_lora_suffix: "length (utf8 lora_suffix) = 17"
  by (simp add: lora_suffix_def utf8_lit_length length_encode_cp)

text \<open>
  C31. A reply that is too long is cut to the longest prefix of its lines that leaves room for the
  marker, trailing blanks removed, never inside a character; when not even the marker fits, to the
  longest prefix that fits; and the loop that shortens the body further never has anything to do.
\<close>

theorem trimmed_reply_is_longest:
  assumes "encodable (normalize_lines t)"
  shows "trim_lora_response t n = Inr
     (if int (length (utf8 (normalize_lines t))) \<le> n then normalize_lines t
      else if n \<le> 17 then byte_prefix (nat n) (normalize_lines t)
      else rstrip (byte_prefix (nat (n - 17)) (normalize_lines t)) @ lora_suffix)
    \<and> (\<forall>s b. prefix s (normalize_lines t) \<and> length (utf8 s) \<le> b
          \<longrightarrow> prefix s (byte_prefix b (normalize_lines t)))"
proof -
  have "trim_lora_response t n = fit_marked lora_suffix t n" by (simp add: trim_lora_response_def)
  moreover note fit_marked_eq [OF assms, of lora_suffix n]
  ultimately show ?thesis using byte_prefix_longest by (simp add: length_lora_suffix)
qed

theorem trimmed_reply_is_longest_witness:
  "trim_lora_response (lit ''aaaaaaaaaaaaaaaaaaaaaaaaaaaaaa'') 20 = Inr (lit ''aaa'' @ lora_suffix)"
proof -
  let ?t = "lit ''aaaaaaaaaaaaaaaaaaaaaaaaaaaaaa''"
  have lines: "normalize_lines ?t = ?t"
    by (simp add: normalize_lines_def lit_def strip_def lstrip_def rstrip_def is_space_def splitlines.simps is_linebreak_def)
  have "byte_prefix 3 ?t = lit ''aaa''" "rstrip (lit ''aaa'') = lit ''aaa''"
    by (simp_all add: lit_def rstrip_def is_space_def length_encode_cp)
  moreover have "length (utf8 ?t) = 30" by (simp add: utf8_lit_length)
  ultimately show ?thesis
    using trimmed_reply_is_longest [of ?t 20, THEN conjunct1] by (simp only: lines) simp
qed

(* Sqlite *)

lemma normalized_join:
  "list_all is_word ws \<Longrightarrow> normalized_bridge_text (join [32] ws) = join [32] ws"
  by (simp add: normalized_bridge_text_def join_words_strip split_ws_join)

text \<open>
  Normalizing a text for the bridge twice changes nothing more: its words joined by single
  blanks are a fixed point.
\<close>

theorem normalization_idempotent:
  "normalized_bridge_text (normalized_bridge_text t) = normalized_bridge_text t"
  unfolding normalized_bridge_text_def [of t] by (rule normalized_join) (rule split_ws_are_words)

text \<open>
  C32. A text that is forwarded to the mesh without being cut is the prefix followed by the
  normalized text, and when it comes back it normalizes to itself, provided that the prefix is
  words separated by single blanks and ends in one. This is what the recognition of echoes needs.
\<close>

theorem forwarded_text_survives:
  assumes "render_meshcore_forward_message t pfx n = Inr r" "fr_text r = Some s" "\<not> fr_truncated r"
    and "list_all is_word ws" "ws \<noteq> []" "pfx = join [32] ws @ [32]"
  shows "s = pfx @ normalized_bridge_text t \<and> normalized_bridge_text s = s"
proof -
  let ?vs = "split_ws (strip t)"
  from assms(1-3) have s: "s = pfx @ normalized_bridge_text t" and ne: "normalized_bridge_text t \<noteq> []"
    by (auto simp: render_meshcore_forward_message_def Let_def bind_result_Inr_iff split: if_splits)
  from ne have "?vs \<noteq> []" by (auto simp: normalized_bridge_text_def)
  with assms(5,6) s have "s = join [32] (ws @ ?vs)"
    using join_append [of ws ?vs "[32]"] by (simp add: normalized_bridge_text_def)
  moreover have "list_all is_word (ws @ ?vs)" using assms(4) split_ws_are_words by simp
  ultimately have "normalized_bridge_text s = s" by (simp only: normalized_join)
  with s show ?thesis by simp
qed

theorem forwarded_text_survives_witness:
  "normalized_bridge_text (lit ''[TG] hola'') = lit ''[TG] hola''"
proof -
  have n: "normalized_bridge_text (lit ''hola'') = lit ''hola''"
    using normalized_join [of "[lit ''hola'']"] by (simp add: is_word_def lit_def is_space_def)
  have r: "render_meshcore_forward_message (lit ''hola'') (lit ''[TG] '') 140
      = Inr \<lparr>fr_text = Some (lit ''[TG] '' @ lit ''hola''), fr_truncated = False\<rparr>"
    by (simp add: render_meshcore_forward_message_def n Let_def encode_def utf8_lit_length)
  show ?thesis
    using forwarded_text_survives [OF r, of _ "[lit ''[TG]'']"]
    by (simp add: n is_word_def lit_def is_space_def)
qed

text \<open>
  A reply in Telegram has at most 3900 characters, and is left as it is exactly when its
  normalized lines have no more than that.
\<close>

theorem telegram_reply_fits:
  "length (trim_telegram_response t) \<le> 3900
   \<and> (length (normalize_lines t) \<le> 3900 \<longleftrightarrow> trim_telegram_response t = normalize_lines t)"
proof (cases "length (normalize_lines t) \<le> 3900")
  case True
  then show ?thesis by (simp add: trim_telegram_response_def telegram_response_max_chars_def)
next
  case False
  have l: "length (rstrip (take 3886 (normalize_lines t))) \<le> 3886"
    by (rule order_trans [OF length_rstrip_le]) simp
  have "trim_telegram_response t = rstrip (take 3886 (normalize_lines t)) @ (10 # lit ''... truncado'')"
    using False by (simp add: trim_telegram_response_def telegram_response_max_chars_def)
  with l have "length (trim_telegram_response t) \<le> 3899" by (simp add: lit_def)
  with False show ?thesis by auto
qed

end
