(* ===== verification/Bridge_App.thy ===== *)
theory Bridge_App
  imports Router Byte_Fit
begin

text \<open>
  \<open>app.py\<close>: the service that takes messages from the mesh through the guards, the router and
  the forwarder, and answers at most once. \<open>run\<close> runs the commands and \<open>forward\<close> is the
  forwarder's \<open>forward_normal_text\<close>, when there is one.
\<close>

definition sqlite_error_reason :: "exn \<Rightarrow> str" where
  "sqlite_error_reason e =
     (if contains (lower (exn_str e)) (lit ''locked'') then lit ''database_locked''
      else class_name (exn_class e))"

definition transport_error_reason :: "exn \<Rightarrow> str" where
  "transport_error_reason e =
     (if exn_class e = TimeoutError then lit ''transport_timeout''
      else
        (let message = lower (exn_str e) in
         if contains message (lit ''disconnect'') \<or> contains message (lit ''closed'')
         then lit ''websocket_disconnected''
         else if contains message (lit ''service'') then lit ''transport_service_error''
         else lit ''transport_error''))"

type_synonym forwarder =
  "env \<Rightarrow> inbound_message \<Rightarrow> audit_trail option \<Rightarrow> world \<Rightarrow> bool result \<times> world"

record 'h bridge =
  bg_router :: "'h router"
  bg_flow :: "flow_config option"
  bg_dedup_window :: int
  bg_channel_index :: int
  bg_forwarder :: "forwarder option"
  bg_max_bytes :: int

section \<open>Auditing\<close>

definition mark_audit_degraded :: "env \<Rightarrow> exn \<Rightarrow> world \<Rightarrow> world" where
  "mark_audit_degraded ev e =
     on_health ev (\<lambda>now. set_audit_db_health now (lit ''degraded'') (Some (sqlite_error_reason e)))"

definition degraded_if_sqlite :: "env \<Rightarrow> exn option \<Rightarrow> world \<Rightarrow> world" where
  "degraded_if_sqlite ev e w =
     (case e of
        None \<Rightarrow> w
      | Some x \<Rightarrow> if is_sqlite_error x then mark_audit_degraded ev x w else w)"

definition app_message_received ::
    "env \<Rightarrow> 'h bridge \<Rightarrow> inbound_message \<Rightarrow> world \<Rightarrow> audit_trail option result \<times> world" where
  "app_message_received ev bg m w =
     (case bg_flow bg of
        None \<Rightarrow> (Inr None, w)
      | Some fc \<Rightarrow>
          (case message_received fc (ev_uuid ev (w_tick w)) (ev_now ev (w_tick w)) m (w_audit w) of
             (Inr tr, st) \<Rightarrow> (Inr (Some tr), tick (w\<lparr>w_audit := st\<rparr>))
           | (Inl e, st) \<Rightarrow>
               (bind_result (degraded_trail m) (\<lambda>tr. Inr (Some tr)),
                degraded_if_sqlite ev (Some e) (tick (w\<lparr>w_audit := st\<rparr>)))))"

text \<open>The other stages; what a stage raises is reported to the health state and swallowed.\<close>

definition app_staged ::
    "env \<Rightarrow> 'h bridge
       \<Rightarrow> (flow_config \<Rightarrow> str \<Rightarrow> instant \<Rightarrow> audit_trail \<Rightarrow> audit_state \<Rightarrow> audit_trail result \<times> audit_state)
       \<Rightarrow> audit_trail option \<Rightarrow> world \<Rightarrow> audit_trail option \<times> world" where
  "app_staged ev bg stage trail w =
     (case (bg_flow bg, trail) of
        (Some fc, Some tr) \<Rightarrow>
          (case staged ev (stage fc) tr w of
             (tr', e, w') \<Rightarrow> (Some tr', degraded_if_sqlite ev e w'))
      | _ \<Rightarrow> (trail, w))"

definition app_message_ignored ::
    "env \<Rightarrow> 'h bridge \<Rightarrow> str \<Rightarrow> audit_trail option \<Rightarrow> world \<Rightarrow> audit_trail option \<times> world" where
  "app_message_ignored ev bg reason =
     app_staged ev bg (\<lambda>fc uuid now tr. message_ignored fc uuid now tr reason)"

definition app_response_sent ::
    "env \<Rightarrow> 'h bridge \<Rightarrow> outbound_message \<Rightarrow> audit_trail option \<Rightarrow> world \<Rightarrow> audit_trail option \<times> world" where
  "app_response_sent ev bg out =
     app_staged ev bg (\<lambda>fc uuid now tr. response_sent fc uuid now tr out)"

definition app_response_failed ::
    "env \<Rightarrow> 'h bridge \<Rightarrow> audit_trail option \<Rightarrow> world \<Rightarrow> audit_trail option \<times> world" where
  "app_response_failed ev bg =
     app_staged ev bg (\<lambda>fc uuid now tr. response_failed fc uuid now tr)"

definition handle_response_send_failure ::
    "env \<Rightarrow> 'h bridge \<Rightarrow> audit_trail option \<Rightarrow> exn \<Rightarrow> world \<Rightarrow> world" where
  "handle_response_send_failure ev bg trail e w =
     (let w' = on_health ev (\<lambda>now. record_failure now (transport_error_reason e)) w
      in snd (app_response_failed ev bg trail w'))"

section \<open>Processing a message\<close>

text \<open>
  Build a reply, send it, and audit the outcome; an exception of the transport other than a
  cancellation counts as an answered message.
\<close>

definition send_reply ::
    "env \<Rightarrow> 'h bridge \<Rightarrow> inbound_message \<Rightarrow> str \<Rightarrow> audit_trail option \<Rightarrow> world
       \<Rightarrow> outbound_message option result \<times> world" where
  "send_reply ev bg m t trail w =
     (case make_outbound (im_sender_id m) (bg_channel_index bg) t (im_message_id m)
             (im_reply_target m) (JObj []) of
        Inl e \<Rightarrow> (Inl e, w)
      | Inr out \<Rightarrow>
          (case transport_send out w of
             (Inr _, w') \<Rightarrow> (Inr (Some out), snd (app_response_sent ev bg out trail w'))
           | (Inl e, w') \<Rightarrow>
               if is_exception e
               then (Inr (Some out), handle_response_send_failure ev bg trail e w')
               else (Inl e, w')))"

text \<open>What happens to a text that is no command.\<close>

definition process_normal_text ::
    "env \<Rightarrow> 'h bridge \<Rightarrow> inbound_message \<Rightarrow> audit_trail option \<Rightarrow> world
       \<Rightarrow> outbound_message option result \<times> world" where
  "process_normal_text ev bg m trail w =
     (case bg_forwarder bg of
        None \<Rightarrow> (Inr None, snd (app_message_ignored ev bg (lit ''not_a_command'') trail w))
      | Some forward \<Rightarrow>
          if require_message (ro_authorizer (bg_router bg)) m Readonly = None
          then (Inr None, snd (app_message_ignored ev bg (lit ''sender_not_registered'') trail w))
          else
            (case forward ev m trail w of
               (Inl e, w') \<Rightarrow> (Inl e, w')
             | (Inr True, w') \<Rightarrow> (Inr None, w')
             | (Inr False, w') \<Rightarrow>
                 (Inr None, snd (app_message_ignored ev bg (lit ''not_a_command'') trail w'))))"

text \<open>The part of \<open>process_message\<close> that admitted messages reach.\<close>

definition process_admitted ::
    "'h runner \<Rightarrow> env \<Rightarrow> 'h bridge \<Rightarrow> inbound_message \<Rightarrow> audit_trail option \<Rightarrow> world
       \<Rightarrow> outbound_message option result \<times> world" where
  "process_admitted run ev bg m trail w =
     (case handle run ev (bg_router bg) m trail w of
        (Inl e, _, w') \<Rightarrow> (Inl e, w')
      | (Inr None, trail', w') \<Rightarrow> process_normal_text ev bg m trail' w'
      | (Inr (Some response), trail', w') \<Rightarrow>
          (case trim_lora_response response (bg_max_bytes bg) of
             Inl e \<Rightarrow> (Inl e, w')
           | Inr t \<Rightarrow> send_reply ev bg m t trail' w'))"

text \<open>The part that messages seen for the first time reach: the rate limit.\<close>

definition process_new ::
    "'h runner \<Rightarrow> env \<Rightarrow> 'h bridge \<Rightarrow> inbound_message \<Rightarrow> audit_trail option \<Rightarrow> world
       \<Rightarrow> outbound_message option result \<times> world" where
  "process_new run ev bg m trail w =
     (case allow (ev_mono ev (w_tick w)) (im_sender_id m) (w_limiter w) of
        (ok, rl) \<Rightarrow>
          (let w' = tick (w\<lparr>w_limiter := rl\<rparr>) in
           if \<not> ok
           then
             (case app_message_ignored ev bg (lit ''rate_limited'') trail w' of
                (trail', w'') \<Rightarrow> send_reply ev bg m (lit ''Rate limit.'') trail' w'')
           else process_admitted run ev bg m trail w'))"

text \<open>The deduplicator's check, on the database that the audit shares.\<close>

definition check_duplicate :: "env \<Rightarrow> 'h bridge \<Rightarrow> inbound_message \<Rightarrow> world \<Rightarrow> bool result \<times> world" where
  "check_duplicate ev bg m w =
     (case seen_or_store (ev_crypto ev) (bg_dedup_window bg) (ev_time ev (w_tick w)) m
             (st_db (w_audit w)) of
        (r, c) \<Rightarrow> (r, tick (w\<lparr>w_audit := (w_audit w)\<lparr>st_db := c\<rparr>\<rparr>)))"

text \<open>\<open>BridgeService.process_message\<close>: the guards in the order of the code.\<close>

definition process_message ::
    "'h runner \<Rightarrow> env \<Rightarrow> 'h bridge \<Rightarrow> inbound_message \<Rightarrow> world
       \<Rightarrow> outbound_message option result \<times> world" where
  "process_message run ev bg m w =
     (case app_message_received ev bg m w of
        (Inl e, w1) \<Rightarrow> (Inl e, w1)
      | (Inr trail, w1) \<Rightarrow>
          if im_channel_index m \<noteq> bg_channel_index bg
          then (Inr None, snd (app_message_ignored ev bg (lit ''wrong_channel'') trail w1))
          else if \<not> allows_room (ro_authorizer (bg_router bg)) m
          then (Inr None, snd (app_message_ignored ev bg (lit ''room_not_allowed'') trail w1))
          else
            (case check_duplicate ev bg m w1 of
               (Inl e, w2) \<Rightarrow> (Inl e, w2)
             | (Inr True, w2) \<Rightarrow>
                 (Inr None, snd (app_message_ignored ev bg (lit ''duplicate'') trail w2))
             | (Inr False, w2) \<Rightarrow> process_new run ev bg m trail w2))"

section \<open>The service loop\<close>

definition close :: "world \<Rightarrow> world" where
  "close w =
     (if w_closed w then w
      else w\<lparr>w_closed := True, w_transport_closed := Suc (w_transport_closed w)\<rparr>)"

text \<open>
  \<open>run_forever\<close> on the messages that \<open>transport.receive\<close> returns before it raises or is
  cancelled: it always ends by closing the transport, and with the first exception.
\<close>

fun run_forever ::
    "'h runner \<Rightarrow> env \<Rightarrow> 'h bridge \<Rightarrow> inbound_message list \<Rightarrow> exn \<Rightarrow> world \<Rightarrow> exn \<times> world" where
  "run_forever run ev bg [] ended w = (ended, close w)"
| "run_forever run ev bg (m # ms) ended w =
     (case process_message run ev bg m w of
        (Inl e, w') \<Rightarrow> (e, close w')
      | (Inr _, w') \<Rightarrow> run_forever run ev bg ms ended w')"

end
