(* ===== verification/Service_Contracts.thy ===== *)
theory Service_Contracts
  imports Bridge_App
begin

text \<open>
  What the bridge service relies on in the command handlers and the forwarder, as locales, and
  what follows for \<open>process_message\<close> whatever the handlers are: it sends at most one message,
  and the audit log stays well-formed whatever the database and the transport do.
\<close>

section \<open>The audit invariant of the world\<close>

definition world_inv :: "flow_config option \<Rightarrow> audit_trail option \<Rightarrow> world \<Rightarrow> bool" where
  "world_inv fco trail w \<longleftrightarrow>
     (case fco of
        None \<Rightarrow> True
      | Some fc \<Rightarrow>
          audit_inv fc (w_audit w)
          \<and> (case trail of None \<Rightarrow> True | Some tr \<Rightarrow> trail_inv fc tr (w_audit w)))"

lemma world_inv_forget: "world_inv fco trail w \<Longrightarrow> world_inv fco None w"
  by (auto simp: world_inv_def split: option.splits)

lemma trail_inv_db:
  "db_tables (st_db st') = db_tables (st_db st) \<Longrightarrow> trail_inv fc tr st' = trail_inv fc tr st"
  by (simp add: trail_inv_def audit_inv_def stored_events_def)

lemma audit_inv_db:
  "db_tables (st_db st') = db_tables (st_db st) \<Longrightarrow> audit_inv fc st' = audit_inv fc st"
  by (simp add: audit_inv_def stored_events_def)

lemma trail_inv_events:
  assumes "at_events (db_tables (st_db st')) = at_events (db_tables (st_db st))"
  shows "trail_inv fc tr st' = trail_inv fc tr st" "audit_inv fc st' = audit_inv fc st"
  using assms by (simp_all add: trail_inv_def audit_inv_def stored_events_def events_ok_def)

lemma world_inv_audit: "w_audit w' = w_audit w \<Longrightarrow> world_inv fco trail w' = world_inv fco trail w"
  by (simp add: world_inv_def split: option.splits)

lemma world_inv_events:
  "at_events (db_tables (st_db (w_audit w'))) = at_events (db_tables (st_db (w_audit w))) \<Longrightarrow>
     world_inv fco trail w' = world_inv fco trail w"
  using trail_inv_events [of "w_audit w'" "w_audit w"]
  by (simp add: world_inv_def split: option.splits)

lemma trail_inv_audit_inv: "trail_inv fc tr st \<Longrightarrow> audit_inv fc st"
  by (simp add: trail_inv_def)

lemma staged_inv:
  assumes "\<And>uuid now. audit_stage fc (stage uuid now)"
    and "world_inv (Some fc) (Some tr) w" "staged ev stage tr w = (tr', e, w')"
  shows "world_inv (Some fc) (Some tr') w'"
proof -
  let ?stage = "stage (ev_uuid ev (w_tick w)) (ev_now ev (w_tick w))"
  obtain st where a: "attempted ?stage tr (w_audit w) = (tr', e, st)" and w': "w_audit w' = st"
    using assms(3) by (auto simp: staged_def frame_simps split: prod.splits)
  from assms(2) have "trail_inv fc tr (w_audit w)" by (simp add: world_inv_def)
  from audit_stage.attempted_inv [OF assms(1) this a] w' show ?thesis
    by (simp add: world_inv_def trail_inv_audit_inv)
qed

lemma router_staged_inv:
  assumes "router_staged ev ro stage trail w = (trail', w')" "ro_flow ro = fco" "world_inv fco trail w"
    and "\<And>fc uuid now. audit_stage fc (stage fc uuid now)"
  shows "world_inv fco trail' w'"
proof (cases "fco \<noteq> None \<and> trail \<noteq> None")
  case True
  then obtain fc tr where f: "fco = Some fc" "trail = Some tr" by auto
  obtain tr' e w1 where s: "staged ev (stage fc) tr w = (tr', e, w1)" by (cases "staged ev (stage fc) tr w")
  from staged_inv [OF assms(4) _ s] assms(3) f have "world_inv (Some fc) (Some tr') w1" by simp
  with assms(1,2) f s show ?thesis by (simp add: router_staged_def)
next
  case False
  with assms show ?thesis by (auto simp: router_staged_def split: option.splits)
qed

lemma degraded_if_sqlite_frame [frame_simps]:
  "w_audit (degraded_if_sqlite ev e w) = w_audit w"
  "w_sent (degraded_if_sqlite ev e w) = w_sent w"
  "w_tg_sent (degraded_if_sqlite ev e w) = w_tg_sent w"
  "w_telegram (degraded_if_sqlite ev e w) = w_telegram w"
  "closing (degraded_if_sqlite ev e w) = closing w"
  by (simp_all add: degraded_if_sqlite_def mark_audit_degraded_def frame_simps split: option.splits)

lemma app_staged_inv:
  assumes "app_staged ev bg stage trail w = (trail', w')" "bg_flow bg = fco" "world_inv fco trail w"
    and "\<And>fc uuid now. audit_stage fc (stage fc uuid now)"
  shows "world_inv fco trail' w'"
proof (cases "fco \<noteq> None \<and> trail \<noteq> None")
  case True
  then obtain fc tr where f: "fco = Some fc" "trail = Some tr" by auto
  obtain tr' e w1 where s: "staged ev (stage fc) tr w = (tr', e, w1)" by (cases "staged ev (stage fc) tr w")
  from staged_inv [OF assms(4) _ s] assms(3) f have "world_inv (Some fc) (Some tr') w1" by simp
  with assms(1,2) f s show ?thesis by (auto simp: app_staged_def frame_simps world_inv_def)
next
  case False
  with assms show ?thesis by (auto simp: app_staged_def split: option.splits)
qed

lemma staged_keeps:
  "staged ev stage tr w = (tr', e, w') \<Longrightarrow>
     w_sent w' = w_sent w \<and> w_tg_sent w' = w_tg_sent w \<and> w_telegram w' = w_telegram w
     \<and> w_health w' = w_health w \<and> closing w' = closing w"
  using staged_frame(1-4,8) [of ev stage tr w] by simp

lemma router_staged_frame [frame_simps]:
  "w_sent (snd (router_staged ev ro stage trail w)) = w_sent w"
  "w_tg_sent (snd (router_staged ev ro stage trail w)) = w_tg_sent w"
  "w_telegram (snd (router_staged ev ro stage trail w)) = w_telegram w"
  "w_health (snd (router_staged ev ro stage trail w)) = w_health w"
  "closing (snd (router_staged ev ro stage trail w)) = closing w"
  by (auto simp: router_staged_def split: option.splits prod.splits dest!: staged_keeps)

lemma app_staged_frame [frame_simps]:
  "w_sent (snd (app_staged ev bg stage trail w)) = w_sent w"
  "w_tg_sent (snd (app_staged ev bg stage trail w)) = w_tg_sent w"
  "w_telegram (snd (app_staged ev bg stage trail w)) = w_telegram w"
  "closing (snd (app_staged ev bg stage trail w)) = closing w"
  by (auto simp: app_staged_def frame_simps split: option.splits prod.splits dest!: staged_keeps)

lemmas router_stage_defs =
  audit_command_parsed_def audit_command_authorization_def audit_command_execution_def

lemmas app_stage_defs = app_message_ignored_def app_response_sent_def app_response_failed_def

lemma app_message_received_frame [frame_simps]:
  "w_sent (snd (app_message_received ev bg m w)) = w_sent w"
  "w_tg_sent (snd (app_message_received ev bg m w)) = w_tg_sent w"
  "closing (snd (app_message_received ev bg m w)) = closing w"
  by (simp_all add: app_message_received_def frame_simps split: option.splits prod.splits sum.splits)

lemma audit_legacy_command_frame [frame_simps]:
  "w_sent (audit_legacy_command ev m c args r d e w) = w_sent w"
  "w_tg_sent (audit_legacy_command ev m c args r d e w) = w_tg_sent w"
  "closing (audit_legacy_command ev m c args r d e w) = closing w"
  by (simp_all add: audit_legacy_command_def Let_def split: prod.splits sum.splits)

lemma app_message_received_inv:
  assumes "world_inv fco None w" "bg_flow bg = fco" "app_message_received ev bg m w = (Inr trail, w')"
  shows "world_inv fco trail w'"
proof (cases fco)
  case None
  with assms show ?thesis by (simp add: world_inv_def)
next
  case (Some fc)
  let ?r = "message_received fc (ev_uuid ev (w_tick w)) (ev_now ev (w_tick w)) m (w_audit w)"
  obtain r st where r: "?r = (r, st)" by (cases ?r)
  from assms(1) Some have inv: "audit_inv fc (w_audit w)" by (simp add: world_inv_def)
  show ?thesis
  proof (cases r)
    case (Inr tr)
    with r have "?r = (Inr tr, st)" by simp
    from message_received_inv [OF inv this] have "trail_inv fc tr st" by simp
    with Inr r Some assms(2,3) show ?thesis
      by (auto simp: app_message_received_def world_inv_def frame_simps trail_inv_audit_inv)
  next
    case (Inl e)
    with r Some assms(2,3) obtain tr where tr: "degraded_trail m = Inr tr" "trail = Some tr"
        and w': "w_audit w' = st"
      by (auto simp: app_message_received_def frame_simps bind_result_Inr_iff)
    from Inl r message_received_raises have "db_tables (st_db st) = db_tables (st_db (w_audit w))" by blast
    with inv have "audit_inv fc st" using audit_inv_db by blast
    moreover from tr(1) have "tr_latest_event_id tr = None" "tr_received_event_id tr = None"
      by (auto simp: degraded_trail_def bind_result_Inr_iff)
    ultimately show ?thesis using Some tr(2) w' by (simp add: world_inv_def trail_inv_def)
  qed
qed

lemma app_message_received_inv_raises:
  assumes "world_inv fco None w" "bg_flow bg = fco" "app_message_received ev bg m w = (Inl e, w')"
  shows "world_inv fco None w'"
proof (cases fco)
  case None
  with assms show ?thesis by (simp add: world_inv_def)
next
  case (Some fc)
  let ?r = "message_received fc (ev_uuid ev (w_tick w)) (ev_now ev (w_tick w)) m (w_audit w)"
  from assms(2,3) Some obtain x st where r: "?r = (Inl x, st)" and w': "w_audit w' = st"
    by (auto simp: app_message_received_def frame_simps split: prod.splits sum.splits)
  from message_received_raises [OF r] assms(1) Some w' show ?thesis
    using audit_inv_db [of "w_audit w'" "w_audit w" fc] by (simp add: world_inv_def)
qed

lemma events_of_write:
  assumes "\<And>x t. operation (db_tables c) = (Inr x, t) \<Longrightarrow> at_events t = at_events (db_tables c)"
    and "write_transaction operation c = (r, c')"
  shows "at_events (db_tables c') = at_events (db_tables c)"
  using sqlite.write_keeps [of "\<lambda>t. at_events t = at_events (db_tables c)" c operation] assms by simp

lemma audit_legacy_command_events:
  "at_events (db_tables (st_db (w_audit (audit_legacy_command ev m c args r d e w))))
     = at_events (db_tables (st_db (w_audit w)))"
proof -
  have "at_events (db_tables c2) = at_events (db_tables c1)"
    if "record_inbound_message cr m c1 = (x, c2)" for cr c1 c2 x
    using events_of_write [OF _ that [unfolded record_inbound_message_def]] insert_inbound_message_frame
    by blast
  moreover have "at_events (db_tables c2) = at_events (db_tables c1)"
    if "record_command m c args r d e c1 = (x, c2)" for c1 c2 x
    using events_of_write [OF _ that [unfolded record_command_def]] insert_command_frame by blast
  ultimately show ?thesis
    by (fastforce simp: audit_legacy_command_def Let_def split: prod.splits sum.splits)
qed

section \<open>The contract of the command handlers\<close>

locale command_handlers =
  fixes run :: "'h runner" and fco :: "flow_config option"
  assumes run_sends: "w_sent (snd (snd (run ev h cx args w))) = w_sent w"
    and run_audit: "world_inv fco (cx_audit_trail cx) w \<Longrightarrow> run ev h cx args w = (r, cx', w') \<Longrightarrow>
      world_inv fco (cx_audit_trail cx') w'"
begin

lemma handle_command_sends: "w_sent (snd (handle_command run ev ro m p trail w)) = w_sent w"
proof -
  have "w_sent w2 = w_sent w1" if "run ev h cx args w1 = (r, cx', w2)" for h cx args w1 r cx' w2
    using run_sends [of ev h cx args w1] that by simp
  moreover have "w_sent w2 = w_sent w1"
    if "audit_command_authorization ev ro x y z trail w1 = (t, w2)" for x y z w1 t w2
    using that router_staged_frame(1) unfolding router_stage_defs by (metis snd_conv)
  ultimately show ?thesis
    by (fastforce simp: handle_command_def Let_def frame_simps split: option.splits prod.splits sum.splits)
qed

lemma handle_sends:
  assumes "handle run ev ro m trail w = (r, trail', w')"
  shows "w_sent w' = w_sent w"
proof -
  obtain t1 w1 where 1: "audit_command_parsed ev ro (parse_command (im_text m) (ro_prefix ro)) trail w = (t1, w1)"
    by force
  then have s1: "w_sent w1 = w_sent w"
    using router_staged_frame(1) unfolding router_stage_defs by (metis snd_conv)
  show ?thesis
  proof (cases "parse_command (im_text m) (ro_prefix ro)")
    case None
    with assms 1 s1 show ?thesis by (simp add: handle_def)
  next
    case (Some p)
    obtain hd' w2 where 2: "handle_command run ev ro m p t1 (tick w1) = (hd', w2)" by force
    then have s2: "w_sent w2 = w_sent w1"
      using handle_command_sends [of ev ro m p t1 "tick w1"] by (simp add: frame_simps)
    have "w_sent (snd (handle_finally ev ro m p t hd' w2)) = w_sent w2" for t
      by (simp add: handle_finally_def Let_def frame_simps router_stage_defs split: option.splits)
    with assms 1 2 Some s1 s2 show ?thesis
      by (auto simp: handle_def split: prod.splits) (metis snd_conv)
  qed
qed

lemma handle_command_inv:
  assumes "world_inv fco trail w" "ro_flow ro = fco"
    and h: "handle_command run ev ro m p trail w = (out, w')"
  shows "world_inv fco (hd_trail out) w'"
proof (cases "resolve (ro_registry ro) (pc_name p)")
  case None
  with assms show ?thesis by (auto simp: handle_command_def)
next
  case (Some d)
  have auth: "world_inv fco t2 w2"
    if "audit_command_authorization ev ro x y z trail w = (t2, w2)" for x y z t2 w2
    using that unfolding router_stage_defs
    by (rule router_staged_inv [OF _ assms(2,1)]) (rule authorization.audit_stage_axioms)
  show ?thesis
  proof (cases "require_message (ro_authorizer ro) m (cd_minimum_role d)")
    case None
    with h Some show ?thesis
      by (auto simp: handle_command_def Let_def split: prod.splits dest: auth)
  next
    case user: (Some user)
    obtain t1 w1 where a: "audit_command_authorization ev ro (lit ''allowed'') (lit ''allowed'')
        (cd_name d) trail w = (t1, w1)" by force
    let ?cx = "\<lparr>cx_message = m, cx_user = user, cx_audit_trail = t1, cx_audit_metadata = []\<rparr>"
    obtain r cx' w2 where r: "run ev (cd_handler d) ?cx (pc_args p) w1 = (r, cx', w2)"
      by (cases "run ev (cd_handler d) ?cx (pc_args p) w1") auto
    from auth [OF a] have "world_inv fco (cx_audit_trail ?cx) w1" by simp
    from run_audit [OF this r] have inv: "world_inv fco (cx_audit_trail cx') w2" .
    show ?thesis
    proof (cases r)
      case (Inl e)
      with h Some user a r inv show ?thesis
        by (auto simp: handle_command_def Let_def split: if_splits)
    next
      case (Inr reply)
      with h Some user a r have "out = out\<lparr>hd_trail := cx_audit_trail cx'\<rparr>"
          "w' = on_health ev record_command_processed w2"
        by (auto simp: handle_command_def Let_def)
      then have "hd_trail out = cx_audit_trail cx'" "w_audit w' = w_audit w2"
        by (metis handled.select_convs(6) handled.surjective handled.update_convs(6),
            simp add: frame_simps)
      with inv world_inv_audit [of w' w2] show ?thesis by simp
    qed
  qed
qed

lemma handle_finally_inv:
  assumes "world_inv fco (hd_trail out) w" "ro_flow ro = fco"
    and "handle_finally ev ro m p started out w = (trail', w')"
  shows "world_inv fco trail' w'"
proof (cases "ro_flow ro \<noteq> None \<and> hd_trail out \<noteq> None")
  case True
  then obtain fc tr where f: "ro_flow ro = Some fc" "hd_trail out = Some tr" by auto
  have t: "world_inv fco (hd_trail out) (tick w)"
    using assms(1) world_inv_audit [of "tick w" w] by (simp add: frame_simps)
  from assms(3) f have "audit_command_execution ev ro (pc_name p) (pc_args p) (hd_result out)
      \<lfloor>(ev_mono ev (w_tick w) - started) * 1000\<rfloor> (hd_error out) (hd_registered out) (hd_extra out)
      (hd_trail out) (tick w) = (trail', w')"
    by (simp add: handle_finally_def Let_def)
  then show ?thesis unfolding router_stage_defs
    by (rule router_staged_inv [OF _ assms(2) t]) (rule execution.audit_stage_axioms)
next
  case False
  with assms(3) obtain d where "trail' = hd_trail out"
      "w' = audit_legacy_command ev m (pc_name p) (pc_args p) (hd_result out) d (hd_error out) (tick w)"
    by (auto simp: handle_finally_def Let_def split: option.splits)
  with assms(1) show ?thesis
    using world_inv_events [of w' w] by (simp add: audit_legacy_command_events frame_simps)
qed

lemma handle_inv:
  assumes "world_inv fco trail w" "ro_flow ro = fco" "handle run ev ro m trail w = (r, trail', w')"
  shows "world_inv fco trail' w'"
proof -
  obtain t1 w1 where 1: "audit_command_parsed ev ro (parse_command (im_text m) (ro_prefix ro)) trail w = (t1, w1)"
    by force
  then have i1: "world_inv fco t1 w1" unfolding router_stage_defs
    by (rule router_staged_inv [OF _ assms(2,1)]) (rule parsed.audit_stage_axioms)
  show ?thesis
  proof (cases "parse_command (im_text m) (ro_prefix ro)")
    case None
    with assms(3) 1 i1 show ?thesis by (simp add: handle_def)
  next
    case (Some p)
    obtain out w2 where 2: "handle_command run ev ro m p t1 (tick w1) = (out, w2)" by force
    have "world_inv fco t1 (tick w1)"
      using i1 world_inv_audit [of "tick w1" w1] by (simp add: frame_simps)
    from handle_command_inv [OF this assms(2) 2] have i2: "world_inv fco (hd_trail out) w2" .
    from assms(3) 1 2 Some have "handle_finally ev ro m p (ev_mono ev (w_tick w1)) out w2 = (trail', w')"
      by (auto simp: handle_def split: prod.splits)
    from handle_finally_inv [OF i2 assms(2) this] show ?thesis .
  qed
qed

end

end
