(* ===== verification/Bridge_Contract.thy ===== *)
theory Bridge_Contract
  imports Service_Contracts
begin

text \<open>
  \<open>process_message\<close> under the contracts of its two collaborators, the command handlers and the
  forwarder: at most one message is sent, the audit log stays well-formed, and the guards stop
  what they reject.
\<close>

lemma transport_send_keeps:
  "transport_send out w = (r, w') \<Longrightarrow> w_sent w' = w_sent w @ [out] \<and> w_audit w' = w_audit w"
  using transport_send_frame(1,2) [of out w] by simp

lemma app_staged_sends: "app_staged ev bg stage trail w = (t, w') \<Longrightarrow> w_sent w' = w_sent w"
  using app_staged_frame(1) [of ev bg stage trail w] by simp

lemma send_reply_sends:
  assumes "send_reply ev bg m t trail w = (r, w')"
  shows "(r = Inr None \<longrightarrow> False)
     \<and> (\<forall>out. r = Inr (Some out) \<longrightarrow> w_sent w' = w_sent w @ [out] \<and> om_text out = t
          \<and> om_destination out = im_sender_id m \<and> om_channel_index out = bg_channel_index bg
          \<and> om_reply_to out = im_message_id m \<and> om_reply_target out = im_reply_target m)
     \<and> (\<forall>e. r = Inl e \<longrightarrow> w_sent w' = w_sent w
          \<or> (\<exists>out. w_sent w' = w_sent w @ [out] \<and> om_text out = t \<and> \<not> is_exception e
               \<and> om_reply_target out = im_reply_target m))"
proof (cases "make_outbound (im_sender_id m) (bg_channel_index bg) t (im_message_id m)
    (im_reply_target m) (JObj [])")
  case (Inl e)
  with assms show ?thesis by (auto simp: send_reply_def)
next
  case (Inr out)
  note fields = make_outbound_fields [OF Inr]
  obtain s w1 where s: "transport_send out w = (s, w1)" by force
  with transport_send_keeps have w1: "w_sent w1 = w_sent w @ [out]" by blast
  from assms Inr s fields w1 show ?thesis
    by (cases s) (auto simp: send_reply_def handle_response_send_failure_def Let_def frame_simps
        app_stage_defs split: if_splits)
qed

lemma app_message_ignored_inv:
  "world_inv fco trail w \<Longrightarrow> bg_flow bg = fco \<Longrightarrow>
     world_inv fco (fst (app_message_ignored ev bg reason trail w)) (snd (app_message_ignored ev bg reason trail w))"
  unfolding app_stage_defs
  by (rule app_staged_inv [OF surjective_pairing]) (auto intro: ignored.audit_stage_axioms)

lemma app_response_sent_inv:
  "world_inv fco trail w \<Longrightarrow> bg_flow bg = fco \<Longrightarrow>
     world_inv fco (fst (app_response_sent ev bg out trail w)) (snd (app_response_sent ev bg out trail w))"
  unfolding app_stage_defs
  by (rule app_staged_inv [OF surjective_pairing]) (auto intro: sent.audit_stage_axioms)

lemma app_response_failed_inv:
  "world_inv fco trail w \<Longrightarrow> bg_flow bg = fco \<Longrightarrow>
     world_inv fco (fst (app_response_failed ev bg trail w)) (snd (app_response_failed ev bg trail w))"
  unfolding app_stage_defs
  by (rule app_staged_inv [OF surjective_pairing]) (auto intro: not_sent.audit_stage_axioms)

lemmas app_stage_invs = app_message_ignored_inv app_response_sent_inv app_response_failed_inv

lemma send_reply_inv:
  assumes "world_inv fco trail w" "bg_flow bg = fco" "send_reply ev bg m t trail w = (r, w')"
  shows "world_inv fco None w'"
proof (cases "make_outbound (im_sender_id m) (bg_channel_index bg) t (im_message_id m)
    (im_reply_target m) (JObj [])")
  case (Inl e)
  with assms world_inv_forget show ?thesis by (auto simp: send_reply_def)
next
  case (Inr out)
  obtain s w1 where s: "transport_send out w = (s, w1)" by force
  with transport_send_keeps world_inv_audit assms(1) have w1: "world_inv fco trail w1" by metis
  show ?thesis
  proof (cases s)
    case (Inr u)
    with assms(3) \<open>make_outbound _ _ _ _ _ _ = Inr out\<close> s
    have "w' = snd (app_response_sent ev bg out trail w1)" by (simp add: send_reply_def)
    with app_response_sent_inv [OF w1 assms(2)] world_inv_forget show ?thesis by blast
  next
    case (Inl e)
    let ?w = "on_health ev (\<lambda>now. record_failure now (transport_error_reason e)) w1"
    have "world_inv fco trail ?w" using w1 world_inv_audit [of ?w w1] by (simp add: frame_simps)
    from app_response_failed_inv [OF this assms(2)] world_inv_forget
    have "world_inv fco None (handle_response_send_failure ev bg trail e w1)"
      by (auto simp: handle_response_send_failure_def Let_def)
    with assms(3) \<open>make_outbound _ _ _ _ _ _ = Inr out\<close> s Inl w1 world_inv_forget show ?thesis
      by (auto simp: send_reply_def split: if_splits)
  qed
qed

lemma close_frame [frame_simps]:
  "w_audit (close w) = w_audit w" "w_sent (close w) = w_sent w" "w_closed (close w)"
  by (simp_all add: close_def)

lemma world_inv_close: "world_inv fco t (close w) = world_inv fco t w"
  by (rule world_inv_audit) (simp add: frame_simps)

section \<open>The contract of the forwarder\<close>

text \<open>What a run of \<open>process_message\<close> may have sent, by its result.\<close>

definition sent_at_most_once :: "world \<Rightarrow> outbound_message option result \<Rightarrow> world \<Rightarrow> bool" where
  "sent_at_most_once w r w' \<longleftrightarrow>
     (case r of
        Inr None \<Rightarrow> w_sent w' = w_sent w
      | Inr (Some out) \<Rightarrow> w_sent w' = w_sent w @ [out]
      | Inl e \<Rightarrow> w_sent w' = w_sent w \<or> (\<exists>out. w_sent w' = w_sent w @ [out]))"

lemma sent_at_most_once_shift:
  "w_sent v = w_sent w \<Longrightarrow> sent_at_most_once v r w' = sent_at_most_once w r w'"
  by (simp add: sent_at_most_once_def split: sum.splits option.splits)

lemma sent_nothing:
  "w_sent w' = w_sent w \<Longrightarrow> sent_at_most_once w (Inr None) w'"
  "w_sent w' = w_sent w \<Longrightarrow> sent_at_most_once w (Inl e) w'"
  by (simp_all add: sent_at_most_once_def)

lemma send_reply_once: "send_reply ev bg m t trail w = (r, w') \<Longrightarrow> sent_at_most_once w r w'"
  using send_reply_sends [of ev bg m t trail w r w']
  by (auto simp: sent_at_most_once_def split: sum.splits option.splits)

locale bridge_parts = command_handlers run fco
  for run :: "'h runner" and fco +
  fixes forward :: forwarder
  assumes forward_sends: "w_sent (snd (forward ev m trail w)) = w_sent w"
    and forward_audit: "world_inv fco trail w \<Longrightarrow> world_inv fco trail (snd (forward ev m trail w))"
begin

definition wired :: "'h bridge \<Rightarrow> bool" where
  "wired bg \<longleftrightarrow> bg_flow bg = fco \<and> ro_flow (bg_router bg) = fco
     \<and> bg_forwarder bg \<in> {None, Some forward}"

lemma process_normal_text_once:
  assumes "wired bg" "process_normal_text ev bg m trail w = (r, w')"
  shows "sent_at_most_once w r w'"
proof -
  have ignored: "w_sent (snd (app_message_ignored ev bg x trail v)) = w_sent v" for x v
    by (simp add: app_stage_defs frame_simps)
  show ?thesis
    using assms forward_sends [of ev m trail w]
    by (auto simp: process_normal_text_def wired_def sent_at_most_once_def ignored
        split: option.splits if_splits prod.splits sum.splits bool.splits)
qed

lemma process_normal_text_inv:
  assumes "wired bg" "world_inv fco trail w" "process_normal_text ev bg m trail w = (r, w')"
  shows "world_inv fco None w'"
proof -
  have ignored: "world_inv fco None (snd (app_message_ignored ev bg x trail v))"
    if "world_inv fco trail v" for x v
    using app_message_ignored_inv [OF that, of bg ev x] assms(1)
    by (auto simp: wired_def intro: world_inv_forget)
  from assms(1) have "bg_forwarder bg \<in> {None, Some forward}" by (simp add: wired_def)
  with forward_audit [OF assms(2), of ev m] assms(2,3) show ?thesis
    by (auto simp: process_normal_text_def split: option.splits if_splits prod.splits sum.splits bool.splits
        intro: world_inv_forget ignored)
qed

lemma process_admitted_once:
  assumes "wired bg" "process_admitted run ev bg m trail w = (r, w')"
  shows "sent_at_most_once w r w'"
proof -
  obtain x t w1 where h: "handle run ev (bg_router bg) m trail w = (x, t, w1)" by (metis prod_cases3)
  note s = handle_sends [OF h]
  have shift: "sent_at_most_once w r w' = sent_at_most_once w1 r w'" for r w'
    using sent_at_most_once_shift [OF s] by simp
  show ?thesis
  proof (cases x)
    case (Inl e)
    with assms(2) h s show ?thesis by (auto simp: process_admitted_def intro: sent_nothing)
  next
    case (Inr reply)
    show ?thesis
    proof (cases reply)
      case None
      with assms h Inr show ?thesis
        by (simp add: process_admitted_def shift process_normal_text_once)
    next
      case (Some response)
      with assms(2) h Inr s show ?thesis
        by (auto simp: process_admitted_def split: sum.splits
            intro: send_reply_once [THEN shift [THEN iffD2]] sent_nothing)
    qed
  qed
qed

lemma process_admitted_inv:
  assumes "wired bg" "world_inv fco trail w" "process_admitted run ev bg m trail w = (r, w')"
  shows "world_inv fco None w'"
proof -
  obtain x t w1 where h: "handle run ev (bg_router bg) m trail w = (x, t, w1)" by (metis prod_cases3)
  from assms(1) have fl: "ro_flow (bg_router bg) = fco" "bg_flow bg = fco" by (simp_all add: wired_def)
  note i = handle_inv [OF assms(2) fl(1) h]
  note normal = process_normal_text_inv [OF assms(1) i]
  note reply = send_reply_inv [OF i fl(2)]
  from assms(3) h world_inv_forget [OF i] show ?thesis
    by (auto simp: process_admitted_def split: sum.splits option.splits intro: normal reply)
qed

lemma process_new_once:
  assumes "wired bg" "process_new run ev bg m trail w = (r, w')"
  shows "sent_at_most_once w r w'"
proof -
  obtain ok rl where a: "allow (ev_mono ev (w_tick w)) (im_sender_id m) (w_limiter w) = (ok, rl)"
    by force
  let ?w = "tick (w\<lparr>w_limiter := rl\<rparr>)"
  obtain t w1 where i: "app_message_ignored ev bg (lit ''rate_limited'') trail ?w = (t, w1)" by force
  then have s1: "w_sent w1 = w_sent w"
    using app_staged_sends unfolding app_stage_defs by (fastforce simp: frame_simps)
  have shift: "sent_at_most_once w r w' = sent_at_most_once v r w'" if "w_sent v = w_sent w" for r w' v
    using sent_at_most_once_shift [OF that] by simp
  have sw: "w_sent ?w = w_sent w" by (simp add: frame_simps)
  show ?thesis
  proof (cases ok)
    case True
    with assms a have "process_admitted run ev bg m trail ?w = (r, w')" by (simp add: process_new_def Let_def)
    from process_admitted_once [OF assms(1) this] show ?thesis using shift [OF sw] by simp
  next
    case False
    with assms a i have "send_reply ev bg m (lit ''Rate limit.'') t w1 = (r, w')"
      by (simp add: process_new_def Let_def)
    from send_reply_once [OF this] show ?thesis using shift [OF s1] by simp
  qed
qed

lemma process_new_inv:
  assumes "wired bg" "world_inv fco trail w" "process_new run ev bg m trail w = (r, w')"
  shows "world_inv fco None w'"
proof -
  obtain ok rl where a: "allow (ev_mono ev (w_tick w)) (im_sender_id m) (w_limiter w) = (ok, rl)"
    by force
  let ?w = "tick (w\<lparr>w_limiter := rl\<rparr>)"
  have iw: "world_inv fco trail ?w" using assms(2) world_inv_audit [of ?w w] by (simp add: frame_simps)
  from assms(1) have fl: "bg_flow bg = fco" by (simp add: wired_def)
  obtain t w1 where i: "app_message_ignored ev bg (lit ''rate_limited'') trail ?w = (t, w1)" by force
  with app_message_ignored_inv [OF iw fl, of ev "lit ''rate_limited''"] have i1: "world_inv fco t w1" by simp
  show ?thesis
  proof (cases ok)
    case True
    with assms(3) a have "process_admitted run ev bg m trail ?w = (r, w')" by (simp add: process_new_def Let_def)
    from process_admitted_inv [OF assms(1) iw this] show ?thesis .
  next
    case False
    with assms(3) a i have "send_reply ev bg m (lit ''Rate limit.'') t w1 = (r, w')"
      by (simp add: process_new_def Let_def)
    from send_reply_inv [OF i1 fl this] show ?thesis .
  qed
qed

lemma check_duplicate_keeps:
  assumes "check_duplicate ev bg m w = (r, w')"
  shows "w_sent w' = w_sent w \<and> world_inv fco trail w' = world_inv fco trail w"
proof -
  have "at_events (db_tables (st_db (w_audit w'))) = at_events (db_tables (st_db (w_audit w)))"
    using assms seen_or_store_frame [of "ev_crypto ev" "bg_dedup_window bg" "ev_time ev (w_tick w)" m
        "st_db (w_audit w)"]
    by (auto simp: check_duplicate_def frame_simps split: prod.splits)
  from world_inv_events [OF this] assms show ?thesis
    by (auto simp: check_duplicate_def frame_simps split: prod.splits)
qed

text \<open>At most one message is sent, and exactly the one that is returned.\<close>

lemma process_message_once:
  assumes "wired bg" "process_message run ev bg m w = (r, w')"
  shows "sent_at_most_once w r w'"
proof -
  obtain x w1 where 1: "app_message_received ev bg m w = (x, w1)" by force
  with app_message_received_frame(1) have s1: "w_sent w1 = w_sent w" by (metis snd_conv)
  obtain y w2 where 2: "check_duplicate ev bg m w1 = (y, w2)" by force
  with check_duplicate_keeps s1 have s2: "w_sent w2 = w_sent w" by metis
  have ignored: "w_sent (snd (app_message_ignored ev bg y t v)) = w_sent v" for y t v
    by (simp add: app_stage_defs frame_simps)
  have last: "process_new run ev bg m trail w2 = (r, w') \<Longrightarrow> sent_at_most_once w r w'" for trail
    using process_new_once [OF assms(1), of ev m trail w2 r w'] sent_at_most_once_shift [OF s2] by simp
  show ?thesis
    using assms(2) 1 2 s1 s2
    by (auto simp: process_message_def ignored split: sum.splits if_splits bool.splits
        intro: last sent_nothing)
qed

text \<open>The audit log stays well-formed, whatever failed on the way.\<close>

lemma process_message_inv:
  assumes "wired bg" "world_inv fco None w" "process_message run ev bg m w = (r, w')"
  shows "world_inv fco None w'"
proof -
  from assms(1) have fl: "bg_flow bg = fco" by (simp add: wired_def)
  obtain x w1 where 1: "app_message_received ev bg m w = (x, w1)" by force
  show ?thesis
  proof (cases x)
    case (Inl e)
    with 1 assms(3) app_message_received_inv_raises [OF assms(2) fl, of ev m] show ?thesis
      by (auto simp: process_message_def)
  next
    case (Inr trail)
    with 1 app_message_received_inv [OF assms(2) fl] have i1: "world_inv fco trail w1" by simp
    obtain y w2 where 2: "check_duplicate ev bg m w1 = (y, w2)" by force
    with check_duplicate_keeps i1 have i2: "world_inv fco trail w2" by blast
    have ignored: "world_inv fco trail v \<Longrightarrow> world_inv fco None (snd (app_message_ignored ev bg z trail v))"
      for z v using app_message_ignored_inv [OF _ fl, of trail v ev z] by (auto intro: world_inv_forget)
    note new = process_new_inv [OF assms(1) i2]
    from assms(3) 1 2 Inr world_inv_forget [OF i1] world_inv_forget [OF i2]
      ignored [OF i1] ignored [OF i2] show ?thesis
      by (auto simp: process_message_def split: sum.splits if_splits bool.splits intro: new)
  qed
qed

text \<open>The loop as a whole: every message of a run keeps the log, and the transport is closed.\<close>

lemma run_forever_inv:
  assumes "wired bg" "world_inv fco None w" "run_forever run ev bg ms ended w = (e, w')"
  shows "world_inv fco None w' \<and> w_closed w'"
  using assms(2,3)
proof (induction ms arbitrary: w)
  case Nil
  then show ?case by (auto simp: world_inv_close frame_simps)
next
  case (Cons m ms)
  obtain r w1 where p: "process_message run ev bg m w = (r, w1)" by force
  from process_message_inv [OF assms(1) Cons.prems(1) p] have i: "world_inv fco None w1" .
  show ?case
  proof (cases r)
    case (Inl x)
    with Cons.prems(2) p i show ?thesis by (auto simp: world_inv_close frame_simps)
  next
    case (Inr out)
    with Cons.prems(2) p i Cons.IH show ?thesis by simp
  qed
qed

lemma run_forever_sent:
  assumes "wired bg" "run_forever run ev bg ms ended w = (e, w')"
  shows "length (w_sent w') \<le> length (w_sent w) + length ms"
  using assms(2)
proof (induction ms arbitrary: w)
  case Nil
  then show ?case by (auto simp: frame_simps)
next
  case (Cons m ms)
  obtain r w1 where p: "process_message run ev bg m w = (r, w1)" by force
  from process_message_once [OF assms(1) p] have "length (w_sent w1) \<le> Suc (length (w_sent w))"
    by (auto simp: sent_at_most_once_def split: sum.splits option.splits)
  with Cons.prems p Cons.IH [of w1] show ?case
    by (cases r) (auto simp: frame_simps)
qed

end

end
