(* ===== verification/Tg_Forward.thy ===== *)
theory Tg_Forward
  imports Service_Contracts Config
begin

text \<open>
  \<open>MeshCoreToTelegramForwarder\<close> of \<open>telegram/service.py\<close>, and the helpers that both directions
  of the Telegram bridge share: what they audit, the pending records that recognise echoes,
  and how a database that fails is reported and passed over.
\<close>

section \<open>Effective settings\<close>

definition meshcore_transport_name :: str where
  "meshcore_transport_name = lit ''homeassistant-meshcore''"

definition effective_tg_to_mc :: "tg_config \<Rightarrow> world \<Rightarrow> bool" where
  "effective_tg_to_mc tc w =
     (case w_health w of None \<Rightarrow> tc_forward_tg_to_mc tc | Some h \<Rightarrow> effective_telegram_to_meshcore h)"

definition effective_mc_to_tg :: "tg_config \<Rightarrow> world \<Rightarrow> bool" where
  "effective_mc_to_tg tc w =
     (case w_health w of None \<Rightarrow> tc_forward_mc_to_tg tc | Some h \<Rightarrow> effective_meshcore_to_telegram h)"

definition effective_confirmation :: "tg_config \<Rightarrow> world \<Rightarrow> bool" where
  "effective_confirmation tc w =
     (case w_health w of None \<Rightarrow> tc_send_confirmation tc | Some h \<Rightarrow> effective_forward_confirmation h)"

definition sqlite_reason :: "exn \<Rightarrow> str" where
  "sqlite_reason e = (if is_sqlite_locked e then lit ''database_locked'' else lit ''storage_error'')"

definition meshcore_room :: "int \<Rightarrow> room_ref result" where
  "meshcore_room channel_index = room_channel meshcore_transport_name channel_index"

definition correlation_of :: "inbound_message \<Rightarrow> audit_trail option \<Rightarrow> str" where
  "correlation_of m trail =
     (case trail of
        Some tr \<Rightarrow> tr_correlation_id tr
      | None \<Rightarrow> (case im_message m of Some i \<Rightarrow> mi_correlation_id i | None \<Rightarrow> []))"

definition forward_rate_key :: "inbound_message \<Rightarrow> str" where
  "forward_rate_key m =
     (case im_source_room m of Some r \<Rightarrow> rr_room_id r
      | None \<Rightarrow> lit ''channel:'' @ dec (im_channel_index m)) @ [58] @ sender_of m"

definition is_self_sent :: "inbound_message \<Rightarrow> bool" where
  "is_self_sent m =
     (let metadata = obj_items (im_metadata m) in
      jget metadata (lit ''outgoing'') = Some (JBool True)
      \<or> jget metadata (lit ''self_sent'') = Some (JBool True)
      \<or> (case jget metadata (lit ''direction'') of
           Some (JStr d) \<Rightarrow> lower d \<in> {lit ''outgoing'', lit ''sent'', lit ''tx''}
         | _ \<Rightarrow> False)
      \<or> jget metadata (lit ''source_transport'') = Some (JStr telegram_transport))"

section \<open>Databases that may fail\<close>

text \<open>\<open>except sqlite3.Error\<close>: the telegram database is marked degraded and a default is used.\<close>

definition guard_telegram_db :: "env \<Rightarrow> 'a \<Rightarrow> 'a result \<times> world \<Rightarrow> 'a result \<times> world" where
  "guard_telegram_db ev dflt p =
     (case p of
        (Inr x, w) \<Rightarrow> (Inr x, w)
      | (Inl e, w) \<Rightarrow>
          if is_sqlite_error e
          then (Inr dflt,
                on_health ev (\<lambda>now. set_telegram_db_health now (lit ''degraded'') (Some (sqlite_reason e))) w)
          else (Inl e, w))"

definition audit_bridge ::
    "env \<Rightarrow> audit_settings option \<Rightarrow> event_type \<Rightarrow> inbound_message \<Rightarrow> str \<Rightarrow> json \<Rightarrow> str option
       \<Rightarrow> world \<Rightarrow> str option result \<times> world" where
  "audit_bridge ev audit ty m corr metadata cause w =
     (case audit_bridge_event (ev_crypto ev) audit (ev_uuid ev (w_tick w)) (ev_now ev (w_tick w))
             ty m corr metadata cause (w_audit w) of
        (r, st) \<Rightarrow>
          (let w' = tick (w\<lparr>w_audit := st\<rparr>) in
           case r of
             Inr i \<Rightarrow> (Inr i, w')
           | Inl e \<Rightarrow>
               if is_sqlite_error e
               then (Inr None,
                     on_health ev (\<lambda>now. set_audit_db_health now (lit ''degraded'')
                                     (Some (sqlite_reason e))) w')
               else (Inl e, w')))"

definition safe_create_bridge_record ::
    "env \<Rightarrow> audit_key \<Rightarrow> str \<Rightarrow> str \<Rightarrow> str \<Rightarrow> str \<Rightarrow> int \<Rightarrow> str \<Rightarrow> world
       \<Rightarrow> bridge_record option result \<times> world" where
  "safe_create_bridge_record ev k corr transport room_id content size_bytes st w =
     guard_telegram_db ev None
       (case on_telegram (create_bridge_record (ev_crypto ev) k (ev_uuid ev (w_tick w))
               (ev_time ev (w_tick w)) corr transport room_id content size_bytes st) (tick w) of
          (r, w') \<Rightarrow> (bind_result r (\<lambda>x. Inr (Some x)), w'))"

section \<open>The forwarder\<close>

record mc_forwarder =
  mf_config :: tg_config
  mf_key :: audit_key
  mf_audit :: "audit_settings option"
  mf_backoff_max :: seconds

definition mc_metadata :: "jobject \<Rightarrow> json" where
  "mc_metadata items =
     JObj ([(lit ''direction'', JStr (lit ''meshcore_to_telegram'')),
            (lit ''source_transport'', JStr meshcore_transport_name),
            (lit ''destination_transport'', JStr telegram_transport)] @ items)"

definition mc_audit_ignored ::
    "env \<Rightarrow> mc_forwarder \<Rightarrow> inbound_message \<Rightarrow> audit_trail option \<Rightarrow> str \<Rightarrow> int \<Rightarrow> bool \<Rightarrow> str option
       \<Rightarrow> world \<Rightarrow> unit result \<times> world" where
  "mc_audit_ignored ev mf m trail reason size_bytes truncated cause w =
     seqw (audit_bridge ev (mf_audit mf) BRIDGE_MESSAGE_IGNORED m (correlation_of m trail)
             (mc_metadata [(lit ''reason'', JStr reason), (lit ''size_bytes'', JInt size_bytes),
                           (lit ''truncated'', JBool truncated)]) cause w)
       (\<lambda>_ w. (Inr (), w))"

text \<open>The record of a message that was, or was not, given to Telegram.\<close>

definition mc_create_record ::
    "env \<Rightarrow> mc_forwarder \<Rightarrow> inbound_message \<Rightarrow> audit_trail option \<Rightarrow> str \<Rightarrow> int \<Rightarrow> str \<Rightarrow> world
       \<Rightarrow> bridge_record option result \<times> world" where
  "mc_create_record ev mf m trail content size_bytes st =
     safe_create_bridge_record ev (mf_key mf) (correlation_of m trail) telegram_transport
       telegram_room_id content size_bytes st"

definition mc_record_failed ::
    "env \<Rightarrow> mc_forwarder \<Rightarrow> inbound_message \<Rightarrow> audit_trail option \<Rightarrow> render_result \<Rightarrow> int \<Rightarrow> str
       \<Rightarrow> str option \<Rightarrow> world \<Rightarrow> unit result \<times> world" where
  "mc_record_failed ev mf m trail rendered size_bytes reason cause w =
     seqw (audit_bridge ev (mf_audit mf) BRIDGE_MESSAGE_FAILED m (correlation_of m trail)
             (mc_metadata [(lit ''result'', JStr (lit ''failed'')), (lit ''reason'', JStr reason),
                           (lit ''size_bytes'', JInt size_bytes),
                           (lit ''truncated'', JBool (fr_truncated rendered))]) cause w) (\<lambda>_ w.
     seqw (mc_create_record ev mf m trail
             (case fr_text rendered of None \<Rightarrow> [] | Some t \<Rightarrow> t) size_bytes (lit ''failed'') w)
       (\<lambda>_ w. (Inr (), w)))"

text \<open>\<open>_consume_pending_echo\<close>: an unavailable database counts as an echo.\<close>

definition mc_consume_pending_echo ::
    "env \<Rightarrow> mc_forwarder \<Rightarrow> inbound_message \<Rightarrow> str \<Rightarrow> int \<Rightarrow> world \<Rightarrow> bool result \<times> world" where
  "mc_consume_pending_echo ev mf m rendered_text size_bytes w =
     (case (case im_source_room m of Some r \<Rightarrow> Inr r | None \<Rightarrow> meshcore_room (im_channel_index m)) of
        Inl e \<Rightarrow> (Inl e, w)
      | Inr room \<Rightarrow>
          guard_telegram_db ev True
            (case on_telegram (consume_pending_echo (ev_crypto ev) (mf_key mf)
                    (ev_time ev (w_tick w)) meshcore_transport_name (rr_room_id room) rendered_text
                    size_bytes) (tick w) of
               (r, w') \<Rightarrow> (bind_result r (\<lambda>x. Inr (x \<noteq> None)), w')))"

text \<open>The health of a failed delivery, then its record, then \<open>True\<close>.\<close>

definition mc_failed ::
    "env \<Rightarrow> mc_forwarder \<Rightarrow> inbound_message \<Rightarrow> audit_trail option \<Rightarrow> render_result \<Rightarrow> int \<Rightarrow> str
       \<Rightarrow> str option \<Rightarrow> world \<Rightarrow> bool result \<times> world" where
  "mc_failed ev mf m trail rendered size_bytes reason cause w =
     seqw (mc_record_failed ev mf m trail rendered size_bytes reason cause
             (on_health ev (\<lambda>now. record_mc_to_tg now False reason) w))
       (\<lambda>_ w. (Inr True, w))"

text \<open>The \<open>try\<close> block around \<open>send_message\<close> with its handlers, and the success path.\<close>

definition mc_deliver ::
    "env \<Rightarrow> mc_forwarder \<Rightarrow> inbound_message \<Rightarrow> audit_trail option \<Rightarrow> render_result \<Rightarrow> str \<Rightarrow> int
       \<Rightarrow> str option \<Rightarrow> world \<Rightarrow> bool result \<times> world" where
  "mc_deliver ev mf m trail rendered t size_bytes cause w =
     (case telegram_send (tc_allowed_private_chat_id (mf_config mf)) t w of
        (Inl e, w1) \<Rightarrow>
          if is_rate_limit e
          then mc_failed ev mf m trail rendered size_bytes (lit ''rate_limited'') cause
                 (sleep_or_stop (w_forward_stopping w1) (min (retry_after e) (mf_backoff_max mf)) w1)
          else if is_conflict e
          then mc_failed ev mf m trail rendered size_bytes (lit ''consumer_conflict'') cause w1
          else if is_network_error e
          then mc_failed ev mf m trail rendered size_bytes (lit ''transport_error'') cause w1
          else (Inl e, w1)
      | (Inr _, w1) \<Rightarrow>
          seqw (audit_bridge ev (mf_audit mf) BRIDGE_MESSAGE_FORWARDED m (correlation_of m trail)
                  (mc_metadata [(lit ''result'', JStr (lit ''accepted_by_telegram'')),
                                (lit ''size_bytes'', JInt size_bytes),
                                (lit ''truncated'', JBool (fr_truncated rendered))]) cause w1) (\<lambda>_ w.
          seqw (mc_create_record ev mf m trail t size_bytes (lit ''accepted_by_telegram'') w) (\<lambda>_ w.
            (Inr True, on_health ev (\<lambda>now. record_mc_to_tg now True (lit ''none'')) w))))"

text \<open>\<open>forward_normal_text\<close>: the guards in the order of the code.\<close>

definition mc_guarded ::
    "env \<Rightarrow> mc_forwarder \<Rightarrow> inbound_message \<Rightarrow> audit_trail option \<Rightarrow> render_result \<Rightarrow> str \<Rightarrow> int \<Rightarrow> int
       \<Rightarrow> str option \<Rightarrow> world \<Rightarrow> bool result \<times> world" where
  "mc_guarded ev mf m trail rendered source source_size size_bytes cause w =
     (let ignored = (\<lambda>reason size w. mc_audit_ignored ev mf m trail reason size (fr_truncated rendered) cause w)
      in
      if \<not> effective_mc_to_tg (mf_config mf) w
      then seqw (ignored (lit ''forward_disabled'') size_bytes w) (\<lambda>_ w. (Inr True, w))
      else if is_self_sent m
      then seqw (ignored (lit ''loop_prevention'') size_bytes w) (\<lambda>_ w. (Inr True, w))
      else
        (case fr_text rendered of
           None \<Rightarrow>
             seqw (ignored (lit ''dropped'') 0 w) (\<lambda>_ w.
             seqw (mc_create_record ev mf m trail [] 0 (lit ''dropped'') w) (\<lambda>_ w. (Inr True, w)))
         | Some t \<Rightarrow>
             seqw (mc_consume_pending_echo ev mf m source source_size w) (\<lambda>echo w.
               if echo
               then seqw (ignored (lit ''loop_prevention'') size_bytes w) (\<lambda>_ w. (Inr True, w))
               else
                 (case allow (ev_mono ev (w_tick w)) (forward_rate_key m) (w_mc_limiter w) of
                    (ok, rl) \<Rightarrow>
                      (let w = tick (w\<lparr>w_mc_limiter := rl\<rparr>) in
                       if \<not> ok
                       then
                         seqw (ignored (lit ''rate_limited'') size_bytes w) (\<lambda>_ w.
                         seqw (mc_create_record ev mf m trail t size_bytes (lit ''dropped'') w) (\<lambda>_ w.
                           (Inr True, w)))
                       else mc_deliver ev mf m trail rendered t size_bytes cause w)))))"

definition forward_normal_text :: "mc_forwarder \<Rightarrow> forwarder" where
  "forward_normal_text mf ev m trail w =
     (let source = normalized_bridge_text (im_text m) in
      case render_telegram_forward_message (im_text m) (tc_mc_to_tg_prefix (mf_config mf))
             (tc_max_telegram_length (mf_config mf)) of
        Inl e \<Rightarrow> (Inl e, w)
      | Inr rendered \<Rightarrow>
          (case encode source of
             Inl e \<Rightarrow> (Inl e, w)
           | Inr source_bytes \<Rightarrow>
               (let source_size = int (length source_bytes);
                    size_bytes = (case fr_text rendered of None \<Rightarrow> 0 | Some t \<Rightarrow> int (length (utf8 t)))
                in
                seqw (audit_bridge ev (mf_audit mf) BRIDGE_MESSAGE_RECEIVED m (correlation_of m trail)
                        (mc_metadata [(lit ''size_bytes'', JInt source_size)])
                        (case trail of None \<Rightarrow> None | Some tr \<Rightarrow> tr_latest_event_id tr) w)
                  (\<lambda>cause w. mc_guarded ev mf m trail rendered source source_size size_bytes cause w))))"

definition stop_forwarder :: "env \<Rightarrow> world \<Rightarrow> world" where
  "stop_forwarder ev w =
     on_health ev (\<lambda>now. set_telegram_polling now (lit ''disconnected'')) (w\<lparr>w_forward_stopping := True\<rparr>)"

end
