(* ===== verification/Tg_Forward_Facts.thy ===== *)
theory Tg_Forward_Facts
  imports Tg_Forward Bridge_Contract
begin

text \<open>
  The forwarder keeps the contract of the bridge service: it sends nothing to the mesh, and
  the events it writes keep the audit log well-formed, with causes that are stored.
\<close>

section \<open>Causes\<close>

definition cause_inv :: "flow_config option \<Rightarrow> str option \<Rightarrow> world \<Rightarrow> bool" where
  "cause_inv fco cause w \<longleftrightarrow>
     (fco = None \<or> set (opt_list cause) \<subseteq> er_event_id ` set (stored_events (w_audit w)))"

lemma cause_inv_None [simp]: "cause_inv fco None w"
  by (simp add: cause_inv_def)

text \<open>The repository that the Telegram side writes to is the flow's, when there is one.\<close>

definition audit_wired :: "flow_config option \<Rightarrow> audit_settings option \<Rightarrow> bool" where
  "audit_wired fco audit \<longleftrightarrow> (\<forall>fc. fco = Some fc \<longrightarrow> audit \<in> {None, Some (fc_settings fc)})"

text \<open>Between two worlds, nothing was sent to the mesh and the log was kept and only grew.\<close>

definition log_step :: "flow_config option \<Rightarrow> audit_trail option \<Rightarrow> world \<Rightarrow> world \<Rightarrow> bool" where
  "log_step fco trail w w' \<longleftrightarrow>
     w_sent w' = w_sent w \<and> (world_inv fco trail w \<longrightarrow> world_inv fco trail w')
     \<and> (\<forall>c. cause_inv fco c w \<longrightarrow> cause_inv fco c w')"

lemma log_step_refl [simp]: "log_step fco trail w w"
  by (simp add: log_step_def)

lemma log_step_trans [trans]:
  "log_step fco trail w1 w2 \<Longrightarrow> log_step fco trail w2 w3 \<Longrightarrow> log_step fco trail w1 w3"
  by (auto simp: log_step_def)

lemma log_step_same:
  "w_sent w' = w_sent w \<Longrightarrow> w_audit w' = w_audit w \<Longrightarrow> log_step fco trail w w'"
  using world_inv_audit [of w' w fco trail] by (simp add: log_step_def cause_inv_def)

lemma log_step_health [simp]: "log_step fco trail w (on_health ev f w)"
  by (rule log_step_same) (simp_all add: frame_simps)

lemma log_step_tick [simp]: "log_step fco trail w (tick w)"
  by (rule log_step_same) (simp_all add: frame_simps)

lemma log_step_sleep [simp]: "log_step fco trail w (sleep_or_stop b d w)"
  by (rule log_step_same) (simp_all add: frame_simps)

lemma log_step_telegram [simp]: "log_step fco trail w (snd (on_telegram f w))"
  by (rule log_step_same) (simp_all add: frame_simps)

lemma log_step_telegram_send [simp]: "log_step fco trail w (snd (telegram_send c t w))"
  by (rule log_step_same) (simp_all add: frame_simps)

section \<open>An event of the bridge\<close>

lemma audit_record_stored:
  assumes "audit_record s now e st = (Inr True, st')"
  shows "insert_event s now e (db_tables (st_db st)) = (Inr True, db_tables (st_db st'))"
proof -
  from assms obtain k b c where k: "as_audit_key s = Some k" "as_enabled s"
      and w: "write_transaction (insert_event s now e) (st_db st) = (Inr b, c)"
      and st': "st' = st\<lparr>st_db := c\<rparr>"
    by (auto simp: audit_record_def split: if_splits option.splits sum.splits prod.splits)
  from sqlite.write_commits [OF w]
  have i: "insert_event s now e (db_tables (st_db st)) = (Inr b, db_tables c)" .
  with insert_event_cases [OF i] k(2) st' show ?thesis by simp
qed

lemma audit_record_not_stored:
  assumes "audit_record s now e st = (Inl x, st')"
  shows "db_tables (st_db st') = db_tables (st_db st)"
  using assms by (auto simp: audit_record_def split: if_splits option.splits sum.splits prod.splits
      dest: sqlite.write_rolls_back)

lemma audit_bridge_event_step:
  assumes a: "audit_bridge_event cr audit uuid now ty m corr metadata cause st = (r, st')"
    and inv: "audit_inv fc st" and wired: "audit \<in> {None, Some (fc_settings fc)}"
    and cause: "set (opt_list cause) \<subseteq> er_event_id ` set (stored_events st)"
  shows "audit_inv fc st'
    \<and> er_event_id ` set (stored_events st) \<subseteq> er_event_id ` set (stored_events st')
    \<and> (\<forall>i. r = Inr i \<longrightarrow> set (opt_list i) \<subseteq> er_event_id ` set (stored_events st'))"
proof (cases "audit = None \<or> \<not> as_enabled (fc_settings fc)")
  case True
  with a wired inv show ?thesis by (auto simp: audit_bridge_event_def)
next
  case False
  with wired have au: "audit = Some (fc_settings fc)" "as_enabled (fc_settings fc)" by auto
  show ?thesis
  proof (cases "event_from_inbound cr (fc_settings fc) uuid ty m (Some corr) (plain_args metadata cause)")
    case (Inl x)
    with a au inv show ?thesis by (auto simp: audit_bridge_event_def)
  next
    case (Inr e)
    then have e: "ae_causation_event_id e = cause"
      by (auto simp: plain_args_def dest: event_from_inbound_fields)
    obtain x st2 where rec: "audit_record (fc_settings fc) now e st = (x, st2)" by force
    show ?thesis
    proof (cases x)
      case (Inl y)
      with rec have same: "db_tables (st_db st2) = db_tables (st_db st)"
        by (auto dest: audit_record_not_stored)
      from a au Inr Inl rec have "r = Inl y" "st' = st2" by (auto simp: audit_bridge_event_def)
      with same inv audit_inv_db [OF same, of fc] show ?thesis by (simp add: stored_events_def)
    next
      case (Inr b)
      with rec au have "x = Inr True"
        by (auto simp: audit_record_def split: option.splits sum.splits prod.splits)
      with rec have "insert_event (fc_settings fc) now e (db_tables (st_db st))
          = (Inr True, db_tables (st_db st2))" by (auto dest: audit_record_stored)
      from audit_inv_insert [OF inv this _ refl] cause e
      have "audit_inv fc st2 \<and> er_event_id ` set (stored_events st2)
          = insert (ae_event_id e) (er_event_id ` set (stored_events st))"
        by (simp add: stored_events_def)
      moreover from a au \<open>event_from_inbound _ _ _ _ _ _ _ = Inr e\<close> Inr rec
      have "r = Inr (Some (ae_event_id e))" "st' = st2" by (auto simp: audit_bridge_event_def)
      ultimately show ?thesis by auto
    qed
  qed
qed

lemma audit_bridge_sent: "w_sent (snd (audit_bridge ev audit ty m corr metadata cause w)) = w_sent w"
  by (simp add: audit_bridge_def Let_def frame_simps split: prod.splits sum.splits)

lemma audit_bridge_step:
  assumes a: "audit_bridge ev audit ty m corr metadata cause w = (r, w')"
    and inv: "world_inv fco trail w" and wired: "audit_wired fco audit" and cause: "cause_inv fco cause w"
  shows "log_step fco trail w w' \<and> (\<forall>i. r = Inr i \<longrightarrow> cause_inv fco i w')"
proof (cases fco)
  case None
  with a audit_bridge_sent [of ev audit ty m corr metadata cause w] show ?thesis
    by (simp add: log_step_def world_inv_def cause_inv_def)
next
  case (Some fc)
  obtain x st where e: "audit_bridge_event (ev_crypto ev) audit (ev_uuid ev (w_tick w))
      (ev_now ev (w_tick w)) ty m corr metadata cause (w_audit w) = (x, st)" by force
  from inv Some have ai: "audit_inv fc (w_audit w)" by (simp add: world_inv_def)
  from cause Some have ci: "set (opt_list cause) \<subseteq> er_event_id ` set (stored_events (w_audit w))"
    by (simp add: cause_inv_def)
  from wired Some have "audit \<in> {None, Some (fc_settings fc)}" by (simp add: audit_wired_def)
  note step = audit_bridge_event_step [OF e ai this ci]
  have w': "w_audit w' = st" and r: "\<forall>i. r = Inr i \<longrightarrow> i = None \<or> x = Inr i"
    using a e by (auto simp: audit_bridge_def Let_def frame_simps split: sum.splits if_splits)
  from a audit_bridge_sent have "w_sent w' = w_sent w" by (metis snd_conv)
  with step w' inv Some have "log_step fco trail w w'"
    by (auto simp: log_step_def world_inv_def cause_inv_def trail_inv_def split: option.splits)
  moreover from step w' r have "\<forall>i. r = Inr i \<longrightarrow> cause_inv fco i w'"
    unfolding cause_inv_def by (metis empty_set empty_subsetI opt_list_simps(1))
  ultimately show ?thesis by simp
qed

lemma guard_telegram_db_step:
  "log_step fco trail w (snd p) \<Longrightarrow> log_step fco trail w (snd (guard_telegram_db ev d p))"
  by (auto simp: guard_telegram_db_def split: prod.splits sum.splits intro: log_step_trans)

lemma on_telegram_step: "on_telegram f w = (r, w') \<Longrightarrow> log_step fco trail w w'"
  using log_step_telegram [of fco trail w f] by simp

lemma on_telegram_tick_step: "on_telegram f (tick w) = (r, w') \<Longrightarrow> log_step fco trail w w'"
  using log_step_tick on_telegram_step log_step_trans by blast

lemma safe_create_bridge_record_step:
  "log_step fco trail w (snd (safe_create_bridge_record ev k corr tr room content n st w))"
  unfolding safe_create_bridge_record_def
  by (rule guard_telegram_db_step)
    (auto split: prod.splits dest: on_telegram_tick_step)

section \<open>The forwarder keeps the contract\<close>

text \<open>What the forwarder may assume wherever it writes an event.\<close>

definition good_cause :: "flow_config option \<Rightarrow> audit_trail option \<Rightarrow> str option \<Rightarrow> world \<Rightarrow> bool" where
  "good_cause fco trail cause w \<longleftrightarrow> world_inv fco trail w \<and> cause_inv fco cause w"

lemma good_cause_step: "good_cause fco trail cause w \<Longrightarrow> log_step fco trail w w' \<Longrightarrow> good_cause fco trail cause w'"
  by (auto simp: good_cause_def log_step_def)

lemma seqw_step:
  assumes "log_step fco trail w (snd p)"
    "\<And>x w1. p = (Inr x, w1) \<Longrightarrow> log_step fco trail w w1 \<Longrightarrow> log_step fco trail w1 (snd (f x w1))"
  shows "log_step fco trail w (snd (seqw p f))"
  using assms by (cases p; cases "fst p") (auto intro: log_step_trans)

lemma audit_bridge_good:
  assumes "good_cause fco trail cause w" "audit_wired fco audit"
  shows "log_step fco trail w (snd (audit_bridge ev audit ty m corr metadata cause w))"
proof -
  obtain r w' where "audit_bridge ev audit ty m corr metadata cause w = (r, w')" by force
  from audit_bridge_step [OF this _ assms(2)] assms(1) this show ?thesis
    by (auto simp: good_cause_def)
qed

lemma mc_audit_ignored_step:
  assumes "good_cause fco trail cause w" "audit_wired fco (mf_audit mf)"
  shows "log_step fco trail w (snd (mc_audit_ignored ev mf m tr reason n b cause w))"
  unfolding mc_audit_ignored_def
  by (rule seqw_step) (auto intro: audit_bridge_good [OF assms])

lemma mc_create_record_step: "log_step fco trail w (snd (mc_create_record ev mf m tr t n st w))"
  unfolding mc_create_record_def by (rule safe_create_bridge_record_step)

lemma mc_record_failed_step:
  assumes "good_cause fco trail cause w" "audit_wired fco (mf_audit mf)"
  shows "log_step fco trail w (snd (mc_record_failed ev mf m tr rendered n reason cause w))"
  unfolding mc_record_failed_def
  by (intro seqw_step audit_bridge_good [OF assms] mc_create_record_step) simp

lemma mc_failed_step:
  assumes "good_cause fco trail cause w" "audit_wired fco (mf_audit mf)"
  shows "log_step fco trail w (snd (mc_failed ev mf m tr rendered n reason cause w))"
proof -
  let ?w = "on_health ev (\<lambda>now. record_mc_to_tg now False reason) w"
  have "good_cause fco trail cause ?w" by (rule good_cause_step [OF assms(1)]) simp
  from mc_record_failed_step [OF this assms(2)]
  have "log_step fco trail w (snd (mc_record_failed ev mf m tr rendered n reason cause ?w))"
    using log_step_health log_step_trans by blast
  then show ?thesis unfolding mc_failed_def by (rule seqw_step) simp
qed

lemma mc_consume_pending_echo_step: "log_step fco trail w (snd (mc_consume_pending_echo ev mf m t n w))"
  by (auto simp: mc_consume_pending_echo_def split: sum.splits prod.splits
      intro!: guard_telegram_db_step dest: on_telegram_tick_step)

lemma mc_deliver_step:
  assumes "good_cause fco trail cause w" "audit_wired fco (mf_audit mf)"
  shows "log_step fco trail w (snd (mc_deliver ev mf m tr rendered t n cause w))"
proof -
  obtain r w1 where s: "telegram_send (tc_allowed_private_chat_id (mf_config mf)) t w = (r, w1)" by force
  then have step: "log_step fco trail w w1"
    using log_step_telegram_send by (metis snd_conv)
  note g1 = good_cause_step [OF assms(1) step]
  have failed: "log_step fco trail w (snd (mc_failed ev mf m tr rendered n reason cause v))"
    if "log_step fco trail w v" for reason v
    using mc_failed_step [OF good_cause_step [OF assms(1) that] assms(2)] that log_step_trans by blast
  show ?thesis
  proof (cases r)
    case (Inl e)
    have sleep: "log_step fco trail w (sleep_or_stop b d w1)" for b d
      using step log_step_sleep log_step_trans by blast
    with s Inl step show ?thesis
      by (auto simp: mc_deliver_def intro: failed)
  next
    case (Inr u)
    have "log_step fco trail w1 (snd (mc_deliver ev mf m tr rendered t n cause w))"
      using s Inr
      by (auto simp: mc_deliver_def
          intro!: seqw_step audit_bridge_good [OF g1 assms(2)] mc_create_record_step)
    with step show ?thesis by (rule log_step_trans)
  qed
qed

lemma mc_guarded_step:
  assumes g: "good_cause fco trail cause w" and wired: "audit_wired fco (mf_audit mf)"
  shows "log_step fco trail w (snd (mc_guarded ev mf m tr rendered src k n cause w))"
proof -
  have ignored: "log_step fco trail w (snd (mc_audit_ignored ev mf m tr reason i b cause v))
      \<and> log_step fco trail v (snd (mc_audit_ignored ev mf m tr reason i b cause v))"
    if "log_step fco trail w v" for reason i b v
    using mc_audit_ignored_step [OF good_cause_step [OF g that] wired] that log_step_trans by blast
  have deliver: "log_step fco trail v (snd (mc_deliver ev mf m tr rendered t n cause v))"
    if "log_step fco trail w v" for t v
    by (rule mc_deliver_step [OF good_cause_step [OF g that] wired])
  have limiter: "log_step fco trail v (tick (v\<lparr>w_mc_limiter := rl\<rparr>))" for v rl
    by (rule log_step_same) (simp_all add: frame_simps)
  have limited: "log_step fco trail v (snd (seqw (mc_audit_ignored ev mf m tr reason i b cause (tick (v\<lparr>w_mc_limiter := rl\<rparr>)))
        (\<lambda>_ w. seqw (mc_create_record ev mf m tr t n st w) (\<lambda>_ w. (Inr True, w)))))"
    if "log_step fco trail w v" for v rl reason i b t st
    by (intro seqw_step mc_create_record_step
        log_step_trans [OF limiter ignored [OF log_step_trans [OF that limiter], THEN conjunct2]]) simp
  have delivered: "log_step fco trail v (snd (mc_deliver ev mf m tr rendered t n cause (tick (v\<lparr>w_mc_limiter := rl\<rparr>))))"
    if "log_step fco trail w v" for t v rl
    using deliver [OF log_step_trans [OF that limiter]] limiter log_step_trans by blast
  show ?thesis
    unfolding mc_guarded_def Let_def
    by (auto intro!: seqw_step mc_create_record_step mc_consume_pending_echo_step
        simp: ignored limited delivered split: option.splits prod.splits if_splits)
qed

lemma forward_normal_text_step:
  assumes inv: "world_inv fco trail w" and wired: "audit_wired fco (mf_audit mf)"
  shows "log_step fco trail w (snd (forward_normal_text mf ev m trail w))"
proof -
  let ?cause = "case trail of None \<Rightarrow> None | Some tr \<Rightarrow> tr_latest_event_id tr"
  have c: "cause_inv fco ?cause w"
    using inv by (auto simp: cause_inv_def world_inv_def trail_inv_def split: option.splits)
  have first: "log_step fco trail w w1 \<and> good_cause fco trail i w1"
    if "audit_bridge ev (mf_audit mf) ty m corr metadata ?cause w = (Inr i, w1)" for ty corr metadata i w1
    using audit_bridge_step [OF that inv wired c] inv by (auto simp: good_cause_def log_step_def)
  have g: "good_cause fco trail ?cause w" using inv c by (simp add: good_cause_def)
  show ?thesis
    unfolding forward_normal_text_def Let_def
    by (auto intro!: seqw_step audit_bridge_good [OF g wired] mc_guarded_step [OF _ wired]
        dest: first split: sum.splits)
qed

lemma stop_forwarder_step: "log_step fco trail w (stop_forwarder ev w)"
  unfolding stop_forwarder_def
  by (rule log_step_same) (simp_all add: frame_simps)

end
