(* ===== verification/Tg_Service.thy ===== *)
theory Tg_Service
  imports Tg_Forward
begin

text \<open>
  \<open>TelegramFoundationService\<close> of \<open>telegram/service.py\<close>: how an update is classified, what an
  authorized command or text does, and the polling loop. The updates are the JSON objects that
  \<open>get_updates\<close> returns; which ones, and when the call fails, is the schedule of \<open>run_polls\<close>.
  The documentation of the Bot API gives \<open>update_id\<close> as an integer; a Boolean there, which
  Python would accept as one, counts as no integer here.
\<close>

section \<open>Safe command texts\<close>

definition override_words :: "str list" where
  "override_words = [lit ''tg2mc'', lit ''mc2tg'', lit ''confirm'']"

definition safe_bridge_command_text :: "str \<Rightarrow> str \<Rightarrow> str" where
  "safe_bridge_command_text t pfx =
     (let parts = split_ws t in
      if length parts = 2 \<and> lower (parts ! 1) = lit ''reset'' then pfx @ lit ''bridge reset''
      else if length parts = 3 \<and> lower (parts ! 1) \<in> set override_words
              \<and> lower (parts ! 2) \<in> {lit ''on'', lit ''off''}
      then pfx @ lit ''bridge '' @ lower (parts ! 1) @ [32] @ lower (parts ! 2)
      else pfx @ lit ''bridge'')"

text \<open>
  \<open>_safe_command_text\<close>: of what the user typed, only the name of a registered command and a
  few fixed arguments go on. Taking the first word of an empty text raises.
\<close>

definition safe_command_text :: "tg_config \<Rightarrow> 'h router option \<Rightarrow> str \<Rightarrow> str result" where
  "safe_command_text tc router t =
     (let stripped = strip t; pfx = tc_command_prefix tc in
      case split_ws stripped of
        [] \<Rightarrow> Inl (Exn (OtherError (lit ''IndexError'')) (lit ''list index out of range''))
      | command_token # words \<Rightarrow>
          (let command_name = lower (removeprefix command_token pfx) in
           if (case router of None \<Rightarrow> True | Some ro \<Rightarrow> resolve (ro_registry ro) command_name = None)
           then Inr (pfx @ lit ''unknown'')
           else if command_name = lit ''estado''
           then (case words of
                   w # _ \<Rightarrow> if lower w = lit ''ha'' then Inr (pfx @ lit ''estado ha'')
                            else Inr (pfx @ lit ''estado'')
                 | [] \<Rightarrow> Inr (pfx @ lit ''estado''))
           else if command_name = lit ''bridge'' then Inr (safe_bridge_command_text stripped pfx)
           else Inr (pfx @ command_name)))"

section \<open>Classification\<close>

record tg_decision =
  td_update_id :: int
  td_reason :: str
  td_chat_type :: "str option"
  td_message_type :: "str option"

definition update_id_of :: "jobject \<Rightarrow> int result" where
  "update_id_of update =
     (case jget update (lit ''update_id'') of
        Some (JInt i) \<Rightarrow> Inr i
      | _ \<Rightarrow> raise ValueError ''Telegram update_id is required'')"

definition message_of :: "jobject \<Rightarrow> jobject option" where
  "message_of update =
     (case jget update (lit ''message'') of Some (JObj m) \<Rightarrow> Some m | _ \<Rightarrow> None)"

definition mapping_of :: "json option \<Rightarrow> jobject" where
  "mapping_of v = (case v of Some (JObj m) \<Rightarrow> m | _ \<Rightarrow> [])"

definition id_text :: "json option \<Rightarrow> str option" where
  "id_text v =
     (case v of
        Some (JInt i) \<Rightarrow> Some (dec i)
      | Some (JBool b) \<Rightarrow> Some (py_str (JBool b))
      | Some (JStr s) \<Rightarrow> Some s
      | _ \<Rightarrow> None)"

definition text_or_unsupported :: "jobject \<Rightarrow> str" where
  "text_or_unsupported m = (if jget m (lit ''text'') \<noteq> None then lit ''text'' else lit ''unsupported'')"

definition classify :: "tg_config \<Rightarrow> jobject option \<Rightarrow> str option \<Rightarrow> str option \<Rightarrow> str \<times> str" where
  "classify tc message chat_id user_id =
     (case message of
        None \<Rightarrow> (lit ''multimedia_ignored'', lit ''unsupported'')
      | Some m \<Rightarrow>
          (let chat = mapping_of (jget m (lit ''chat''));
               sender = mapping_of (jget m (lit ''from''));
               chat_type = py_str (jget_or chat (lit ''type'') (JStr []))
           in
           if chat_type = lit ''group'' then (lit ''group_ignored'', text_or_unsupported m)
           else if chat_type = lit ''supergroup'' then (lit ''supergroup_ignored'', text_or_unsupported m)
           else if chat_type = lit ''channel'' then (lit ''channel_ignored'', text_or_unsupported m)
           else if chat_type \<noteq> lit ''private'' then (lit ''chat_not_authorized'', text_or_unsupported m)
           else if chat_id \<noteq> Some (tc_allowed_private_chat_id tc)
           then (lit ''chat_not_authorized'', text_or_unsupported m)
           else if truthy (jget_or sender (lit ''is_bot'') (JBool False))
           then (lit ''bot_message'', text_or_unsupported m)
           else if user_id \<noteq> Some (tc_allowed_user_id tc)
           then (lit ''user_not_authorized'', text_or_unsupported m)
           else
             (case jget_null m (lit ''text'') of
                JNull \<Rightarrow> (lit ''multimedia_ignored'', lit ''unsupported'')
              | JStr t \<Rightarrow>
                  if strip t = [] then (lit ''empty_text'', lit ''text'')
                  else (lit ''foundation_only'', lit ''text'')
              | _ \<Rightarrow> (lit ''empty_text'', lit ''text''))))"

section \<open>The service\<close>

record 'h tg_service =
  ts_config :: tg_config
  ts_key :: audit_key
  ts_audit :: "audit_settings option"
  ts_router :: "'h router option"
  ts_flow :: "flow_config option"
  ts_has_transport :: bool
  ts_backoff_initial :: seconds
  ts_backoff_max :: seconds

definition tg_audit ::
    "env \<Rightarrow> str \<Rightarrow> str \<Rightarrow> tg_refs \<Rightarrow> str option \<Rightarrow> str option \<Rightarrow> world \<Rightarrow> unit result \<times> world" where
  "tg_audit ev event_type reason rf chat_type message_type w =
     guard_telegram_db ev () (on_telegram (tg_audit_event event_type reason rf chat_type message_type) w)"

text \<open>A database that cannot tell counts as having seen the update.\<close>

definition tg_seen_or_store :: "env \<Rightarrow> audit_key \<Rightarrow> int \<Rightarrow> world \<Rightarrow> bool result \<times> world" where
  "tg_seen_or_store ev k update_id w =
     guard_telegram_db ev True
       (on_telegram (seen_or_store_update (ev_crypto ev) k (ev_time ev (w_tick w)) update_id) (tick w))"

text \<open>\<open>_inbound_message\<close>; the two fresh identifiers are taken from consecutive ticks.\<close>

definition tg_inbound :: "env \<Rightarrow> 'h tg_service \<Rightarrow> int \<Rightarrow> str \<Rightarrow> tg_refs \<Rightarrow> world \<Rightarrow> inbound_message result \<times> world" where
  "tg_inbound ev ts update_id t rf w =
     (let n = w_tick w;
          platform_id = (if present (tf_update_ref_hash rf) then the (tf_update_ref_hash rf)
                         else lit ''telegram-update:'' @ dec update_id)
      in
      (bind_result telegram_room (\<lambda>room.
       bind_result (message_identity_from (ev_uuid ev n) telegram_transport (rr_room_id room)
                      (Some platform_id) None) (\<lambda>identity.
       bind_result telegram_sender (\<lambda>sender.
         inbound_post_init (ev_uuid ev (Suc n))
           \<lparr>im_transport = telegram_transport, im_message_id = Some platform_id,
            im_sender_id = telegram_sender_id, im_channel_index = tc_channel_index (ts_config ts),
            im_text = t, im_received_at = ev_now ev n,
            im_metadata = JObj [(lit ''message_type'', JStr (lit ''text'')),
                                (lit ''chat_type'', JStr (lit ''private''))],
            im_schema_version = normalized_message_schema_version, im_source_room = Some room,
            im_reply_target = Some room, im_sender = Some sender, im_message = Some identity\<rparr>))),
       tick (tick w)))"

text \<open>
  \<open>_message_received\<close>: SQLite errors and \<open>RuntimeError\<close>s degrade the audit, others go on.
\<close>

definition tg_message_received ::
    "env \<Rightarrow> 'h tg_service \<Rightarrow> inbound_message \<Rightarrow> world \<Rightarrow> audit_trail option result \<times> world" where
  "tg_message_received ev ts m w =
     (case ts_flow ts of
        None \<Rightarrow> (Inr None, w)
      | Some fc \<Rightarrow>
          (case message_received fc (ev_uuid ev (w_tick w)) (ev_now ev (w_tick w)) m (w_audit w) of
             (r, st) \<Rightarrow>
               (let w' = tick (w\<lparr>w_audit := st\<rparr>);
                    degraded = bind_result (degraded_trail m) (\<lambda>tr. Inr (Some tr))
                in
                case r of
                  Inr tr \<Rightarrow> (Inr (Some tr), w')
                | Inl e \<Rightarrow>
                    if is_sqlite_error e
                    then (degraded,
                          on_health ev (\<lambda>now. set_audit_db_health now (lit ''degraded'')
                                          (Some (sqlite_reason e))) w')
                    else if is_runtime_error e then (degraded, w')
                    else (Inl e, w'))))"

text \<open>
  A stage called without protection: \<open>_send_command_response\<close> lets what it raises go on.
\<close>

definition unprotected ::
    "env \<Rightarrow> 'h tg_service
       \<Rightarrow> (flow_config \<Rightarrow> str \<Rightarrow> instant \<Rightarrow> audit_trail \<Rightarrow> audit_state \<Rightarrow> audit_trail result \<times> audit_state)
       \<Rightarrow> audit_trail option \<Rightarrow> world \<Rightarrow> unit result \<times> world" where
  "unprotected ev ts stage trail w =
     (case (ts_flow ts, trail) of
        (Some fc, Some tr) \<Rightarrow>
          (case stage fc (ev_uuid ev (w_tick w)) (ev_now ev (w_tick w)) tr (w_audit w) of
             (r, st) \<Rightarrow> (bind_result r (\<lambda>_. Inr ()), tick (w\<lparr>w_audit := st\<rparr>)))
      | _ \<Rightarrow> (Inr (), w))"

definition send_command_response ::
    "env \<Rightarrow> 'h tg_service \<Rightarrow> str \<Rightarrow> audit_trail option \<Rightarrow> inbound_message \<Rightarrow> world
       \<Rightarrow> unit result \<times> world" where
  "send_command_response ev ts t trail m w =
     (case make_outbound telegram_sender_id (tc_channel_index (ts_config ts)) (trim_telegram_response t)
             (im_message_id m) (im_reply_target m) (JObj []) of
        Inl e \<Rightarrow> (Inl e, w)
      | Inr out \<Rightarrow>
          (case telegram_send (tc_allowed_private_chat_id (ts_config ts)) (om_text out) w of
             (Inr _, w1) \<Rightarrow>
               unprotected ev ts (\<lambda>fc uuid now tr. response_sent fc uuid now tr out) trail w1
           | (Inl e, w1) \<Rightarrow>
               if \<not> is_exception e then (Inl e, w1)
               else
                 seqw (unprotected ev ts (\<lambda>fc uuid now tr. response_failed fc uuid now tr) trail w1)
                   (\<lambda>_ w2.
                      (Inl e,
                       if is_rate_limit e
                       then sleep_or_stop (w_stopping w2) (min (retry_after e) (ts_backoff_max ts)) w2
                       else w2))))"

text \<open>\<open>_process_command_update\<close>.\<close>

definition process_command_update ::
    "'h runner \<Rightarrow> env \<Rightarrow> 'h tg_service \<Rightarrow> int \<Rightarrow> jobject \<Rightarrow> tg_refs \<Rightarrow> str option \<Rightarrow> world
       \<Rightarrow> tg_decision result \<times> world" where
  "process_command_update run ev ts update_id message rf chat_type w =
     (case safe_command_text (ts_config ts) (ts_router ts)
             (py_str (jget_or message (lit ''text'') (JStr []))) of
        Inl e \<Rightarrow> (Inl e, w)
      | Inr t \<Rightarrow>
          seqw (tg_inbound ev ts update_id t rf w) (\<lambda>m w.
          seqw (tg_message_received ev ts m w) (\<lambda>trail w.
            (let (r, trail', w1) =
                   (case ts_router ts of
                      None \<Rightarrow> (Inr (Some (lit ''No autorizado.'')), trail, w)
                    | Some ro \<Rightarrow> handle run ev ro m trail w);
                 (sent, w2) =
                   seqw (r, w1) (\<lambda>response w.
                     case response of
                       None \<Rightarrow> (Inr (), w)
                     | Some response \<Rightarrow> send_command_response ev ts response trail' m w);
                 caught = (case sent of
                             Inr _ \<Rightarrow> Inr ()
                           | Inl e \<Rightarrow> if \<not> is_conflict e \<and> is_network_error e then Inr () else Inl e)
             in
             seqw (caught, w2) (\<lambda>_ w.
             seqw (tg_audit ev (lit ''telegram.update.accepted'') (lit ''command'') rf chat_type
                     (Some (lit ''text'')) w) (\<lambda>_ w.
               (Inr \<lparr>td_update_id = update_id, td_reason = lit ''command'', td_chat_type = chat_type,
                     td_message_type = Some (lit ''text'')\<rparr>, w)))))))"

text \<open>\<open>_send_forward_confirmation\<close>.\<close>

definition send_forward_confirmation :: "'h tg_service \<Rightarrow> str \<Rightarrow> world \<Rightarrow> unit result \<times> world" where
  "send_forward_confirmation ts t w =
     (case telegram_send (tc_allowed_private_chat_id (ts_config ts)) t w of
        (Inr _, w1) \<Rightarrow> (Inr (), w1)
      | (Inl e, w1) \<Rightarrow>
          if is_rate_limit e
          then (Inr (), sleep_or_stop (w_stopping w1) (min (retry_after e) (ts_backoff_max ts)) w1)
          else if is_conflict e \<or> is_network_error e then (Inr (), w1)
          else (Inl e, w1))"

definition tg_metadata :: "jobject \<Rightarrow> json" where
  "tg_metadata items =
     JObj ([(lit ''direction'', JStr (lit ''telegram_to_meshcore'')),
            (lit ''source_transport'', JStr telegram_transport),
            (lit ''destination_transport'', JStr meshcore_transport_name)] @ items)"

definition inbound_correlation :: "inbound_message \<Rightarrow> str" where
  "inbound_correlation m = (case im_message m of Some i \<Rightarrow> mi_correlation_id i | None \<Rightarrow> [])"

definition tg_create_record ::
    "env \<Rightarrow> 'h tg_service \<Rightarrow> inbound_message \<Rightarrow> str \<Rightarrow> int \<Rightarrow> str \<Rightarrow> world
       \<Rightarrow> bridge_record option result \<times> world" where
  "tg_create_record ev ts m content size_bytes st w =
     (case meshcore_room (tc_channel_index (ts_config ts)) of
        Inl e \<Rightarrow> (Inl e, w)
      | Inr room \<Rightarrow>
          safe_create_bridge_record ev (ts_key ts) (inbound_correlation m) meshcore_transport_name
            (rr_room_id room) content size_bytes st w)"

text \<open>
  The exits of \<open>_process_forward_update\<close> that do not deliver: the event, the pending record if
  there is one, the audit row, the confirmation if there is one, and the decision.
\<close>

definition forward_exit ::
    "env \<Rightarrow> 'h tg_service \<Rightarrow> int \<Rightarrow> inbound_message \<Rightarrow> tg_refs \<Rightarrow> str option
       \<Rightarrow> event_type \<times> jobject \<Rightarrow> str option \<Rightarrow> (str \<times> int \<times> str) option \<Rightarrow> str \<Rightarrow> str option \<Rightarrow> world
       \<Rightarrow> tg_decision result \<times> world" where
  "forward_exit ev ts update_id m rf chat_type event cause pending reason confirmation w =
     seqw (audit_bridge ev (ts_audit ts) (fst event) m (inbound_correlation m)
             (tg_metadata (snd event)) cause w) (\<lambda>_ w.
     seqw (case pending of
             None \<Rightarrow> (Inr None, w)
           | Some (content, size_bytes, st) \<Rightarrow> tg_create_record ev ts m content size_bytes st w) (\<lambda>_ w.
     seqw (tg_audit ev (lit ''telegram.update.ignored'') reason rf chat_type (Some (lit ''text'')) w) (\<lambda>_ w.
     seqw (case confirmation of
             None \<Rightarrow> (Inr (), w)
           | Some t \<Rightarrow> send_forward_confirmation ts t w) (\<lambda>_ w.
       (Inr \<lparr>td_update_id = update_id, td_reason = reason, td_chat_type = chat_type,
             td_message_type = Some (lit ''text'')\<rparr>, w)))))"

definition size_metadata :: "int \<Rightarrow> render_result \<Rightarrow> jobject" where
  "size_metadata size_bytes rendered =
     [(lit ''size_bytes'', JInt size_bytes), (lit ''truncated'', JBool (fr_truncated rendered))]"

definition forward_success_text :: str where
  "forward_success_text = lit ''Enviado a MeshCore.''"

definition forward_failure_text :: str where
  "forward_failure_text = lit ''No se pudo enviar a MeshCore.''"

definition forward_disabled_text :: str where
  "forward_disabled_text = lit ''Telegram -> MeshCore est'' @ [225] @ lit '' desactivado.''"

text \<open>The delivery: the failure of the transport, then the success path.\<close>

definition tg_deliver ::
    "env \<Rightarrow> 'h tg_service \<Rightarrow> int \<Rightarrow> inbound_message \<Rightarrow> tg_refs \<Rightarrow> str option \<Rightarrow> render_result
       \<Rightarrow> str \<Rightarrow> int \<Rightarrow> str option \<Rightarrow> world \<Rightarrow> tg_decision result \<times> world" where
  "tg_deliver ev ts update_id m rf chat_type rendered t size_bytes cause w =
     (let tc = ts_config ts;
          failed = (\<lambda>reason w.
            forward_exit ev ts update_id m rf chat_type
              (BRIDGE_MESSAGE_FAILED,
               [(lit ''result'', JStr (lit ''failed'')), (lit ''reason'', JStr reason)]
                 @ size_metadata size_bytes rendered)
              cause (Some (t, size_bytes, lit ''failed'')) (lit ''failed'') (Some forward_failure_text)
              (on_health ev (\<lambda>now. record_tg_to_mc now False (lit ''transport_error'')) w))
      in
      if \<not> ts_has_transport ts then failed (lit ''transport_unavailable'') w
      else
        (case bind_result (meshcore_room (tc_channel_index tc)) (\<lambda>room.
                make_outbound (rr_room_id room) (tc_channel_index tc) t (im_message_id m) (Some room)
                  (JObj [(lit ''source_transport'', JStr telegram_transport)])) of
           Inl e \<Rightarrow> (Inl e, w)
         | Inr out \<Rightarrow>
             (case transport_send out w of
                (Inl e, w1) \<Rightarrow>
                  if is_exception e then failed (lit ''transport_error'') w1 else (Inl e, w1)
              | (Inr _, w1) \<Rightarrow>
                  seqw (audit_bridge ev (ts_audit ts) BRIDGE_MESSAGE_FORWARDED m (inbound_correlation m)
                          (tg_metadata ((lit ''result'', JStr (lit ''accepted_by_meshcore_transport''))
                                        # size_metadata size_bytes rendered)) cause w1) (\<lambda>_ w.
                  seqw (tg_create_record ev ts m t size_bytes (lit ''accepted_by_meshcore_transport'') w) (\<lambda>_ w.
                  seqw (tg_audit ev (lit ''telegram.update.accepted'') (lit ''forwarded'') rf chat_type
                          (Some (lit ''text''))
                          (on_health ev (\<lambda>now. record_tg_to_mc now True (lit ''none'')) w)) (\<lambda>_ w.
                  seqw (if effective_confirmation tc w
                        then send_forward_confirmation ts forward_success_text w
                        else (Inr (), w)) (\<lambda>_ w.
                    (Inr \<lparr>td_update_id = update_id, td_reason = lit ''forwarded'',
                          td_chat_type = chat_type, td_message_type = Some (lit ''text'')\<rparr>, w))))))))"

definition process_forward_update ::
    "env \<Rightarrow> 'h tg_service \<Rightarrow> int \<Rightarrow> tg_refs \<Rightarrow> str option \<Rightarrow> str \<Rightarrow> world
       \<Rightarrow> tg_decision result \<times> world" where
  "process_forward_update ev ts update_id rf chat_type t w =
     seqw (tg_inbound ev ts update_id (lit ''[telegram-text]'') rf w) (\<lambda>m w.
       (let tc = ts_config ts in
        case render_meshcore_forward_message t (tc_message_prefix tc) (tc_max_meshcore_length tc) of
          Inl e \<Rightarrow> (Inl e, w)
        | Inr rendered \<Rightarrow>
            (case encode (tc_message_prefix tc @ strip t) of
               Inl e \<Rightarrow> (Inl e, w)
             | Inr raw \<Rightarrow>
                 (let size_bytes = (case fr_text rendered of None \<Rightarrow> 0 | Some x \<Rightarrow> int (length (utf8 x)));
                      ignored = (\<lambda>reason size. (BRIDGE_MESSAGE_IGNORED,
                                   (lit ''reason'', JStr reason) # size_metadata size rendered))
                  in
                  seqw (audit_bridge ev (ts_audit ts) BRIDGE_MESSAGE_RECEIVED m (inbound_correlation m)
                          (tg_metadata [(lit ''size_bytes'', JInt (int (length raw)))]) None w) (\<lambda>cause w.
                    if \<not> effective_tg_to_mc tc w
                    then forward_exit ev ts update_id m rf chat_type
                           (ignored (lit ''forward_disabled'') size_bytes) cause None
                           (lit ''forward_disabled'') (Some forward_disabled_text) w
                    else
                      (case fr_text rendered of
                         None \<Rightarrow>
                           forward_exit ev ts update_id m rf chat_type (ignored (lit ''dropped'') 0) cause
                             (Some ([], 0, lit ''dropped'')) (lit ''dropped'') None w
                       | Some x \<Rightarrow>
                           (case allow (ev_mono ev (w_tick w))
                                   (telegram_sender_id @ [58] @ telegram_room_id) (w_tg_limiter w) of
                              (ok, rl) \<Rightarrow>
                                (let w = tick (w\<lparr>w_tg_limiter := rl\<rparr>) in
                                 if \<not> ok
                                 then forward_exit ev ts update_id m rf chat_type
                                        (ignored (lit ''rate_limited'') size_bytes) cause
                                        (Some (x, size_bytes, lit ''dropped'')) (lit ''rate_limited'')
                                        (Some (lit ''Rate limit.'')) w
                                 else tg_deliver ev ts update_id m rf chat_type rendered x size_bytes
                                        cause w))))))))"

section \<open>Updates\<close>

definition decide ::
    "env \<Rightarrow> int \<Rightarrow> str \<Rightarrow> str \<Rightarrow> tg_refs \<Rightarrow> str option \<Rightarrow> str option \<Rightarrow> world
       \<Rightarrow> tg_decision result \<times> world" where
  "decide ev update_id event_type reason rf chat_type message_type w =
     seqw (tg_audit ev event_type reason rf chat_type message_type w) (\<lambda>_ w.
       (Inr \<lparr>td_update_id = update_id, td_reason = reason, td_chat_type = chat_type,
             td_message_type = message_type\<rparr>, w))"

definition process_update ::
    "'h runner \<Rightarrow> env \<Rightarrow> 'h tg_service \<Rightarrow> jobject \<Rightarrow> world \<Rightarrow> tg_decision result \<times> world" where
  "process_update run ev ts update w =
     (case update_id_of update of
        Inl e \<Rightarrow> (Inl e, w)
      | Inr update_id \<Rightarrow>
          (case jget update (lit ''edited_message'') of
             Some (JObj _) \<Rightarrow>
               (case refs (ev_crypto ev) (ts_key ts) (Some update_id) None None of
                  Inl e \<Rightarrow> (Inl e, w)
                | Inr rf \<Rightarrow>
                    seqw (tg_seen_or_store ev (ts_key ts) update_id w) (\<lambda>seen w.
                      if seen
                      then decide ev update_id (lit ''telegram.update.ignored'') (lit ''duplicate'') rf None None w
                      else decide ev update_id (lit ''telegram.update.ignored'') (lit ''edited_message'') rf
                             None (Some (lit ''edited'')) w))
           | _ \<Rightarrow>
               (let message = message_of update;
                    chat = (case message of None \<Rightarrow> [] | Some m \<Rightarrow> mapping_of (jget m (lit ''chat'')));
                    sender = (case message of None \<Rightarrow> [] | Some m \<Rightarrow> mapping_of (jget m (lit ''from'')));
                    chat_id = id_text (jget chat (lit ''id''));
                    user_id = id_text (jget sender (lit ''id''));
                    chat_type = (if chat = [] then None
                                 else Some (py_str (jget_or chat (lit ''type'') (JStr []))))
                in
                case refs (ev_crypto ev) (ts_key ts) (Some update_id) chat_id user_id of
                  Inl e \<Rightarrow> (Inl e, w)
                | Inr rf \<Rightarrow>
                    seqw (tg_seen_or_store ev (ts_key ts) update_id w) (\<lambda>seen w.
                      if seen
                      then decide ev update_id (lit ''telegram.update.ignored'') (lit ''duplicate'') rf chat_type None w
                      else
                        (case classify (ts_config ts) message chat_id user_id of
                           (reason, message_type) \<Rightarrow>
                             (case (message, Option.bind message (\<lambda>m. jget m (lit ''text''))) of
                                (Some m, Some (JStr t)) \<Rightarrow>
                                  if reason = lit ''foundation_only''
                                  then
                                    (if starts_with (strip t) (tc_command_prefix (ts_config ts))
                                     then process_command_update run ev ts update_id m rf chat_type w
                                     else process_forward_update ev ts update_id rf chat_type t w)
                                  else decide ev update_id (lit ''telegram.update.ignored'') reason rf
                                         chat_type (Some message_type) w
                              | _ \<Rightarrow>
                                  decide ev update_id
                                    (if reason = lit ''foundation_only'' then lit ''telegram.update.accepted''
                                     else lit ''telegram.update.ignored'')
                                    reason rf chat_type (Some message_type) w))))))"

section \<open>Polling\<close>

text \<open>What happens to the service from outside: \<open>get_updates\<close> answers, or \<open>stop\<close> is called.\<close>

datatype poll_event = Answer "jobject list result" | StopRequested

fun process_updates ::
    "'h runner \<Rightarrow> env \<Rightarrow> 'h tg_service \<Rightarrow> jobject list \<Rightarrow> world \<Rightarrow> tg_decision list result \<times> world" where
  "process_updates run ev ts [] w = (Inr [], w)"
| "process_updates run ev ts (u # us) w =
     seqw (process_update run ev ts u w) (\<lambda>d w.
     seqw (guard_telegram_db ev () (on_telegram (persist_last_update_id (td_update_id d)) w)) (\<lambda>_ w.
     seqw (process_updates run ev ts us w) (\<lambda>ds w. (Inr (d # ds), w))))"

text \<open>\<open>poll_once\<close>, given what \<open>get_updates\<close> answers; the offset it is asked with is logged.\<close>

definition poll_once ::
    "'h runner \<Rightarrow> env \<Rightarrow> 'h tg_service \<Rightarrow> jobject list result \<Rightarrow> world \<Rightarrow> tg_decision list result \<times> world" where
  "poll_once run ev ts answer w =
     seqw (on_telegram last_update_id w) (\<lambda>last w.
       (let offset = (case last of None \<Rightarrow> None | Some i \<Rightarrow> Some (i + 1));
            w = w\<lparr>w_tg_offsets := w_tg_offsets w @ [offset]\<rparr>
        in seqw (answer, w) (\<lambda>updates w. process_updates run ev ts updates w)))"

definition initialize :: "unit result \<Rightarrow> world \<Rightarrow> unit result \<times> world" where
  "initialize dropped w =
     seqw (on_telegram is_activated w) (\<lambda>activated w.
       if activated then (Inr (), w)
       else
         seqw (dropped, w\<lparr>w_webhook_drops := Suc (w_webhook_drops w)\<rparr>) (\<lambda>_ w.
           on_telegram mark_activated w))"

definition polling_state :: "env \<Rightarrow> string \<Rightarrow> world \<Rightarrow> world" where
  "polling_state ev state = on_health ev (\<lambda>now. set_telegram_polling now (lit state))"

definition polling_failure :: "env \<Rightarrow> string \<Rightarrow> world \<Rightarrow> world" where
  "polling_failure ev reason w =
     on_health ev (\<lambda>now. record_failure now (lit reason)) (polling_state ev ''degraded'' w)"

definition stop_service :: "env \<Rightarrow> world \<Rightarrow> world" where
  "stop_service ev w = polling_state ev ''disconnected'' (w\<lparr>w_stopping := True\<rparr>)"

text \<open>
  The loop of \<open>run\<close>, on the events of a finite stretch of time; \<open>None\<close> is a loop that was stopped
  or is still waiting for the next event.
\<close>

fun poll_loop ::
    "'h runner \<Rightarrow> env \<Rightarrow> 'h tg_service \<Rightarrow> seconds \<Rightarrow> poll_event list \<Rightarrow> world \<Rightarrow> exn option \<times> world" where
  "poll_loop run ev ts backoff [] w = (None, w)"
| "poll_loop run ev ts backoff (StopRequested # es) w =
     poll_loop run ev ts backoff es (stop_service ev w)"
| "poll_loop run ev ts backoff (Answer a # es) w =
     (if w_stopping w then (None, w)
      else
        (case poll_once run ev ts a w of
           (Inr _, w1) \<Rightarrow>
             poll_loop run ev ts (ts_backoff_initial ts) es (polling_state ev ''connected'' w1)
         | (Inl e, w1) \<Rightarrow>
             if is_rate_limit e
             then
               (let w2 = polling_failure ev ''rate_limited'' w1 in
                poll_loop run ev ts backoff es
                  (sleep_or_stop (w_stopping w2) (min (retry_after e) (ts_backoff_max ts)) w2))
             else if is_conflict e then (Some e, polling_failure ev ''consumer_conflict'' w1)
             else if is_network_error e
             then
               (let w2 = polling_failure ev ''transport_error'' w1 in
                poll_loop run ev ts (min (backoff * 2) (ts_backoff_max ts)) es
                  (sleep_or_stop (w_stopping w2) backoff w2))
             else (Some e, w1)))"

definition run_service ::
    "'h runner \<Rightarrow> env \<Rightarrow> 'h tg_service \<Rightarrow> unit result \<Rightarrow> poll_event list \<Rightarrow> world \<Rightarrow> exn option \<times> world" where
  "run_service run ev ts dropped es w =
     (case initialize dropped (polling_state ev ''disconnected'' w) of
        (Inl e, w1) \<Rightarrow> (Some e, w1)
      | (Inr _, w1) \<Rightarrow> poll_loop run ev ts (ts_backoff_initial ts) es w1)"

end
