(* ===== verification/HA_State.thy ===== *)
theory HA_State
  imports PyJson
begin

text \<open>
  \<open>adapters/homeassistant_state.py\<close>: the states of configured entities as the status commands
  see them. What Home Assistant answers is the parameter \<open>ha_answers\<close>: the bulk answer when
  the client has that method, the answer for one entity, and whether reading them one by one
  exceeds the total time. The semaphore only bounds how many run at once.
\<close>

record ha_answers =
  ha_bulk :: "json result option"
  ha_entity :: "str \<Rightarrow> jobject result"
  ha_total_timeout :: bool

record entity_state =
  es_entity_id :: str
  es_status :: str
  es_state :: "str option"
  es_friendly_name :: "str option"
  es_unit :: "str option"
  es_last_changed :: "str option"

definition bare_state :: "str \<Rightarrow> string \<Rightarrow> entity_state" where
  "bare_state entity_id st =
     \<lparr>es_entity_id = entity_id, es_status = lit st, es_state = None, es_friendly_name = None,
      es_unit = None, es_last_changed = None\<rparr>"

definition available :: "entity_state \<Rightarrow> bool" where
  "available s = (es_status s = lit ''ok'')"

definition has_control :: "str \<Rightarrow> bool" where
  "has_control t = list_ex (\<lambda>c. c < 32 \<or> c = 127) t"

definition safe_label :: "str \<Rightarrow> str option" where
  "safe_label v =
     (let label = join (lit '' '') (split_ws (strip v)) in
      if label = [] \<or> has_control label then None else Some (take 32 label))"

definition is_safe_short :: "str \<Rightarrow> bool" where
  "is_safe_short v \<longleftrightarrow> v \<noteq> [] \<and> length v \<le> 12 \<and> \<not> has_control v"

definition opt_str :: "json option \<Rightarrow> str option" where
  "opt_str v = (case v of Some (JStr s) \<Rightarrow> Some s | _ \<Rightarrow> None)"

definition parse_state :: "str \<Rightarrow> jobject \<Rightarrow> entity_state" where
  "parse_state entity_id raw =
     (let v = jget_or raw (lit ''state'') (JStr []);
          state = (if truthy v then py_str v else []);
          st = (if state = lit ''unavailable'' then lit ''unavailable''
                else if state = lit ''unknown'' \<or> state = [] then lit ''unknown''
                else lit ''ok'');
          attributes = (case jget_or raw (lit ''attributes'') (JObj []) of JObj a \<Rightarrow> a | _ \<Rightarrow> [])
      in
      \<lparr>es_entity_id = entity_id, es_status = st, es_state = Some state,
       es_friendly_name = Option.bind (opt_str (jget attributes (lit ''friendly_name''))) safe_label,
       es_unit = (case opt_str (jget attributes (lit ''unit_of_measurement'')) of
                    Some u \<Rightarrow> if is_safe_short u then Some u else None
                  | None \<Rightarrow> None),
       es_last_changed = opt_str (jget raw (lit ''last_changed''))\<rparr>)"

definition read_entity :: "ha_answers \<Rightarrow> str \<Rightarrow> entity_state result" where
  "read_entity ha entity_id =
     (if entity_id = [] then Inr (bare_state [] ''not_configured'')
      else
        (case ha_entity ha entity_id of
           Inr raw \<Rightarrow> Inr (parse_state entity_id raw)
         | Inl e \<Rightarrow> if is_exception e then Inr (bare_state entity_id ''transport_error'') else Inl e))"

definition unreadable :: "str list \<Rightarrow> (str \<times> entity_state) list" where
  "unreadable ids = map (\<lambda>i. (i, bare_state i ''transport_error'')) ids"

text \<open>The dictionary of the raw states by their identifiers; a later one replaces an earlier.\<close>

definition raw_by_id :: "json list \<Rightarrow> (str \<times> jobject) list" where
  "raw_by_id raws =
     rev (concat (map (\<lambda>raw.
       case raw of
         JObj r \<Rightarrow> (case jget r (lit ''entity_id'') of
                       Some v \<Rightarrow> if truthy v then [(py_str v, r)] else []
                     | None \<Rightarrow> [])
       | _ \<Rightarrow> []) raws))"

definition get_states_bulk ::
    "ha_answers \<Rightarrow> str list \<Rightarrow> (str \<times> entity_state) list option result" where
  "get_states_bulk ha ids =
     (case ha_bulk ha of
        None \<Rightarrow> Inr None
      | Some (Inl e) \<Rightarrow> if is_exception e then Inr (Some (unreadable ids)) else Inl e
      | Some (Inr (JArr raws)) \<Rightarrow>
          Inr (Some (map (\<lambda>i. (i, case map_of (raw_by_id raws) i of
                                     Some r \<Rightarrow> parse_state i r
                                   | None \<Rightarrow> bare_state i ''unknown'')) ids))
      | Some (Inr _) \<Rightarrow> Inr (Some (unreadable ids)))"

fun read_entities :: "ha_answers \<Rightarrow> str list \<Rightarrow> (str \<times> entity_state) list result" where
  "read_entities ha [] = Inr []"
| "read_entities ha (i # ids) =
     bind_result (read_entity ha i) (\<lambda>s.
     bind_result (read_entities ha ids) (\<lambda>rest. Inr ((i, s) # rest)))"

text \<open>Duplicates are asked for once, in the order of their first occurrence.\<close>

definition unique_ids :: "str list \<Rightarrow> str list" where
  "unique_ids ids = rev (remdups (rev (filter (\<lambda>i. i \<noteq> []) ids)))"

definition get_states :: "ha_answers \<Rightarrow> str list \<Rightarrow> (str \<times> entity_state) list result" where
  "get_states ha ids =
     (let unique = unique_ids ids in
      bind_result (get_states_bulk ha unique) (\<lambda>bulk.
        case bulk of
          Some states \<Rightarrow> Inr states
        | None \<Rightarrow>
            if ha_total_timeout ha then Inr (unreadable unique)
            else read_entities ha unique))"

section \<open>Facts\<close>

lemma read_entities_keys: "read_entities ha ids = Inr states \<Longrightarrow> map fst states = ids"
  by (induction ids arbitrary: states) (auto simp: bind_result_Inr_iff)

text \<open>Every entity asked for gets exactly one state, whatever Home Assistant answers.\<close>

lemma get_states_keys:
  assumes "get_states ha ids = Inr states"
  shows "map fst states = unique_ids ids" "distinct (map fst states)"
proof -
  show k: "map fst states = unique_ids ids"
    using assms read_entities_keys
    by (auto simp: get_states_def get_states_bulk_def Let_def bind_result_Inr_iff unreadable_def o_def
        split: option.splits if_splits sum.splits json.splits)
  show "distinct (map fst states)" unfolding k by (simp add: unique_ids_def)
qed

lemma set_unique_ids [simp]: "set (unique_ids ids) = set ids - {[]}"
  by (auto simp: unique_ids_def)

lemma parse_state_label:
  assumes "es_friendly_name (parse_state i raw) = Some n"
  shows "n \<noteq> [] \<and> length n \<le> 32 \<and> \<not> has_control n"
proof -
  from assms obtain v where v: "safe_label v = Some n"
    by (auto simp: parse_state_def Let_def bind_eq_Some_conv)
  then show ?thesis
    by (auto simp: safe_label_def Let_def has_control_def list_ex_iff split: if_splits dest: in_set_takeD)
qed

text \<open>
  Every configured entity gets exactly one state, whatever Home Assistant answers; empty
  identifiers get none.
\<close>

theorem states_of_every_entity:
  assumes "get_states ha ids = Inr states"
  shows "distinct (map fst states) \<and> set (map fst states) = set ids - {[]}"
proof -
  from get_states_keys [OF assms] show ?thesis by simp
qed

theorem states_of_every_entity_witness:
  "get_states \<lparr>ha_bulk = Some (Inr JNull), ha_entity = (\<lambda>_. Inl (Exn TimeoutError [])), ha_total_timeout = False\<rparr>
     [lit ''a'', [], lit ''b'', lit ''a''] = Inr (unreadable (unique_ids [lit ''a'', [], lit ''b'', lit ''a'']))
   \<and> set (map fst (unreadable (unique_ids [lit ''a'', [], lit ''b'', lit ''a'']))) = {lit ''a'', lit ''b''}"
proof -
  have "get_states \<lparr>ha_bulk = Some (Inr JNull), ha_entity = (\<lambda>_. Inl (Exn TimeoutError [])), ha_total_timeout = False\<rparr>
     [lit ''a'', [], lit ''b'', lit ''a''] = Inr (unreadable (unique_ids [lit ''a'', [], lit ''b'', lit ''a'']))"
    by (simp add: get_states_def get_states_bulk_def)
  from this states_of_every_entity [OF this] show ?thesis by (auto simp: lit_def)
qed

end
