(* ===== verification/Home_Status.thy ===== *)
theory Home_Status
  imports HA_State Config Router Byte_Fit
begin

text \<open>
  The read-only status commands: \<open>plugins/home_status.py\<close> with the handlers of
  \<open>plugins/house.py\<close>, \<open>plugins/servers.py\<close> and \<open>plugins/network.py\<close>. A handler reads the
  configured entities, notes how many answered in the audit metadata, and renders; it is a
  function of what it reads, so it changes nothing but the metadata.
\<close>

section \<open>Services and readings\<close>

record home_services =
  hv_config :: app_config
  hv_reader :: "ha_answers option"
  hv_snapshot :: "health_snapshot option"
  hv_now :: instant
  hv_short :: bool
  hv_max_bytes :: int

definition set_audit_counts :: "int \<Rightarrow> int \<Rightarrow> str \<Rightarrow> jobject \<Rightarrow> jobject" where
  "set_audit_counts queried answered reason metadata =
     AList.update (lit ''safe_failure_reason'') (JStr reason)
       (AList.update (lit ''entities_available'') (JInt answered)
         (AList.update (lit ''entities_queried'') (JInt queried) metadata))"

type_synonym states = "(str \<times> entity_state) list"

definition configured_ids :: "str list \<Rightarrow> str list" where
  "configured_ids ids = filter (\<lambda>i. i \<noteq> []) ids"

definition read_configured :: "ha_answers option \<Rightarrow> str list \<Rightarrow> states result" where
  "read_configured reader entity_ids =
     (let ids = configured_ids entity_ids in
      case reader of
        None \<Rightarrow> Inr []
      | Some ha \<Rightarrow> if ids = [] then Inr [] else get_states ha ids)"

definition state_of :: "states \<Rightarrow> str \<Rightarrow> entity_state option" where
  "state_of states i = map_of states i"

definition states_of :: "states \<Rightarrow> str list \<Rightarrow> entity_state list" where
  "states_of states ids = concat (map (\<lambda>i. opt_list (map_of states i)) ids)"

definition available_count :: "entity_state list \<Rightarrow> int" where
  "available_count ss = int (length (filter available ss))"

definition failure_reason :: "entity_state list \<Rightarrow> bool \<Rightarrow> str" where
  "failure_reason ss configured =
     (if \<not> configured then lit ''not_configured''
      else if list_ex (\<lambda>s. es_status s = lit ''transport_error'') ss then lit ''transport_error''
      else if ss \<noteq> [] \<and> \<not> list_ex available ss then lit ''unavailable''
      else lit ''none'')"

text \<open>The read that every handler starts with, and the counts it leaves.\<close>

definition counted ::
    "home_services \<Rightarrow> str list \<Rightarrow> bool \<Rightarrow> jobject \<Rightarrow> (states \<Rightarrow> str result) \<Rightarrow> str result \<times> jobject" where
  "counted hv ids configured metadata render =
     (case read_configured (hv_reader hv) ids of
        Inl e \<Rightarrow> (Inl e, metadata)
      | Inr states \<Rightarrow>
          (render states,
           set_audit_counts (int (length (configured_ids ids))) (available_count (map snd states))
             (failure_reason (map snd states) configured) metadata))"

section \<open>Rendering\<close>

definition alarm_labels :: "(str \<times> str \<times> str) list" where
  "alarm_labels =
     map (\<lambda>(k, l, s). (lit k, lit l, lit s))
       [(''disarmed'', ''desarmada'', ''dis''), (''armed_home'', ''armada en casa'', ''home''),
        (''armed_away'', ''armada fuera'', ''away''), (''armed_night'', ''armada noche'', ''night''),
        (''armed_vacation'', ''armada vacaciones'', ''vac''),
        (''armed_custom_bypass'', ''armada parcial'', ''part''),
        (''arming'', ''armandose'', ''arming''), (''disarming'', ''desarmandose'', ''disarm''),
        (''pending'', ''pendiente'', ''pend''), (''triggered'', ''ALERTA ACTIVADA'', ''TRIGGERED''),
        (''unavailable'', ''no disponible'', ''N/D''), (''unknown'', ''N/D'', ''N/D'')]"

definition not_available :: str where
  "not_available = lit ''N/D''"

definition alarm_label :: "entity_state option \<Rightarrow> bool \<Rightarrow> str" where
  "alarm_label state short =
     (case state of
        None \<Rightarrow> not_available
      | Some s \<Rightarrow>
          (let v = (if es_status s = lit ''ok'' then es_state s else Some (es_status s));
               key = (case v of None \<Rightarrow> lit ''unknown'' | Some k \<Rightarrow> if k = [] then lit ''unknown'' else k)
           in
           case map_of alarm_labels key of
             None \<Rightarrow> not_available
           | Some (long, brief) \<Rightarrow> if short then brief else long))"

definition binary_online :: "entity_state option \<Rightarrow> str" where
  "binary_online state =
     (case state of
        None \<Rightarrow> not_available
      | Some s \<Rightarrow>
          if es_status s = lit ''unavailable'' then lit ''unavailable''
          else if es_status s \<noteq> lit ''ok'' then lit ''unknown''
          else if es_state s = Some (lit ''on'') then lit ''online''
          else if es_state s = Some (lit ''off'') then lit ''offline''
          else lit ''unknown'')"

definition binary_on_off :: "entity_state option \<Rightarrow> str" where
  "binary_on_off state =
     (case state of
        None \<Rightarrow> not_available
      | Some s \<Rightarrow>
          if es_status s \<noteq> lit ''ok'' then not_available
          else if es_state s = Some (lit ''on'') then lit ''on''
          else if es_state s = Some (lit ''off'') then lit ''off''
          else not_available)"

definition is_on :: "entity_state \<Rightarrow> bool" where
  "is_on s \<longleftrightarrow> available s \<and> es_state s = Some (lit ''on'')"

definition count_on :: "entity_state list \<Rightarrow> int" where
  "count_on ss = int (length (filter is_on ss))"

definition names_on :: "string \<Rightarrow> entity_state list \<Rightarrow> str list" where
  "names_on kind ss =
     concat (map (\<lambda>(i, s).
       if is_on s
       then [case es_friendly_name s of
               Some n \<Rightarrow> if n = [] then lit kind @ lit '' '' @ dec (int i) else n
             | None \<Rightarrow> lit kind @ lit '' '' @ dec (int i)]
       else []) (enumerate 1 ss))"

definition open_names :: "entity_state list \<Rightarrow> str list" where
  "open_names ss = names_on ''Puerta'' ss"

definition motion_detected :: "entity_state list \<Rightarrow> str list" where
  "motion_detected ss = names_on ''Sensor'' ss"

definition format_measurement :: "entity_state option \<Rightarrow> bool \<Rightarrow> str" where
  "format_measurement state short_unit =
     (case state of
        None \<Rightarrow> not_available
      | Some s \<Rightarrow>
          if \<not> available s then not_available
          else
            (case es_state s of
               None \<Rightarrow> not_available
             | Some v \<Rightarrow>
                 (let u = (case es_unit s of None \<Rightarrow> [] | Some u \<Rightarrow> u) in
                  if short_unit then v @ replace [32] [] (replace [176] [] u)
                  else strip (v @ lit '' '' @ u))))"

definition format_percent :: "entity_state option \<Rightarrow> bool \<Rightarrow> str" where
  "format_percent state short =
     (let v = format_measurement state short in
      if v = not_available then v else if \<not> contains v (lit ''%'') then v @ lit ''%'' else v)"

definition with_ago_es :: "str \<Rightarrow> str" where
  "with_ago_es v =
     (if v = lit ''never'' then lit ''nunca'' else if v = lit ''now'' then lit ''ahora''
      else lit ''hace '' @ v)"

definition last_changed :: "instant \<Rightarrow> entity_state option \<Rightarrow> bool \<Rightarrow> str option" where
  "last_changed now state short =
     (case Option.bind state es_last_changed of
        None \<Rightarrow> None
      | Some t \<Rightarrow>
          if t = [] then None
          else
            (case from_isoformat (replace (lit ''Z'') (lit ''+00:00'') t) of
               None \<Rightarrow> None
             | Some changed_at \<Rightarrow>
                 (let rendered = relative_time (Some changed_at) now in
                  if rendered = lit ''never'' then None
                  else Some (if short then rendered else with_ago_es rendered))))"

definition health_relative :: "instant \<Rightarrow> instant option \<Rightarrow> bool \<Rightarrow> str" where
  "health_relative now v short =
     (let rendered = relative_time v now in if short then rendered else with_ago_es rendered)"

definition on_line :: "entity_state option \<Rightarrow> str" where
  "on_line state =
     (let rendered = binary_on_off state in
      if rendered = lit ''on'' then lit ''online''
      else if rendered = lit ''off'' then lit ''offline'' else not_available)"

definition commas :: "string \<Rightarrow> str list \<Rightarrow> str" where
  "commas sep names = (if names = [] then lit ''none'' else join (lit sep) names)"

section \<open>The alarm\<close>

definition alarma :: "home_services \<Rightarrow> jobject \<Rightarrow> str result \<times> jobject" where
  "alarma hv metadata =
     (let config = hx_alarm (cf_home_status (hv_config hv));
          ids = ac_entity_id config # ac_door_entities config @ ac_motion_entities config;
          queried = length (configured_ids ids);
          short = hv_short hv
      in
      counted hv ids (queried > 0) metadata (\<lambda>states.
        if queried = 0
        then Inr (if short then lit ''Alarm:N/D'' else lit ''Alarma: no configurada.'')
        else
          (let alarm = state_of states (ac_entity_id config);
               doors = states_of states (ac_door_entities config);
               motions = states_of states (ac_motion_entities config);
               opened = open_names doors;
               active = motion_detected motions
           in
           if short then
             (if (\<exists>s \<in> set_option alarm. es_state s = Some (lit ''triggered'')) then
                fit_lora (lines [lit ''ALARM:TRIGGERED'', lit ''Doors:'' @ commas '','' opened,
                                 lit ''Motion:'' @ commas '','' active]) (hv_max_bytes hv)
              else
                fit_lora (lines ([lit ''Alarm:'' @ alarm_label alarm True,
                                  lit ''Doors:'' @ dec (int (length opened)) @ lit '' open'',
                                  lit ''Motion:'' @ (if active \<noteq> [] then lit ''yes'' else lit ''none'')]
                     @ (case last_changed (hv_now hv) alarm True of
                          Some ago \<Rightarrow> if ago = [] then [] else [lit ''Ago:'' @ ago]
                        | None \<Rightarrow> []))) (hv_max_bytes hv))
           else
             Inr (lines
               ([lit ''Alarma: '' @ alarm_label alarm False]
                @ (if opened \<noteq> [] then [lit ''Puertas abiertas: '' @ join (lit '', '') opened]
                   else if doors \<noteq> []
                   then [lit ''Puertas: '' @ dec (int (length doors)) @ lit '' cerradas, 0 abiertas'']
                   else [])
                @ (if active \<noteq> [] then [lit ''Movimiento: '' @ join (lit '', '') active]
                   else if motions \<noteq> [] then [lit ''Movimiento: sin detectar''] else [])
                @ (case last_changed (hv_now hv) alarm False of
                     Some ago \<Rightarrow> if ago = [] then [] else [218 # lit ''ltimo cambio: '' @ ago]
                   | None \<Rightarrow> []))))))"

section \<open>The house\<close>

definition home_entity_ids :: "app_config \<Rightarrow> str list" where
  "home_entity_ids c =
     (let hs = cf_home_status c; home = hx_home hs in
      configured_ids
        ([ac_entity_id (hx_alarm hs)] @ ho_person_entities home @ ho_presence_entities home
         @ ho_door_entities home @ ho_light_entities home
         @ [ho_temperature_entity home, ho_humidity_entity home, ho_ups_battery_entity home,
            nc_internet_entity (hx_network hs)]
         @ filter (\<lambda>i. i \<noteq> []) (map se_availability_entity (hx_servers hs))))"

definition presence_text :: "int \<Rightarrow> int \<Rightarrow> str" where
  "presence_text people_home presence_on =
     (if people_home = 0 \<and> presence_on = 0 then lit ''nadie''
      else if people_home + presence_on = 1 then lit ''presencia''
      else dec (people_home + presence_on) @ lit '' presentes'')"

definition short_presence :: "int \<Rightarrow> int \<Rightarrow> str" where
  "short_presence people_home presence_on =
     (if people_home = 0 \<and> presence_on = 0 then lit ''none'' else lit ''yes'')"

definition when_some :: "'a option \<Rightarrow> ('a option \<Rightarrow> str) \<Rightarrow> str list" where
  "when_some x f = (if x = None then [] else [f x])"

definition casa :: "home_services \<Rightarrow> jobject \<Rightarrow> str result \<times> jobject" where
  "casa hv metadata =
     (let config = cf_home_status (hv_config hv);
          home = hx_home config;
          ids = home_entity_ids (hv_config hv);
          queried = length ids;
          short = hv_short hv;
          unavailable = (if short then lit ''Casa:N/D'' else lit ''Estado de casa no disponible.'')
      in
      counted hv ids (queried > 0) metadata (\<lambda>states.
        if queried = 0
        then Inr (if short then lit ''Casa:N/D'' else lit ''Estado de casa no configurado.'')
        else
          (let alarm = state_of states (ac_entity_id (hx_alarm config));
               persons = states_of states (ho_person_entities home);
               presence = states_of states (ho_presence_entities home);
               doors = states_of states (ho_door_entities home);
               lights = states_of states (ho_light_entities home);
               servers = states_of states
                 (filter (\<lambda>i. i \<noteq> []) (map se_availability_entity (hx_servers config)));
               internet = state_of states (nc_internet_entity (hx_network config));
               people_home = int (length (filter (\<lambda>s. available s \<and> es_state s = Some (lit ''home'')) persons));
               presence_on = count_on presence;
               open_doors = int (length (open_names doors));
               lights_on = count_on lights;
               online = int (length (filter (\<lambda>s. binary_on_off (Some s) = lit ''on'') servers));
               total = int (length servers);
               temperature = state_of states (ho_temperature_entity home);
               humidity = state_of states (ho_humidity_entity home);
               ups = state_of states (ho_ups_battery_entity home)
           in
           if states = [] \<or> available_count (map snd states) = 0 then Inr unavailable
           else if short then
             (let tail = when_some internet (\<lambda>s. lit ''Net:'' @ binary_on_off s)
                    @ (if total \<noteq> 0 then [lit ''S:'' @ dec online @ lit ''/'' @ dec total] else [])
                    @ when_some ups (\<lambda>s. lit ''UPS:'' @ format_percent s True)
              in
              fit_lora (lines
                ([lit ''Casa A:'' @ alarm_label alarm True @ lit '' P:''
                    @ short_presence people_home presence_on,
                  lit ''D:'' @ dec open_doors @ lit '' L:'' @ dec lights_on @ lit '' T:''
                    @ format_measurement temperature True]
                 @ (if tail \<noteq> [] then [join (lit '' '') tail] else []))) (hv_max_bytes hv))
           else
             (let ls = [lit ''Casa'']
                    @ when_some alarm (\<lambda>s. lit ''Alarma: '' @ alarm_label s False)
                    @ (if persons \<noteq> [] \<or> presence \<noteq> []
                       then [lit ''Presencia: '' @ presence_text people_home presence_on] else [])
                    @ (if doors \<noteq> []
                       then [if open_doors = 0 then lit ''Puertas: cerradas''
                             else lit ''Puertas: '' @ dec open_doors @ lit '' abiertas''] else [])
                    @ (if lights \<noteq> [] then [lit ''Luces: '' @ dec lights_on @ lit '' encendidas''] else [])
                    @ when_some temperature (\<lambda>s. lit ''Temperatura: '' @ format_measurement s False)
                    @ when_some humidity (\<lambda>s. lit ''Humedad: '' @ format_percent s False)
                    @ when_some internet (\<lambda>s. lit ''Internet: '' @ on_line s)
                    @ (if total \<noteq> 0
                       then [lit ''Servidores: '' @ dec online @ lit ''/'' @ dec total @ lit '' online''] else [])
                    @ when_some ups (\<lambda>s. lit ''UPS: '' @ format_percent s False)
              in Inr (if length ls > 1 then lines ls else lit ''Estado de casa no disponible.'')))))"

section \<open>The servers\<close>

definition short_status :: "str \<Rightarrow> str" where
  "short_status st =
     (if st = lit ''online'' then lit ''on'' else if st = lit ''offline'' then lit ''off''
      else if st = lit ''unavailable'' then lit ''unav'' else lit ''unk'')"

definition servers_summary :: "home_services \<Rightarrow> server_entry list \<Rightarrow> jobject \<Rightarrow> str result \<times> jobject" where
  "servers_summary hv entries metadata =
     (let ids = filter (\<lambda>i. i \<noteq> []) (map se_availability_entity entries) in
      counted hv ids (ids \<noteq> []) metadata (\<lambda>states.
        (let rendered = map (\<lambda>e. (if hv_short hv then se_alias e else se_name e,
                                  binary_online (state_of states (se_availability_entity e)))) entries;
             online = int (length (filter (\<lambda>r. snd r = lit ''online'') rendered));
             total = int (length entries);
             visible = take 8 rendered;
             hidden = int (length rendered) - int (length visible)
         in
         if hv_short hv then
           fit_lora (lines
             ([lit ''Srv '' @ dec online @ lit ''/'' @ dec total]
              @ map (\<lambda>r. fst r @ lit '':'' @ short_status (snd r)) visible
              @ (if hidden > 0 then [lit ''+'' @ dec hidden @ lit '' mas''] else []))) (hv_max_bytes hv)
         else
           Inr (lines (map (\<lambda>r. fst r @ lit '': '' @ snd r) rendered
             @ [lit ''Total: '' @ dec online @ lit ''/'' @ dec total @ lit '' online''])))))"

definition without_percent :: "str \<Rightarrow> str" where
  "without_percent t = replace (lit ''%'') [] t"

definition server_detail :: "home_services \<Rightarrow> server_entry \<Rightarrow> jobject \<Rightarrow> str result \<times> jobject" where
  "server_detail hv e metadata =
     counted hv [se_availability_entity e, se_cpu_entity e, se_memory_entity e, se_disk_entity e,
                 se_temperature_entity e, se_health_entity e] True metadata (\<lambda>states.
       (let st = binary_online (state_of states (se_availability_entity e));
            cpu = state_of states (se_cpu_entity e);
            memory = state_of states (se_memory_entity e);
            disk = state_of states (se_disk_entity e);
            temperature = state_of states (se_temperature_entity e);
            health = state_of states (se_health_entity e)
        in
        if hv_short hv then
          (let load = when_some cpu (\<lambda>s. lit ''CPU:'' @ without_percent (format_percent s True))
                 @ when_some memory (\<lambda>s. lit ''RAM:'' @ without_percent (format_percent s True));
               room = when_some disk (\<lambda>s. lit ''Disk:'' @ without_percent (format_percent s True))
                 @ when_some temperature (\<lambda>s. lit ''T:'' @ format_measurement s True)
           in
           fit_lora (lines ([se_alias e @ lit '':'' @ short_status st]
             @ (if load \<noteq> [] then [join (lit '' '') load] else [])
             @ (if room \<noteq> [] then [join (lit '' '') room] else []))) (hv_max_bytes hv))
        else
          Inr (lines ([se_name e, lit ''Estado: '' @ st]
            @ when_some cpu (\<lambda>s. lit ''CPU: '' @ format_percent s False)
            @ when_some memory (\<lambda>s. lit ''RAM: '' @ format_percent s False)
            @ when_some disk (\<lambda>s. lit ''Disco: '' @ format_percent s False)
            @ when_some temperature (\<lambda>s. lit ''Temperatura: '' @ format_measurement s False)
            @ (case health of
                 Some s \<Rightarrow>
                   (case es_state s of
                      Some v \<Rightarrow> if available s \<and> v \<noteq> [] then [lit ''Salud: '' @ v] else []
                    | None \<Rightarrow> [])
               | None \<Rightarrow> [])))))"

definition servers :: "home_services \<Rightarrow> str list \<Rightarrow> jobject \<Rightarrow> str result \<times> jobject" where
  "servers hv args metadata =
     (let entries = hx_servers (cf_home_status (hv_config hv));
          unconfigured = set_audit_counts 0 0 (lit ''not_configured'') metadata;
          alias = (case args of [] \<Rightarrow> [] | a # _ \<Rightarrow> lower a)
      in
      if entries = []
      then (Inr (if hv_short hv then lit ''Srv:N/D'' else lit ''Servidores: no configurados.''), unconfigured)
      else if alias \<noteq> [] then
        (case find (\<lambda>e. se_alias e = alias) entries of
           None \<Rightarrow> (Inr (lit ''Servidor no configurado.''), unconfigured)
         | Some e \<Rightarrow> server_detail hv e metadata)
      else servers_summary hv entries metadata)"

section \<open>The network\<close>

definition dns_text :: "entity_state option \<Rightarrow> bool \<Rightarrow> str" where
  "dns_text state short =
     (let rendered = binary_on_off state in
      if rendered = lit ''on'' then (if short then lit ''ok'' else lit ''OK'')
      else if rendered = lit ''off'' then lit ''fail'' else not_available)"

definition connected_text :: "str \<Rightarrow> str" where
  "connected_text v =
     (if v = lit ''on'' then lit ''conectado'' else if v = lit ''off'' then lit ''desconectado''
      else lit ''degradado'')"

definition telegram_text :: "str \<Rightarrow> str" where
  "telegram_text v =
     (if v = lit ''on'' then lit ''conectado'' else if v = lit ''off'' then lit ''desactivado''
      else lit ''degradado'')"

definition telegram_word :: "str \<Rightarrow> str" where
  "telegram_word v =
     (if v = lit ''connected'' then lit ''on'' else if v = lit ''disabled'' then lit ''off''
      else lit ''deg'')"

definition red :: "home_services \<Rightarrow> jobject \<Rightarrow> str result \<times> jobject" where
  "red hv metadata =
     (let network = hx_network (cf_home_status (hv_config hv));
          ids = configured_ids ([nc_internet_entity network, nc_router_entity network,
                  nc_dns_entity network, nc_home_assistant_entity network]
                  @ nc_additional_entities network);
          word = (\<lambda>f dflt. case hv_snapshot hv of None \<Rightarrow> lit dflt | Some s \<Rightarrow> f s);
          time = (\<lambda>f. health_relative (hv_now hv) (Option.bind (hv_snapshot hv) f) (hv_short hv))
      in
      counted hv ids (ids \<noteq> []) metadata (\<lambda>states.
        (let internet = state_of states (nc_internet_entity network);
             router = state_of states (nc_router_entity network);
             dns = state_of states (nc_dns_entity network);
             ha_entity = state_of states (nc_home_assistant_entity network);
             ha_state = (if ha_entity = None
                         then short_connected (word bs_ha_websocket_state ''disconnected'')
                         else binary_on_off ha_entity);
             mc_state = short_connected (word bs_meshcore_transport_state ''disconnected'');
             tg_state = telegram_word (word bs_telegram_polling_state ''disabled'');
             t2m = time bs_last_tg_to_mc;
             m2t = time bs_last_mc_to_tg
         in
         if hv_short hv then
           fit_lora (lines
             [lit ''Net:'' @ binary_on_off internet @ lit '' RTR:'' @ binary_on_off router
                @ lit '' DNS:'' @ dns_text dns True,
              lit ''HA:'' @ ha_state @ lit '' MC:'' @ mc_state @ lit '' TG:'' @ tg_state,
              lit ''T2M:'' @ t2m @ lit '' M2T:'' @ m2t]) (hv_max_bytes hv)
         else
           Inr (lines ([lit ''Red'']
             @ when_some internet (\<lambda>s. lit ''Internet: '' @ on_line s)
             @ when_some router (\<lambda>s. lit ''Router: '' @ on_line s)
             @ when_some dns (\<lambda>s. lit ''DNS: '' @ dns_text s False)
             @ [lit ''Home Assistant: '' @ connected_text ha_state,
                lit ''MeshCore: '' @ connected_text mc_state,
                lit ''Telegram: '' @ telegram_text tg_state,
                218 # lit ''ltimo TG->MC: '' @ t2m,
                218 # lit ''ltimo MC->TG: '' @ m2t])))))"

end
