(* ===== verification/System_Commands.thy ===== *)
theory System_Commands
  imports Home_Status
begin

text \<open>
  \<open>plugins/system.py\<close>: the commands about the bridge itself. Only \<open>!bridge\<close> with arguments
  changes anything: it sets and resets the runtime overrides, for an administrator, and writes
  the audit events about it. What the Home Assistant client answers is the parameter
  \<open>ha_client\<close>; the clients are indexed by the number of the call.
\<close>

record ha_client =
  cl_available :: "(bool \<times> str) result"
  cl_config :: "jobject result"
  cl_state :: "str \<Rightarrow> jobject result"

record 'h services =
  sv_registry :: "'h registry"
  sv_config :: "app_config option"
  sv_homeassistant :: "(nat \<Rightarrow> ha_client) option"
  sv_reader :: "(nat \<Rightarrow> ha_answers) option"
  sv_flow :: "flow_config option"

definition is_short :: "command_context \<Rightarrow> bool" where
  "is_short cx \<longleftrightarrow> im_transport (cx_message cx) \<noteq> lit ''telegram''"

section \<open>Help and status\<close>

definition help_command :: "'h services \<Rightarrow> command_context \<Rightarrow> str list \<Rightarrow> str" where
  "help_command sv cx args =
     render_help (sv_registry sv) (au_role (cx_user cx))
       (case args of [] \<Rightarrow> None | a # _ \<Rightarrow> Some (lower a))"

definition format_state :: "jobject \<Rightarrow> str" where
  "format_state state =
     (let v = py_str (jget_or state (lit ''state'') (JStr not_available)) in
      if v \<in> {lit ''unknown'', lit ''unavailable'', []} then not_available
      else
        v @ (case jget_or state (lit ''attributes'') (JObj []) of
               JObj attributes \<Rightarrow>
                 (let u = jget_null attributes (lit ''unit_of_measurement'') in
                  if truthy u then 32 # py_str u else [])
             | _ \<Rightarrow> []))"

definition safe_state_value :: "ha_client \<Rightarrow> str \<Rightarrow> str result" where
  "safe_state_value client i =
     (case cl_state client i of
        Inr state \<Rightarrow> Inr (format_state state)
      | Inl e \<Rightarrow> if is_exception e then Inr not_available else Inl e)"

text \<open>The lines of the configured entities; each is read on its own.\<close>

fun status_entity_lines :: "ha_client \<Rightarrow> status_entity_config list \<Rightarrow> str list result" where
  "status_entity_lines client [] = Inr []"
| "status_entity_lines client (entity # entities) =
     bind_result (safe_state_value client (sc_entity_id entity)) (\<lambda>v.
     bind_result (status_entity_lines client entities) (\<lambda>ls.
       Inr ((sc_label entity @ lit '': '' @ v) # ls)))"

definition render_ha_status :: "ha_client option \<Rightarrow> bool \<times> str \<Rightarrow> str result" where
  "render_ha_status ha st =
     (case ha of
        None \<Rightarrow> Inr (lit ''HA: sin configurar'')
      | Some client \<Rightarrow>
          if \<not> fst st then Inr (lit ''HA: ERROR '' @ snd st)
          else
            (case cl_config client of
               Inl e \<Rightarrow>
                 if is_exception e
                 then Inr (lines [lit ''HA: OK'', lit ''Config: ERROR '' @ class_name (exn_class e)])
                 else Inl e
             | Inr config \<Rightarrow>
                 Inr (lines [lit ''HA: OK'',
                   lit ''Version: '' @ py_str (jget_or config (lit ''version'') (JStr not_available)),
                   lit ''Name: '' @ py_str (jget_or config (lit ''location_name'') (JStr not_available))])))"

definition estado ::
    "app_config option \<Rightarrow> ha_client option \<Rightarrow> command_context \<Rightarrow> str list \<Rightarrow> str result" where
  "estado config ha cx args =
     bind_result (case ha of
                    None \<Rightarrow> Inr (False, lit ''sin configurar'')
                  | Some client \<Rightarrow> cl_available client) (\<lambda>st.
       if (case args of [] \<Rightarrow> False | a # _ \<Rightarrow> lower a = lit ''ha'') then render_ha_status ha st
       else
         (let transport = im_transport (cx_message cx);
              companion = (if starts_with transport (lit ''meshcore'') then lit ''OK'' else upper transport);
              ha_text = (if fst st then lit ''OK'' else lit ''ERROR '' @ snd st)
          in
          bind_result (case (config, ha) of
                         (Some c, Some client) \<Rightarrow>
                           if fst st then status_entity_lines client (map snd (cf_status_entities c))
                           else Inr []
                       | _ \<Rightarrow> Inr []) (\<lambda>entity_lines.
            Inr (lines ([lit ''CASA'', lit ''HA: '' @ ha_text] @ entity_lines
              @ [lit ''Internet: no requerido'', lit ''Companion: '' @ companion,
                 lit ''Servers: sin configurar''])))))"

definition fit_exterior_response :: "str \<Rightarrow> str \<Rightarrow> str \<Rightarrow> str" where
  "fit_exterior_response full_line temperature_line label =
     (if length full_line \<le> 160 then full_line
      else if length temperature_line \<le> 160 then temperature_line
      else label @ lit '': N/D'')"

definition exterior :: "app_config option \<Rightarrow> ha_client option \<Rightarrow> str result" where
  "exterior config ha =
     (case config of
        None \<Rightarrow> Inr (lit ''Exterior: no configurado'')
      | Some c \<Rightarrow>
          (let weather = cf_weather_status c; label = wc_label weather in
           if wc_temperature_entity weather = [] then Inr (label @ lit '': no configurado'')
           else
             (case ha of
                None \<Rightarrow> Inr (label @ lit '': N/D'')
              | Some client \<Rightarrow>
                  bind_result (safe_state_value client (wc_temperature_entity weather)) (\<lambda>temperature.
                  let line = label @ lit '': '' @ temperature in
                  bind_result
                    (if wc_humidity_entity weather = [] then Inr line
                     else bind_result (safe_state_value client (wc_humidity_entity weather)) (\<lambda>humidity.
                       Inr (line @ [32, 183] @ lit '' Humedad: '' @ humidity))) (\<lambda>full.
                  Inr (fit_exterior_response full line label))))))"

section \<open>The bridge command\<close>

definition override_targets :: "(str \<times> str) list" where
  "override_targets =
     [(lit ''tg2mc'', lit ''telegram_to_meshcore''), (lit ''mc2tg'', lit ''meshcore_to_telegram''),
      (lit ''confirm'', lit ''confirmation'')]"

definition override_labels :: "(str \<times> str \<times> str) list" where
  "override_labels =
     [(lit ''tg2mc'', lit ''Telegram -> MeshCore'', lit ''T2M''),
      (lit ''mc2tg'', lit ''MeshCore -> Telegram'', lit ''M2T''),
      (lit ''confirm'', lit ''Confirmaci'' @ [243] @ lit ''n Telegram'', lit ''CF'')]"

definition bridge_usage :: "bool \<Rightarrow> str" where
  "bridge_usage short =
     (if short then lit ''Uso: !bridge tg2mc|mc2tg|confirm on|off''
      else lit ''Uso: !bridge tg2mc|mc2tg|confirm on|off o !bridge reset'')"

text \<open>The audit event of an override; a failure only degrades the reported health.\<close>

definition audit_bridge_override ::
    "env \<Rightarrow> 'h services \<Rightarrow> event_type \<Rightarrow> jobject \<Rightarrow> command_context \<Rightarrow> world
       \<Rightarrow> command_context \<times> world" where
  "audit_bridge_override ev sv ty metadata cx w =
     (case (sv_flow sv, cx_audit_trail cx) of
        (Some fc, Some tr) \<Rightarrow>
          (case staged ev (\<lambda>uuid now tr. runtime_override_event fc uuid now tr ty (JObj metadata)) tr w of
             (tr', e, w') \<Rightarrow>
               (cx\<lparr>cx_audit_trail := Some tr'\<rparr>,
                (case e of
                   None \<Rightarrow> w'
                 | Some _ \<Rightarrow>
                     on_health ev (\<lambda>now. set_audit_db_health now (lit ''degraded'')
                                           (Some (lit ''storage_error''))) w')))
      | _ \<Rightarrow> (cx, w))"

definition request_metadata :: "command_context \<Rightarrow> string \<Rightarrow> str \<Rightarrow> json \<Rightarrow> jobject" where
  "request_metadata cx operation target requested =
     [(lit ''operation'', JStr (lit operation)), (lit ''target'', JStr target),
      (lit ''requested_value'', requested), (lit ''transport'', JStr (im_transport (cx_message cx)))]"

definition change_metadata :: "command_context \<Rightarrow> string \<Rightarrow> override_change \<Rightarrow> jobject" where
  "change_metadata cx operation c =
     [(lit ''operation'', JStr (lit operation)), (lit ''target'', JStr (oc_target c)),
      (lit ''previous_value'', JBool (oc_previous_value c)), (lit ''new_value'', JBool (oc_new_value c)),
      (lit ''override_value'', jbool_opt (oc_override_value c)),
      (lit ''transport'', JStr (im_transport (cx_message cx))), (lit ''result'', JStr (lit ''applied''))]"

text \<open>The two calls on the health state, which the caller has found to be there.\<close>

definition change_override :: "env \<Rightarrow> str \<Rightarrow> bool \<Rightarrow> world \<Rightarrow> override_change result \<times> world" where
  "change_override ev target v w =
     (case w_health w of
        None \<Rightarrow> (raise (OtherError (lit ''AttributeError'')) ''set_runtime_override'', w)
      | Some h \<Rightarrow>
          (case set_runtime_override (ev_now ev (w_tick w)) target v h of
             (r, h') \<Rightarrow> (r, tick (w\<lparr>w_health := Some h'\<rparr>))))"

definition drop_overrides :: "env \<Rightarrow> world \<Rightarrow> override_change list result \<times> world" where
  "drop_overrides ev w =
     (case w_health w of
        None \<Rightarrow> (raise (OtherError (lit ''AttributeError'')) ''reset_runtime_overrides'', w)
      | Some h \<Rightarrow>
          (case reset_runtime_overrides (ev_now ev (w_tick w)) h of
             (cs, h') \<Rightarrow> (Inr cs, tick (w\<lparr>w_health := Some h'\<rparr>))))"

fun audit_changes ::
    "env \<Rightarrow> 'h services \<Rightarrow> override_change list \<Rightarrow> command_context \<Rightarrow> world
       \<Rightarrow> command_context \<times> world" where
  "audit_changes ev sv [] cx w = (cx, w)"
| "audit_changes ev sv (c # cs) cx w =
     (case audit_bridge_override ev sv BRIDGE_RUNTIME_OVERRIDE_RESET (change_metadata cx ''reset'' c) cx w of
        (cx', w') \<Rightarrow> audit_changes ev sv cs cx' w')"

definition denied ::
    "env \<Rightarrow> 'h services \<Rightarrow> jobject \<Rightarrow> command_context \<Rightarrow> world
       \<Rightarrow> str result \<times> command_context \<times> world" where
  "denied ev sv metadata cx w =
     (Inr (lit ''No autorizado.''),
      audit_bridge_override ev sv BRIDGE_RUNTIME_OVERRIDE_DENIED
        (metadata @ [(lit ''reason'', JStr (lit ''insufficient_role''))]) cx w)"

definition bridge_reset ::
    "env \<Rightarrow> 'h services \<Rightarrow> command_context \<Rightarrow> world \<Rightarrow> str result \<times> command_context \<times> world" where
  "bridge_reset ev sv cx w =
     (let metadata = request_metadata cx ''reset'' (lit ''all'') (JStr (lit ''configured''));
          (cx1, w1) = audit_bridge_override ev sv BRIDGE_RUNTIME_OVERRIDE_REQUESTED metadata cx w
      in
      if au_role (cx_user cx) < Admin then denied ev sv metadata cx1 w1
      else
        (case drop_overrides ev w1 of
           (Inl e, w2) \<Rightarrow> (Inl e, cx1, w2)
         | (Inr changes, w2) \<Rightarrow>
             (Inr (if is_short cx then lit ''Overrides eliminados.''
                   else lit ''Overrides temporales eliminados. Se usa la configuraci'' @ [243]
                          @ lit ''n de la App.''),
              audit_changes ev sv changes cx1 w2)))"

definition override_reply :: "bool \<Rightarrow> str \<Rightarrow> bool \<Rightarrow> str" where
  "override_reply short operation requested =
     (case map_of override_labels operation of
        None \<Rightarrow> bridge_usage short
      | Some (long_label, short_label) \<Rightarrow>
          if short then short_label @ lit '':'' @ on_off requested @ lit ''*''
          else
            long_label @ lit '': ''
              @ (if operation = lit ''confirm''
                 then (if requested then lit ''activada'' else lit ''desactivada'')
                 else (if requested then lit ''activado'' else lit ''desactivado''))
              @ lit '' hasta reinicio.'')"

definition bridge_set ::
    "env \<Rightarrow> 'h services \<Rightarrow> command_context \<Rightarrow> str \<Rightarrow> str \<Rightarrow> bool \<Rightarrow> world
       \<Rightarrow> str result \<times> command_context \<times> world" where
  "bridge_set ev sv cx operation target requested w =
     (let metadata = request_metadata cx ''set'' target (JBool requested);
          (cx1, w1) = audit_bridge_override ev sv BRIDGE_RUNTIME_OVERRIDE_REQUESTED metadata cx w
      in
      if au_role (cx_user cx) < Admin then denied ev sv metadata cx1 w1
      else
        (case change_override ev target requested w1 of
           (Inl e, w2) \<Rightarrow> (Inl e, cx1, w2)
         | (Inr change, w2) \<Rightarrow>
             (Inr (override_reply (is_short cx) operation requested),
              audit_bridge_override ev sv BRIDGE_RUNTIME_OVERRIDE_APPLIED
                (change_metadata cx ''set'' change) cx1 w2)))"

definition handle_bridge_admin ::
    "env \<Rightarrow> 'h services \<Rightarrow> command_context \<Rightarrow> str \<Rightarrow> str list \<Rightarrow> world
       \<Rightarrow> str result \<times> command_context \<times> world" where
  "handle_bridge_admin ev sv cx first rest w =
     (let operation = lower first;
          usage = (Inr (bridge_usage (is_short cx)), cx, w)
      in
      if operation = lit ''reset'' \<and> rest = [] then bridge_reset ev sv cx w
      else
        (case (rest, map_of override_targets operation) of
           ([v], Some target) \<Rightarrow>
             (let value_token = lower v in
              if value_token \<notin> {lit ''on'', lit ''off''} then usage
              else bridge_set ev sv cx operation target (value_token = lit ''on'') w)
         | _ \<Rightarrow> usage))"

definition bridge_command ::
    "env \<Rightarrow> 'h services \<Rightarrow> command_context \<Rightarrow> str list \<Rightarrow> world
       \<Rightarrow> str result \<times> command_context \<times> world" where
  "bridge_command ev sv cx args w =
     (case w_health w of
        None \<Rightarrow> (Inr (lit ''Bridge: N/D''), cx, w)
      | Some h \<Rightarrow>
          (case args of
             first # rest \<Rightarrow> handle_bridge_admin ev sv cx first rest w
           | [] \<Rightarrow>
               (let hg = map_option cf_health (sv_config sv) in
                (Inr (render_bridge_status_for_channel (snapshot (ev_now ev (w_tick w)) h)
                        (im_channel_index (cx_message cx)) (is_short cx)
                        (map_option hg_events_enabled hg) (map_option hg_heartbeat_seconds hg)),
                 cx, tick w))))"

definition last_command :: "env \<Rightarrow> command_context \<Rightarrow> world \<Rightarrow> str \<times> world" where
  "last_command ev cx w =
     (case w_health w of
        None \<Rightarrow> (lit ''Last: N/D'', w)
      | Some h \<Rightarrow>
          (let now = ev_now ev (w_tick w) in
           (render_last_activity (snapshot now h) now (is_short cx), tick w)))"

section \<open>Facts\<close>

lemma audit_bridge_override_about [simp]:
  "cx_user (fst (audit_bridge_override ev sv ty md cx w)) = cx_user cx"
  "cx_message (fst (audit_bridge_override ev sv ty md cx w)) = cx_message cx"
  by (auto simp: audit_bridge_override_def split: option.splits prod.splits)

text \<open>An exterior report fits, unless the label alone is too long.\<close>

lemma fit_exterior_length:
  "length (fit_exterior_response full t label) \<le> max 160 (length label + 5)"
  by (auto simp: fit_exterior_response_def)

end
