(* ===== verification/Plugins.thy ===== *)
theory Plugins
  imports System_Commands Service_Contracts
begin

text \<open>
  \<open>plugins/__init__.py\<close>: the built-in commands, their registry, and how each runs. The handlers
  keep the contract that the router's theorems need: they send nothing themselves, and they
  keep the audit log well-formed.
\<close>

datatype builtin =
    Ping | Help_Command | Estado | Exterior | Bridge_Command | Last_Command
  | Alarma_Command | Casa_Command | Servers_Command | Red_Command

definition builtin_def :: "string \<Rightarrow> string list \<Rightarrow> string \<Rightarrow> string list \<Rightarrow> string \<Rightarrow> builtin \<Rightarrow> builtin command_def" where
  "builtin_def name aliases grp usage help_text handler =
     \<lparr>cd_name = lit name, cd_aliases = map lit aliases, cd_group = lit grp,
      cd_usage = lines (map lit usage), cd_help_text = lit help_text, cd_minimum_role = Readonly,
      cd_confirmation_required = False, cd_handler = handler\<rparr>"

definition system_commands :: "builtin command_def list" where
  "system_commands =
     [builtin_def ''ping'' [] ''system'' [''!ping''] ''Comprueba que el bridge responde.'' Ping,
      builtin_def ''help'' [''h''] ''system'' [''!help [grupo]'']
        ''Muestra ayuda segun permisos.'' Help_Command,
      builtin_def ''estado'' [''status''] ''system'' [''!estado'', ''!estado ha'']
        ''Resumen corto de disponibilidad.'' Estado,
      builtin_def ''exterior'' [''outdoor''] ''system'' [''!exterior'']
        ''Muestra temperatura y humedad exterior configuradas.'' Exterior,
      builtin_def ''bridge'' [] ''system''
        [''!bridge'', ''!bridge tg2mc on|off'', ''!bridge mc2tg on|off'', ''!bridge confirm on|off'',
         ''!bridge reset'']
        ''Muestra estado interno seguro del bridge y permite overrides admin temporales.''
        Bridge_Command,
      builtin_def ''last'' [] ''system'' [''!last'']
        ''Muestra ultima actividad readonly del bridge.'' Last_Command]"

definition house_commands :: "builtin command_def list" where
  "house_commands =
     [builtin_def ''alarma'' [] ''alarma'' [''!alarma'']
        ''Estado readonly de la alarma y sensores asociados.'' Alarma_Command,
      builtin_def ''casa'' [] ''casa'' [''!casa'']
        ''Resumen readonly de casa, presencia, puertas, ambiente y red.'' Casa_Command]"

definition servers_commands :: "builtin command_def list" where
  "servers_commands =
     [builtin_def ''servers'' [] ''servers'' [''!servers'', ''!servers <alias>'']
        ''Resumen o detalle readonly de servidores configurados.'' Servers_Command]"

definition network_commands :: "builtin command_def list" where
  "network_commands =
     [builtin_def ''red'' [] ''red'' [''!red'']
        ''Estado readonly de conectividad configurada y transportes.'' Red_Command]"

definition build_registry :: "unit result \<times> builtin registry" where
  "build_registry =
     register_all (system_commands @ house_commands @ servers_commands @ network_commands) []"

definition builtin_registry :: "builtin registry" where
  "builtin_registry = snd build_registry"

section \<open>Running a command\<close>

text \<open>\<open>services_from_context\<close>: one reading of the clock, the health state and the readers.\<close>

definition services_from_context ::
    "env \<Rightarrow> 'h services \<Rightarrow> command_context \<Rightarrow> world \<Rightarrow> home_services result" where
  "services_from_context ev sv cx w =
     (case sv_config sv of
        None \<Rightarrow> raise RuntimeError ''config service unavailable''
      | Some c \<Rightarrow>
          (let now = ev_now ev (w_tick w) in
           Inr \<lparr>hv_config = c,
                hv_reader = map_option (\<lambda>reader. reader (w_tick w)) (sv_reader sv),
                hv_snapshot = map_option (snapshot now) (w_health w),
                hv_now = now, hv_short = is_short cx,
                hv_max_bytes = tc_max_meshcore_length (cf_telegram c)\<rparr>))"

definition run_home ::
    "env \<Rightarrow> 'h services \<Rightarrow> (home_services \<Rightarrow> jobject \<Rightarrow> str result \<times> jobject)
       \<Rightarrow> command_context \<Rightarrow> world \<Rightarrow> str result \<times> command_context \<times> world" where
  "run_home ev sv handler cx w =
     (case services_from_context ev sv cx w of
        Inl e \<Rightarrow> (Inl e, cx, w)
      | Inr hv \<Rightarrow>
          (case handler hv (cx_audit_metadata cx) of
             (r, metadata) \<Rightarrow> (r, cx\<lparr>cx_audit_metadata := metadata\<rparr>, tick w)))"

definition run_builtin :: "builtin services \<Rightarrow> builtin runner" where
  "run_builtin sv ev h cx args w =
     (let ha = map_option (\<lambda>client. client (w_tick w)) (sv_homeassistant sv) in
      case h of
        Ping \<Rightarrow> (Inr (lit ''pong''), cx, w)
      | Help_Command \<Rightarrow> (Inr (help_command sv cx args), cx, w)
      | Estado \<Rightarrow> (estado (sv_config sv) ha cx args, cx, tick w)
      | Exterior \<Rightarrow> (exterior (sv_config sv) ha, cx, tick w)
      | Bridge_Command \<Rightarrow> bridge_command ev sv cx args w
      | Last_Command \<Rightarrow> (case last_command ev cx w of (t, w') \<Rightarrow> (Inr t, cx, w'))
      | Alarma_Command \<Rightarrow> run_home ev sv alarma cx w
      | Casa_Command \<Rightarrow> run_home ev sv casa cx w
      | Servers_Command \<Rightarrow> run_home ev sv (\<lambda>hv. servers hv args) cx w
      | Red_Command \<Rightarrow> run_home ev sv red cx w)"

section \<open>The contract\<close>

text \<open>What a command may do to the world: the parts that others own stay as they are.\<close>

definition inner_step ::
    "flow_config option \<Rightarrow> command_context \<times> world \<Rightarrow> command_context \<times> world \<Rightarrow> bool" where
  "inner_step fco p q \<longleftrightarrow>
     w_sent (snd q) = w_sent (snd p) \<and> w_tg_sent (snd q) = w_tg_sent (snd p)
     \<and> w_telegram (snd q) = w_telegram (snd p) \<and> closing (snd q) = closing (snd p)
     \<and> cx_message (fst q) = cx_message (fst p)
     \<and> (world_inv fco (cx_audit_trail (fst p)) (snd p) \<longrightarrow>
        world_inv fco (cx_audit_trail (fst q)) (snd q))"

lemma inner_step_trans [trans]:
  "inner_step fco p q \<Longrightarrow> inner_step fco q r \<Longrightarrow> inner_step fco p r"
  by (auto simp: inner_step_def)

lemma inner_step_audit:
  assumes "w_sent w' = w_sent w" "w_tg_sent w' = w_tg_sent w" "w_telegram w' = w_telegram w"
    "closing w' = closing w"
    "w_audit w' = w_audit w" "cx_audit_trail cx' = cx_audit_trail cx" "cx_message cx' = cx_message cx"
  shows "inner_step fco (cx, w) (cx', w')"
  using assms world_inv_audit [of w' w] by (simp add: inner_step_def)

lemma inner_step_refl [simp]: "inner_step fco p p"
  by (simp add: inner_step_def)

lemma inner_step_tick [simp]: "inner_step fco (cx, w) (cx, tick w)"
  by (rule inner_step_audit) (simp_all add: frame_simps)

lemma inner_step_health: "inner_step fco (cx, w) (cx, tick (w\<lparr>w_health := h\<rparr>))"
  by (rule inner_step_audit) (simp_all add: frame_simps)

lemma world_inv_health: "world_inv fco trail (on_health ev f w) = world_inv fco trail w"
  by (rule world_inv_audit) (simp add: frame_simps)

lemma audit_bridge_override_step:
  assumes "sv_flow sv = fco"
  shows "inner_step fco (cx, w) (audit_bridge_override ev sv ty md cx w)"
proof (cases "\<exists>fc tr. sv_flow sv = Some fc \<and> cx_audit_trail cx = Some tr")
  case True
  then obtain fc tr where f: "sv_flow sv = Some fc" "cx_audit_trail cx = Some tr" by auto
  obtain tr' e w1 where s: "staged ev (\<lambda>uuid now tr. runtime_override_event fc uuid now tr ty (JObj md)) tr w
      = (tr', e, w1)" by (metis prod_cases3)
  have inv: "world_inv (Some fc) (Some tr') w1" if "world_inv (Some fc) (Some tr) w"
    by (rule staged_inv [OF overridden.audit_stage_axioms that s])
  from f s show ?thesis
    using staged_keeps [OF s] inv assms
    by (auto simp: audit_bridge_override_def inner_step_def frame_simps world_inv_health
        split: option.splits)
next
  case False
  then show ?thesis by (auto simp: audit_bridge_override_def split: option.splits)
qed

lemma audit_changes_step:
  assumes "sv_flow sv = fco"
  shows "inner_step fco (cx, w) (audit_changes ev sv cs cx w)"
proof (induction cs arbitrary: cx w)
  case (Cons c cs)
  obtain cx' w' where a: "audit_bridge_override ev sv BRIDGE_RUNTIME_OVERRIDE_RESET
      (change_metadata cx ''reset'' c) cx w = (cx', w')" by force
  with audit_bridge_override_step [OF assms, of cx w] have "inner_step fco (cx, w) (cx', w')" by metis
  also note Cons.IH [of cx' w']
  finally show ?case using a by simp
qed simp

lemma denied_step:
  "sv_flow sv = fco \<Longrightarrow> inner_step fco (cx, w) (snd (denied ev sv md cx w))"
  by (simp add: denied_def audit_bridge_override_step)

lemma change_override_step: "inner_step fco (cx, w) (cx, snd (change_override ev t v w))"
  by (auto simp: change_override_def inner_step_health split: option.splits prod.splits)

lemma drop_overrides_step: "inner_step fco (cx, w) (cx, snd (drop_overrides ev w))"
  by (auto simp: drop_overrides_def inner_step_health split: option.splits prod.splits)

lemma bridge_reset_step:
  assumes "sv_flow sv = fco"
  shows "inner_step fco (cx, w) (snd (bridge_reset ev sv cx w))"
proof -
  let ?md = "request_metadata cx ''reset'' (lit ''all'') (JStr (lit ''configured''))"
  obtain cx1 w1 where a: "audit_bridge_override ev sv BRIDGE_RUNTIME_OVERRIDE_REQUESTED ?md cx w
      = (cx1, w1)" by force
  obtain r w2 where d: "drop_overrides ev w1 = (r, w2)" by force
  have 1: "inner_step fco (cx, w) (cx1, w1)"
    using audit_bridge_override_step [OF assms, of cx w] a by metis
  have 2: "inner_step fco (cx, w) (cx1, w2)"
    using inner_step_trans [OF 1] drop_overrides_step [of fco cx1 w1 ev] d by simp
  show ?thesis
    using 1 2 a d
    by (auto simp: bridge_reset_def Let_def split: sum.splits
        intro: inner_step_trans denied_step [OF assms] audit_changes_step [OF assms])
qed

lemma bridge_set_step:
  assumes "sv_flow sv = fco"
  shows "inner_step fco (cx, w) (snd (bridge_set ev sv cx operation target v w))"
proof -
  let ?md = "request_metadata cx ''set'' target (JBool v)"
  obtain cx1 w1 where a: "audit_bridge_override ev sv BRIDGE_RUNTIME_OVERRIDE_REQUESTED ?md cx w
      = (cx1, w1)" by force
  obtain r w2 where d: "change_override ev target v w1 = (r, w2)" by force
  have 1: "inner_step fco (cx, w) (cx1, w1)"
    using audit_bridge_override_step [OF assms, of cx w] a by metis
  have 2: "inner_step fco (cx, w) (cx1, w2)"
    using inner_step_trans [OF 1] change_override_step [of fco cx1 w1 ev] d by (metis snd_conv)
  show ?thesis
    using 1 2 a d
    by (auto simp: bridge_set_def Let_def split: sum.splits
        intro: inner_step_trans denied_step [OF assms] audit_bridge_override_step [OF assms])
qed

lemma bridge_command_step:
  assumes "sv_flow sv = fco"
  shows "inner_step fco (cx, w) (snd (bridge_command ev sv cx args w))"
  using bridge_reset_step [OF assms] bridge_set_step [OF assms]
  by (auto simp: bridge_command_def handle_bridge_admin_def Let_def split: option.splits list.splits)

lemma run_home_step: "inner_step fco (cx, w) (snd (run_home ev sv handler cx w))"
  by (auto simp: run_home_def frame_simps intro!: inner_step_audit split: sum.splits prod.splits)

lemma run_builtin_step:
  assumes "sv_flow sv = fco"
  shows "inner_step fco (cx, w) (snd (run_builtin sv ev h cx args w))"
  using bridge_command_step [OF assms]
  by (cases h)
    (auto simp: run_builtin_def last_command_def Let_def run_home_step split: option.splits)

interpretation builtins: command_handlers "run_builtin sv" "sv_flow sv" for sv
proof
  show "w_sent (snd (snd (run_builtin sv ev h cx args w))) = w_sent w" for ev h cx args w
    using run_builtin_step [OF refl, of sv cx w ev h args] by (simp add: inner_step_def)
next
  fix cx w ev h args r cx' w'
  assume "world_inv (sv_flow sv) (cx_audit_trail cx) w" "run_builtin sv ev h cx args w = (r, cx', w')"
  with run_builtin_step [OF refl, of sv cx w ev h args]
  show "world_inv (sv_flow sv) (cx_audit_trail cx') w'" by (simp add: inner_step_def)
qed

section \<open>The registry\<close>

text \<open>No two built-in commands share a name or an alias, so the registration succeeds.\<close>

lemma lower_names:
  "lower (lit ''ping'') = lit ''ping''" "lower (lit ''help'') = lit ''help''"
  "lower (lit ''h'') = lit ''h''" "lower (lit ''estado'') = lit ''estado''"
  "lower (lit ''status'') = lit ''status''" "lower (lit ''exterior'') = lit ''exterior''"
  "lower (lit ''outdoor'') = lit ''outdoor''" "lower (lit ''bridge'') = lit ''bridge''"
  "lower (lit ''last'') = lit ''last''" "lower (lit ''alarma'') = lit ''alarma''"
  "lower (lit ''casa'') = lit ''casa''" "lower (lit ''servers'') = lit ''servers''"
  "lower (lit ''red'') = lit ''red''"
  by (simp_all add: lower_def lit_def lower_cp_def)

lemma build_registry_ok:
  "build_registry = (Inr (), builtin_registry)
   \<and> map fst builtin_registry =
     map lit [''ping'', ''help'', ''h'', ''estado'', ''status'', ''exterior'', ''outdoor'', ''bridge'',
              ''last'', ''alarma'', ''casa'', ''servers'', ''red'']
   \<and> list_all (\<lambda>kd. cd_minimum_role (snd kd) = Readonly) builtin_registry"
  unfolding builtin_registry_def build_registry_def system_commands_def house_commands_def
    servers_commands_def network_commands_def builtin_def_def
  by (simp add: register_def command_names_def lower_names)

lemma builtin_roles: "d \<in> snd ` set builtin_registry \<Longrightarrow> cd_minimum_role d = Readonly"
  using build_registry_ok by (auto simp: list_all_iff)

text \<open>
  The help shows each role exactly the registered commands that the role may use, whatever the
  aliases, once the commands have been registered.
\<close>

theorem help_shows_permitted:
  assumes "register_all ds [] = (Inr u, reg)"
  shows "set (visible_commands reg r) = {d \<in> set ds. cd_minimum_role d \<le> r}"
proof -
  from register_all_entries [OF assms] have keys: "distinct (map fst reg)"
    and entries: "set reg = {(lower n, d) | n d. d \<in> set ds \<and> n \<in> set (command_names d)}" by auto
  have defs: "snd ` set reg = set ds"
  proof (intro subset_antisym subsetI)
    show "d \<in> set ds" if "d \<in> snd ` set reg" for d using that unfolding entries by auto
    show "d \<in> snd ` set reg" if "d \<in> set ds" for d
      by (rule image_eqI [of _ _ "(lower (cd_name d), d)"])
        (use that in \<open>auto simp: entries command_names_def\<close>)
  qed
  have "inj_on cd_name (snd ` set reg)"
  proof (rule inj_onI)
    fix d e assume "d \<in> snd ` set reg" "e \<in> snd ` set reg" "cd_name d = cd_name e"
    then have "(lower (cd_name d), d) \<in> set reg" "(lower (cd_name d), e) \<in> set reg"
      unfolding defs by (auto simp: entries command_names_def)
    with keys show "d = e" by (metis map_of_is_SomeI option.inject)
  qed
  with visible_fold [of "[]" reg r] defs show ?thesis by (simp add: visible_commands_def)
qed

theorem help_shows_permitted_witness:
  "set (visible_commands builtin_registry Readonly)
     = set (system_commands @ house_commands @ servers_commands @ network_commands)"
proof -
  have r: "register_all (system_commands @ house_commands @ servers_commands @ network_commands) []
      = (Inr (), builtin_registry)"
    using build_registry_ok by (simp add: build_registry_def)
  have "cd_minimum_role d = Readonly"
    if "d \<in> set (system_commands @ house_commands @ servers_commands @ network_commands)" for d
    using that by (auto simp: system_commands_def house_commands_def servers_commands_def
        network_commands_def builtin_def_def)
  with help_shows_permitted [OF r, of Readonly] show ?thesis by auto
qed

end
