(* ===== verification/Bridge_Service.thy ===== *)
theory Bridge_Service
  imports Bridge_Contract Tg_Forward_Facts Tg_Service Plugins
begin

text \<open>
  \<open>main.py\<close>: how the parts are put together from the configuration, and the contracts of
  \<open>Bridge_Contract\<close> discharged for the parts that the program wires in. What comes
  before is in \<open>Startup\<close>, what comes after in \<open>Supervisor\<close>; the client of Home Assistant and its
  reader are parameters here, \<open>Rest_Client\<close> gives the ones of the program.
\<close>

section \<open>Users and rooms\<close>

definition authorized_users :: "app_config \<Rightarrow> (str \<times> authorized_user) list" where
  "authorized_users c =
     (if tc_enabled (cf_telegram c)
      then AList.update telegram_sender_id
             \<lparr>au_sender_id = telegram_sender_id, au_name = lit ''telegram-authorized-user'',
              au_role = tc_authorized_user_role (cf_telegram c)\<rparr> (cf_users c)
      else cf_users c)"

definition room_policies :: "app_config \<Rightarrow> (str \<times> room_policy) list" where
  "room_policies c =
     (if tc_enabled (cf_telegram c)
      then AList.update telegram_room_id
             \<lparr>rp_room_id = telegram_room_id, rp_enabled = True, rp_minimum_role = Readonly,
              rp_allow_commands = True\<rparr> (cf_room_policies c)
      else cf_room_policies c)"

section \<open>The bridge\<close>

definition build_services ::
    "app_config \<Rightarrow> (nat \<Rightarrow> ha_client) \<Rightarrow> (nat \<Rightarrow> ha_answers) \<Rightarrow> flow_config \<Rightarrow> builtin services" where
  "build_services c client reader fc =
     (let ha = hc_base_url (cf_homeassistant c) \<noteq> [] \<and> hc_token (cf_homeassistant c) \<noteq> [] in
      \<lparr>sv_registry = builtin_registry, sv_config = Some c,
       sv_homeassistant = (if ha then Some client else None),
       sv_reader = (if ha then Some reader else None), sv_flow = Some fc\<rparr>)"

definition build_router :: "app_config \<Rightarrow> flow_config \<Rightarrow> builtin router" where
  "build_router c fc =
     \<lparr>ro_registry = builtin_registry,
      ro_authorizer = \<lparr>az_users = authorized_users c, az_room_policies = room_policies c\<rparr>,
      ro_flow = Some fc, ro_prefix = cf_command_prefix c\<rparr>"

definition build_transport :: "app_config \<Rightarrow> unit result" where
  "build_transport c =
     (if mk_transport (cf_meshcore c) = lit ''usb''
      then raise NotImplementedError ''USB transport is not available in this branch. Use meshcore.transport=homeassistant or the experimental USB PR.''
      else Inr ())"

text \<open>\<open>normal_text_forwarder\<close> is the attribute that \<open>amain\<close> sets afterwards.\<close>

definition build_service :: "app_config \<Rightarrow> flow_config \<Rightarrow> forwarder option \<Rightarrow> builtin bridge result" where
  "build_service c fc normal_text_forwarder =
     bind_result (build_transport c) (\<lambda>_.
       Inr \<lparr>bg_router = build_router c fc, bg_flow = Some fc,
            bg_dedup_window = cf_deduplication_window c,
            bg_channel_index = mk_channel_index (cf_meshcore c),
            bg_forwarder = normal_text_forwarder,
            bg_max_bytes = tc_max_meshcore_length (cf_telegram c)\<rparr>)"

section \<open>Telegram\<close>

definition build_telegram_services ::
    "app_config \<Rightarrow> flow_config \<Rightarrow> (builtin tg_service \<times> mc_forwarder) option result" where
  "build_telegram_services c fc =
     (if \<not> tc_enabled (cf_telegram c) then Inr None
      else
        (case as_audit_key (fc_settings fc) of
           None \<Rightarrow> raise RuntimeError ''Telegram foundation requires normalized audit key''
         | Some key \<Rightarrow>
             Inr (Some
               (\<lparr>ts_config = cf_telegram c, ts_key = key, ts_audit = Some (fc_settings fc),
                 ts_router = Some (build_router c fc), ts_flow = Some fc, ts_has_transport = True,
                 ts_backoff_initial = 1, ts_backoff_max = 30\<rparr>,
                \<lparr>mf_config = cf_telegram c, mf_key = key, mf_audit = Some (fc_settings fc),
                 mf_backoff_max = 30\<rparr>))))"

text \<open>
  The middle of \<open>amain\<close>: the bridge, then the Telegram services, whose forwarder the bridge is
  given when Telegram is enabled.
\<close>

definition build_parts ::
    "app_config \<Rightarrow> flow_config \<Rightarrow> (builtin bridge \<times> builtin tg_service option) result" where
  "build_parts c fc =
     bind_result (build_service c fc None) (\<lambda>bg.
     bind_result (build_telegram_services c fc) (\<lambda>telegram.
       Inr (bg\<lparr>bg_forwarder := map_option (\<lambda>(ts, mf). forward_normal_text mf) telegram\<rparr>,
            map_option fst telegram)))"

text \<open>The state in which the services start.\<close>

definition start_health :: "app_config \<Rightarrow> str \<Rightarrow> instant \<Rightarrow> health" where
  "start_health c version now =
     configure now (tc_enabled (cf_telegram c)) (tc_forward_tg_to_mc (cf_telegram c))
       (tc_forward_mc_to_tg (cf_telegram c)) (tc_send_confirmation (cf_telegram c))
       (new_health version (mk_healthcheck_path (cf_meshcore c)) now)"

definition limiter_of :: "rate_limit_config \<Rightarrow> limiter" where
  "limiter_of rc = new_limiter (rc_commands rc) (rc_window_seconds rc)"

definition start_world ::
    "app_config \<Rightarrow> str \<Rightarrow> instant \<Rightarrow> audit_tables conn \<Rightarrow> tg_tables conn
       \<Rightarrow> exn option list \<Rightarrow> exn option list \<Rightarrow> world" where
  "start_world c version now audit telegram send_faults tg_faults =
     \<lparr>w_tick = 0, w_audit = new_audit_state audit, w_telegram = telegram,
      w_health = Some (start_health c version now), w_limiter = limiter_of (cf_rate_limit c),
      w_tg_limiter = limiter_of (tc_forwarding_rate_limit (cf_telegram c)),
      w_mc_limiter = limiter_of (tc_inbound_rate_limit (cf_telegram c)),
      w_sent = [], w_send_faults = send_faults, w_tg_sent = [], w_tg_faults = tg_faults,
      w_tg_offsets = [], w_webhook_drops = 0, w_slept = [], w_stopping = False,
      w_forward_stopping = False, w_transport_closed = 0, w_closed = False\<rparr>"

section \<open>The contracts hold for the wired parts\<close>

text \<open>
  The forwarder audits into the log that the bridge's flow writes, because \<open>amain\<close> hands it
  \<open>service.audit_flow.normalized\<close>.
\<close>

definition shares_audit :: "flow_config option \<Rightarrow> mc_forwarder \<Rightarrow> mc_forwarder" where
  "shares_audit fco mf = mf\<lparr>mf_audit := map_option fc_settings fco\<rparr>"

lemma shares_audit_wired: "audit_wired fco (mf_audit (shares_audit fco mf))"
  by (auto simp: audit_wired_def shares_audit_def)

lemma forward_normal_text_sends: "w_sent (snd (forward_normal_text mf ev m trail w)) = w_sent w"
  using forward_normal_text_step [of None trail w mf ev m]
  by (simp add: world_inv_def audit_wired_def log_step_def)

interpretation parts: bridge_parts "run_builtin sv" "sv_flow sv"
    "forward_normal_text (shares_audit (sv_flow sv) mf)" for sv mf
proof
  show "w_sent (snd (forward_normal_text (shares_audit (sv_flow sv) mf) ev m trail w)) = w_sent w"
    for ev m trail w by (rule forward_normal_text_sends)
next
  fix trail w ev m
  assume "world_inv (sv_flow sv) trail w"
  from forward_normal_text_step [OF this shares_audit_wired, of mf ev m] this
  show "world_inv (sv_flow sv) trail
      (snd (forward_normal_text (shares_audit (sv_flow sv) mf) ev m trail w))"
    by (simp add: log_step_def)
qed

text \<open>What \<open>main.py\<close> builds is wired that way.\<close>

lemma build_service_wired:
  assumes "build_service c fc fwd = Inr bg"
    and "fwd \<in> {None, Some (forward_normal_text (shares_audit (Some fc) mf))}"
  shows "parts.wired (build_services c client reader fc) mf bg"
  using assms unfolding parts.wired_def
  by (auto simp: build_service_def bind_result_Inr_iff build_services_def Let_def build_router_def)

lemma build_telegram_shares:
  "build_telegram_services c fc = Inr (Some (ts, mf)) \<Longrightarrow> shares_audit (Some fc) mf = mf"
  by (auto simp: build_telegram_services_def shares_audit_def split: if_splits option.splits)

lemma build_parts_wired:
  assumes "build_parts c fc = Inr (bg, ts)"
  obtains mf where "parts.wired (build_services c client reader fc) mf bg"
    "\<And>s. ts = Some s \<Longrightarrow> ts_flow s = Some fc \<and> ts_audit s = Some (fc_settings fc)
       \<and> ts_config s = cf_telegram c \<and> ts_router s = Some (bg_router bg)"
proof -
  from assms obtain bg0 tg where b: "build_service c fc None = Inr bg0"
      and t: "build_telegram_services c fc = Inr tg"
      and bg: "bg = bg0\<lparr>bg_forwarder := map_option (\<lambda>(ts, mf). forward_normal_text mf) tg\<rparr>"
      and ts: "ts = map_option fst tg"
    by (auto simp: build_parts_def bind_result_Inr_iff)
  have router: "bg_router bg = build_router c fc"
    using b bg by (auto simp: build_service_def bind_result_Inr_iff)
  show ?thesis
  proof (cases tg)
    case None
    with b bg have "build_service c fc (bg_forwarder bg) = Inr bg" "bg_forwarder bg = None"
      by (auto simp: build_service_def bind_result_Inr_iff)
    from build_service_wired [OF this(1)] this(2) that ts None show ?thesis by simp
  next
    case (Some p)
    then obtain s mf where p: "tg = Some (s, mf)" by (cases p) auto
    with t have mf: "shares_audit (Some fc) mf = mf" by (auto intro: build_telegram_shares)
    from b bg p have "build_service c fc (bg_forwarder bg) = Inr bg"
        "bg_forwarder bg = Some (forward_normal_text mf)"
      by (auto simp: build_service_def bind_result_Inr_iff)
    from build_service_wired [OF this(1), of mf] this(2) mf
    have w: "parts.wired (build_services c client reader fc) mf bg" by simp
    from t p ts router that [OF w] show ?thesis
      by (auto simp: build_telegram_services_def split: if_splits option.splits)
  qed
qed

lemma start_world_inv:
  assumes "audit_inv fc (new_audit_state audit)"
  shows "world_inv (Some fc) None (start_world c v now audit tg sf tf)"
  using assms by (simp add: world_inv_def start_world_def)

lemma start_health_ok: "health_ok (start_health c v now)"
  unfolding start_health_def by (rule configure_ok [OF new_health_ok])

end
