(* ===== verification/HA_App_Facts.thy ===== *)
theory HA_App_Facts
  imports HA_App_Options Bridge_Service
begin

text \<open>
  What the options of the Home Assistant App guarantee once they are accepted: the bounds that
  the validation of the YAML configuration asks for, the same home status as the YAML parser
  reads, and the users that may run commands.
\<close>

section \<open>A small file\<close>

definition sample_app_payload :: jobject where
  "sample_app_payload =
     [(lit ''authorized_senders'',
       JArr [JObj [(lit ''pubkey_prefix'', JStr (lit ''0a1b2c'')), (lit ''role'', JStr (lit ''admin''))]]),
      (lit ''home_status'', JObj [(lit ''servers'',
         JObj [(lit ''entries'', JArr [JObj [(lit ''alias'', JStr (lit ''nas''))]])])])]"

definition sample_environment :: "str \<Rightarrow> str option" where
  "sample_environment = [lit ''SUPERVISOR_TOKEN'' \<mapsto> lit ''0123456789'']"

definition sample_app_sender :: app_sender where
  "sample_app_sender = \<lparr>ps_pubkey_prefix = lit ''0a1b2c'', ps_name = lit ''0a1b2c'', ps_role = Admin\<rparr>"

lemmas eval_simps = jget_or_def jget_def strip_def lstrip_def rstrip_def is_space_def lower_def lower_cp_def
  lit_def

lemma sample_senders: "parse_authorized_senders (jget sample_app_payload (lit ''authorized_senders''))
    = Inr [sample_app_sender]"
  by (simp add: parse_authorized_senders_def sample_app_payload_def parse_app_sender_def app_object_def
      parse_role_def role_names_def eval_simps sample_app_sender_def Let_def)

lemma sample_servers: "\<exists>x. parse_app_home_status (JObj [(lit ''servers'',
         JObj [(lit ''entries'', JArr [JObj [(lit ''alias'', JStr (lit ''nas''))]])])]) = Inr x
    \<and> map pv_alias (px_servers x) = [lit ''nas'']"
  by (simp add: parse_app_home_status_def no_value_def parse_app_servers_def parse_app_server_def app_object_def
      parse_app_alarm_def parse_app_home_def parse_app_network_def app_entity_def app_entities_def
      entity_id_def entity_list_def config_label_def plain_text_def is_control_def str_or_empty_def
      is_server_alias_def eval_simps Let_def)

text \<open>Sections that are left out have the documented defaults.\<close>

lemma jget_or_Nil [simp]: "jget_or [] k v = v"
  by (simp add: jget_or_def jget_def)

lemma app_int_JInt [simp]: "app_int (JInt i) name = Inr i"
  by (simp add: app_int_def json_int_def)

lemma plain_ascii:
  "length t \<le> n \<Longrightarrow> list_all (\<lambda>c. 32 \<le> c \<and> c < 127) t \<Longrightarrow> plain_text f n t = Inr t"
  by (auto simp: plain_text_def list_all_iff list_ex_iff is_control_def)

lemma parse_role_readonly [simp]: "parse_role (lit ''readonly'') = Inr Readonly"
  using parse_role_name [of Readonly] by (simp add: role_name_def)

lemma default_telegram: "parse_app_telegram (JObj []) = Inr default_app_telegram"
proof -
  have "telegram_message_prefix (JStr (lit ''TG: '')) f = Inr (lit ''TG: '')"
    "telegram_message_prefix (JStr (lit ''MC: '')) f = Inr (lit ''MC: '')" for f
    by (simp_all add: telegram_message_prefix_def str_or_empty_def plain_ascii lit_def)
  then show ?thesis
    by (simp add: parse_app_telegram_def no_value_def app_object_def app_forwarding_limit_def Let_def
        strict_bool_def or_bang_def str_or_empty_def default_app_telegram_def strip_def lstrip_def rstrip_def)
qed

lemma default_health: "\<exists>h. parse_app_health (JObj []) = Inr h"
  by (simp add: parse_app_health_def no_value_def app_object_def strict_bool_def)

lemma default_weather: "\<exists>w. parse_app_weather (JObj []) = Inr w"
proof -
  have "weather_label (JStr (lit ''Exterior'')) = Inr (lit ''Exterior'')"
    by (simp add: weather_label_def Let_def strip_def lstrip_def rstrip_def is_space_def lit_def plain_ascii)
  then show ?thesis by (simp add: parse_app_weather_def no_value_def app_object_def)
qed

lemma sample_options: "\<exists>po. app_options_from_mapping sample_app_payload = Inr po
    \<and> po_authorized_senders po = [sample_app_sender] \<and> po_telegram po = default_app_telegram"
proof -
  obtain x where x: "parse_app_home_status (JObj [(lit ''servers'',
         JObj [(lit ''entries'', JArr [JObj [(lit ''alias'', JStr (lit ''nas''))]])])]) = Inr x"
    using sample_servers by blast
  obtain h w where hw: "parse_app_health (JObj []) = Inr h" "parse_app_weather (JObj []) = Inr w"
    using default_health default_weather by blast
  have home: "jget_or sample_app_payload (lit ''home_status'') (JObj []) = JObj [(lit ''servers'',
         JObj [(lit ''entries'', JArr [JObj [(lit ''alias'', JStr (lit ''nas''))]])])]"
    by (simp add: jget_or_def jget_def sample_app_payload_def)
  have get: "jget_or sample_app_payload (lit k) v = v"
    if "k \<noteq> ''home_status''" "k \<noteq> ''authorized_senders''" for k v
    using that by (simp add: jget_or_def jget_def sample_app_payload_def)
  have level: "lower (lit ''info'') = lit ''info''"
    by (simp add: lower_def lower_cp_def lit_def)
  show ?thesis
    unfolding app_options_from_mapping_def Let_def sample_senders home
    by (simp add: get x hw level app_object_def parse_app_status_entities_def default_telegram guards.simps)
qed

section \<open>Accepted options\<close>

lemma py_repr_nonempty: "v \<noteq> JFloat [] \<Longrightarrow> py_repr v \<noteq> []"
  by (cases v) (auto simp: py_repr_str_def dec_def Let_def)

lemma py_str_truthy: "truthy v \<Longrightarrow> py_str v \<noteq> []"
  using py_repr_nonempty [of v] by (cases v) auto

lemma or_bang_nonempty [simp]: "or_bang v \<noteq> []"
  using py_str_truthy [of v] by (simp add: or_bang_def)

declare guards.simps [simp del]

lemma bind_result_InrE:
  assumes "bind_result r f = Inr y"
  obtains x where "r = Inr x" "f x = Inr y"
  using assms by (cases r) auto

lemma app_limit_positive:
  "app_forwarding_limit d key n = Inr rc \<Longrightarrow> 1 \<le> rc_commands rc \<and> 1 \<le> rc_window_seconds rc"
  by (auto simp: app_forwarding_limit_def Let_def bind_result_Inr_iff guards_Inr_iff)

definition app_telegram_ok :: "app_telegram \<Rightarrow> bool" where
  "app_telegram_ok t \<longleftrightarrow>
     0 < pt_channel_index t \<and> pt_command_prefix t \<noteq> []
     \<and> 1 \<le> pt_max_meshcore_length t \<and> 1 \<le> pt_max_telegram_length t
     \<and> 1 \<le> rc_commands (pt_forwarding_rate_limit t) \<and> 1 \<le> rc_window_seconds (pt_forwarding_rate_limit t)
     \<and> 1 \<le> rc_commands (pt_inbound_rate_limit t) \<and> 1 \<le> rc_window_seconds (pt_inbound_rate_limit t)
     \<and> (pt_enabled t \<longrightarrow> pt_allowed_private_chat_id t \<noteq> [] \<and> pt_allowed_user_id t \<noteq> []
          \<and> pt_bot_token_file t \<noteq> [])"

lemma parse_app_telegram_ok:
  assumes "parse_app_telegram v = Inr t"
  shows "app_telegram_ok t"
proof (cases "no_value v")
  case True
  with assms show ?thesis
    by (auto simp: parse_app_telegram_def default_app_telegram_def app_telegram_ok_def)
next
  case False
  with assms show ?thesis
    unfolding parse_app_telegram_def Let_def
    by (auto simp: guards_Inr_iff app_telegram_ok_def elim!: bind_result_InrE dest!: app_limit_positive)
qed

lemma parse_app_health_ok:
  "parse_app_health v = Inr h \<Longrightarrow> 15 \<le> pg_heartbeat_seconds h \<and> pg_heartbeat_seconds h \<le> 3600"
  by (auto simp: parse_app_health_def bind_result_Inr_iff split: if_splits)

lemma app_options_ok:
  assumes "app_options_from_mapping payload = Inr po"
  shows "0 < po_channel_index po" "po_command_prefix po \<noteq> []" "app_telegram_ok (po_telegram po)"
    "15 \<le> pg_heartbeat_seconds (po_health po)" "pg_heartbeat_seconds (po_health po) \<le> 3600"
    "1 \<le> rc_commands (po_rate_limit po)" "1 \<le> rc_window_seconds (po_rate_limit po)"
    "po_authorized_senders po \<noteq> [] \<or> po_allow_unidentified po"
  using assms unfolding app_options_from_mapping_def Let_def
  by (auto simp: guards_Inr_iff elim!: bind_result_InrE dest!: parse_app_telegram_ok parse_app_health_ok)

text \<open>
  The options of the App never go through the validation of the YAML configuration, yet options
  that are accepted give a configuration that passes all of it, the length of the Supervisor's
  token apart.
\<close>

theorem accepted_app_config:
  assumes "load_app_config getenv content None = Inr (c, po)"
  shows "validate_config c = Inr () \<longleftrightarrow> 10 \<le> length (hc_token (cf_homeassistant c))"
proof -
  from assms obtain payload rt where parts: "runtime_from_environment getenv = Inr rt"
      "app_options_from_mapping payload = Inr po" "c = to_app_config po rt"
    unfolding load_app_config_def app_options_from_file_def
    by (auto elim!: bind_result_InrE split: json.splits)
  note ok = app_options_ok [OF parts(2)]
  have url: "rt_rest_base_url rt = lit ''http://supervisor/core''" and "rt_token rt \<noteq> []"
    using parts(1) by (auto simp: runtime_from_environment_def split: option.splits if_splits)
  moreover have "starts_with (lit ''http://supervisor/core'') (lit ''http://'')"
    by (simp add: starts_with_def lit_def)
  ultimately show ?thesis
    using ok by (auto simp: validate_config_def Let_def guards_Inr_iff parts(3) to_app_config_def
        app_telegram_config_def app_telegram_ok_def not_less)
qed

theorem accepted_app_config_witness:
  "\<exists>c po. load_app_config sample_environment (Inr (JObj sample_app_payload)) None = Inr (c, po)
     \<and> validate_config c = Inr ()"
proof -
  obtain po where po: "app_options_from_mapping sample_app_payload = Inr po"
    using sample_options by blast
  obtain rt where rt: "runtime_from_environment sample_environment = Inr rt" "rt_token rt = lit ''0123456789''"
    by (simp add: runtime_from_environment_def sample_environment_def)
  have load: "load_app_config sample_environment (Inr (JObj sample_app_payload)) None = Inr (to_app_config po rt, po)"
    by (simp add: load_app_config_def app_options_from_file_def po rt)
  have "length (hc_token (cf_homeassistant (to_app_config po rt))) = 10"
    by (simp add: to_app_config_def rt(2))
  with load accepted_app_config [OF load] show ?thesis by auto
qed

section \<open>The same home status as the YAML parser\<close>

lemma app_object_Inr [simp]: "app_object v name = Inr d \<longleftrightarrow> v = JObj d"
  by (auto simp: app_object_def split: json.splits)

lemma app_entity_field: "app_entity = entity_field" "app_entities = list_field"
  by (simp_all add: fun_eq_iff app_entity_def entity_field_def app_entities_def list_field_def)

lemma parse_app_server_agrees:
  assumes "parse_app_server aliases item = Inr e"
  shows "parse_server aliases item = Inr (app_server_config e)"
  using assms unfolding parse_app_server_def parse_server_def Let_def app_entity_field
  by (auto simp: mapping_def app_server_config_def elim!: bind_result_InrE split: if_splits)

lemma parse_app_server_items_agree:
  "parse_app_server_items aliases items = Inr es \<Longrightarrow>
     parse_server_items aliases items = Inr (map app_server_config es)"
proof (induction aliases items arbitrary: es rule: parse_app_server_items.induct)
  case (2 aliases item items)
  then obtain e rest where e: "parse_app_server aliases item = Inr e"
      "parse_app_server_items (pv_alias e # aliases) items = Inr rest" "es = e # rest"
    by (auto simp: bind_result_Inr_iff)
  from parse_app_server_agrees [OF e(1)] 2(1) [OF e(2)] e(3) show ?case
    by (simp add: app_server_config_def)
qed simp

lemma parse_app_servers_agree:
  "parse_app_servers v = Inr es \<Longrightarrow> parse_home_status_servers v = Inr (map app_server_config es)"
  by (auto simp: parse_app_servers_def parse_home_status_servers_def parse_app_server_items_agree
      split: json.splits if_splits)

text \<open>
  The two parsers of the home status agree: what the App accepts, the YAML parser reads as the
  same settings.
\<close>

theorem app_home_status_agrees:
  assumes "parse_app_home_status v = Inr x"
  shows "parse_home_status v = Inr (app_home_status_config x)"
proof (cases "no_value v")
  case True
  with assms show ?thesis
    by (auto simp: parse_app_home_status_def parse_home_status_def no_value_def no_app_home_status_def
        no_home_status_def app_home_status_config_def Let_def)
next
  case False
  with assms show ?thesis
    unfolding parse_app_home_status_def parse_home_status_def Let_def
      parse_app_alarm_def parse_app_home_def parse_app_network_def
      parse_alarm_def parse_home_def parse_network_def app_entity_field
    by (auto simp: mapping_def app_home_status_config_def parse_app_servers_agree elim!: bind_result_InrE)
qed


theorem app_home_status_agrees_witness:
  "\<exists>x. parse_home_status (JObj [(lit ''servers'',
         JObj [(lit ''entries'', JArr [JObj [(lit ''alias'', JStr (lit ''nas''))]])])]) = Inr x
     \<and> map se_alias (hx_servers x) = [lit ''nas'']"
proof -
  obtain x where x: "parse_app_home_status (JObj [(lit ''servers'',
         JObj [(lit ''entries'', JArr [JObj [(lit ''alias'', JStr (lit ''nas''))]])])]) = Inr x"
      "map pv_alias (px_servers x) = [lit ''nas'']"
    using sample_servers by (elim exE conjE)
  have "map se_alias (hx_servers (app_home_status_config x)) = map pv_alias (px_servers x)"
    by (simp add: app_home_status_config_def Let_def app_server_config_def)
  with app_home_status_agrees [OF x(1)] x(2) show ?thesis by simp
qed

section \<open>Who may run commands\<close>

lemma map_of_fold_update:
  "map_of (fold (\<lambda>kv. AList.update (fst kv) (snd kv)) kvs al) = map_of al ++ map_of (rev kvs)"
  by (induction kvs arbitrary: al) (auto simp: update_conv' map_add_def fun_eq_iff split: option.splits)

lemma map_of_dict_of: "map_of (dict_of kvs) = map_of (rev kvs)"
  by (simp add: dict_of_def map_of_fold_update)

lemma least_role [simp]: "r \<le> Readonly \<longleftrightarrow> r = Readonly"
  using antisym [OF _ readonly_least] by blast

text \<open>A node is known by the prefix of its key, whatever the case of its letters.\<close>

lemma listed_sender_recognised:
  assumes "po_authorized_senders po = before @ s # after"
    and "\<forall>t \<in> set after. app_sender_id (ps_pubkey_prefix t) \<noteq> app_sender_id (ps_pubkey_prefix s)"
    and "pubkey_prefix data = Some p" "lower p = lower (strip (ps_pubkey_prefix s))"
    and "\<not> starts_with (lower p) (lit ''meshcore-pubkey-prefix:'')"
  shows "map_of (app_users po) (mc_sender_id ms data) = Some (snd (app_user_of s))"
proof -
  have id: "mc_sender_id ms data = app_sender_id (ps_pubkey_prefix s)"
    using assms(3-5) by (simp add: mc_sender_id_def app_sender_id_def Let_def)
  have "mc_sender_id ms data \<noteq> unidentified_testing_sender_id (po_channel_index po)"
    using assms(3) by (simp add: mc_sender_id_def unidentified_testing_sender_id_def lit_def)
  moreover have "map_of (rev (map app_user_of after)) (app_sender_id (ps_pubkey_prefix s)) = None"
    using assms(2) by (force simp: map_of_eq_None_iff app_user_of_def)
  ultimately show ?thesis
    using id by (auto simp: app_users_def Let_def update_conv' map_of_dict_of assms(1) map_add_def
        app_user_of_def)
qed

text \<open>
  The role that the options give a sender: the configured one for the user of Telegram, reading for an
  unidentified sender while that is allowed for testing, otherwise that of the last entry that lists
  the sender's key, if there is one.
\<close>

definition app_role :: "app_options \<Rightarrow> str \<Rightarrow> role option" where
  "app_role po sid =
     (if pt_enabled (po_telegram po) \<and> sid = telegram_sender_id
      then Some (pt_authorized_user_role (po_telegram po))
      else if po_allow_unidentified po \<and> sid = unidentified_testing_sender_id (po_channel_index po)
      then Some Readonly
      else map_option ps_role
             (find (\<lambda>s. app_sender_id (ps_pubkey_prefix s) = sid) (rev (po_authorized_senders po))))"

lemma map_of_find: "map_of (map (\<lambda>x. (f x, g x)) xs) k = map_option g (find (\<lambda>x. f x = k) xs)"
  by (induction xs) auto

lemma authorized_role:
  "map_option au_role (map_of (authorized_users (to_app_config po rt)) sid) = app_role po sid"
proof -
  have "map_of (rev (map app_user_of (po_authorized_senders po))) sid
      = map_option (\<lambda>s. snd (app_user_of s))
          (find (\<lambda>s. app_sender_id (ps_pubkey_prefix s) = sid) (rev (po_authorized_senders po)))"
    using map_of_find [of "\<lambda>s. app_sender_id (ps_pubkey_prefix s)" "\<lambda>s. snd (app_user_of s)"
        "rev (po_authorized_senders po)" sid]
    by (simp add: rev_map app_user_of_def [abs_def])
  then show ?thesis
    by (simp add: authorized_users_def to_app_config_def app_telegram_config_def app_role_def app_users_def Let_def
        update_conv' map_of_dict_of app_user_of_def option.map_comp comp_def)
qed

lemma app_rooms:
  "map_of (room_policies (to_app_config po rt)) rid =
     (if rid = app_room_id po \<or> pt_enabled (po_telegram po) \<and> rid = telegram_room_id
      then Some \<lparr>rp_room_id = rid, rp_enabled = True, rp_minimum_role = Readonly, rp_allow_commands = True\<rparr>
      else None)"
  "room_policies (to_app_config po rt) \<noteq> []"
  by (auto simp: room_policies_def to_app_config_def app_telegram_config_def update_conv')

text \<open>
  C18. With the options of the App, exactly these may run a command that asks for the role \<open>r\<close>: the
  configured user of Telegram, when it is enabled and the role configured for that user suffices; an
  unidentified sender of the channel, while that is allowed for testing and \<open>r\<close> asks for no more than
  reading; and a node whose key the options list, when the role of its last entry suffices. And only
  in the room of the administration channel or, when Telegram is enabled, in that of Telegram.
\<close>

theorem app_permission:
  "(\<exists>u. require_message (ro_authorizer (build_router (to_app_config po rt) fc)) m r = Some u) \<longleftrightarrow>
     (\<exists>role. app_role po (sender_of m) = Some role \<and> r \<le> role)
     \<and> (\<exists>room. im_source_room m = Some room
          \<and> (rr_room_id room = app_room_id po
             \<or> pt_enabled (po_telegram po) \<and> rr_room_id room = telegram_room_id))"
  using authorized_role [of po rt "sender_of m", symmetric] app_rooms [of po rt]
  by (cases "map_of (authorized_users (to_app_config po rt)) (sender_of m)"; cases "im_source_room m")
    (auto simp: require_message_permitted permitted_def build_router_def)

end
