(* ===== verification/Posix_Files.thy ===== *)
theory Posix_Files
  imports PyText
begin

text \<open>
  The part of a POSIX file system that the files with secrets rely on: what stands under a path,
  the system calls as operations on it, and their failures. Every call takes the next entry of
  \<open>io_faults\<close>: an exception that it raises instead of acting, or none. A call that changes a
  path appends the disk it leaves to \<open>io_trace\<close>, so that the trace holds every disk that a crash
  between two calls can leave behind.
\<close>

section \<open>Disks\<close>

text \<open>A path is its directory and its last component.\<close>

type_synonym path = "str \<times> str"

datatype node =
    Regular (node_mode: nat) (node_owner: nat) (node_bytes: bytes)
  | Symlink path
  | Directory
  | Device

type_synonym disk = "path \<Rightarrow> node option"

text \<open>
  \<open>io_writes\<close> bounds what each \<open>write\<close> takes (everything, once it is empty); \<open>io_rival\<close> is a file
  that another process creates just before this one publishes its own.
\<close>

record io =
  io_disk :: disk
  io_uid :: nat
  io_pid :: nat
  io_faults :: "exn option list"
  io_writes :: "nat list"
  io_rival :: "(path \<times> node) option"
  io_trace :: "disk list"

definition FileNotFoundError :: exn_class where
  "FileNotFoundError = OtherError (lit ''FileNotFoundError'')"

definition FileExistsError :: exn_class where
  "FileExistsError = OtherError (lit ''FileExistsError'')"

definition is_os_error :: "exn \<Rightarrow> bool" where
  "is_os_error e \<longleftrightarrow> exn_class e \<in> {OSError, FileNotFoundError, FileExistsError}"

lemma file_errors_differ [simp]:
  "FileNotFoundError \<noteq> FileExistsError" "FileExistsError \<noteq> FileNotFoundError"
  "FileNotFoundError \<noteq> OSError" "FileExistsError \<noteq> OSError"
  "OSError \<noteq> FileNotFoundError" "OSError \<noteq> FileExistsError"
  "FileNotFoundError \<noteq> AuditKeyError" "FileExistsError \<noteq> AuditKeyError"
  "AuditKeyError \<noteq> FileNotFoundError" "AuditKeyError \<noteq> FileExistsError"
  by (simp_all add: FileNotFoundError_def FileExistsError_def)

section \<open>Sequencing\<close>

type_synonym 'a act = "io \<Rightarrow> 'a result \<times> io"

definition give :: "'a \<Rightarrow> 'a act" where
  "give x io = (Inr x, io)"

definition fail :: "exn \<Rightarrow> 'a act" where
  "fail e io = (Inl e, io)"

definition and_then :: "'a act \<Rightarrow> ('a \<Rightarrow> 'b act) \<Rightarrow> 'b act" where
  "and_then m k io = (case m io of (Inl e, io') \<Rightarrow> (Inl e, io') | (Inr x, io') \<Rightarrow> k x io')"

text \<open>\<open>try: ... finally: ...\<close>: an exception of the clean-up replaces the outcome.\<close>

definition and_finally :: "'a act \<Rightarrow> unit act \<Rightarrow> 'a act" where
  "and_finally m c io =
     (let (r, io') = m io; (s, io'') = c io' in (case s of Inl e \<Rightarrow> Inl e | Inr _ \<Rightarrow> r, io''))"

text \<open>\<open>try: ... except\<close>: the handler is given the exception.\<close>

definition on_error :: "'a act \<Rightarrow> (exn \<Rightarrow> 'a act) \<Rightarrow> 'a act" where
  "on_error m h io = (case m io of (Inl e, io') \<Rightarrow> h e io' | (Inr x, io') \<Rightarrow> (Inr x, io'))"

section \<open>System calls\<close>

definition io_fault :: "io \<Rightarrow> exn option" where
  "io_fault io = (case io_faults io of [] \<Rightarrow> None | f # fs \<Rightarrow> f)"

definition sys_call :: "'a act \<Rightarrow> 'a act" where
  "sys_call m io =
     (let io' = io\<lparr>io_faults := drop 1 (io_faults io)\<rparr> in
      case io_fault io of Some e \<Rightarrow> (Inl e, io') | None \<Rightarrow> m io')"

definition set_node :: "path \<Rightarrow> node option \<Rightarrow> io \<Rightarrow> io" where
  "set_node p n io =
     (let d = (io_disk io)(p := n) in io\<lparr>io_disk := d, io_trace := d # io_trace io\<rparr>)"

text \<open>A call that only has to succeed: \<open>mkdir\<close>, \<open>fsync\<close>, \<open>close\<close>.\<close>

definition touch :: "unit act" where
  "touch = sys_call (give ())"

text \<open>\<open>os.open(path, O_RDONLY | O_NOFOLLOW)\<close>: the descriptor is the file it was opened on.\<close>

definition open_read :: "path \<Rightarrow> node act" where
  "open_read p =
     sys_call (\<lambda>io.
       case io_disk io p of
         None \<Rightarrow> fail (Exn FileNotFoundError (lit ''No such file or directory'')) io
       | Some (Symlink _) \<Rightarrow> fail (Exn OSError (lit ''Too many levels of symbolic links'')) io
       | Some n \<Rightarrow> give n io)"

text \<open>\<open>os.open(path, O_WRONLY | O_CREAT | O_EXCL | O_NOFOLLOW, 0o600)\<close>.\<close>

definition create_exclusive :: "path \<Rightarrow> unit act" where
  "create_exclusive p =
     sys_call (\<lambda>io.
       if io_disk io p \<noteq> None then fail (Exn FileExistsError (lit ''File exists'')) io
       else (Inr (), set_node p (Some (Regular 384 (io_uid io) [])) io))"

text \<open>\<open>os.write(fd, data)\<close> on the file just created: how many bytes it took.\<close>

definition append_bytes :: "path \<Rightarrow> bytes \<Rightarrow> nat act" where
  "append_bytes p data =
     sys_call (\<lambda>io.
       let n = (case io_writes io of [] \<Rightarrow> length data | w # ws \<Rightarrow> min w (length data));
           io' = io\<lparr>io_writes := drop 1 (io_writes io)\<rparr>
       in case io_disk io p of
            Some (Regular m u bs) \<Rightarrow> (Inr n, set_node p (Some (Regular m u (bs @ take n data))) io')
          | _ \<Rightarrow> (Inr n, io'))"

text \<open>The loop \<open>_write_all\<close>; \<open>e\<close> is raised when a write takes nothing.\<close>

function write_all :: "exn \<Rightarrow> path \<Rightarrow> bytes \<Rightarrow> unit act" where
  "write_all e p data io =
     (if data = [] then (Inr (), io)
      else
        (case append_bytes p data io of
           (Inl e', io') \<Rightarrow> (Inl e', io')
         | (Inr n, io') \<Rightarrow> if n = 0 then (Inl e, io') else write_all e p (drop n data) io'))"
  by auto
termination
  by (relation "measure (\<lambda>(e, p, data, io). length data)") auto

declare write_all.simps [simp del]

text \<open>\<open>os.replace\<close> of a file: it replaces what is there, but no directory.\<close>

definition rename :: "path \<Rightarrow> path \<Rightarrow> unit act" where
  "rename p q =
     sys_call (\<lambda>io.
       case io_disk io p of
         None \<Rightarrow> fail (Exn FileNotFoundError (lit ''No such file or directory'')) io
       | Some n \<Rightarrow>
           if io_disk io q = Some Directory then fail (Exn OSError (lit ''Is a directory'')) io
           else
             (let d = (io_disk io)(q := Some n, p := None)
              in (Inr (), io\<lparr>io_disk := d, io_trace := d # io_trace io\<rparr>)))"

definition chmod :: "nat \<Rightarrow> path \<Rightarrow> unit act" where
  "chmod mode p =
     sys_call (\<lambda>io.
       case io_disk io p of
         Some (Regular m u bs) \<Rightarrow> (Inr (), set_node p (Some (Regular mode u bs)) io)
       | Some n \<Rightarrow> give () io
       | None \<Rightarrow> fail (Exn FileNotFoundError (lit ''No such file or directory'')) io)"

definition unlink :: "path \<Rightarrow> unit act" where
  "unlink p =
     sys_call (\<lambda>io.
       if io_disk io p = None then fail (Exn FileNotFoundError (lit ''No such file or directory'')) io
       else if io_disk io p = Some Directory then fail (Exn OSError (lit ''Is a directory'')) io
       else (Inr (), set_node p None io))"

text \<open>\<open>with suppress(FileNotFoundError): path.unlink()\<close>.\<close>

definition unlink_if_there :: "path \<Rightarrow> unit act" where
  "unlink_if_there p =
     on_error (unlink p) (\<lambda>e. if exn_class e = FileNotFoundError then give () else fail e)"

text \<open>
  \<open>os.link(p, q)\<close>, which never replaces \<open>q\<close>. The rival's file is there first. No file is written
  after it got its second name, so the second name may hold a copy.
\<close>

definition arrive :: "io \<Rightarrow> io" where
  "arrive io =
     (case io_rival io of
        None \<Rightarrow> io
      | Some (q, n) \<Rightarrow>
          if io_disk io q = None then (set_node q (Some n) io)\<lparr>io_rival := None\<rparr>
          else io\<lparr>io_rival := None\<rparr>)"

definition hard_link :: "path \<Rightarrow> path \<Rightarrow> unit act" where
  "hard_link p q io0 =
     sys_call (\<lambda>io.
       if io_disk io q \<noteq> None then fail (Exn FileExistsError (lit ''File exists'')) io
       else
         (case io_disk io p of
            None \<Rightarrow> fail (Exn FileNotFoundError (lit ''No such file or directory'')) io
          | Some n \<Rightarrow> (Inr (), set_node q (Some n) io))) (arrive io0)"

section \<open>What a call keeps\<close>

text \<open>
  An act keeps a property of disks when it leads from a disk that has it to one that has it,
  through disks that all have it.
\<close>

definition keeps :: "(disk \<Rightarrow> bool) \<Rightarrow> 'a act \<Rightarrow> bool" where
  "keeps P m \<longleftrightarrow>
     (\<forall>io. P (io_disk io) \<longrightarrow>
        (let io' = snd (m io) in
         P (io_disk io') \<and> (\<forall>d \<in> set (io_trace io'). d \<in> set (io_trace io) \<or> P d)
         \<and> io_uid io' = io_uid io \<and> io_pid io' = io_pid io \<and> io_rival io' = io_rival io))"

named_theorems keeps_intros \<open>acts that keep a property\<close>

lemma keepsI:
  assumes "\<And>io. P (io_disk io) \<Longrightarrow>
      P (io_disk (snd (m io))) \<and> (\<forall>d \<in> set (io_trace (snd (m io))). d \<in> set (io_trace io) \<or> P d)
      \<and> io_uid (snd (m io)) = io_uid io \<and> io_pid (snd (m io)) = io_pid io
      \<and> io_rival (snd (m io)) = io_rival io"
  shows "keeps P m"
  using assms by (simp add: keeps_def Let_def)

lemma keepsD:
  assumes "keeps P m" "P (io_disk io)" "m io = (r, io')"
  shows "P (io_disk io')" "\<And>d. d \<in> set (io_trace io') \<Longrightarrow> d \<in> set (io_trace io) \<or> P d"
    "io_uid io' = io_uid io" "io_pid io' = io_pid io" "io_rival io' = io_rival io"
  using assms(1) [unfolded keeps_def, rule_format, OF assms(2)] assms(3) by (auto simp: Let_def)

lemma keeps_chain:
  assumes "keeps P m" "\<And>r io io'. m io = (r, io') \<Longrightarrow> P (io_disk io') \<Longrightarrow> \<exists>k. keeps P k \<and> f io = k io'"
  shows "keeps P f"
proof (rule keepsI)
  fix io :: io assume P: "P (io_disk io)"
  obtain r io' where m: "m io = (r, io')" by fastforce
  note m' = keepsD [OF assms(1) P m]
  obtain k where k: "keeps P k" "f io = k io'" using assms(2) [OF m m'(1)] by blast
  obtain s io'' where f: "k io' = (s, io'')" by fastforce
  from keepsD [OF k(1) m'(1) f] m' k(2) f show
    "P (io_disk (snd (f io))) \<and> (\<forall>d \<in> set (io_trace (snd (f io))). d \<in> set (io_trace io) \<or> P d)
      \<and> io_uid (snd (f io)) = io_uid io \<and> io_pid (snd (f io)) = io_pid io
      \<and> io_rival (snd (f io)) = io_rival io"
    by auto
qed

lemma keeps_same [keeps_intros]:
  "keeps P (give x)" "keeps P (fail e)" "keeps P (\<lambda>io. (r, io))"
  by (auto intro!: keepsI simp: give_def fail_def)

lemma keeps_and_then [keeps_intros]:
  assumes "keeps P m" "\<And>x. keeps P (k x)"
  shows "keeps P (and_then m k)"
proof (rule keeps_chain [OF assms(1)])
  fix r and io io' :: io assume m: "m io = (r, io')"
  show "\<exists>k'. keeps P k' \<and> and_then m k io = k' io'"
  proof (cases r)
    case (Inl e)
    with m show ?thesis by (intro exI [of _ "fail e"]) (simp add: and_then_def keeps_intros fail_def)
  next
    case (Inr x)
    with m assms(2) show ?thesis by (intro exI [of _ "k x"]) (simp add: and_then_def)
  qed
qed

lemma keeps_on_error [keeps_intros]:
  assumes "keeps P m" "\<And>e. keeps P (h e)"
  shows "keeps P (on_error m h)"
proof (rule keeps_chain [OF assms(1)])
  fix r and io io' :: io assume m: "m io = (r, io')"
  show "\<exists>k'. keeps P k' \<and> on_error m h io = k' io'"
  proof (cases r)
    case (Inl e)
    with m assms(2) show ?thesis by (intro exI [of _ "h e"]) (simp add: on_error_def)
  next
    case (Inr x)
    with m show ?thesis by (intro exI [of _ "give x"]) (simp add: on_error_def keeps_intros give_def)
  qed
qed

lemma keeps_and_finally [keeps_intros]:
  assumes "keeps P m" "keeps P c"
  shows "keeps P (and_finally m c)"
proof (rule keeps_chain [OF assms(1)])
  fix r and io io' :: io assume m: "m io = (r, io')"
  let ?k = "\<lambda>io. (case fst (c io) of Inl e \<Rightarrow> Inl e | Inr _ \<Rightarrow> r, snd (c io))"
  have "keeps P ?k" using assms(2) by (simp add: keeps_def)
  with m show "\<exists>k'. keeps P k' \<and> and_finally m c io = k' io'"
    by (intro exI [of _ ?k]) (simp add: and_finally_def split: prod.splits)
qed

lemma keeps_if [keeps_intros]:
  "(b \<Longrightarrow> keeps P m) \<Longrightarrow> (\<not> b \<Longrightarrow> keeps P m') \<Longrightarrow> keeps P (if b then m else m')"
  by simp

lemma keeps_if_state [keeps_intros]:
  "keeps P m \<Longrightarrow> keeps P m' \<Longrightarrow> keeps P (\<lambda>io. if b io then m io else m' io)"
  by (simp add: keeps_def)

lemma keeps_sys_call [keeps_intros]:
  assumes "keeps P m"
  shows "keeps P (sys_call m)"
proof (rule keepsI)
  fix io :: io assume P: "P (io_disk io)"
  obtain r io' where m: "m (io\<lparr>io_faults := drop 1 (io_faults io)\<rparr>) = (r, io')" by fastforce
  from P keepsD [OF assms _ m] m show
    "P (io_disk (snd (sys_call m io)))
      \<and> (\<forall>d \<in> set (io_trace (snd (sys_call m io))). d \<in> set (io_trace io) \<or> P d)
      \<and> io_uid (snd (sys_call m io)) = io_uid io \<and> io_pid (snd (sys_call m io)) = io_pid io
      \<and> io_rival (snd (sys_call m io)) = io_rival io"
    by (auto simp: sys_call_def Let_def split: option.splits)
qed

lemma keeps_reading [keeps_intros]: "keeps P touch" "keeps P (open_read p)"
  unfolding touch_def open_read_def
  by (rule keeps_sys_call, (rule keeps_intros | rule keepsI, auto simp: give_def fail_def split: option.splits node.splits))+

text \<open>A path on which the property does not depend may be changed at will.\<close>

definition free_at :: "path \<Rightarrow> (disk \<Rightarrow> bool) \<Rightarrow> bool" where
  "free_at t P \<longleftrightarrow> (\<forall>d n. P d \<longrightarrow> P (d(t := n)))"

lemma keeps_set_node: "free_at t P \<Longrightarrow> P (io_disk io) \<Longrightarrow> P ((io_disk io)(t := n))"
  by (simp add: free_at_def)

lemma keeps_create [keeps_intros]: "free_at t P \<Longrightarrow> keeps P (create_exclusive t)"
  unfolding create_exclusive_def
  by (rule keeps_sys_call, rule keepsI) (auto simp: set_node_def fail_def Let_def keeps_set_node)

lemma keeps_append: "free_at t P \<Longrightarrow> keeps P (append_bytes t data)"
  unfolding append_bytes_def
  by (rule keeps_sys_call, rule keepsI)
    (auto simp: set_node_def Let_def keeps_set_node split: option.splits node.splits)

lemma keeps_writes:
  assumes append: "\<And>data. keeps P (append_bytes t data)"
  shows "keeps P (write_all e t data)"
proof (induction data rule: length_induct)
  case (1 data)
  show ?case
  proof (cases "data = []")
    case True
    then show ?thesis by (auto intro!: keepsI simp: write_all.simps [of e t "[]"])
  next
    case False
    show ?thesis
    proof (rule keeps_chain [OF append [of data]])
      fix r and io io' :: io assume a: "append_bytes t data io = (r, io')" "P (io_disk io')"
      show "\<exists>k. keeps P k \<and> write_all e t data io = k io'"
      proof (cases "\<exists>n. r = Inr n \<and> 0 < n")
        case True
        then obtain n where n: "r = Inr n" "0 < n" by blast
        with 1 False have "keeps P (write_all e t (drop n data))" by simp
        with n a False show ?thesis
          by (intro exI [of _ "write_all e t (drop n data)"]) (simp add: write_all.simps [of e t data])
      next
        case none: False
        have "\<exists>e'. write_all e t data io = fail e' io'"
          using a False none by (cases r) (auto simp: write_all.simps [of e t data] fail_def)
        then show ?thesis by (auto intro: keeps_same)
      qed
    qed
  qed
qed

lemma keeps_write_all [keeps_intros]: "free_at t P \<Longrightarrow> keeps P (write_all e t data)"
  by (intro keeps_writes keeps_append)

text \<open>A file that is written to stays there.\<close>

definition file_at :: "path \<Rightarrow> nat \<Rightarrow> disk \<Rightarrow> bool" where
  "file_at t uid d \<longleftrightarrow> (\<exists>bs. d t = Some (Regular 384 uid bs))"

lemma keeps_file_at: "keeps (file_at t uid) (write_all e t data)"
proof (rule keeps_writes)
  show "keeps (file_at t uid) (append_bytes t data)" for data
    unfolding append_bytes_def
    by (rule keeps_sys_call, rule keepsI)
      (auto simp: set_node_def Let_def file_at_def split: option.splits node.splits)
qed

lemma keeps_unlink [keeps_intros]: "free_at t P \<Longrightarrow> keeps P (unlink t)"
  unfolding unlink_def
  by (rule keeps_sys_call, rule keepsI) (auto simp: set_node_def fail_def Let_def keeps_set_node)

lemma keeps_unlink_if_there [keeps_intros]: "free_at t P \<Longrightarrow> keeps P (unlink_if_there t)"
  unfolding unlink_if_there_def by (intro keeps_intros)

lemma keeps_chmod [keeps_intros]:
  assumes "\<And>d m u bs. P d \<Longrightarrow> d p = Some (Regular m u bs) \<Longrightarrow> P (d(p := Some (Regular mode u bs)))"
  shows "keeps P (chmod mode p)"
  unfolding chmod_def
  by (rule keeps_sys_call, rule keepsI)
    (auto simp: set_node_def Let_def give_def fail_def assms split: option.splits node.splits)

section \<open>What a call achieves\<close>

lemma and_then_Inr:
  "and_then m k io = (Inr y, io'') \<longleftrightarrow> (\<exists>x io'. m io = (Inr x, io') \<and> k x io' = (Inr y, io''))"
  by (auto simp: and_then_def split: prod.splits sum.splits)

lemma and_finally_Inr:
  "and_finally m c io = (Inr y, io'') \<longleftrightarrow> (\<exists>io' u. m io = (Inr y, io') \<and> c io' = (Inr u, io''))"
  by (auto simp: and_finally_def split: prod.splits sum.splits)

lemma give_Inr [simp]: "give x io = (r, io') \<longleftrightarrow> r = Inr x \<and> io' = io"
  by (auto simp: give_def)

lemma fail_Inr [simp]: "fail e io = (r, io') \<longleftrightarrow> r = Inl e \<and> io' = io"
  by (auto simp: fail_def)

lemma touch_Inr: "touch io = (Inr u, io') \<Longrightarrow> io_disk io' = io_disk io \<and> io_uid io' = io_uid io"
  by (auto simp: touch_def sys_call_def Let_def give_def split: option.splits)

lemma sys_call_Inr:
  assumes "sys_call m io = (Inr x, io')"
  obtains fs where "m (io\<lparr>io_faults := fs\<rparr>) = (Inr x, io')"
  using assms by (auto simp: sys_call_def Let_def split: option.splits)

lemma create_exclusive_Inr:
  assumes "create_exclusive t io = (Inr u, io')"
  shows "io_disk io' t = Some (Regular 384 (io_uid io) [])" "io_disk io t = None"
    "io_uid io' = io_uid io"
  using assms unfolding create_exclusive_def
  by (auto elim!: sys_call_Inr simp: set_node_def Let_def split: if_splits)

lemma append_bytes_Inr:
  assumes "append_bytes t data io = (Inr n, io')" "io_disk io t = Some (Regular m u bs)"
  shows "io_disk io' t = Some (Regular m u (bs @ take n data)) \<and> n \<le> length data"
  using assms unfolding append_bytes_def
  by (auto elim!: sys_call_Inr simp: set_node_def Let_def split: list.splits)

lemma write_all_Inr:
  "write_all e t data io = (Inr v, io') \<Longrightarrow> io_disk io t = Some (Regular m u bs) \<Longrightarrow>
     io_disk io' t = Some (Regular m u (bs @ data))"
proof (induction e t data io arbitrary: bs rule: write_all.induct)
  case (1 e p data io)
  show ?case
  proof (cases "data = []")
    case True
    with 1(2,3) show ?thesis by (simp add: write_all.simps [of e p "[]"])
  next
    case False
    with 1(2) obtain n io1 where n: "append_bytes p data io = (Inr n, io1)" "n \<noteq> 0"
        "write_all e p (drop n data) io1 = (Inr v, io')"
      by (auto simp: write_all.simps [of e p data] split: prod.splits sum.splits if_splits)
    from append_bytes_Inr [OF n(1) 1(3)] have "io_disk io1 p = Some (Regular m u (bs @ take n data))" by simp
    from 1(1) [OF False n(1)[symmetric] refl n(2) n(3) this] show ?thesis by simp
  qed
qed

lemma open_read_Inr:
  assumes "open_read p io = (Inr n, io')"
  shows "io_disk io p = Some n" "io_disk io' = io_disk io" "io_uid io' = io_uid io"
  using assms unfolding open_read_def
  by (auto elim!: sys_call_Inr split: option.splits node.splits)

lemma rename_cases:
  assumes "rename t p io = (r, io')" "io_disk io t = Some n"
  obtains e where "r = Inl e" "io_disk io' = io_disk io" "io_trace io' = io_trace io"
    | "r = Inr ()" "io_disk io' = (io_disk io)(p := Some n, t := None)"
      "io_trace io' = (io_disk io)(p := Some n, t := None) # io_trace io"
  using assms by (auto simp: rename_def sys_call_def Let_def split: option.splits if_splits)

text \<open>With no fault in sight, a call acts.\<close>

lemma sys_call_calm: "io_faults io = [] \<Longrightarrow> sys_call m io = m io"
  by (cases io) (simp add: sys_call_def io_fault_def)

lemma touch_calm: "io_faults io = [] \<Longrightarrow> touch io = (Inr (), io)"
  by (simp add: touch_def sys_call_calm give_def)

end
