(* ===== verification/Tg_Client.thy ===== *)
theory Tg_Client
  imports PyJson PyNumber
begin

text \<open>
  \<open>telegram/client.py\<close> and the token format of \<open>telegram/token.py\<close>: what is posted to the Bot
  API, and how its answers become results and exceptions. The HTTP exchange itself is the
  parameter \<open>http_answer\<close>: the status and the decoded body, or the network error that \<open>httpx\<close>
  raised. The token file is in \<open>Secret_Files\<close>.
\<close>

section \<open>The token\<close>

definition is_token_char :: "nat \<Rightarrow> bool" where
  "is_token_char c \<longleftrightarrow>
     65 \<le> c \<and> c \<le> 90 \<or> 97 \<le> c \<and> c \<le> 122 \<or> is_digit c \<or> c = 95 \<or> c = 45"

definition matches_token :: "str \<Rightarrow> bool" where
  "matches_token t =
     (length (takeWhile is_digit t) \<ge> 6
      \<and> (case dropWhile is_digit t of
            [] \<Rightarrow> False
          | c # s \<Rightarrow> c = 58 \<and> length s \<ge> 20 \<and> list_all is_token_char s))"

definition validate_bot_token :: "str \<Rightarrow> str result" where
  "validate_bot_token v =
     (let token = strip v in
      if matches_token token then Inr token
      else raise (OtherError (lit ''TelegramTokenError'')) ''Telegram bot token format is invalid'')"

section \<open>Answers\<close>

text \<open>\<open>None\<close> is a body that is no JSON, on which \<open>response.json()\<close> raises a \<open>ValueError\<close>.\<close>

record http_response =
  hr_status :: int
  hr_json :: "json option"

type_synonym http_answer = "http_response result"

text \<open>The value of a float as Python writes it, without an exponent.\<close>

definition float_value :: "str \<Rightarrow> rat option" where
  "float_value t =
     (let whole = takeWhile (\<lambda>c. c \<noteq> 46) t; fs = drop (Suc (length whole)) t in
      case (digits_value False 0 whole, if fs = [] then Some 0 else digits_value False 0 fs) of
        (Some w, Some f) \<Rightarrow> Some (of_nat w + of_nat f / 10 ^ length fs)
      | _ \<Rightarrow> None)"

definition number_value :: "json \<Rightarrow> rat option" where
  "number_value v =
     (case v of
        JInt i \<Rightarrow> Some (of_int i)
      | JBool b \<Rightarrow> Some (if b then 1 else 0)
      | JFloat t \<Rightarrow> float_value t
      | _ \<Rightarrow> None)"

definition retry_after_of :: "http_response \<Rightarrow> seconds" where
  "retry_after_of response =
     (case hr_json response of
        Some (JObj data) \<Rightarrow>
          (case jget data (lit ''parameters'') of
             Some (JObj parameters) \<Rightarrow>
               (case Option.bind (jget parameters (lit ''retry_after'')) number_value of
                  Some r \<Rightarrow> if r > 0 then r else 30
                | None \<Rightarrow> 30)
           | _ \<Rightarrow> 30)
      | _ \<Rightarrow> 30)"

definition post_result :: "http_answer \<Rightarrow> jobject result" where
  "post_result answer =
     bind_result answer (\<lambda>response.
       if hr_status response = 429
       then raise (TelegramRateLimitError (retry_after_of response)) ''Telegram rate limit''
       else if hr_status response = 409
       then raise TelegramConflictError ''Telegram bot has another active update consumer''
       else if hr_status response \<ge> 400
       then Inl (Exn TelegramApiError
                   (lit ''Telegram API request failed with HTTP '' @ dec (hr_status response)))
       else
         (case hr_json response of
            None \<Rightarrow> raise (OtherError (lit ''JSONDecodeError'')) ''Expecting value''
          | Some (JObj data) \<Rightarrow>
              if jget data (lit ''ok'') = Some (JBool True) then Inr data
              else raise TelegramApiError ''Telegram API response was not ok''
          | Some _ \<Rightarrow> raise TelegramApiError ''Telegram API response was not ok''))"

section \<open>Methods\<close>

definition updates_payload :: "int option \<Rightarrow> int \<Rightarrow> str list \<Rightarrow> jobject" where
  "updates_payload offset timeout allowed_updates =
     [(lit ''timeout'', JInt timeout), (lit ''allowed_updates'', JArr (map JStr allowed_updates))]
     @ (case offset of None \<Rightarrow> [] | Some i \<Rightarrow> [(lit ''offset'', JInt i)])"

definition updates_of :: "http_answer \<Rightarrow> jobject list result" where
  "updates_of answer =
     bind_result (post_result answer) (\<lambda>data.
       case jget_or data (lit ''result'') (JArr []) of
         JArr items \<Rightarrow>
           Inr (concat (map (\<lambda>i. case i of JObj d \<Rightarrow> [d] | _ \<Rightarrow> []) items))
       | _ \<Rightarrow> raise TelegramApiError ''Telegram getUpdates result is invalid'')"

definition message_payload :: "str \<Rightarrow> str \<Rightarrow> jobject" where
  "message_payload chat_id t =
     [(lit ''chat_id'', JStr chat_id), (lit ''text'', JStr t),
      (lit ''disable_web_page_preview'', JBool True)]"

definition webhook_payload :: "bool \<Rightarrow> jobject" where
  "webhook_payload drop_pending_updates = [(lit ''drop_pending_updates'', JBool drop_pending_updates)]"

definition send_message_of :: "http_answer \<Rightarrow> unit result" where
  "send_message_of answer = bind_result (post_result answer) (\<lambda>_. Inr ())"

section \<open>The client\<close>

text \<open>What is posted: the address, the JSON body, and the seconds after which the call is given up.\<close>

record bot_client =
  bc_token :: str
  bc_base_url :: str

definition new_bot_client :: "str \<Rightarrow> str \<Rightarrow> bot_client" where
  "new_bot_client token base_url = \<lparr>bc_token = token, bc_base_url = rstrip_slashes base_url\<rparr>"

record bot_request =
  bq_url :: str
  bq_payload :: jobject
  bq_timeout :: seconds

definition bot_request_of :: "bot_client \<Rightarrow> string \<Rightarrow> jobject \<Rightarrow> seconds \<Rightarrow> bot_request" where
  "bot_request_of bc m payload timeout =
     \<lparr>bq_url = bc_base_url bc @ lit ''/bot'' @ bc_token bc @ lit ''/'' @ lit m,
      bq_payload = payload, bq_timeout = timeout\<rparr>"

type_synonym bot_api = "bot_request \<Rightarrow> http_answer"

definition bot_delete_webhook :: "bot_api \<Rightarrow> bool \<Rightarrow> bot_client \<Rightarrow> unit result" where
  "bot_delete_webhook api drop_pending_updates bc =
     bind_result (post_result (api (bot_request_of bc ''deleteWebhook'' (webhook_payload drop_pending_updates) 10)))
       (\<lambda>_. Inr ())"

definition bot_get_updates :: "bot_api \<Rightarrow> int option \<Rightarrow> int \<Rightarrow> str list \<Rightarrow> bot_client \<Rightarrow> jobject list result" where
  "bot_get_updates api offset timeout allowed_updates bc =
     updates_of (api (bot_request_of bc ''getUpdates'' (updates_payload offset timeout allowed_updates)
                        (of_int timeout + 10)))"

definition bot_send_message :: "bot_api \<Rightarrow> str \<Rightarrow> str \<Rightarrow> bot_client \<Rightarrow> unit result" where
  "bot_send_message api chat_id t bc =
     send_message_of (api (bot_request_of bc ''sendMessage'' (message_payload chat_id t) 15))"

section \<open>Facts\<close>

lemma retry_after_positive: "retry_after_of response > 0"
  by (simp add: retry_after_of_def split: option.splits json.splits)

text \<open>A long poll is given up after the server has had its time to answer.\<close>

lemma long_poll_outlasts:
  "of_int timeout < bq_timeout (bot_request_of bc m payload (of_int timeout + 10))"
  by (simp add: bot_request_of_def)

text \<open>
  A body that is no JSON, with a status that is no error, is not among the errors that the polling
  loop handles.
\<close>

lemma invalid_json_not_handled:
  assumes "hr_status response < 400" "hr_json response = None"
  shows "\<exists>e. updates_of (Inr response) = Inl e \<and> \<not> is_network_error e"
  using assms by (simp add: updates_of_def post_result_def)

text \<open>Every refusal of the server is one of the errors that the polling loop handles.\<close>

lemma post_result_refused:
  assumes "hr_status response \<ge> 400"
  shows "\<exists>e. post_result (Inr response) = Inl e \<and> is_network_error e
    \<and> (is_rate_limit e \<longleftrightarrow> hr_status response = 429) \<and> (is_conflict e \<longleftrightarrow> hr_status response = 409)"
  using assms by (simp add: post_result_def)

lemma matches_token_shape:
  assumes "matches_token t"
  obtains ds s where "t = ds @ 58 # s" "list_all is_digit ds" "length ds \<ge> 6" "length s \<ge> 20"
    "list_all is_token_char s"
proof -
  from assms obtain s where s: "dropWhile is_digit t = 58 # s" "length s \<ge> 20" "list_all is_token_char s"
    and ds: "length (takeWhile is_digit t) \<ge> 6"
    by (auto simp: matches_token_def split: list.splits)
  have "t = takeWhile is_digit t @ 58 # s" using s(1) takeWhile_dropWhile_id [of is_digit t] by simp
  moreover have "list_all is_digit (takeWhile is_digit t)" by (auto simp: list_all_iff dest: set_takeWhileD)
  ultimately show ?thesis using ds s(2,3) by (rule that)
qed

text \<open>
  An answer of the Bot API with a status of 400 or more is an error that the polling loop
  handles: a conflict for 409, a rate limit with a positive delay for 429, a network error
  otherwise, for \<open>getUpdates\<close> and \<open>sendMessage\<close> alike.
\<close>

theorem refusals_are_expected:
  assumes "hr_status response \<ge> 400"
  shows "\<exists>e. updates_of (Inr response) = Inl e \<and> send_message_of (Inr response) = Inl e \<and> is_network_error e
    \<and> (is_rate_limit e \<longleftrightarrow> hr_status response = 429) \<and> (is_conflict e \<longleftrightarrow> hr_status response = 409)
    \<and> (is_rate_limit e \<longrightarrow> retry_after e > 0)"
proof -
  from post_result_refused [OF assms] obtain e where e: "post_result (Inr response) = Inl e" "is_network_error e"
      "is_rate_limit e \<longleftrightarrow> hr_status response = 429" "is_conflict e \<longleftrightarrow> hr_status response = 409" by blast
  moreover have "retry_after e > 0" if "is_rate_limit e"
    using that e(1,3) retry_after_positive [of response] by (auto simp: post_result_def)
  ultimately show ?thesis by (simp add: updates_of_def send_message_of_def)
qed

theorem refusals_are_expected_witness:
  "\<exists>e. updates_of (Inr \<lparr>hr_status = 409, hr_json = None\<rparr>) = Inl e \<and> is_conflict e"
  using refusals_are_expected [of "\<lparr>hr_status = 409, hr_json = None\<rparr>"] by auto

end
