(* ===== verification/Secret_Files.thy ===== *)
theory Secret_Files
  imports Posix_Files Tg_Client Audit_Store
begin

text \<open>
  The two files that hold secrets: the bot token (\<open>telegram/token.py\<close>) and the key of the audit
  log (\<open>load_audit_key_file\<close> and its neighbours in \<open>storage/normalized_audit.py\<close>), with the
  settings of the audit that are built from the key. The descriptor of an opened file is the file
  itself; a \<open>read\<close> returns all it is asked for, as it does for local regular files; the bits of
  the mode that \<open>open\<close> asks for survive the \<open>umask\<close>.
\<close>

section \<open>The token file\<close>

abbreviation TelegramTokenError :: exn_class where
  "TelegramTokenError \<equiv> OtherError (lit ''TelegramTokenError'')"

definition open_regular_no_follow :: "path \<Rightarrow> node act" where
  "open_regular_no_follow p =
     and_then (on_error (open_read p) (\<lambda>e.
       if exn_class e = FileNotFoundError
       then fail (Exn TelegramTokenError (lit ''Telegram bot token file does not exist''))
       else if is_os_error e
       then fail (Exn TelegramTokenError (lit ''failed to open Telegram bot token file safely''))
       else fail e)) (\<lambda>fd.
     and_then touch (\<lambda>_.
       case fd of
         Regular m u bs \<Rightarrow> give fd
       | _ \<Rightarrow> and_then touch (\<lambda>_.
           fail (Exn TelegramTokenError (lit ''Telegram bot token file is not a regular file'')))))"

definition validate_token_file_stat :: "node \<Rightarrow> unit act" where
  "validate_token_file_stat fd io =
     (case fd of
        Regular m u bs \<Rightarrow>
          if m mod 64 \<noteq> 0
          then fail (Exn TelegramTokenError (lit ''Telegram bot token file permissions are too broad'')) io
          else if u \<noteq> io_uid io
          then fail (Exn TelegramTokenError (lit ''Telegram bot token file owner is invalid'')) io
          else give () io
      | _ \<Rightarrow> fail (Exn TelegramTokenError (lit ''Telegram bot token file is not a regular file'')) io)"

definition read_token_file :: "path \<Rightarrow> str act" where
  "read_token_file p =
     and_then (open_regular_no_follow p) (\<lambda>fd.
     and_then (and_finally
       (and_then touch (\<lambda>_.
        and_then (validate_token_file_stat fd) (\<lambda>_.
        and_then touch (\<lambda>_.
        and_then touch (\<lambda>_.
          if length (node_bytes fd) > 4096
          then fail (Exn TelegramTokenError (lit ''Telegram bot token file is too large''))
          else give (node_bytes fd))))))
       touch) (\<lambda>raw.
       case decode_utf8_strict raw of
         None \<Rightarrow> fail (Exn TelegramTokenError (lit ''Telegram bot token file is not UTF-8''))
       | Some t \<Rightarrow> (\<lambda>io. (validate_bot_token (strip t), io))))"

definition token_tmp_path :: "path \<Rightarrow> nat \<Rightarrow> path" where
  "token_tmp_path p pid = (fst p, lit ''.'' @ snd p @ lit ''.'' @ dec (int pid) @ lit ''.tmp'')"

text \<open>
  \<open>write_token_atomic\<close> in three parts: up to the creation of the temporary file, the writing of it, and
  its publication in the place of the token.
\<close>

definition prepare_token :: "path \<Rightarrow> path \<Rightarrow> unit act" where
  "prepare_token tmp p =
     and_then touch (\<lambda>_.
     and_then (\<lambda>io.
       if io_disk io p = None then give () io
       else and_then (open_regular_no_follow p) (\<lambda>fd.
              and_finally (and_then touch (\<lambda>_. validate_token_file_stat fd)) touch) io) (\<lambda>_.
     create_exclusive tmp))"

definition fill_token :: "path \<Rightarrow> str \<Rightarrow> unit act" where
  "fill_token tmp token =
     and_finally
       (and_then (write_all (Exn TelegramTokenError (lit ''failed to write Telegram bot token file''))
                    tmp (utf8 (token @ [10]))) (\<lambda>_. touch))
       touch"

definition stage_token :: "path \<Rightarrow> path \<Rightarrow> str \<Rightarrow> unit act" where
  "stage_token tmp p token = and_then (prepare_token tmp p) (\<lambda>_. fill_token tmp token)"

definition publish_token :: "path \<Rightarrow> path \<Rightarrow> unit act" where
  "publish_token tmp p =
     and_finally
       (and_then (rename tmp p) (\<lambda>_.
        and_then (chmod 384 p) (\<lambda>_.
        and_then touch (\<lambda>_. and_finally touch touch))))
       (unlink_if_there tmp)"

definition write_token_atomic :: "path \<Rightarrow> str \<Rightarrow> unit act" where
  "write_token_atomic p token io =
     (let tmp = token_tmp_path p (io_pid io)
      in and_then (stage_token tmp p token) (\<lambda>_. publish_token tmp p) io)"

definition load_or_import_token :: "str \<Rightarrow> path \<Rightarrow> str act" where
  "load_or_import_token token_import p =
     (if token_import \<noteq> []
      then and_then (\<lambda>io. (validate_bot_token token_import, io)) (\<lambda>token.
           and_then (write_token_atomic p token) (\<lambda>_. give token))
      else read_token_file p)"

text \<open>\<open>TelegramToken\<close> shows none of its value.\<close>

definition token_str :: "str \<Rightarrow> str" where
  "token_str token = lit ''[REDACTED]''"

section \<open>The key of the audit log\<close>

definition hex_value :: "nat \<Rightarrow> nat option" where
  "hex_value c =
     (if 48 \<le> c \<and> c \<le> 57 then Some (c - 48)
      else if 97 \<le> c \<and> c \<le> 102 then Some (c - 87)
      else if 65 \<le> c \<and> c \<le> 70 then Some (c - 55)
      else None)"

text \<open>\<open>bytes.fromhex\<close>, which skips ASCII white space between the pairs.\<close>

fun fromhex :: "str \<Rightarrow> bytes option" where
  "fromhex [] = Some []"
| "fromhex [c] = (if c = 32 \<or> 9 \<le> c \<and> c \<le> 13 then Some [] else None)"
| "fromhex (c # d # cs) =
     (if c = 32 \<or> 9 \<le> c \<and> c \<le> 13 then fromhex (d # cs)
      else (case (hex_value c, hex_value d) of
              (Some a, Some b) \<Rightarrow> map_option (\<lambda>bs. (16 * a + b) # bs) (fromhex cs)
            | _ \<Rightarrow> None))"

definition decode_key_bytes :: "bytes \<Rightarrow> bytes result" where
  "decode_key_bytes raw =
     (let text = strip raw;
          decoded =
            (if list_all (\<lambda>b. b < 128) raw \<and> length text \<ge> audit_key_min_bytes * 2
                \<and> even (length text) \<and> list_all (\<lambda>c. hex_value c \<noteq> None) text
             then fromhex text else None);
          key = (case decoded of Some k \<Rightarrow> k | None \<Rightarrow> raw)
      in if length key < audit_key_min_bytes
         then raise AuditKeyError ''audit key must be at least 32 bytes''
         else Inr key)"

definition open_no_follow :: "path \<Rightarrow> node act" where
  "open_no_follow p =
     on_error (open_read p) (\<lambda>e.
       if exn_class e = FileNotFoundError then fail e
       else if is_os_error e then fail (Exn AuditKeyError (lit ''failed to open audit key file safely''))
       else fail e)"

definition load_audit_key_file :: "crypto \<Rightarrow> path \<Rightarrow> audit_key act" where
  "load_audit_key_file cr p =
     and_then (open_no_follow p) (\<lambda>fd.
     and_then (and_finally
       (and_then touch (\<lambda>_.
          case fd of
            Regular m u bs \<Rightarrow> (\<lambda>io.
              if m mod 64 \<noteq> 0
              then fail (Exn AuditKeyError (lit ''audit key file permissions are too broad'')) io
              else if u \<noteq> io_uid io
              then fail (Exn AuditKeyError (lit ''audit key file owner is invalid'')) io
              else
                and_then touch (\<lambda>_.
                and_then touch (\<lambda>_.
                  if length bs > audit_key_min_bytes * 4
                  then fail (Exn AuditKeyError (lit ''audit key file is too large''))
                  else give bs)) io)
          | _ \<Rightarrow> fail (Exn AuditKeyError (lit ''audit key path is not a regular file''))))
       touch) (\<lambda>raw io.
         (bind_result (decode_key_bytes raw) (\<lambda>key. make_audit_key cr (\<lambda>_. False) key None), io)))"

text \<open>\<open>fresh\<close> is \<open>secrets.token_bytes(32)\<close> and \<open>sfx\<close> is \<open>secrets.token_hex(8)\<close>.\<close>

definition key_tmp_path :: "path \<Rightarrow> str \<Rightarrow> path" where
  "key_tmp_path p sfx = (fst p, lit ''.'' @ snd p @ lit ''.'' @ sfx @ lit ''.tmp'')"

definition stage_key :: "path \<Rightarrow> bytes \<Rightarrow> unit act" where
  "stage_key tmp fresh =
     and_then touch (\<lambda>_.
     and_then (create_exclusive tmp) (\<lambda>_.
     and_finally
       (and_then (write_all (Exn AuditKeyError (lit ''failed to write audit key file'')) tmp fresh) (\<lambda>_. touch))
       touch))"

text \<open>\<open>None\<close> when this process published its key, otherwise the key that was there first.\<close>

definition publish_key :: "crypto \<Rightarrow> path \<Rightarrow> path \<Rightarrow> audit_key option act" where
  "publish_key cr tmp p =
     and_finally
       (on_error (and_then (hard_link tmp p) (\<lambda>_. give None)) (\<lambda>e.
          if exn_class e = FileExistsError then and_then (load_audit_key_file cr p) (\<lambda>k. give (Some k))
          else fail e))
       (unlink_if_there tmp)"

definition create_app_audit_key :: "crypto \<Rightarrow> bytes \<Rightarrow> str \<Rightarrow> path \<Rightarrow> audit_key act" where
  "create_app_audit_key cr fresh sfx p =
     (let tmp = key_tmp_path p sfx in
      and_then (stage_key tmp fresh) (\<lambda>_.
      and_then (publish_key cr tmp p) (\<lambda>published.
        case published of
          Some k \<Rightarrow> give k
        | None \<Rightarrow> and_then touch (\<lambda>_. and_then (and_finally touch touch) (\<lambda>_ io.
            (make_audit_key cr (\<lambda>_. False) fresh None, io))))))"

definition load_or_create_app_audit_key :: "crypto \<Rightarrow> bytes \<Rightarrow> str \<Rightarrow> path \<Rightarrow> audit_key act" where
  "load_or_create_app_audit_key cr fresh sfx p =
     on_error (load_audit_key_file cr p) (\<lambda>e.
       if exn_class e = FileNotFoundError then create_app_audit_key cr fresh sfx p
       else if exn_class e = AuditKeyError then fail e
       else if is_os_error e then fail (Exn AuditKeyError (lit ''failed to read audit key file''))
       else fail e)"

section \<open>The settings of the audit\<close>

definition audit_key_from_hex :: "crypto \<Rightarrow> str \<Rightarrow> audit_key result" where
  "audit_key_from_hex cr v =
     (case fromhex (strip v) of
        None \<Rightarrow> raise AuditKeyError ''audit key must be hex encoded''
      | Some key \<Rightarrow> make_audit_key cr (\<lambda>_. False) key None)"

definition enabled_with :: "audit_key \<Rightarrow> audit_settings" where
  "enabled_with key = \<lparr>as_enabled = True, as_audit_key = Some key, as_warn_disabled = False\<rparr>"

definition given :: "str option \<Rightarrow> bool" where
  "given v \<longleftrightarrow> v \<noteq> None \<and> v \<noteq> Some []"

text \<open>\<open>path_of\<close> splits the text of a path.\<close>

definition standalone_settings ::
    "crypto \<Rightarrow> (str \<Rightarrow> path) \<Rightarrow> str option \<Rightarrow> str option \<Rightarrow> bool \<Rightarrow> audit_settings act" where
  "standalone_settings cr path_of key_hex key_file require_enabled =
     (if given key_hex \<and> given key_file
      then fail (Exn AuditKeyError (lit ''AUDIT_KEY and AUDIT_KEY_FILE are mutually exclusive''))
      else if given key_hex
      then and_then (\<lambda>io. (audit_key_from_hex cr (the key_hex), io)) (\<lambda>key. give (enabled_with key))
      else if given key_file
      then and_then (load_audit_key_file cr (path_of (the key_file))) (\<lambda>key. give (enabled_with key))
      else if require_enabled
      then fail (Exn AuditKeyError (lit ''normalized audit requires AUDIT_KEY or an audit key file''))
      else give legacy_disabled)"

definition settings_from_environment ::
    "crypto \<Rightarrow> (str \<Rightarrow> path) \<Rightarrow> (str \<Rightarrow> str option) \<Rightarrow> bool \<Rightarrow> audit_settings act" where
  "settings_from_environment cr path_of getenv require_enabled =
     (let required = (case getenv (lit ''NORMALIZED_AUDIT_REQUIRED'') of
             None \<Rightarrow> False
           | Some v \<Rightarrow> lower (strip v) \<in> {lit ''1'', lit ''true'', lit ''yes'', lit ''on''})
      in standalone_settings cr path_of (getenv (lit ''AUDIT_KEY'')) (getenv (lit ''AUDIT_KEY_FILE''))
           (require_enabled \<or> required))"

definition homeassistant_app_settings :: "crypto \<Rightarrow> bytes \<Rightarrow> str \<Rightarrow> path \<Rightarrow> audit_settings act" where
  "homeassistant_app_settings cr fresh sfx key_path =
     and_then (load_or_create_app_audit_key cr fresh sfx key_path) (\<lambda>key. give (enabled_with key))"

end
