(* ===== verification/Secret_File_Facts.thy ===== *)
theory Secret_File_Facts
  imports Secret_Files
begin

text \<open>
  What holds of the files with secrets under every failure, every short write and every crash:
  the token is replaced in one step and read back, the key of the audit log is written once and
  agreed on by the processes that race for it. On a calm disk both come to be.
\<close>

section \<open>Reading changes nothing\<close>

lemma keeps_case_node [keeps_intros]:
  assumes "\<And>m u bs. keeps P (f m u bs)" "\<And>q. keeps P (g q)" "keeps P h" "keeps P h'"
  shows "keeps P (case n of Regular m u bs \<Rightarrow> f m u bs | Symlink q \<Rightarrow> g q | Directory \<Rightarrow> h | Device \<Rightarrow> h')"
  using assms by (cases n) auto

lemma keeps_case_option [keeps_intros]:
  assumes "keeps P f" "\<And>x. keeps P (g x)"
  shows "keeps P (case n of None \<Rightarrow> f | Some x \<Rightarrow> g x)"
  using assms by (cases n) auto

lemma keeps_validate [keeps_intros]: "keeps P (validate_token_file_stat fd)"
  by (rule keepsI) (auto simp: validate_token_file_stat_def give_def fail_def split: node.splits)

lemma keeps_open_regular [keeps_intros]: "keeps P (open_regular_no_follow p)"
  unfolding open_regular_no_follow_def by (intro keeps_intros)

lemma keeps_read_token [keeps_intros]: "keeps P (read_token_file p)"
  unfolding read_token_file_def by (intro keeps_intros)

lemma keeps_load_key [keeps_intros]: "keeps P (load_audit_key_file cr p)"
  unfolding load_audit_key_file_def open_no_follow_def by (intro keeps_intros)

section \<open>The token is replaced in one step\<close>

lemma hidden_name_differs:
  "(fst p, lit ''.'' @ snd p @ lit ''.'' @ t @ lit ''.tmp'') \<noteq> p"
proof
  assume "(fst p, lit ''.'' @ snd p @ lit ''.'' @ t @ lit ''.tmp'') = p"
  then have "length (lit ''.'' @ snd p @ lit ''.'' @ t @ lit ''.tmp'') = length (snd p)"
    by (metis snd_conv)
  then show False by simp
qed

lemma tmp_paths_differ [simp]: "token_tmp_path p pid \<noteq> p" "key_tmp_path p t \<noteq> p"
  "p \<noteq> token_tmp_path p pid" "p \<noteq> key_tmp_path p t"
  unfolding token_tmp_path_def key_tmp_path_def
  by (rule hidden_name_differs hidden_name_differs [symmetric])+

lemma and_finally_touch_Inr:
  "and_finally m touch io = (Inr y, io'') \<Longrightarrow>
     \<exists>io'. m io = (Inr y, io') \<and> io_disk io'' = io_disk io' \<and> io_uid io'' = io_uid io'"
  by (auto simp: and_finally_Inr dest: touch_Inr)

text \<open>Staging leaves everything but the temporary file, which holds the whole token at the end.\<close>

definition except_at :: "path set \<Rightarrow> disk \<Rightarrow> disk \<Rightarrow> bool" where
  "except_at S d d' \<longleftrightarrow> (\<forall>q. q \<notin> S \<longrightarrow> d' q = d q)"

lemma free_except_at [simp]: "t \<in> S \<Longrightarrow> free_at t (except_at S d)"
  by (auto simp: free_at_def except_at_def)

definition token_file :: "nat \<Rightarrow> str \<Rightarrow> node" where
  "token_file uid token = Regular 384 uid (utf8 (token @ [10]))"

lemma keeps_stage_token: "keeps (except_at {tmp} d) (stage_token tmp p token)"
  unfolding stage_token_def prepare_token_def fill_token_def by (intro keeps_intros) simp_all

lemma stage_token_Inr:
  assumes "stage_token tmp p token io = (Inr u, io')"
  shows "io_disk io' tmp = Some (token_file (io_uid io) token)"
proof -
  let ?check = "\<lambda>io. if io_disk io p = None then give () io
       else and_then (open_regular_no_follow p) (\<lambda>fd.
              and_finally (and_then touch (\<lambda>_. validate_token_file_stat fd)) touch) io"
  let ?wr = "and_then (write_all (Exn TelegramTokenError
      (lit ''failed to write Telegram bot token file'')) tmp (utf8 (token @ [10]))) (\<lambda>_. touch)"
  from assms obtain io1 io2 io3 where steps: "touch io = (Inr (), io1)" "?check io1 = (Inr (), io2)"
      "create_exclusive tmp io2 = (Inr (), io3)" "and_finally ?wr touch io3 = (Inr u, io')"
    by (auto simp: stage_token_def prepare_token_def fill_token_def and_then_Inr)
  have "keeps (\<lambda>d. True) ?check" by (intro keeps_intros)
  from keepsD(3) [OF this TrueI steps(2)] touch_Inr [OF steps(1)] have "io_uid io2 = io_uid io" by simp
  with create_exclusive_Inr [OF steps(3)] have "io_disk io3 tmp = Some (Regular 384 (io_uid io) [])" by simp
  moreover obtain io4 io5 where "write_all (Exn TelegramTokenError
      (lit ''failed to write Telegram bot token file'')) tmp (utf8 (token @ [10])) io3 = (Inr (), io4)"
      "touch io4 = (Inr u, io5)" "io_disk io' = io_disk io5"
    using and_finally_touch_Inr [OF steps(4)] by (auto simp: and_then_Inr)
  ultimately show ?thesis
    using write_all_Inr touch_Inr by (fastforce simp: token_file_def)
qed

text \<open>What a crash can leave: the old token or the whole new one, and nothing else touched.\<close>

definition replaced_at_once :: "path \<Rightarrow> path \<Rightarrow> node \<Rightarrow> disk \<Rightarrow> disk \<Rightarrow> bool" where
  "replaced_at_once tmp p new d d' \<longleftrightarrow> (d' p = d p \<or> d' p = Some new) \<and> except_at {tmp, p} d d'"

lemma except_at_replaced:
  "tmp \<noteq> p \<Longrightarrow> except_at {tmp} d d' \<Longrightarrow> replaced_at_once tmp p new d d'"
  by (cases p) (auto simp: replaced_at_once_def except_at_def)

lemma publish_token_steps:
  assumes new: "io_disk io tmp = Some new" "node_mode new = 384" "\<exists>m u bs. new = Regular m u bs"
    and "tmp \<noteq> p" and run: "publish_token tmp p io = (r, io')"
  shows "replaced_at_once tmp p new (io_disk io) (io_disk io')"
    "d \<in> set (io_trace io') \<Longrightarrow> d \<in> set (io_trace io) \<or> replaced_at_once tmp p new (io_disk io) d"
    "r = Inr u \<Longrightarrow> io_disk io' p = Some new"
proof -
  let ?rest = "and_then (chmod 384 p) (\<lambda>_. and_then touch (\<lambda>_. and_finally touch touch))"
  let ?Q = "\<lambda>d. d p = Some new \<and> except_at {tmp, p} (io_disk io) d"
  let ?P = "except_at {tmp} (io_disk io)"
  have free: "free_at tmp ?Q" using assms(4) by (auto simp: free_at_def except_at_def)
  have rest: "keeps ?Q ?rest"
    using new by (intro keeps_intros) (auto simp: except_at_def)
  obtain r1 io1 where first: "rename tmp p io = (r1, io1)" by fastforce
  have "(io_disk io' p = Some new \<and> ?Q (io_disk io')
        \<and> (\<forall>d \<in> set (io_trace io'). d \<in> set (io_trace io) \<or> ?Q d))
      \<or> (\<exists>e. r = Inl e) \<and> ?P (io_disk io') \<and> (\<forall>d \<in> set (io_trace io'). d \<in> set (io_trace io) \<or> ?P d)"
    using first new(1)
  proof (cases rule: rename_cases)
    case (1 e)
    with first have "(and_then (rename tmp p) (\<lambda>_. ?rest)) io = (Inl e, io1)" by (simp add: and_then_def)
    with run obtain s where u: "unlink_if_there tmp io1 = (s, io')" "r = (case s of Inl e \<Rightarrow> Inl e | Inr _ \<Rightarrow> Inl e)"
      by (auto simp: publish_token_def and_finally_def split: prod.splits)
    have "keeps ?P (unlink_if_there tmp)" by (intro keeps_intros) simp
    from keepsD [OF this _ u(1)] 1 u(2) show ?thesis by (auto simp: except_at_def split: sum.splits)
  next
    case 2
    then have Q: "?Q (io_disk io1)" using assms(4) by (auto simp: except_at_def)
    obtain r2 io2 where second: "?rest io1 = (r2, io2)" by fastforce
    with first 2 have "(and_then (rename tmp p) (\<lambda>_. ?rest)) io = (r2, io2)" by (simp add: and_then_def)
    with run obtain s where u: "unlink_if_there tmp io2 = (s, io')"
      by (auto simp: publish_token_def and_finally_def split: prod.splits)
    have "keeps ?Q (unlink_if_there tmp)" using free by (intro keeps_intros)
    note k = keepsD [OF rest Q second] and k' = keepsD [OF this _ u]
    have "set (io_trace io1) = insert (io_disk io1) (set (io_trace io))" by (simp add: 2(2,3))
    then have all: "d \<in> set (io_trace io) \<or> ?Q d" if "d \<in> set (io_trace io')" for d
      using that Q k(2) [of d] k'(2) [OF k(1), of d] by (metis insert_iff)
    have "\<forall>d \<in> set (io_trace io'). d \<in> set (io_trace io) \<or> ?Q d" by (intro ballI all)
    with k'(1) [OF k(1)] show ?thesis by (intro disjI1) (elim conjE, intro conjI)
  qed
  then show "replaced_at_once tmp p new (io_disk io) (io_disk io')"
    "d \<in> set (io_trace io') \<Longrightarrow> d \<in> set (io_trace io) \<or> replaced_at_once tmp p new (io_disk io) d"
    "r = Inr u \<Longrightarrow> io_disk io' p = Some new"
    using except_at_replaced [OF assms(4), of "io_disk io"] by (auto simp: replaced_at_once_def)
qed

lemma write_token_stores:
  assumes "write_token_atomic p token io = (Inr u, io')"
  shows "io_disk io' p = Some (token_file (io_uid io) token)"
proof -
  from assms obtain io1 where steps: "stage_token (token_tmp_path p (io_pid io)) p token io = (Inr (), io1)"
      "publish_token (token_tmp_path p (io_pid io)) p io1 = (Inr u, io')"
    by (auto simp: write_token_atomic_def Let_def and_then_Inr)
  show ?thesis
    using publish_token_steps(3) [OF stage_token_Inr [OF steps(1)] _ _ _ steps(2)]
    by (auto simp: token_file_def)
qed

text \<open>
  C20. Importing a bot token is atomic: whatever call fails, however little each write takes and
  wherever the process dies, the token file holds what it held before or the whole new token,
  readable by its owner alone, and no other file but the temporary one is touched; an import
  that succeeds has stored the new token.
\<close>

theorem token_import_atomic:
  assumes run: "write_token_atomic p token io = (r, io')"
  shows "(\<forall>d. d \<in> insert (io_disk io') (set (io_trace io')) - set (io_trace io) \<longrightarrow>
            replaced_at_once (token_tmp_path p (io_pid io)) p (token_file (io_uid io) token) (io_disk io) d)
    \<and> (r = Inr () \<longrightarrow> io_disk io' p = Some (token_file (io_uid io) token))"
proof -
  let ?tmp = "token_tmp_path p (io_pid io)" and ?new = "token_file (io_uid io) token"
  let ?R = "replaced_at_once ?tmp p ?new (io_disk io)"
  obtain r1 io1 where stage: "stage_token ?tmp p token io = (r1, io1)" by fastforce
  have start: "except_at {?tmp} (io_disk io) (io_disk io)" by (simp add: except_at_def)
  note k = keepsD [OF keeps_stage_token start stage]
  have staged: "?R d" if "except_at {?tmp} (io_disk io) d" for d
    using that by (intro except_at_replaced) simp_all
  show ?thesis
  proof (cases r1)
    case (Inl e)
    with run stage have "r = Inl e" "io' = io1" by (auto simp: write_token_atomic_def Let_def and_then_def)
    with k staged show ?thesis by auto
  next
    case (Inr v)
    with run stage have publish: "publish_token ?tmp p io1 = (r, io')"
      by (auto simp: write_token_atomic_def Let_def and_then_def)
    have new: "io_disk io1 ?tmp = Some ?new" using stage_token_Inr stage Inr by simp
    note steps = publish_token_steps [OF new _ _ _ publish]
    have "io_disk io1 p = io_disk io p" by (rule k(1) [unfolded except_at_def, rule_format]) simp
    then have later: "?R d" if "replaced_at_once ?tmp p ?new (io_disk io1) d" for d
      using that k(1) by (simp add: replaced_at_once_def except_at_def)
    from steps later staged k show ?thesis by (auto simp: token_file_def)
  qed
qed

text \<open>A token that was imported is what the next start reads, which asks for at most 4096 bytes.\<close>

lemma matches_token_chars:
  assumes "matches_token t"
  shows "list_all (\<lambda>c. is_token_char c \<or> c = 58) t" "t \<noteq> []"
proof -
  from assms obtain s where s: "dropWhile is_digit t = 58 # s" "list_all is_token_char s"
      "6 \<le> length (takeWhile is_digit t)"
    by (auto simp: matches_token_def split: list.splits)
  have "list_all is_token_char (takeWhile is_digit t)"
    by (auto simp: list_all_iff is_token_char_def dest: set_takeWhileD)
  with s have "list_all (\<lambda>c. is_token_char c \<or> c = 58) (takeWhile is_digit t @ dropWhile is_digit t)"
    by (simp add: list_all_iff ball_Un del: takeWhile_dropWhile_id)
  then show "list_all (\<lambda>c. is_token_char c \<or> c = 58) t" by simp
  show "t \<noteq> []" using s(3) by auto
qed

lemma token_char_small: "is_token_char c \<or> c = 58 \<Longrightarrow> c < 128 \<and> \<not> is_space c"
  by (auto simp: is_token_char_def is_digit_def is_space_def)

lemma utf8_ascii: "list_all (\<lambda>c. c < 128) t \<Longrightarrow> utf8 t = t"
  by (induction t) (auto simp: encode_cp_def)

lemma decode_ascii: "list_all (\<lambda>c. c < 128) t \<Longrightarrow> decode_utf8_strict t = Some t"
proof -
  assume ascii: "list_all (\<lambda>c. c < 128) t"
  then have "encodable t" by (auto simp: encodable_def is_scalar_def list_all_iff)
  from decode_utf8 [OF this] utf8_ascii [OF ascii] show ?thesis
    by (simp add: decode_utf8_strict_def)
qed

lemma validate_bot_token_Inr:
  assumes "validate_bot_token v = Inr token"
  shows "matches_token token" "validate_bot_token (strip (token @ [10])) = Inr token"
    "utf8 (token @ [10]) = token @ [10]" "decode_utf8_strict (token @ [10]) = Some (token @ [10])"
proof -
  show m: "matches_token token"
    using assms by (auto simp: validate_bot_token_def Let_def split: if_splits)
  note chars = matches_token_chars [OF m]
  have small: "list_all (\<lambda>c. c < 128) (token @ [10])"
    using chars(1) token_char_small by (auto simp: list_all_iff)
  show "utf8 (token @ [10]) = token @ [10]" "decode_utf8_strict (token @ [10]) = Some (token @ [10])"
    using utf8_ascii [OF small] decode_ascii [OF small] by simp_all
  have ends: "\<not> is_space (hd token)" "\<not> is_space (last token)"
    using chars token_char_small by (auto simp: list_all_iff)
  have "strip (token @ [10]) = rstrip (token @ [10])"
    using ends(1) chars(2) by (cases token) (auto simp: strip_def lstrip_def)
  also have "\<dots> = rstrip token" by (simp add: rstrip_def is_space_def)
  also have "\<dots> = token"
    using rstrip_snoc_nonspace [OF ends(2), of "butlast token"] chars(2) by simp
  finally have trimmed: "strip (token @ [10]) = token" .
  moreover have "strip token = token"
    using ends chars(2) by (intro strip_nonspace_ends) auto
  ultimately show "validate_bot_token (strip (token @ [10])) = Inr token"
    using m by (simp add: validate_bot_token_def)
qed

lemma read_token_calm:
  assumes "io_faults io = []" "io_disk io p = Some (token_file (io_uid io) token)"
    and "validate_bot_token v = Inr token" "length token < 4096"
  shows "fst (read_token_file p io) = Inr token"
  using assms validate_bot_token_Inr [OF assms(3)]
  by (simp add: read_token_file_def open_regular_no_follow_def and_then_def on_error_def open_read_def
      sys_call_calm touch_calm and_finally_def validate_token_file_stat_def token_file_def
      give_def)

text \<open>
  C21. Token round trip: a token of fewer than 4096 characters that was imported is the one that
  every later start without an import reads from the file.
\<close>

theorem token_round_trip:
  assumes "load_or_import_token v p io = (Inr token, io')" "v \<noteq> []" "length token < 4096"
    and "io_disk later p = io_disk io' p" "io_uid later = io_uid io" "io_faults later = []"
  shows "fst (load_or_import_token [] p later) = Inr token"
proof -
  from assms(1,2) obtain io1 where parts: "validate_bot_token v = Inr token"
      "write_token_atomic p token io = (Inr (), io1)" "io' = io1"
    by (auto simp: load_or_import_token_def and_then_Inr)
  from write_token_stores [OF parts(2)] parts(3) assms(4,5)
  have "io_disk later p = Some (token_file (io_uid later) token)" by simp
  from read_token_calm [OF assms(6) this parts(1) assms(3)] show ?thesis
    by (simp add: load_or_import_token_def)
qed

lemma prepare_token_needs_room:
  assumes "io_disk io tmp \<noteq> None"
  shows "\<exists>e. fst (prepare_token tmp p io) = Inl e"
proof -
  obtain r io' where run: "prepare_token tmp p io = (r, io')" by fastforce
  show ?thesis
  proof (cases r)
    case (Inr u)
    let ?check = "\<lambda>io. if io_disk io p = None then give () io
         else and_then (open_regular_no_follow p) (\<lambda>fd.
                and_finally (and_then touch (\<lambda>_. validate_token_file_stat fd)) touch) io"
    from run Inr obtain io1 io2 where steps: "touch io = (Inr (), io1)" "?check io1 = (Inr (), io2)"
        "create_exclusive tmp io2 = (Inr u, io')"
      by (auto simp: prepare_token_def and_then_Inr)
    have "keeps (\<lambda>d. d tmp \<noteq> None) ?check" by (intro keeps_intros)
    from keepsD(1) [OF this _ steps(2)] touch_Inr [OF steps(1)] assms have "io_disk io2 tmp \<noteq> None" by simp
    with create_exclusive_Inr(2) [OF steps(3)] show ?thesis by simp
  qed (use run in simp)
qed

lemma and_then_Inl: "m io = (Inl e, io') \<Longrightarrow> fst (and_then m k io) = Inl e"
  by (simp add: and_then_def)

lemma import_needs_room:
  assumes "io_disk io (token_tmp_path p (io_pid io)) \<noteq> None" "w \<noteq> []"
  shows "\<exists>e. fst (load_or_import_token w p io) = Inl e"
proof -
  obtain e io' where "prepare_token (token_tmp_path p (io_pid io)) p io = (Inl e, io')"
    using prepare_token_needs_room [OF assms(1), of p] by (metis prod.collapse)
  then have "fst (write_token_atomic p token io) = Inl e" for token
    by (simp add: write_token_atomic_def Let_def stage_token_def and_then_def)
  then have "\<exists>e. fst (and_then (write_token_atomic p token) (\<lambda>_. give token) io) = Inl e" for token
    by (metis and_then_Inl prod.collapse)
  with assms(2) show ?thesis
    by (simp add: load_or_import_token_def and_then_def [of "\<lambda>io. (validate_bot_token w, io)"] split: sum.split)
qed

text \<open>
  C22. An import that fails once its temporary file has been created, in whatever way its writing, its
  syncing or its closing fails, leaves the token file as it was and the temporary file behind; and
  while that is there, every import of a process with the same number fails, whatever token it is
  given and whatever else has changed. (The file is removed only by an import that has come as far
  as its publication.)
\<close>

theorem failed_import_blocks_the_next:
  assumes "validate_bot_token v = Inr token" "v \<noteq> []"
    and "prepare_token (token_tmp_path p (io_pid io)) p io = (Inr (), created)"
    and "fst (fill_token (token_tmp_path p (io_pid io)) token created) = Inl e"
  shows "\<exists>io'. load_or_import_token v p io = (Inl e, io') \<and> io_disk io' p = io_disk io p
    \<and> file_at (token_tmp_path p (io_pid io)) (io_uid io) (io_disk io')
    \<and> (\<forall>later w. io_disk later (token_tmp_path p (io_pid io)) = io_disk io' (token_tmp_path p (io_pid io))
         \<and> io_pid later = io_pid io \<and> w \<noteq> [] \<longrightarrow> (\<exists>e'. fst (load_or_import_token w p later) = Inl e'))"
proof -
  let ?tmp = "token_tmp_path p (io_pid io)"
  obtain io' where fill: "fill_token ?tmp token created = (Inl e, io')"
    using assms(4) by (metis prod.collapse)
  with assms(3) have stage: "stage_token ?tmp p token io = (Inl e, io')"
    by (simp add: stage_token_def and_then_def)
  then have run: "load_or_import_token v p io = (Inl e, io')"
    using assms(1,2) by (simp add: load_or_import_token_def and_then_def write_token_atomic_def Let_def)
  have "except_at {?tmp} (io_disk io) (io_disk io)" by (simp add: except_at_def)
  from keepsD(1) [OF keeps_stage_token this stage] have kept: "io_disk io' p = io_disk io p"
    by (simp add: except_at_def del: split_paired_All)
  have "file_at ?tmp (io_uid io) (io_disk created)"
  proof -
    let ?check = "\<lambda>io. if io_disk io p = None then give () io
         else and_then (open_regular_no_follow p) (\<lambda>fd.
                and_finally (and_then touch (\<lambda>_. validate_token_file_stat fd)) touch) io"
    from assms(3) obtain io1 io2 where steps: "touch io = (Inr (), io1)" "?check io1 = (Inr (), io2)"
        "create_exclusive ?tmp io2 = (Inr (), created)"
      by (auto simp: prepare_token_def and_then_Inr)
    have "keeps (\<lambda>d. True) ?check" by (intro keeps_intros)
    from keepsD(3) [OF this TrueI steps(2)] touch_Inr [OF steps(1)] create_exclusive_Inr [OF steps(3)]
    show ?thesis by (simp add: file_at_def)
  qed
  moreover have "keeps (file_at ?tmp (io_uid io)) (fill_token ?tmp token)"
    unfolding fill_token_def by (intro keeps_intros keeps_file_at)
  ultimately have there: "file_at ?tmp (io_uid io) (io_disk io')"
    using fill by (blast dest: keepsD(1))
  have "\<exists>e'. fst (load_or_import_token w p later) = Inl e'"
    if "io_disk later ?tmp = io_disk io' ?tmp" "io_pid later = io_pid io" "w \<noteq> []" for later w
    using import_needs_room [of later p w] that there by (auto simp: file_at_def)
  with run kept there show ?thesis by blast
qed

section \<open>The key of the audit log is written once\<close>

definition stored_key :: "path \<Rightarrow> nat \<Rightarrow> audit_key \<Rightarrow> disk \<Rightarrow> bool" where
  "stored_key p uid k d \<longleftrightarrow>
     (\<exists>m bs. d p = Some (Regular m uid bs) \<and> m mod 64 = 0 \<and> decode_key_bytes bs = Inr (ak_key k))"

lemma make_audit_key_Inr: "make_audit_key cr f key None = Inr k \<Longrightarrow> ak_key k = key"
  by (auto simp: make_audit_key_def split: if_splits)

lemma on_error_Inr:
  "on_error m h io = (Inr y, io'') \<longleftrightarrow>
     m io = (Inr y, io'') \<or> (\<exists>e io'. m io = (Inl e, io') \<and> h e io' = (Inr y, io''))"
  by (auto simp: on_error_def split: prod.splits sum.splits)

lemma load_audit_key_Inr:
  assumes "load_audit_key_file cr p io = (Inr k, io')"
  shows "stored_key p (io_uid io) k (io_disk io')" "io_uid io' = io_uid io"
proof -
  from assms obtain fd io1 io2 raw where steps: "open_no_follow p io = (Inr fd, io1)"
      "and_finally (and_then touch (\<lambda>_.
          case fd of
            Regular m u bs \<Rightarrow> (\<lambda>io.
              if m mod 64 \<noteq> 0
              then fail (Exn AuditKeyError (lit ''audit key file permissions are too broad'')) io
              else if u \<noteq> io_uid io
              then fail (Exn AuditKeyError (lit ''audit key file owner is invalid'')) io
              else
                and_then touch (\<lambda>_.
                and_then touch (\<lambda>_.
                  if length bs > audit_key_min_bytes * 4
                  then fail (Exn AuditKeyError (lit ''audit key file is too large''))
                  else give bs)) io)
          | _ \<Rightarrow> fail (Exn AuditKeyError (lit ''audit key path is not a regular file''))))
       touch io1 = (Inr raw, io2)"
      "bind_result (decode_key_bytes raw) (\<lambda>key. make_audit_key cr (\<lambda>_. False) key None) = Inr k" "io' = io2"
    by (auto simp: load_audit_key_file_def and_then_Inr)
  have fd: "io_disk io p = Some fd" "io_disk io1 = io_disk io" "io_uid io1 = io_uid io"
    using steps(1) by (auto simp: open_no_follow_def on_error_Inr dest: open_read_Inr split: if_splits)
  have read: "\<exists>m. fd = Regular m (io_uid io1) raw \<and> m mod 64 = 0 \<and> io_disk io' = io_disk io1
      \<and> io_uid io' = io_uid io1"
    using and_finally_touch_Inr [OF steps(2)] steps(4)
    by (auto simp: and_then_Inr dest!: touch_Inr split: node.splits if_splits)
  from steps(3) have "decode_key_bytes raw = Inr (ak_key k)"
    by (auto simp: bind_result_Inr_iff dest: make_audit_key_Inr)
  with fd read show "stored_key p (io_uid io) k (io_disk io')" "io_uid io' = io_uid io"
    by (auto simp: stored_key_def)
qed

lemma length_strip: "length (strip t) \<le> length t"
  using order_trans [OF length_rstrip_le length_lstrip_le] by (simp add: strip_def)

lemma decode_fresh_key: "length key = 32 \<Longrightarrow> decode_key_bytes key = Inr key"
  using length_strip [of key] by (auto simp: decode_key_bytes_def audit_key_min_bytes_def Let_def)

text \<open>Before the key is published, and while it is, one file at most ever stands under its path.\<close>

definition once :: "path \<Rightarrow> node \<Rightarrow> disk \<Rightarrow> bool" where
  "once p n d \<longleftrightarrow> d p = None \<or> d p = Some n"

lemma free_once [simp]: "t \<noteq> p \<Longrightarrow> free_at t (once p n)"
  by (auto simp: free_at_def once_def)

text \<open>The file that wins: the one that is there, else the rival's, else this process's own.\<close>

definition winner :: "path \<Rightarrow> node \<Rightarrow> io \<Rightarrow> node" where
  "winner p own io =
     (case io_disk io p of
        Some n \<Rightarrow> n
      | None \<Rightarrow> (case io_rival io of Some (q, n) \<Rightarrow> if q = p then n else own | None \<Rightarrow> own))"

lemma arrive_facts:
  "once p (winner p own io) (io_disk (arrive io))"
  "d \<in> set (io_trace (arrive io)) \<Longrightarrow> d \<in> set (io_trace io) \<or> once p (winner p own io) d"
  "io_disk (arrive io) p = None \<Longrightarrow> winner p own io = own"
  "io_disk io t = Some n \<Longrightarrow> io_disk (arrive io) t = Some n"
  "io_uid (arrive io) = io_uid io"
  by (auto simp: arrive_def winner_def once_def set_node_def Let_def split: option.splits if_splits)

lemma hard_link_cases:
  assumes "hard_link t p io = (r, io')" "io_disk io t = Some own"
  obtains e where "r = Inl e" "io_disk io' = io_disk (arrive io)" "io_trace io' = io_trace (arrive io)"
      "io_uid io' = io_uid io"
    | "r = Inr ()" "io_disk (arrive io) p = None" "io_disk io' = (io_disk (arrive io))(p := Some own)"
      "io_trace io' = (io_disk (arrive io))(p := Some own) # io_trace (arrive io)" "io_uid io' = io_uid io"
  using assms arrive_facts(4,5) [of io]
  by (auto simp: hard_link_def sys_call_def set_node_def Let_def split: option.splits if_splits)

lemma hard_link_once:
  assumes run: "hard_link t p io = (r, io')" and own: "io_disk io t = Some own"
  shows "once p (winner p own io) (io_disk io')"
    "d \<in> set (io_trace io') \<Longrightarrow> d \<in> set (io_trace io) \<or> once p (winner p own io) d"
    "r = Inr u \<Longrightarrow> io_disk io' p = Some own" "io_uid io' = io_uid io"
proof -
  note a = arrive_facts(1) [of p own io] arrive_facts(2) [where p = p and own = own and io = io]
  have "once p (winner p own io) (io_disk io')
      \<and> (d \<in> set (io_trace io') \<longrightarrow> d \<in> set (io_trace io) \<or> once p (winner p own io) d)
      \<and> (r = Inr u \<longrightarrow> io_disk io' p = Some own) \<and> io_uid io' = io_uid io"
    using run own
  proof (cases rule: hard_link_cases)
    case (1 e)
    with a(1) a(2) [of d] show ?thesis by simp
  next
    case 2
    have "winner p own io = own" by (rule arrive_facts(3) [OF 2(2)])
    then have "once p (winner p own io) ((io_disk (arrive io))(p := Some own))" by (simp add: once_def)
    with 2 a(2) [of d] show ?thesis by auto
  qed
  then show "once p (winner p own io) (io_disk io')"
    "d \<in> set (io_trace io') \<Longrightarrow> d \<in> set (io_trace io) \<or> once p (winner p own io) d"
    "r = Inr u \<Longrightarrow> io_disk io' p = Some own" "io_uid io' = io_uid io"
    by simp_all
qed

lemma keeps_stage_key: "free_at tmp P \<Longrightarrow> keeps P (stage_key tmp fresh)"
  unfolding stage_key_def by (intro keeps_intros)

lemma stage_key_Inr:
  assumes "stage_key tmp fresh io = (Inr u, io')"
  shows "io_disk io' tmp = Some (Regular 384 (io_uid io) fresh)"
proof -
  let ?wr = "write_all (Exn AuditKeyError (lit ''failed to write audit key file'')) tmp fresh"
  from assms obtain io1 io2 where steps: "touch io = (Inr (), io1)" "create_exclusive tmp io1 = (Inr (), io2)"
      "and_finally (and_then ?wr (\<lambda>_. touch)) touch io2 = (Inr u, io')"
    by (auto simp: stage_key_def and_then_Inr)
  from touch_Inr [OF steps(1)] create_exclusive_Inr [OF steps(2)]
  have "io_disk io2 tmp = Some (Regular 384 (io_uid io) [])" by simp
  moreover obtain io3 io4 where "?wr io2 = (Inr (), io3)" "touch io3 = (Inr u, io4)" "io_disk io' = io_disk io4"
    using and_finally_touch_Inr [OF steps(3)] by (auto simp: and_then_Inr)
  ultimately show ?thesis using write_all_Inr touch_Inr by fastforce
qed

lemma publish_key_once:
  assumes run: "publish_key cr tmp p io = (r, io')" and own: "io_disk io tmp = Some own" and "tmp \<noteq> p"
  shows "once p (winner p own io) (io_disk io')"
    "d \<in> set (io_trace io') \<Longrightarrow> d \<in> set (io_trace io) \<or> once p (winner p own io) d"
    "r = Inr None \<Longrightarrow> io_disk io' p = Some own"
    "r = Inr (Some k) \<Longrightarrow> stored_key p (io_uid io) k (io_disk io')"
    "io_uid io' = io_uid io"
proof -
  let ?W = "once p (winner p own io)"
  let ?handler = "\<lambda>e. if exn_class e = FileExistsError
      then and_then (load_audit_key_file cr p) (\<lambda>k. give (Some k)) else fail e"
  obtain r1 io1 where link: "hard_link tmp p io = (r1, io1)" by fastforce
  note l = hard_link_once [OF link own]
  obtain r2 io2 where body: "on_error (and_then (hard_link tmp p) (\<lambda>_. give None)) ?handler io = (r2, io2)"
    by fastforce
  with run obtain s where u: "unlink_if_there tmp io2 = (s, io')" "\<And>x. r = Inr x \<Longrightarrow> r2 = Inr x"
    by (auto simp: publish_key_def and_finally_def split: prod.splits sum.splits)
  have "keeps (\<lambda>d. d p = io_disk io2 p) (unlink_if_there tmp)"
    using assms(3) by (intro keeps_intros) (simp add: free_at_def)
  from keepsD [OF this refl u(1)] have same: "io_disk io' p = io_disk io2 p" "io_uid io' = io_uid io2" by simp_all
  have kW: "keeps ?W (unlink_if_there tmp)" using assms(3) by (intro keeps_intros) simp
  have kH: "keeps ?W (?handler e)" for e by (intro keeps_intros)
  have b: "?W (io_disk io2) \<and> (d \<in> set (io_trace io2) \<longrightarrow> d \<in> set (io_trace io) \<or> ?W d)
      \<and> (r2 = Inr None \<longrightarrow> io_disk io2 p = Some own)
      \<and> (\<forall>k. r2 = Inr (Some k) \<longrightarrow> stored_key p (io_uid io) k (io_disk io2)) \<and> io_uid io2 = io_uid io"
  proof (cases r1)
    case (Inl e)
    with body link have h: "?handler e io1 = (r2, io2)" by (simp add: on_error_def and_then_def)
    note k = keepsD [OF kH l(1) h]
    have "(\<forall>k. r2 = Inr (Some k) \<longrightarrow> stored_key p (io_uid io1) k (io_disk io2)) \<and> r2 \<noteq> Inr None"
      using h load_audit_key_Inr(1) [of cr p io1] by (auto simp: and_then_Inr fail_def split: if_splits)
    with k l show ?thesis by (metis (full_types))
  next
    case (Inr v)
    with body link have "r2 = Inr None" "io2 = io1" by (simp_all add: on_error_def and_then_def give_def)
    with l Inr show ?thesis by simp
  qed
  show "?W (io_disk io')" "io_uid io' = io_uid io"
    using keepsD(1) [OF kW _ u(1)] same b by simp_all
  show "d \<in> set (io_trace io') \<Longrightarrow> d \<in> set (io_trace io) \<or> ?W d"
    using keepsD(2) [OF kW _ u(1)] b by blast
  show "r = Inr None \<Longrightarrow> io_disk io' p = Some own"
    using u(2) b same by simp
  show "r = Inr (Some k) \<Longrightarrow> stored_key p (io_uid io) k (io_disk io')"
    using u(2) [of "Some k"] b same by (auto simp: stored_key_def)
qed

lemma winner_cong:
  fixes io io' :: io
  shows "io_disk io' p = io_disk io p \<Longrightarrow> io_rival io' = io_rival io \<Longrightarrow> winner p own io' = winner p own io"
  by (cases "io_disk io p") (simp_all add: winner_def)

lemma once_same: "d p = io_disk io p \<Longrightarrow> once p (winner p own io) d"
  by (cases "io_disk io p") (simp_all add: once_def winner_def)

lemma create_key_once:
  assumes run: "create_app_audit_key cr fresh sfx p io = (r, io')" and len: "length fresh = 32"
  defines "own \<equiv> Regular 384 (io_uid io) fresh"
  shows "once p (winner p own io) (io_disk io')"
    "d \<in> set (io_trace io') \<Longrightarrow> d \<in> set (io_trace io) \<or> once p (winner p own io) d"
    "r = Inr k \<Longrightarrow> stored_key p (io_uid io) k (io_disk io')"
proof -
  let ?tmp = "key_tmp_path p sfx" and ?W = "once p (winner p own io)"
  let ?here = "\<lambda>d. d p = io_disk io p"
  have W: "?W d'" if "?here d'" for d' using that by (rule once_same)
  obtain r1 io1 where stage: "stage_key ?tmp fresh io = (r1, io1)" by fastforce
  have "keeps ?here (stage_key ?tmp fresh)" by (rule keeps_stage_key) (simp add: free_at_def)
  note s = keepsD [OF this refl stage]
  have "?W (io_disk io') \<and> (d \<in> set (io_trace io') \<longrightarrow> d \<in> set (io_trace io) \<or> ?W d)
      \<and> (\<forall>k. r = Inr k \<longrightarrow> stored_key p (io_uid io) k (io_disk io'))"
  proof (cases r1)
    case (Inl e)
    with run stage have "r = Inl e" "io' = io1"
      by (simp_all add: create_app_audit_key_def Let_def and_then_def)
    with s W show ?thesis by auto
  next
    case (Inr v)
    have "winner p own io1 = winner p own io" using s(1,5) by (rule winner_cong)
    moreover have "io_disk io1 ?tmp = Some own"
      using stage_key_Inr stage Inr by (simp add: own_def)
    moreover obtain r2 io2 where publish: "publish_key cr ?tmp p io1 = (r2, io2)" by fastforce
    ultimately have q: "?W (io_disk io2)" "d \<in> set (io_trace io2) \<Longrightarrow> d \<in> set (io_trace io1) \<or> ?W d"
        "r2 = Inr None \<Longrightarrow> io_disk io2 p = Some own"
        "r2 = Inr (Some k) \<Longrightarrow> stored_key p (io_uid io1) k (io_disk io2)" for d k
      using publish_key_once [OF publish, of own] by auto
    let ?fin = "\<lambda>published. case published of
          Some k \<Rightarrow> give k
        | None \<Rightarrow> and_then touch (\<lambda>_. and_then (and_finally touch touch) (\<lambda>_ io.
            (make_audit_key cr (\<lambda>_. False) fresh None, io)))"
    have endk: "keeps P (?fin x)" for P x by (intro keeps_intros)
    show ?thesis
    proof (cases r2)
      case e: (Inl e)
      with run stage Inr publish have "r = Inl e" "io' = io2"
        by (simp_all add: create_app_audit_key_def Let_def and_then_def)
      with q s W show ?thesis by blast
    next
      case x: (Inr x)
      with run stage Inr publish have e: "?fin x io2 = (r, io')"
        by (simp add: create_app_audit_key_def Let_def and_then_def)
      note kW = keepsD [OF endk [of ?W] q(1) e]
        and same = keepsD(1) [OF endk [of "\<lambda>d. d p = io_disk io2 p"] refl e]
      have "stored_key p (io_uid io) k (io_disk io')" if "r = Inr k" for k
      proof (cases x)
        case None
        with e that have "ak_key k = fresh"
          by (auto simp: and_then_Inr dest: make_audit_key_Inr)
        with same q(3) x None decode_fresh_key [OF len] show ?thesis
          by (simp add: stored_key_def own_def)
      next
        case (Some k')
        with e that q(4) [of k'] x s(3) same show ?thesis by (auto simp: stored_key_def)
      qed
      with kW q(2) s(2) W show ?thesis by blast
    qed
  qed
  then show "?W (io_disk io')" "d \<in> set (io_trace io') \<Longrightarrow> d \<in> set (io_trace io) \<or> ?W d"
    "r = Inr k \<Longrightarrow> stored_key p (io_uid io) k (io_disk io')"
    by blast+
qed

text \<open>
  C19. The key of the audit log is written once: whatever fails and even when another process
  creates the file in between, the path never holds anything but the file that was there first, and
  the key that the process goes on with is the one stored in it.
\<close>

theorem audit_key_written_once:
  assumes run: "load_or_create_app_audit_key cr fresh sfx p io = (r, io')" and len: "length fresh = 32"
  shows "(\<forall>d. d \<in> insert (io_disk io') (set (io_trace io')) - set (io_trace io) \<longrightarrow>
            once p (winner p (Regular 384 (io_uid io) fresh) io) d)
    \<and> (\<forall>k. r = Inr k \<longrightarrow> stored_key p (io_uid io) k (io_disk io'))"
proof -
  let ?W = "once p (winner p (Regular 384 (io_uid io) fresh) io)"
  obtain r1 io1 where load: "load_audit_key_file cr p io = (r1, io1)" by fastforce
  note s = keepsD [OF keeps_load_key [where P = "\<lambda>d. d p = io_disk io p"] refl load]
  have W: "?W d" if "d p = io_disk io p" for d using that by (rule once_same)
  show ?thesis
  proof (cases "\<exists>e. r1 = Inl e \<and> exn_class e = FileNotFoundError")
    case True
    with run load have create: "create_app_audit_key cr fresh sfx p io1 = (r, io')"
      by (auto simp: load_or_create_app_audit_key_def on_error_def)
    note c = create_key_once [OF create len]
    have "winner p (Regular 384 (io_uid io) fresh) io1 = winner p (Regular 384 (io_uid io) fresh) io"
      using s(1,5) by (rule winner_cong)
    with c s W show ?thesis by auto
  next
    case False
    with run load have "io' = io1" "\<And>k. r = Inr k \<Longrightarrow> r1 = Inr k"
      by (auto simp: load_or_create_app_audit_key_def on_error_def fail_def split: sum.splits if_splits)
    with s W load_audit_key_Inr(1) [of cr p io] load show ?thesis by auto
  qed
qed

section \<open>On a calm disk\<close>

text \<open>Where nothing fails and every write takes all, both files come to be.\<close>

definition calm :: "io \<Rightarrow> bool" where
  "calm io \<longleftrightarrow> io_faults io = [] \<and> io_writes io = []"

lemma calm_calls:
  "calm io \<Longrightarrow> touch io = (Inr (), io)"
  "calm io \<Longrightarrow> io_disk io t = None \<Longrightarrow>
     create_exclusive t io = (Inr (), set_node t (Some (Regular 384 (io_uid io) [])) io)"
  "calm io \<Longrightarrow> io_disk io t = Some (Regular m u bs) \<Longrightarrow> data \<noteq> [] \<Longrightarrow>
     write_all e t data io = (Inr (), set_node t (Some (Regular m u (bs @ data))) io)"
  "calm io \<Longrightarrow> io_disk io t = Some n \<Longrightarrow> n \<noteq> Directory \<Longrightarrow> unlink_if_there t io = (Inr (), set_node t None io)"
  "calm io \<Longrightarrow> io_disk io t = None \<Longrightarrow> unlink_if_there t io = (Inr (), io)"
  "calm io \<Longrightarrow> io_disk io p = Some (Regular m u bs) \<Longrightarrow>
     chmod 384 p io = (Inr (), set_node p (Some (Regular 384 u bs)) io)"
  "calm io \<Longrightarrow> calm (set_node t n' io)"
  by (simp_all add: calm_def touch_calm create_exclusive_def sys_call_calm write_all.simps append_bytes_def
      unlink_if_there_def unlink_def on_error_def set_node_def Let_def give_def fail_def chmod_def)

lemma set_node_simps [simp]:
  "io_disk (set_node t n io) = (io_disk io)(t := n)" "io_uid (set_node t n io) = io_uid io"
  "io_rival (set_node t n io) = io_rival io" "io_pid (set_node t n io) = io_pid io"
  by (simp_all add: set_node_def Let_def)

lemma import_on_calm_disk:
  assumes "calm io" "io_disk io p = None" "io_disk io (token_tmp_path p (io_pid io)) = None"
  shows "\<exists>io'. write_token_atomic p token io = (Inr (), io')"
proof -
  let ?tmp = "token_tmp_path p (io_pid io)" and ?new = "Regular 384 (io_uid io) (utf8 (token @ [10]))"
  let ?io1 = "set_node ?tmp (Some ?new) (set_node ?tmp (Some (Regular 384 (io_uid io) [])) io)"
  have c1: "calm ?io1" by (intro calm_calls(7) assms(1))
  have stage: "stage_token ?tmp p token io = (Inr (), ?io1)"
    using assms c1 by (simp add: stage_token_def prepare_token_def fill_token_def and_then_def calm_calls give_def and_finally_def)
  let ?d = "(io_disk ?io1)(p := Some ?new, ?tmp := None)"
  let ?io2 = "?io1\<lparr>io_disk := ?d, io_trace := ?d # io_trace ?io1\<rparr>"
  have "rename ?tmp p ?io1 = (Inr (), ?io2)"
    using c1 assms(2) by (simp add: rename_def sys_call_calm calm_def Let_def)
  moreover have c2: "calm ?io2" using c1 by (simp add: calm_def)
  moreover have "io_disk ?io2 p = Some ?new" "io_disk ?io2 ?tmp = None" by simp_all
  ultimately have "\<exists>io'. publish_token ?tmp p ?io1 = (Inr (), io')"
    by (simp add: publish_token_def and_finally_def and_then_def calm_calls split: prod.splits)
  with stage show ?thesis by (auto simp: write_token_atomic_def Let_def and_then_def)
qed

lemma key_on_calm_disk:
  assumes "calm io" "io_disk io p = None" "io_disk io (key_tmp_path p sfx) = None" "io_rival io = None"
    and "length fresh = 32"
  shows "\<exists>k io'. load_or_create_app_audit_key cr fresh sfx p io = (Inr k, io')"
proof -
  let ?tmp = "key_tmp_path p sfx" and ?own = "Regular 384 (io_uid io) fresh"
  let ?io1 = "set_node ?tmp (Some ?own) (set_node ?tmp (Some (Regular 384 (io_uid io) [])) io)"
  have c1: "calm ?io1" by (intro calm_calls(7) assms(1))
  have "fresh \<noteq> []" using assms(5) by auto
  then have stage: "stage_key ?tmp fresh io = (Inr (), ?io1)"
    using assms c1 by (simp add: stage_key_def and_then_def calm_calls and_finally_def)
  let ?io2 = "set_node p (Some ?own) ?io1"
  have "hard_link ?tmp p ?io1 = (Inr (), ?io2)"
    using c1 assms by (simp add: hard_link_def arrive_def sys_call_calm calm_def)
  moreover have c2: "calm ?io2" "calm (set_node ?tmp None ?io2)" by (intro calm_calls(7) assms(1))+
  ultimately have publish: "publish_key cr ?tmp p ?io1 = (Inr None, set_node ?tmp None ?io2)"
    by (simp add: publish_key_def and_finally_def on_error_def and_then_def give_def calm_calls)
  obtain k where "make_audit_key cr (\<lambda>_. False) fresh None = Inr k"
    using assms(5) by (auto simp: make_audit_key_def audit_key_min_bytes_def)
  with stage publish c2 have "create_app_audit_key cr fresh sfx p io = (Inr k, set_node ?tmp None ?io2)"
    by (simp add: create_app_audit_key_def Let_def and_then_def calm_calls and_finally_def)
  moreover have "load_audit_key_file cr p io = (Inl (Exn FileNotFoundError (lit ''No such file or directory'')), io)"
    using assms(1,2) by (simp add: load_audit_key_file_def open_no_follow_def and_then_def on_error_def
        open_read_def calm_def sys_call_calm fail_def)
  ultimately show ?thesis by (auto simp: load_or_create_app_audit_key_def on_error_def)
qed

definition sample_io :: "exn option list \<Rightarrow> io" where
  "sample_io faults =
     \<lparr>io_disk = (\<lambda>_. None), io_uid = 1000, io_pid = 7, io_faults = faults, io_writes = [],
      io_rival = None, io_trace = []\<rparr>"

definition sample_token :: str where
  "sample_token = lit ''123456:abcdefghij0123456789''"

abbreviation sample_path :: path where
  "sample_path \<equiv> (lit ''/data'', lit ''secret'')"

lemma sample_token_valid: "validate_bot_token sample_token = Inr sample_token"
  by (simp add: validate_bot_token_def sample_token_def matches_token_def is_token_char_def is_digit_def
      strip_def lstrip_def rstrip_def is_space_def lit_def Let_def)

lemma sample_import:
  obtains io' where "write_token_atomic sample_path sample_token (sample_io []) = (Inr (), io')"
  using import_on_calm_disk [of "sample_io []" sample_path sample_token]
  by (auto simp: sample_io_def calm_def)

theorem token_import_atomic_witness:
  "\<exists>io'. write_token_atomic sample_path sample_token (sample_io []) = (Inr (), io')
     \<and> io_disk io' sample_path = Some (token_file 1000 sample_token)"
proof -
  obtain io' where run: "write_token_atomic sample_path sample_token (sample_io []) = (Inr (), io')"
    by (rule sample_import)
  from run token_import_atomic [OF run] show ?thesis by (auto simp: sample_io_def)
qed

theorem token_round_trip_witness:
  "\<exists>io'. load_or_import_token sample_token sample_path (sample_io []) = (Inr sample_token, io')
     \<and> fst (load_or_import_token [] sample_path ((sample_io [])\<lparr>io_disk := io_disk io'\<rparr>)) = Inr sample_token"
proof -
  obtain io' where run: "write_token_atomic sample_path sample_token (sample_io []) = (Inr (), io')"
    by (rule sample_import)
  have some: "sample_token \<noteq> []" "length sample_token < 4096" by (simp_all add: sample_token_def)
  from run have first: "load_or_import_token sample_token sample_path (sample_io []) = (Inr sample_token, io')"
    using some by (simp add: load_or_import_token_def sample_token_valid and_then_def give_def)
  from token_round_trip [OF first some, of "(sample_io [])\<lparr>io_disk := io_disk io'\<rparr>"] first
  show ?thesis by (auto simp: sample_io_def)
qed

theorem failed_import_blocks_the_next_witness:
  "\<exists>io'. fst (load_or_import_token sample_token sample_path
         (sample_io [None, None, Some (Exn OSError (lit ''No space left on device''))]))
       = Inl (Exn OSError (lit ''No space left on device''))
     \<and> (\<exists>e. fst (load_or_import_token sample_token sample_path ((sample_io [])\<lparr>io_disk := io'\<rparr>)) = Inl e)"
proof -
  let ?e = "Exn OSError (lit ''No space left on device'')"
  let ?io = "sample_io [None, None, Some ?e]" and ?tmp = "token_tmp_path sample_path 7"
  let ?created = "snd (prepare_token ?tmp sample_path ?io)"
  have p: "prepare_token (token_tmp_path sample_path (io_pid ?io)) sample_path ?io = (Inr (), ?created)"
    by (simp add: prepare_token_def and_then_def touch_def sys_call_def io_fault_def give_def create_exclusive_def
        sample_io_def Let_def)
  have "utf8 (sample_token @ [10]) \<noteq> []" by simp
  then have f: "fst (fill_token (token_tmp_path sample_path (io_pid ?io)) sample_token ?created) = Inl ?e"
    by (simp add: prepare_token_def fill_token_def and_then_def touch_def sys_call_def io_fault_def give_def
        create_exclusive_def sample_io_def Let_def write_all.simps append_bytes_def and_finally_def set_node_def)
  from failed_import_blocks_the_next [OF sample_token_valid _ p f] obtain io' where
    "load_or_import_token sample_token sample_path ?io = (Inl ?e, io')"
    "\<forall>later w. io_disk later ?tmp = io_disk io' ?tmp \<and> io_pid later = 7 \<and> w \<noteq> [] \<longrightarrow>
        (\<exists>e'. fst (load_or_import_token w sample_path later) = Inl e')"
    by (auto simp: sample_io_def sample_token_def)
  then show ?thesis by (intro exI [of _ "io_disk io'"]) (simp add: sample_io_def sample_token_def)
qed

theorem audit_key_written_once_witness:
  "\<exists>k io'. load_or_create_app_audit_key \<lparr>cr_sha256 = (\<lambda>bs. bs), cr_hmac = (\<lambda>k bs. bs)\<rparr>
       (replicate 32 7) (lit ''00'') sample_path (sample_io []) = (Inr k, io')
     \<and> stored_key sample_path 1000 k (io_disk io')"
proof -
  obtain k io' where run: "load_or_create_app_audit_key \<lparr>cr_sha256 = (\<lambda>bs. bs), cr_hmac = (\<lambda>k bs. bs)\<rparr>
       (replicate 32 7) (lit ''00'') sample_path (sample_io []) = (Inr k, io')"
    using key_on_calm_disk [of "sample_io []" sample_path "lit ''00''" "replicate 32 7"
        "\<lparr>cr_sha256 = (\<lambda>bs. bs), cr_hmac = (\<lambda>k bs. bs)\<rparr>"]
    by (auto simp: sample_io_def calm_def)
  from run audit_key_written_once [OF run] show ?thesis by (auto simp: sample_io_def)
qed

end
