(* ===== verification/Ws_Client.thy ===== *)
theory Ws_Client
  imports Mc_Transport
begin

text \<open>
  \<open>adapters/homeassistant_ws.py\<close>: the WebSocket client of Home Assistant. Commands are numbered
  and each waits on a future of its own; one reader per connection hands the answers to the
  futures and the events to a bounded queue. The socket is a list of what it delivers;
  \<open>loads\<close> is \<open>json.loads\<close>.
\<close>

abbreviation CommandError :: exn_class where
  "CommandError \<equiv> OtherError (lit ''HomeAssistantWebSocketCommandError'')"

section \<open>The address\<close>

text \<open>For a URL without blanks and control characters, which \<open>urlparse\<close> would strip.\<close>

definition websocket_url :: "str option \<Rightarrow> str \<Rightarrow> str result" where
  "websocket_url override base_url =
     (if present override then Inr (the override)
      else
        (let url = rstrip_slashes base_url; given_scheme = takeWhile (\<lambda>c. c \<noteq> 58) url;
             rest = drop (Suc (length given_scheme)) url;
             netloc = (if starts_with rest (lit ''//'')
                       then takeWhile (\<lambda>c. c \<notin> {47, 63, 35}) (drop 2 rest) else []);
             answer = (\<lambda>scheme. Inr (scheme @ lit ''://'' @ netloc @ lit ''/api/websocket''))
         in
         if lower given_scheme = lit ''http'' \<and> given_scheme \<noteq> url then answer (lit ''ws'')
         else if lower given_scheme = lit ''https'' \<and> given_scheme \<noteq> url then answer (lit ''wss'')
         else raise ValueError ''Home Assistant base URL must use http or https''))"

section \<open>State\<close>

datatype future =
    Waiting
  | Resolved json
  | Failed exn
  | Cancelled

text \<open>
  \<open>wk_pending\<close> are the keys of \<open>pending\<close>; the futures themselves are also held by those who wait,
  so they are kept apart, by the number of their command.
\<close>

record ws_state =
  wk_message_id :: int
  wk_futures :: "int \<Rightarrow> future option"
  wk_pending :: "int list"
  wk_queue :: "ha_event list"
  wk_subscriptions :: "(int \<times> str) list"
  wk_sent :: "jobject list"

definition new_connection :: "int \<Rightarrow> ws_state" where
  "new_connection last_id =
     \<lparr>wk_message_id = last_id, wk_futures = (\<lambda>_. None), wk_pending = [], wk_queue = [],
      wk_subscriptions = [], wk_sent = []\<rparr>"

definition max_queue :: nat where
  "max_queue = 1000"

section \<open>Frames\<close>

datatype ws_raw = Text str | Binary bytes

definition recv_json :: "(str \<Rightarrow> json result) \<Rightarrow> nat \<Rightarrow> ws_raw result \<Rightarrow> jobject result" where
  "recv_json loads max_bytes received =
     bind_result received (\<lambda>raw.
     bind_result
       (case raw of
          Text t \<Rightarrow> Inr t
        | Binary b \<Rightarrow>
            if length b > max_bytes then raise ValueError ''Home Assistant WebSocket message too large''
            else (case decode_utf8_strict b of
                    Some t \<Rightarrow> Inr t
                  | None \<Rightarrow> raise (OtherError (lit ''UnicodeDecodeError'')) ''invalid UTF-8'')) (\<lambda>t.
       if length t > max_bytes then raise ValueError ''Home Assistant WebSocket message too large''
       else
         bind_result (loads t) (\<lambda>payload.
           case payload of
             JObj d \<Rightarrow> Inr d
           | _ \<Rightarrow> raise ValueError ''Home Assistant WebSocket message was not an object'')))"

definition frame_type :: "jobject \<Rightarrow> str \<Rightarrow> bool" where
  "frame_type d t \<longleftrightarrow> jget d (lit ''type'') = Some (JStr t)"

text \<open>The frames that the handshake sends, with its outcome.\<close>

definition authenticate ::
    "(str \<Rightarrow> json result) \<Rightarrow> nat \<Rightarrow> str \<Rightarrow> ws_raw result \<Rightarrow> unit result \<Rightarrow> ws_raw result
       \<Rightarrow> unit result \<times> jobject list" where
  "authenticate loads max_bytes token hello sent answer =
     (case recv_json loads max_bytes hello of
        Inl e \<Rightarrow> (Inl e, [])
      | Inr d \<Rightarrow>
          if \<not> frame_type d (lit ''auth_required'')
          then (raise RuntimeError ''Home Assistant WebSocket did not request authentication'', [])
          else
            (bind_result sent (\<lambda>_.
             bind_result (recv_json loads max_bytes answer) (\<lambda>r.
               if \<not> frame_type r (lit ''auth_ok'')
               then raise RuntimeError ''Home Assistant WebSocket authentication failed''
               else Inr ())),
             [[(lit ''type'', JStr (lit ''auth'')), (lit ''access_token'', JStr token)]]))"

section \<open>Commands\<close>

text \<open>A future that is done is left alone.\<close>

definition settle :: "int \<Rightarrow> future \<Rightarrow> ws_state \<Rightarrow> ws_state" where
  "settle i f st =
     (if wk_futures st i = Some Waiting then st\<lparr>wk_futures := (wk_futures st)(i \<mapsto> f)\<rparr> else st)"

definition pop_pending :: "int \<Rightarrow> ws_state \<Rightarrow> ws_state" where
  "pop_pending i st = st\<lparr>wk_pending := removeAll i (wk_pending st)\<rparr>"

text \<open>A command whose frame could not be sent is taken back.\<close>

definition take_back :: "int \<Rightarrow> ws_state \<Rightarrow> ws_state" where
  "take_back i st = settle i Cancelled (pop_pending i st)"

definition send_command :: "jobject \<Rightarrow> unit result \<Rightarrow> ws_state \<Rightarrow> int result \<times> ws_state" where
  "send_command payload outcome st =
     (let i = wk_message_id st + 1;
          st1 = st\<lparr>wk_message_id := i, wk_futures := (wk_futures st)(i \<mapsto> Waiting),
                   wk_pending := i # wk_pending st\<rparr>
      in case outcome of
           Inr _ \<Rightarrow> (Inr i, st1\<lparr>wk_sent := wk_sent st1 @ [(lit ''id'', JInt i) # payload]\<rparr>)
         | Inl e \<Rightarrow> (Inl e, if is_exception e then take_back i st1 else st1))"

text \<open>
  \<open>_wait_for_result\<close>: \<open>None\<close> while the future is not done and the time is not over. Giving up
  cancels the future.
\<close>

definition wait_for_result :: "int \<Rightarrow> bool \<Rightarrow> ws_state \<Rightarrow> json result option \<times> ws_state" where
  "wait_for_result i timed_out st =
     (case wk_futures st i of
        Some (Resolved r) \<Rightarrow> (Some (Inr r), pop_pending i st)
      | Some (Failed e) \<Rightarrow> (Some (Inl e), pop_pending i st)
      | Some Waiting \<Rightarrow>
          if timed_out then (Some (raise TimeoutError ''''), pop_pending i (settle i Cancelled st))
          else (None, st)
      | _ \<Rightarrow> (Some (raise CancelledError ''''), pop_pending i st))"

section \<open>The reader\<close>

definition handle_frame :: "bool \<Rightarrow> jobject \<Rightarrow> ws_state \<Rightarrow> unit result \<times> ws_state" where
  "handle_frame listening payload st =
     (let i = int_key (jget payload (lit ''id'')) in
      if frame_type payload (lit ''result'') \<and> i \<noteq> None then
        (Inr (),
         if the i \<notin> set (wk_pending st) then st
         else if truthy (jget_null payload (lit ''success''))
         then settle (the i) (Resolved (jget_null payload (lit ''result''))) st
         else settle (the i) (Failed (Exn CommandError (lit ''Home Assistant WebSocket command failed''))) st)
      else if frame_type payload (lit ''event'') \<and> listening then
        (case event_from_payload payload (map_of (wk_subscriptions st)) of
           None \<Rightarrow> (Inr (), st)
         | Some e \<Rightarrow>
             if length (wk_queue st) \<ge> max_queue then (raise CommandError ''event queue saturated'', st)
             else (Inr (), st\<lparr>wk_queue := wk_queue st @ [e]\<rparr>))
      else (Inr (), st))"

definition fail_pending :: "exn \<Rightarrow> ws_state \<Rightarrow> ws_state" where
  "fail_pending e st =
     st\<lparr>wk_futures := (\<lambda>i. if i \<in> set (wk_pending st) \<and> wk_futures st i = Some Waiting
                           then Some (Failed e) else wk_futures st i),
        wk_pending := []\<rparr>"

text \<open>One round of \<open>_reader_loop\<close>; an exception other than a cancellation fails all who wait.\<close>

definition reader_step ::
    "(str \<Rightarrow> json result) \<Rightarrow> nat \<Rightarrow> bool \<Rightarrow> ws_raw result \<Rightarrow> ws_state \<Rightarrow> unit result \<times> ws_state" where
  "reader_step loads max_bytes listening received st =
     (case recv_json loads max_bytes received of
        Inl e \<Rightarrow> (Inl e, if is_exception e then fail_pending e st else st)
      | Inr d \<Rightarrow>
          (case handle_frame listening d st of
             (Inl e, st') \<Rightarrow> (Inl e, fail_pending e st')
           | (Inr _, st') \<Rightarrow> (Inr (), st')))"

text \<open>
  A command that waits while the reader goes on: what it ends with and the frames left. When the
  frames run out the time is over.
\<close>

fun await_answer ::
    "(str \<Rightarrow> json result) \<Rightarrow> nat \<Rightarrow> bool \<Rightarrow> int \<Rightarrow> ws_raw result list \<Rightarrow> ws_state
       \<Rightarrow> json result \<times> ws_raw result list \<times> ws_state" where
  "await_answer loads max_bytes listening i frames st =
     (case wait_for_result i (frames = []) st of
        (Some r, st') \<Rightarrow> (r, frames, st')
      | (None, _) \<Rightarrow>
          (case frames of
             [] \<Rightarrow> (raise TimeoutError '''', [], st)
           | f # fs \<Rightarrow>
               await_answer loads max_bytes listening i fs
                 (snd (reader_step loads max_bytes listening f st))))"

declare await_answer.simps [simp del]

section \<open>One command on a connection of its own\<close>

record ws_script =
  wx_connect :: "unit result"
  wx_hello :: "ws_raw result"
  wx_auth_sent :: "unit result"
  wx_auth_answer :: "ws_raw result"
  wx_send :: "unit result"
  wx_frames :: "ws_raw result list"

definition simple_command ::
    "(str \<Rightarrow> json result) \<Rightarrow> nat \<Rightarrow> str \<Rightarrow> jobject \<Rightarrow> ws_script \<Rightarrow> int \<Rightarrow> json result \<times> ws_state" where
  "simple_command loads max_bytes token command sc last_id =
     (let st = new_connection last_id; disconnected = fail_pending (Exn CommandError (lit ''disconnected'')) in
      case bind_result (wx_connect sc) (\<lambda>_.
             fst (authenticate loads max_bytes token (wx_hello sc) (wx_auth_sent sc) (wx_auth_answer sc))) of
        Inl e \<Rightarrow> (Inl e, disconnected st)
      | Inr _ \<Rightarrow>
          (case send_command command (wx_send sc) st of
             (Inl e, st1) \<Rightarrow> (Inl e, disconnected st1)
           | (Inr i, st1) \<Rightarrow>
               (case await_answer loads max_bytes False i (wx_frames sc) st1 of
                  (r, _, st2) \<Rightarrow> (r, disconnected st2))))"

definition call_service_command :: "str \<Rightarrow> str \<Rightarrow> jobject \<Rightarrow> bool \<Rightarrow> jobject" where
  "call_service_command domain service service_data return_response =
     [(lit ''type'', JStr (lit ''call_service'')), (lit ''domain'', JStr domain),
      (lit ''service'', JStr service), (lit ''service_data'', JObj service_data),
      (lit ''return_response'', JBool return_response)]"

definition call_service_result :: "json \<Rightarrow> jobject option" where
  "call_service_result r =
     (case r of
        JObj d \<Rightarrow> (case jget d (lit ''response'') of Some (JObj x) \<Rightarrow> Some x | _ \<Rightarrow> None)
      | _ \<Rightarrow> None)"

definition ws_call_service ::
    "(jobject \<Rightarrow> json result \<times> ws_state) \<Rightarrow> str \<Rightarrow> str \<Rightarrow> jobject \<Rightarrow> bool
       \<Rightarrow> jobject option result \<times> ws_state" where
  "ws_call_service run domain service service_data return_response =
     (case run (call_service_command domain service service_data return_response) of
        (r, st) \<Rightarrow> (bind_result r (\<lambda>x. Inr (call_service_result x)), st))"

definition ws_get_services :: "(jobject \<Rightarrow> json result \<times> ws_state) \<Rightarrow> jobject result \<times> ws_state" where
  "ws_get_services run =
     (case run [(lit ''type'', JStr (lit ''get_services''))] of
        (r, st) \<Rightarrow> (bind_result r (\<lambda>x. Inr (obj_items x)), st))"

definition ws_get_config_entries ::
    "(jobject \<Rightarrow> json result \<times> ws_state) \<Rightarrow> jobject list result \<times> ws_state" where
  "ws_get_config_entries run =
     (case run [(lit ''type'', JStr (lit ''config_entries/get''))] of
        (r, st) \<Rightarrow>
          (bind_result r (\<lambda>x. Inr (case x of JArr xs \<Rightarrow> map obj_items (filter is_mapping xs) | _ \<Rightarrow> [])), st))"

definition ws_fire_event ::
    "(jobject \<Rightarrow> json result \<times> ws_state) \<Rightarrow> str \<Rightarrow> jobject \<Rightarrow> unit result \<times> ws_state" where
  "ws_fire_event run event_type event_data =
     (case run [(lit ''type'', JStr (lit ''fire_event'')), (lit ''event_type'', JStr event_type),
                (lit ''event_data'', JObj event_data)] of
        (r, st) \<Rightarrow> (bind_result r (\<lambda>_. Inr ()), st))"

section \<open>Listening\<close>

text \<open>
  What the socket does once the client listens: it delivers a frame, or it is quiet for the time
  that the listener waits. What the listener does is a list of actions: the callbacks that the
  transport registers, and the events it yields.
\<close>

datatype ws_input = Frame "ws_raw result" | Quiet

datatype ws_action =
    Authenticated
  | Subscribed
  | Idle
  | Yield ha_event
  | Disconnected

text \<open>The loop over the event types; each subscription is a command that is answered.\<close>

fun subscribe_all ::
    "(str \<Rightarrow> json result) \<Rightarrow> nat \<Rightarrow> str list \<Rightarrow> unit result list \<Rightarrow> ws_raw result list \<Rightarrow> ws_state
       \<Rightarrow> ws_raw result list result \<times> ws_state" where
  "subscribe_all loads max_bytes [] outcomes frames st = (Inr frames, st)"
| "subscribe_all loads max_bytes (t # ts) outcomes frames st =
     (case send_command [(lit ''type'', JStr (lit ''subscribe_events'')), (lit ''event_type'', JStr t)]
             (case outcomes of [] \<Rightarrow> Inr () | out # _ \<Rightarrow> out) st of
        (Inl e, st1) \<Rightarrow> (Inl e, st1)
      | (Inr i, st1) \<Rightarrow>
          (case await_answer loads max_bytes True i frames st1 of
             (Inl e, _, st2) \<Rightarrow> (Inl e, st2)
           | (Inr _, rest, st2) \<Rightarrow>
               subscribe_all loads max_bytes ts (drop 1 outcomes) rest
                 (st2\<lparr>wk_subscriptions := wk_subscriptions st2 @ [(i, t)]\<rparr>)))"

text \<open>
  The listener takes what is in the queue before the next frame comes. When the reader has died it
  notices after a quiet period, for which it reports itself idle.
\<close>

fun listen ::
    "(str \<Rightarrow> json result) \<Rightarrow> nat \<Rightarrow> ws_input list \<Rightarrow> ws_state \<Rightarrow> ws_action list \<times> ws_state" where
  "listen loads max_bytes [] st = (map Yield (wk_queue st), st\<lparr>wk_queue := []\<rparr>)"
| "listen loads max_bytes (Quiet # inputs) st =
     (let (actions, st') = listen loads max_bytes inputs (st\<lparr>wk_queue := []\<rparr>)
      in (map Yield (wk_queue st) @ [Idle] @ actions, st'))"
| "listen loads max_bytes (Frame f # inputs) st =
     (case reader_step loads max_bytes True f (st\<lparr>wk_queue := []\<rparr>) of
        (Inl e, st') \<Rightarrow> (map Yield (wk_queue st) @ [Idle, Disconnected], st')
      | (Inr _, st') \<Rightarrow>
          (let (actions, st'') = listen loads max_bytes inputs st'
           in (map Yield (wk_queue st) @ actions, st'')))"

record ws_session =
  wz_script :: ws_script
  wz_subscribe :: "unit result list"
  wz_inputs :: "ws_input list"

text \<open>
  One turn of the loop in \<open>events\<close>, from the connection to its end. A failure to connect is not
  caught: it ends the iterator with its exception.
\<close>

definition event_session ::
    "(str \<Rightarrow> json result) \<Rightarrow> nat \<Rightarrow> str \<Rightarrow> str list \<Rightarrow> ws_session \<Rightarrow> int
       \<Rightarrow> (ws_action list \<times> ws_state) result" where
  "event_session loads max_bytes token event_types wz last_id =
     (let sc = wz_script wz; st = new_connection last_id;
          gone = fail_pending (Exn CommandError (lit ''disconnected''))
      in
      bind_result (wx_connect sc) (\<lambda>_.
        Inr
          (case fst (authenticate loads max_bytes token (wx_hello sc) (wx_auth_sent sc) (wx_auth_answer sc)) of
             Inl e \<Rightarrow> ([Disconnected], gone st)
           | Inr _ \<Rightarrow>
               (case subscribe_all loads max_bytes event_types (wz_subscribe wz) (wx_frames sc) st of
                  (Inl e, st1) \<Rightarrow> ([Authenticated, Disconnected], gone st1)
                | (Inr rest, st1) \<Rightarrow>
                    (let (actions, st2) = listen loads max_bytes (map Frame rest @ wz_inputs wz) st1
                     in ([Authenticated, Subscribed] @ actions, gone st2))))))"

text \<open>The loop itself: the numbering of the commands goes on from one connection to the next.\<close>

fun event_sessions ::
    "(str \<Rightarrow> json result) \<Rightarrow> nat \<Rightarrow> str \<Rightarrow> str list \<Rightarrow> ws_session list \<Rightarrow> int
       \<Rightarrow> ws_action list \<times> exn option" where
  "event_sessions loads max_bytes token event_types [] last_id = ([], None)"
| "event_sessions loads max_bytes token event_types (wz # wzs) last_id =
     (case event_session loads max_bytes token event_types wz last_id of
        Inl e \<Rightarrow> ([], Some e)
      | Inr (actions, st) \<Rightarrow>
          (let (more, e) = event_sessions loads max_bytes token event_types wzs (wk_message_id st)
           in (actions @ more, e)))"

text \<open>
  What the transport does on the callbacks; \<open>on_subscribed\<close> is set when there is a path for the
  health file.
\<close>

fun on_action :: "instant \<Rightarrow> ws_action \<Rightarrow> mc_transport \<Rightarrow> mc_transport" where
  "on_action now Authenticated mt = mark_connected now mt"
| "on_action now Subscribed mt = (if present (mt_healthcheck_path mt) then mark_subscribed now mt else mt)"
| "on_action now Idle mt = mark_subscribed now mt"
| "on_action now Disconnected mt = mark_disconnected now mt"
| "on_action now (Yield e) mt = mt"

section \<open>Every interleaving on one connection\<close>

text \<open>
  The tasks that share a connection: those that send commands and wait for them, the reader, and
  the one that takes events. Each of their steps is atomic between two \<open>await\<close>s, in any order. The
  history lists what happened, the latest first. A command is entered before its frame is handed to
  the socket, which may refuse it at once or later; a task that is cancelled meanwhile leaves its
  future behind, and its frame counts as sent. \<open>Died\<close> is the end of the reader, whatever it was, and
  \<open>Closed\<close> the clean-up at the end of the connection.
\<close>

datatype ws_event =
    Sent int
  | Refused int
  | Got jobject
  | Died exn
  | Closed
  | Returned int "json result"
  | Took ha_event

inductive ws_run :: "ws_event list \<Rightarrow> ws_state \<Rightarrow> bool" where
  start: "ws_run [] (new_connection last_id)"
| sent: "ws_run h st \<Longrightarrow> send_command payload (Inr ()) st = (Inr i, st') \<Longrightarrow> ws_run (Sent i # h) st'"
| refused: "ws_run h st \<Longrightarrow> is_exception e \<Longrightarrow> send_command payload (Inl e) st = (r, st') \<Longrightarrow>
    ws_run (Refused (wk_message_id st') # h) st'"
| refused_later: "ws_run h st \<Longrightarrow> Sent i \<in> set h \<Longrightarrow> ws_run (Refused i # h) (take_back i st)"
| abandoned: "ws_run h st \<Longrightarrow> \<not> is_exception e \<Longrightarrow> send_command payload (Inl e) st = (r, st') \<Longrightarrow>
    ws_run (Sent (wk_message_id st') # h) st'"
| got: "ws_run h st \<Longrightarrow> recv_json loads max_bytes received = Inr d \<Longrightarrow>
    reader_step loads max_bytes listening received st = (Inr u, st') \<Longrightarrow> ws_run (Got d # h) st'"
| died: "ws_run h st \<Longrightarrow> reader_step loads max_bytes listening received st = (Inl e, st') \<Longrightarrow>
    ws_run (Died e # h) st'"
| closed: "ws_run h st \<Longrightarrow>
    ws_run (Closed # h) (fail_pending (Exn CommandError (lit ''disconnected'')) st)"
| returned: "ws_run h st \<Longrightarrow> wait_for_result i timed_out st = (Some r, st') \<Longrightarrow>
    ws_run (Returned i r # h) st'"
| subscribed: "ws_run h st \<Longrightarrow> ws_run h (st\<lparr>wk_subscriptions := wk_subscriptions st @ [(i, t)]\<rparr>)"
| took: "ws_run h st \<Longrightarrow> wk_queue st = e # es \<Longrightarrow> ws_run (Took e # h) (st\<lparr>wk_queue := es\<rparr>)"

definition answers :: "int \<Rightarrow> jobject \<Rightarrow> bool" where
  "answers i d \<longleftrightarrow> frame_type d (lit ''result'') \<and> int_key (jget d (lit ''id'')) = Some i"

text \<open>The answer to a command: the first frame after it that carries its number.\<close>

definition answered_by :: "ws_event list \<Rightarrow> int \<Rightarrow> jobject \<Rightarrow> bool" where
  "answered_by h i d \<longleftrightarrow>
     (\<exists>h1 h2 h3. h = h1 @ Got d # h2 @ Sent i # h3 \<and> answers i d \<and> (\<forall>d'. Got d' \<in> set h2 \<longrightarrow> \<not> answers i d'))"

definition unanswered :: "ws_event list \<Rightarrow> int \<Rightarrow> bool" where
  "unanswered h i \<longleftrightarrow> (\<exists>h2 h3. h = h2 @ Sent i # h3 \<and> (\<forall>d'. Got d' \<in> set h2 \<longrightarrow> \<not> answers i d'))"

definition ws_inv :: "ws_event list \<Rightarrow> ws_state \<Rightarrow> bool" where
  "ws_inv h st \<longleftrightarrow>
     (\<forall>i. wk_futures st i = Some Waiting \<longrightarrow> i \<in> set (wk_pending st) \<and> unanswered h i)
     \<and> (\<forall>i r. wk_futures st i = Some (Resolved r) \<longrightarrow>
          (\<exists>d. answered_by h i d \<and> truthy (jget_null d (lit ''success''))
             \<and> r = jget_null d (lit ''result'')))
     \<and> (\<forall>i f. wk_futures st i = Some f \<longrightarrow> i \<le> wk_message_id st)
     \<and> set (wk_pending st) \<subseteq> {i. wk_futures st i \<noteq> None}
     \<and> length (wk_queue st) \<le> max_queue"

lemma answered_by_later [intro]: "answered_by h i d \<Longrightarrow> answered_by (x # h) i d"
  unfolding answered_by_def by (metis append_Cons)

lemma unanswered_later:
  assumes "unanswered h i" "\<And>d. x = Got d \<Longrightarrow> \<not> answers i d"
  shows "unanswered (x # h) i"
proof -
  from assms(1) obtain h2 h3 where h: "h = h2 @ Sent i # h3" "\<forall>d'. Got d' \<in> set h2 \<longrightarrow> \<not> answers i d'"
    by (auto simp: unanswered_def)
  with assms(2) have "x # h = (x # h2) @ Sent i # h3" "\<forall>d'. Got d' \<in> set (x # h2) \<longrightarrow> \<not> answers i d'"
    by auto
  then show ?thesis unfolding unanswered_def by blast
qed

lemma first_answer: "unanswered h i \<Longrightarrow> answers i d \<Longrightarrow> answered_by (Got d # h) i d"
  unfolding unanswered_def answered_by_def by (metis append_Nil)

lemma ws_invD:
  assumes "ws_inv h st"
  shows "wk_futures st i = Some Waiting \<Longrightarrow> i \<in> set (wk_pending st)"
    "wk_futures st i = Some Waiting \<Longrightarrow> unanswered h i"
    "wk_futures st i = Some (Resolved r) \<Longrightarrow>
       \<exists>d. answered_by h i d \<and> truthy (jget_null d (lit ''success'')) \<and> r = jget_null d (lit ''result'')"
    "wk_futures st i = Some f \<Longrightarrow> i \<le> wk_message_id st"
    "i \<in> set (wk_pending st) \<Longrightarrow> wk_futures st i \<noteq> None"
    "length (wk_queue st) \<le> max_queue"
  using assms by (auto simp: ws_inv_def)

lemma ws_invI:
  assumes "\<And>i. wk_futures st i = Some Waiting \<Longrightarrow> i \<in> set (wk_pending st)"
    "\<And>i. wk_futures st i = Some Waiting \<Longrightarrow> unanswered h i"
    "\<And>i r. wk_futures st i = Some (Resolved r) \<Longrightarrow>
       \<exists>d. answered_by h i d \<and> truthy (jget_null d (lit ''success'')) \<and> r = jget_null d (lit ''result'')"
    "\<And>i f. wk_futures st i = Some f \<Longrightarrow> i \<le> wk_message_id st"
    "\<And>i. i \<in> set (wk_pending st) \<Longrightarrow> wk_futures st i \<noteq> None"
    "length (wk_queue st) \<le> max_queue"
  shows "ws_inv h st"
  using assms unfolding ws_inv_def by (simp add: subset_iff)

lemma ws_inv_frame:
  assumes inv: "ws_inv h st" and same: "wk_futures st' = wk_futures st" "wk_pending st' = wk_pending st"
    "wk_message_id st' = wk_message_id st" "length (wk_queue st') \<le> max_queue"
    and x: "\<And>i d. x = [Got d] \<Longrightarrow> wk_futures st i = Some Waiting \<Longrightarrow> \<not> answers i d" "length x \<le> 1"
  shows "ws_inv (x @ h) st'"
proof (rule ws_invI)
  fix i assume "wk_futures st' i = Some Waiting"
  with ws_invD(2) [OF inv, of i] same(1) x show "unanswered (x @ h) i"
    by (cases x) (auto intro: unanswered_later)
next
  fix i r assume "wk_futures st' i = Some (Resolved r)"
  with ws_invD(3) [OF inv, of i r] same(1) obtain d where
    "answered_by h i d" "truthy (jget_null d (lit ''success''))" "r = jget_null d (lit ''result'')"
    by auto
  with x(2) show "\<exists>d. answered_by (x @ h) i d \<and> truthy (jget_null d (lit ''success''))
      \<and> r = jget_null d (lit ''result'')"
    by (cases x) auto
qed (use ws_invD [OF inv] same in auto)

lemma ws_inv_settle:
  assumes inv: "ws_inv h st"
    and new: "\<And>r. f = Resolved r \<Longrightarrow> \<exists>d. answered_by h i d \<and> truthy (jget_null d (lit ''success''))
           \<and> r = jget_null d (lit ''result'')"
    and "f \<noteq> Waiting"
  shows "ws_inv h (settle i f st)"
  using assms unfolding ws_inv_def settle_def by (auto split: if_splits)

lemma ws_inv_pop:
  "ws_inv h st \<Longrightarrow> wk_futures st i \<noteq> Some Waiting \<Longrightarrow> ws_inv h (pop_pending i st)"
  unfolding ws_inv_def pop_pending_def by auto

definition answer_future :: "jobject \<Rightarrow> future" where
  "answer_future d =
     (if truthy (jget_null d (lit ''success'')) then Resolved (jget_null d (lit ''result''))
      else Failed (Exn CommandError (lit ''Home Assistant WebSocket command failed'')))"

lemma handle_frame_cases:
  assumes "handle_frame listening d st = (Inr u, st')"
  obtains (nothing) "st' = st" "\<And>i. answers i d \<Longrightarrow> i \<notin> set (wk_pending st)"
    | (answer) i where "answers i d" "i \<in> set (wk_pending st)" "st' = settle i (answer_future d) st"
    | (event) e where "st' = st\<lparr>wk_queue := wk_queue st @ [e]\<rparr>" "length (wk_queue st) < max_queue"
        "\<And>i. \<not> answers i d"
proof (cases "\<exists>i. answers i d")
  case True
  then obtain i where i: "frame_type d (lit ''result'')" "int_key (jget d (lit ''id'')) = Some i"
    by (auto simp: answers_def)
  with assms have st': "st' = (if i \<notin> set (wk_pending st) then st else settle i (answer_future d) st)"
    by (auto simp: handle_frame_def answer_future_def Let_def)
  show ?thesis
  proof (cases "i \<in> set (wk_pending st)")
    case True
    with st' i show ?thesis by (intro answer [of i]) (simp_all add: answers_def)
  next
    case False
    have "st' = st" using st' False by simp
    moreover have "j \<notin> set (wk_pending st)" if "answers j d" for j
      using that i False by (auto simp: answers_def)
    ultimately show ?thesis by (rule nothing)
  qed
next
  case False
  then have no: "\<not> answers i d" for i by blast
  have "\<not> (frame_type d (lit ''result'') \<and> int_key (jget d (lit ''id'')) \<noteq> None)"
    using False by (auto simp: answers_def)
  with assms have "st' = st \<or> (\<exists>e. st' = st\<lparr>wk_queue := wk_queue st @ [e]\<rparr> \<and> length (wk_queue st) < max_queue)"
    unfolding handle_frame_def Let_def
    by (auto split: if_splits option.splits simp: not_le)
  then show ?thesis
  proof (elim disjE exE conjE)
    assume "st' = st"
    then show ?thesis by (rule nothing) (simp add: no)
  next
    fix e assume "st' = st\<lparr>wk_queue := wk_queue st @ [e]\<rparr>" "length (wk_queue st) < max_queue"
    then show ?thesis using no by (rule event)
  qed
qed

lemma ws_inv_got:
  assumes inv: "ws_inv h st" and run: "handle_frame listening d st = (Inr u, st')"
  shows "ws_inv (Got d # h) st'"
  using run
proof (cases rule: handle_frame_cases)
  case nothing
  with ws_invD(1) [OF inv] ws_invD(6) [OF inv] ws_inv_frame [OF inv refl refl refl, of "[Got d]"]
  show ?thesis by auto
next
  case (event e)
  with ws_inv_frame [OF inv, of st' "[Got d]"] show ?thesis by simp
next
  case (answer i)
  show ?thesis
  proof (cases "wk_futures st i = Some Waiting")
    case False
    with answer(1,3) ws_invD(6) [OF inv] ws_inv_frame [OF inv refl refl refl, of "[Got d]"]
    show ?thesis by (auto simp: settle_def answers_def)
  next
    case True
    let ?f = "answer_future d"
    have st': "wk_futures st' = (wk_futures st)(i \<mapsto> ?f)" "wk_pending st' = wk_pending st"
        "wk_message_id st' = wk_message_id st" "wk_queue st' = wk_queue st" "?f \<noteq> Waiting"
      using True answer(3) by (simp_all add: settle_def answer_future_def)
    show ?thesis
    proof (rule ws_invI)
      fix j assume j: "wk_futures st' j = Some Waiting"
      with st' have "j \<noteq> i" "wk_futures st j = Some Waiting" by (auto split: if_splits)
      with answer(1) ws_invD(1,2) [OF inv] st'(2) show "j \<in> set (wk_pending st')" "unanswered (Got d # h) j"
        by (auto intro: unanswered_later simp: answers_def)
    next
      fix j r assume r: "wk_futures st' j = Some (Resolved r)"
      show "\<exists>d'. answered_by (Got d # h) j d' \<and> truthy (jget_null d' (lit ''success''))
          \<and> r = jget_null d' (lit ''result'')"
      proof (cases "j = i")
        case True
        with r st'(1) have "truthy (jget_null d (lit ''success''))" "r = jget_null d (lit ''result'')"
          by (simp_all add: answer_future_def split: if_splits)
        with first_answer [OF ws_invD(2) [OF inv \<open>wk_futures st i = Some Waiting\<close>] answer(1)] True
        show ?thesis by blast
      next
        case False
        with r st'(1) have "wk_futures st j = Some (Resolved r)" by simp
        from ws_invD(3) [OF inv this] show ?thesis by (blast intro: answered_by_later)
      qed
    next
      fix j f assume "wk_futures st' j = Some f"
      with ws_invD(4) [OF inv] True st' show "j \<le> wk_message_id st'" by (auto split: if_splits)
    next
      fix j assume "j \<in> set (wk_pending st')"
      with ws_invD(5) [OF inv] st' show "wk_futures st' j \<noteq> None" by auto
    next
      show "length (wk_queue st') \<le> max_queue" using ws_invD(6) [OF inv] st' by simp
    qed
  qed
qed

lemma ws_inv_fail:
  assumes "ws_inv h st" "\<And>d. x \<noteq> Got d"
  shows "ws_inv (x # h) (fail_pending e st)"
proof -
  have "answered_by (x # h) i d" if "answered_by h i d" for i d using that by auto
  with assms(1) show ?thesis unfolding ws_inv_def fail_pending_def by (auto; blast)
qed

lemma ws_inv_same:
  assumes "ws_inv h st" "\<And>d. x \<noteq> Got d"
  shows "ws_inv (x # h) st"
  using ws_inv_frame [OF assms(1) refl refl refl _ _, of "[x]"] assms ws_invD(6) [OF assms(1)] by simp

lemma ws_inv_take_back:
  assumes "ws_inv h st"
  shows "ws_inv h (take_back i st)"
  using assms unfolding ws_inv_def take_back_def settle_def pop_pending_def
  by (auto split: if_splits)

text \<open>How a round of the reader ends.\<close>

lemma reader_step_cases:
  assumes "reader_step loads max_bytes listening received st = (r, st')"
  obtains (received) d u where "recv_json loads max_bytes received = Inr d"
      "handle_frame listening d st = (Inr u, st')" "r = Inr ()"
    | (failed) e where "is_exception e" "st' = fail_pending e st" "r = Inl e"
    | (cancelled) e where "\<not> is_exception e" "st' = st" "r = Inl e"
proof (cases "recv_json loads max_bytes received")
  case (Inl e)
  with assms failed [of e] cancelled [of e] show ?thesis by (auto simp: reader_step_def split: if_splits)
next
  case (Inr d)
  obtain x st1 where f: "handle_frame listening d st = (x, st1)" by force
  show ?thesis
  proof (cases x)
    case raised: (Inl e)
    with f have e: "is_exception e" "st1 = st"
      by (auto simp: handle_frame_def Let_def split: if_splits option.splits)
    from assms f Inr raised have "r = Inl e" "st' = fail_pending e st1" by (simp_all add: reader_step_def)
    with e show ?thesis by (intro failed [of e]) simp_all
  next
    case went_on: (Inr u)
    with assms f Inr have "r = Inr ()" "st' = st1" by (simp_all add: reader_step_def)
    with f went_on Inr show ?thesis by (intro received [of d u]) simp_all
  qed
qed

text \<open>A command enters with the next number.\<close>

lemma ws_inv_enter:
  assumes inv: "ws_inv h st" and x: "\<And>d. x \<noteq> Got d"
    and st': "wk_futures st' = (wk_futures st)(i \<mapsto> f)" "i = wk_message_id st + 1"
      "wk_message_id st' = i" "wk_queue st' = wk_queue st"
      "set (wk_pending st') = set (wk_pending st) - {i} \<union> (if f = Waiting then {i} else {})"
    and f: "\<And>r. f \<noteq> Resolved r" "f = Waiting \<Longrightarrow> x = Sent i"
  shows "ws_inv (x # h) st'"
proof -
  have self: "unanswered (Sent i # h) i" unfolding unanswered_def by (metis append_Nil empty_iff list.set(1))
  have later: "unanswered (x # h) j" if "unanswered h j" for j
    using that by (rule unanswered_later) (use x in blast)
  have "j \<in> set (wk_pending st')" if "wk_futures st' j = Some Waiting" for j
    using that ws_invD(1) [OF inv, of j] st' by (cases "j = i") simp_all
  moreover have "unanswered (x # h) j" if "wk_futures st' j = Some Waiting" for j
    using that ws_invD(2) [OF inv, of j, THEN later] st'(1) f(2) self by (cases "j = i") simp_all
  moreover have "\<exists>d. answered_by (x # h) j d \<and> truthy (jget_null d (lit ''success''))
      \<and> r = jget_null d (lit ''result'')" if "wk_futures st' j = Some (Resolved r)" for j r
  proof -
    from that f(1) st'(1) have "wk_futures st j = Some (Resolved r)" by (cases "j = i") simp_all
    from ws_invD(3) [OF inv this] show ?thesis by (blast intro: answered_by_later)
  qed
  moreover have "j \<le> wk_message_id st'" if "wk_futures st' j = Some g" for j g
    using that ws_invD(4) [OF inv, of j] st'(1-3) by (cases "j = i") fastforce+
  moreover have "wk_futures st' j \<noteq> None" if "j \<in> set (wk_pending st')" for j
    using that ws_invD(5) [OF inv, of j] st' by (cases "j = i") (simp_all split: if_splits)
  ultimately show ?thesis
    using ws_invD(6) [OF inv] st'(4) unfolding ws_inv_def by (simp add: subset_iff)
qed

lemma ws_run_inv: "ws_run h st \<Longrightarrow> ws_inv h st"
proof (induction rule: ws_run.induct)
  case (start last_id)
  then show ?case by (auto simp: ws_inv_def new_connection_def)
next
  case (sent h st payload i st')
  then have "i \<notin> set (wk_pending st)"
    using ws_invD(4,5) [OF sent(3), of i] by (fastforce simp: send_command_def Let_def)
  with sent(2) show ?case
    by (intro ws_inv_enter [OF sent(3), where f = Waiting and i = i])
      (auto simp: send_command_def Let_def)
next
  case (refused h st e payload r st')
  then show ?case
    by (intro ws_inv_enter [OF refused(4), where f = Cancelled and i = "wk_message_id st + 1"])
      (auto simp: send_command_def Let_def take_back_def settle_def pop_pending_def)
next
  case (refused_later h st i)
  then show ?case by (intro ws_inv_take_back ws_inv_same) simp_all
next
  case (abandoned h st e payload r st')
  then have "wk_message_id st + 1 \<notin> set (wk_pending st)"
    using ws_invD(4,5) [OF abandoned(4), of "wk_message_id st + 1"] by fastforce
  with abandoned show ?case
    by (intro ws_inv_enter [OF abandoned(4), where f = Waiting and i = "wk_message_id st + 1"])
      (auto simp: send_command_def Let_def)
next
  case (got h st loads max_bytes received d listening u st')
  from got(3) show ?case
    by (cases rule: reader_step_cases) (use got ws_inv_got in auto)
next
  case (died h st loads max_bytes listening received e st')
  from died(2) show ?case
    by (cases rule: reader_step_cases) (use died in \<open>auto intro: ws_inv_fail ws_inv_same\<close>)
next
  case (closed h st)
  then show ?case by (intro ws_inv_fail) simp_all
next
  case (returned h st i timed_out r st')
  have "ws_inv h st'"
    using returned(2,3)
    by (auto simp: wait_for_result_def intro!: ws_inv_pop ws_inv_settle split: option.splits future.splits if_splits)
      (simp add: settle_def)
  from ws_inv_frame [OF this refl refl refl, of "[Returned i r]"] this show ?case
    by (simp add: ws_inv_def)
next
  case (subscribed h st i t)
  from ws_inv_frame [OF subscribed(2), of _ "[]"] subscribed(2) show ?case by (simp add: ws_inv_def)
next
  case (took h st e es)
  from ws_inv_frame [OF took(3), of _ "[Took e]"] took(2,3) show ?case by (simp add: ws_inv_def)
qed

text \<open>
  C16. However the tasks of a connection interleave, a command that returns a result returns the one
  that the first frame with its number after it brought, and that frame reported success.
\<close>

theorem command_gets_its_answer:
  "ws_run h st \<Longrightarrow> Returned i (Inr r) \<in> set h \<Longrightarrow>
     \<exists>d. answered_by h i d \<and> truthy (jget_null d (lit ''success'')) \<and> r = jget_null d (lit ''result'')"
proof (induction rule: ws_run.induct)
  case (returned h st j timed_out q st')
  show ?case
  proof (cases "Returned i (Inr r) \<in> set h")
    case True
    with returned(3) show ?thesis by blast
  next
    case False
    with returned(4) have "j = i" "q = Inr r" by auto
    with returned(2) have "wk_futures st i = Some (Resolved r)"
      by (auto simp: wait_for_result_def split: option.splits future.splits if_splits)
    with ws_run_inv [OF returned(1)] show ?thesis unfolding ws_inv_def by blast
  qed
qed (auto; blast)+

text \<open>
  C17. When the reader of a connection dies of an exception, whatever the tasks did before, nobody is
  left waiting: every command that waits returns with the exception of the reader at its next look,
  every other wait ends, too, and nothing is pending any more. The queue of events never holds more
  than its thousand.
\<close>

theorem dead_reader_releases_everyone:
  assumes "ws_run h st" and "reader_step loads max_bytes listening received st = (Inl e, st')"
    and "is_exception e"
  shows "(\<forall>i. wk_futures st i = Some Waiting \<longrightarrow> fst (wait_for_result i False st') = Some (Inl e))
    \<and> (\<forall>i. fst (wait_for_result i False st') \<noteq> None)
    \<and> wk_pending st' = [] \<and> length (wk_queue st') \<le> max_queue"
proof -
  note inv = ws_run_inv [OF assms(1)]
  from assms(2,3) have st': "st' = fail_pending e st"
    by (cases rule: reader_step_cases) auto
  have waiting: "wk_futures st' i = Some (Failed e)" if "wk_futures st i = Some Waiting" for i
    using that ws_invD(1) [OF inv] by (simp add: st' fail_pending_def)
  moreover have "wk_futures st' i \<noteq> Some Waiting" for i
    using waiting [of i] by (cases "wk_futures st i = Some Waiting") (auto simp: st' fail_pending_def)
  ultimately show ?thesis
    using ws_invD(6) [OF inv] st'
    by (auto simp: wait_for_result_def split: option.splits future.splits) (simp_all add: fail_pending_def)
qed

section \<open>A short exchange\<close>

definition sample_answer :: jobject where
  "sample_answer = [(lit ''type'', JStr (lit ''result'')), (lit ''id'', JInt 1),
     (lit ''success'', JBool True), (lit ''result'', JInt 42)]"

lemma sample_exchange:
  "\<exists>st. ws_run [Returned 1 (Inr (JInt 42)), Got sample_answer, Sent 1] st"
proof -
  let ?st1 = "snd (send_command [] (Inr ()) (new_connection 0))"
  let ?loads = "\<lambda>t. Inr (JObj sample_answer)"
  let ?st2 = "snd (reader_step ?loads 0 False (Inr (Text [])) ?st1)"
  have "ws_run [Sent 1] ?st1"
    by (rule sent [OF start [of 0], of "[]"]) (simp add: send_command_def new_connection_def Let_def)
  moreover have r: "recv_json ?loads 0 (Inr (Text [])) = Inr sample_answer" by (simp add: recv_json_def)
  moreover have s: "reader_step ?loads 0 False (Inr (Text [])) ?st1 = (Inr (), ?st2)"
    by (simp add: reader_step_def r)
      (simp add: handle_frame_def Let_def frame_type_def sample_answer_def jget_def int_key_def)
  ultimately have "ws_run [Got sample_answer, Sent 1] ?st2" by (rule got)
  then have "ws_run [Returned 1 (Inr (JInt 42)), Got sample_answer, Sent 1] (snd (wait_for_result 1 False ?st2))"
    by (rule returned [of _ _ 1 False])
      (simp add: reader_step_def r, simp add: handle_frame_def Let_def frame_type_def sample_answer_def jget_def
        jget_null_def jget_or_def int_key_def wait_for_result_def settle_def send_command_def new_connection_def)
  then show ?thesis by blast
qed

theorem command_gets_its_answer_witness:
  "\<exists>h st d. ws_run h st \<and> answered_by h 1 d \<and> jget_null d (lit ''result'') = JInt 42"
proof -
  obtain st where run: "ws_run [Returned 1 (Inr (JInt 42)), Got sample_answer, Sent 1] st"
    using sample_exchange by blast
  from command_gets_its_answer [OF run, of 1 "JInt 42"] run show ?thesis by force
qed

theorem dead_reader_releases_everyone_witness:
  "\<exists>h st. ws_run h st \<and> fst (wait_for_result 1 False st) = None
     \<and> fst (wait_for_result 1 False (snd (reader_step (\<lambda>t. Inr JNull) 0 True (Inl (Exn OSError [])) st)))
         = Some (Inl (Exn OSError []))"
proof -
  let ?st = "snd (send_command [] (Inr ()) (new_connection 0))"
  have run: "ws_run [Sent 1] ?st"
    by (rule sent [OF start [of 0], of "[]"]) (simp add: send_command_def new_connection_def Let_def)
  have waits: "wk_futures ?st 1 = Some Waiting" "fst (wait_for_result 1 False ?st) = None"
    by (simp_all add: wait_for_result_def send_command_def new_connection_def Let_def)
  obtain st' where r: "reader_step (\<lambda>t. Inr JNull) 0 True (Inl (Exn OSError [])) ?st = (Inl (Exn OSError []), st')"
    by (simp add: reader_step_def recv_json_def)
  have "is_exception (Exn OSError [])" by simp
  from dead_reader_releases_everyone [OF run r this] waits(1)
  have "fst (wait_for_result 1 False st') = Some (Inl (Exn OSError []))" by blast
  with run waits(2) r show ?thesis by (intro exI [of _ "[Sent 1]"] exI [of _ ?st]) simp
qed

end
