(* ===== verification/Bridge_Facts.thy ===== *)
theory Bridge_Facts
  imports Bridge_Service
begin

text \<open>
  Further facts about the bridge that the properties of the root theory rest on: what senders
  without a registration and messages from elsewhere can cause, the size of the replies, and
  the admission of messages by their content.
\<close>

section \<open>Senders without a registration\<close>

lemma unregistered_require:
  "get_user az (sender_of m) = None \<Longrightarrow> require_message az m r = None"
  by (simp add: require_message_def)

lemma handle_unregistered:
  assumes "get_user (ro_authorizer ro) (sender_of m) = None"
  shows "handle run ev ro m trail w = handle run' ev ro m trail w"
proof -
  have "handle_command run ev ro m p t v = handle_command run' ev ro m p t v" for p t v
    by (simp add: handle_command_def unregistered_require [OF assms] split: option.split)
  then have "handle_command run ev ro m = handle_command run' ev ro m" by (intro ext)
  then show ?thesis by (simp only: handle_def)
qed

lemma app_forwarder_irrelevant [simp]:
  "app_message_received ev (bg\<lparr>bg_forwarder := g\<rparr>) m w = app_message_received ev bg m w"
  "app_message_ignored ev (bg\<lparr>bg_forwarder := g\<rparr>) = app_message_ignored ev bg"
  "app_response_sent ev (bg\<lparr>bg_forwarder := g\<rparr>) = app_response_sent ev bg"
  "app_response_failed ev (bg\<lparr>bg_forwarder := g\<rparr>) = app_response_failed ev bg"
  "check_duplicate ev (bg\<lparr>bg_forwarder := g\<rparr>) m w = check_duplicate ev bg m w"
  by (simp_all add: fun_eq_iff app_message_received_def app_stage_defs app_staged_def
      check_duplicate_def cong: option.case_cong)

lemma send_reply_forwarder [simp]:
  "send_reply ev (bg\<lparr>bg_forwarder := g\<rparr>) m t trail w = send_reply ev bg m t trail w"
  by (simp add: send_reply_def handle_response_send_failure_def split: sum.split prod.split)

lemma process_normal_text_unregistered:
  assumes "get_user (ro_authorizer (bg_router bg)) (sender_of m) = None" "bg_forwarder bg = Some f"
  shows "process_normal_text ev (bg\<lparr>bg_forwarder := Some g\<rparr>) m trail w = process_normal_text ev bg m trail w"
  using assms unregistered_require [OF assms(1)] by (simp add: process_normal_text_def)

section \<open>Messages from elsewhere\<close>

lemma staged_limiter:
  "staged ev stage tr w = (tr', e, w') \<Longrightarrow>
     w_limiter w' = w_limiter w \<and> w_tg_limiter w' = w_tg_limiter w \<and> w_mc_limiter w' = w_mc_limiter w"
  by (auto simp: staged_def frame_simps split: prod.splits)

lemma degraded_if_sqlite_limiter [frame_simps]:
  "w_limiter (degraded_if_sqlite ev e w) = w_limiter w"
  "w_tg_limiter (degraded_if_sqlite ev e w) = w_tg_limiter w"
  "w_mc_limiter (degraded_if_sqlite ev e w) = w_mc_limiter w"
  by (simp_all add: degraded_if_sqlite_def mark_audit_degraded_def frame_simps split: option.splits)

lemma app_staged_limiter:
  "w_limiter (snd (app_staged ev bg stage trail w)) = w_limiter w"
  "w_tg_limiter (snd (app_staged ev bg stage trail w)) = w_tg_limiter w"
  "w_mc_limiter (snd (app_staged ev bg stage trail w)) = w_mc_limiter w"
  by (auto simp: app_staged_def frame_simps split: option.splits prod.splits dest: staged_limiter)

lemma app_message_received_limiter:
  "w_limiter (snd (app_message_received ev bg m w)) = w_limiter w"
  "w_tg_limiter (snd (app_message_received ev bg m w)) = w_tg_limiter w"
  "w_mc_limiter (snd (app_message_received ev bg m w)) = w_mc_limiter w"
  "w_telegram (snd (app_message_received ev bg m w)) = w_telegram w"
  by (simp_all add: app_message_received_def frame_simps split: option.splits prod.splits sum.splits)

section \<open>The size of a reply\<close>

lemma send_reply_text:
  "send_reply ev bg m t trail w = (Inr (Some out), w') \<Longrightarrow> om_text out = t"
  using send_reply_sends [of ev bg m t trail w "Inr (Some out)" w'] by simp

section \<open>Admission by content\<close>

text \<open>A message goes on when the check of \<open>seen_or_store\<close> answers \<open>False\<close>.\<close>

definition message_admit ::
    "crypto \<Rightarrow> int \<Rightarrow> seconds \<Rightarrow> inbound_message \<Rightarrow> audit_tables conn \<Rightarrow> bool \<times> audit_tables conn" where
  "message_admit cr w now m c = (case seen_or_store cr w now m c of (r, c') \<Rightarrow> (r = Inr False, c'))"

definition key_times :: "int \<Rightarrow> audit_tables conn \<Rightarrow> str result \<Rightarrow> seconds list" where
  "key_times w c k = (case k of Inl _ \<Rightarrow> [] | Inr i \<Rightarrow> stored_at w c i)"

lemma message_admit_keys:
  "message_admit cr w now m c =
     (case (dedup_key cr m, legacy_key cr w m) of
        (Inr k, Inr l) \<Rightarrow> dedup_admit w now (k, [l]) c
      | _ \<Rightarrow> (False, c))"
  by (simp add: message_admit_def seen_or_store_def dedup_admit_def split: sum.splits)

interpretation contents: admission "message_admit cr w" "dedup_key cr" "key_times w" "\<lambda>_. 1"
    "\<lambda>_. window_over w" for cr w
proof
  fix now m s s'
  assume "message_admit cr w now m s = (True, s')"
  then obtain k l where k: "dedup_key cr m = Inr k" and a: "dedup_admit w now (k, [l]) s = (True, s')"
    by (auto simp: message_admit_keys split: sum.splits)
  from dedup.admit_accepts [OF a] k
  show "\<exists>old new. key_times w s (dedup_key cr m) = old @ new \<and> (\<forall>t \<in> set old. window_over w now t)
      \<and> length new < 1 \<and> key_times w s' (dedup_key cr m) = new @ [now]"
    by (simp add: key_times_def)
next
  fix now m s ok s' k
  assume a: "message_admit cr w now m s = (ok, s')" and no: "\<not> ok \<or> dedup_key cr m \<noteq> k"
  have same: "\<exists>old new. key_times w s k = old @ new \<and> (\<forall>t \<in> set old. window_over w now t)
      \<and> key_times w s k = new" by (intro exI [of _ "[]"] exI [of _ "key_times w s k"]) simp
  show "\<exists>old new. key_times w s k = old @ new \<and> (\<forall>t \<in> set old. window_over w now t)
      \<and> key_times w s' k = new"
  proof (cases k)
    case (Inl e)
    with same show ?thesis by (simp add: key_times_def)
  next
    case (Inr i)
    show ?thesis
    proof (cases "\<exists>j l. dedup_key cr m = Inr j \<and> legacy_key cr w m = Inr l")
      case True
      then obtain j l where j: "dedup_key cr m = Inr j" "legacy_key cr w m = Inr l" by auto
      with a have "dedup_admit w now (j, [l]) s = (ok, s')" by (simp add: message_admit_keys)
      from dedup.admit_forgets [OF this, of i] no j Inr show ?thesis by (auto simp: key_times_def)
    next
      case False
      with a have "s' = s" by (auto simp: message_admit_keys split: sum.splits)
      with same show ?thesis by simp
    qed
  qed
qed (simp_all add: window_over_def)

end
