(* ===== verification/Tg_Service_Facts.thy ===== *)
theory Tg_Service_Facts
  imports Tg_Forward_Facts Tg_Service Plugins
begin

text \<open>
  What the Telegram service may do to the rest: an update keeps the audit log well-formed and
  puts at most one message on the mesh, on the configured channel and within its byte limit.
\<close>

section \<open>Steps that may send once\<close>

definition fits_mesh :: "tg_config \<Rightarrow> outbound_message \<Rightarrow> bool" where
  "fits_mesh tc out \<longleftrightarrow> om_channel_index out = tc_channel_index tc
     \<and> int (length (utf8 (om_text out))) \<le> tc_max_meshcore_length tc"

definition mesh_step :: "flow_config option \<Rightarrow> tg_config \<Rightarrow> world \<Rightarrow> world \<Rightarrow> bool" where
  "mesh_step fco tc w w' \<longleftrightarrow>
     (world_inv fco None w \<longrightarrow> world_inv fco None w')
     \<and> (w_sent w' = w_sent w \<or> (\<exists>out. w_sent w' = w_sent w @ [out] \<and> fits_mesh tc out))"

lemma mesh_step_log: "log_step fco None w w' \<Longrightarrow> mesh_step fco tc w w'"
  by (simp add: log_step_def mesh_step_def)

lemma mesh_step_after_log: "log_step fco None w w1 \<Longrightarrow> mesh_step fco tc w1 w2 \<Longrightarrow> mesh_step fco tc w w2"
  by (auto simp: log_step_def mesh_step_def)

lemma mesh_step_before_log: "mesh_step fco tc w w1 \<Longrightarrow> log_step fco None w1 w2 \<Longrightarrow> mesh_step fco tc w w2"
  by (auto simp: log_step_def mesh_step_def)

lemma seqw_mesh:
  assumes "log_step fco None w (snd p)"
    "\<And>x w1. p = (Inr x, w1) \<Longrightarrow> log_step fco None w w1 \<Longrightarrow> mesh_step fco tc w1 (snd (f x w1))"
  shows "mesh_step fco tc w (snd (seqw p f))"
  using assms by (cases p; cases "fst p") (auto intro: mesh_step_log mesh_step_after_log)

lemma seqw_mesh_first:
  assumes "mesh_step fco tc w (snd p)"
    "\<And>x w1. p = (Inr x, w1) \<Longrightarrow> log_step fco None w1 (snd (f x w1))"
  shows "mesh_step fco tc w (snd (seqw p f))"
  using assms by (cases p; cases "fst p") (auto intro: mesh_step_before_log)

section \<open>The parts of an update\<close>

lemma tg_audit_step [simp]: "log_step fco trail w (snd (tg_audit ev ty reason rf ct mt w))"
  unfolding tg_audit_def by (rule guard_telegram_db_step) simp

lemma tg_seen_or_store_step [simp]: "log_step fco trail w (snd (tg_seen_or_store ev k i w))"
proof -
  have "log_step fco trail w (snd (on_telegram f (tick w)))" for f :: "tg_tables conn \<Rightarrow> bool result \<times> tg_tables conn"
    using log_step_trans [OF log_step_tick log_step_telegram] .
  then show ?thesis unfolding tg_seen_or_store_def by (rule guard_telegram_db_step)
qed

lemma decide_step [simp]: "log_step fco trail w (snd (decide ev i ty reason rf ct mt w))"
  unfolding decide_def by (rule seqw_step) simp_all

lemma tg_create_record_step [simp]: "log_step fco trail w (snd (tg_create_record ev ts m t n st w))"
  by (auto simp: tg_create_record_def split: sum.splits intro: safe_create_bridge_record_step)

lemma send_forward_confirmation_step [simp]:
  "log_step fco trail w (snd (send_forward_confirmation ts t w))"
proof -
  obtain r w1 where s: "telegram_send (tc_allowed_private_chat_id (ts_config ts)) t w = (r, w1)" by force
  then have "log_step fco trail w w1" using log_step_telegram_send by (metis snd_conv)
  with s show ?thesis
    by (auto simp: send_forward_confirmation_def split: sum.splits intro: log_step_trans [OF _ log_step_sleep])
qed

lemma tg_inbound_step [simp]: "log_step fco trail w (snd (tg_inbound ev ts i t rf w))"
  using log_step_trans [OF log_step_tick log_step_tick] by (simp add: tg_inbound_def Let_def)

lemma forward_exit_step:
  assumes "good_cause fco trail cause w" "audit_wired fco (ts_audit ts)"
  shows "log_step fco trail w
     (snd (forward_exit ev ts i m rf ct event cause pending reason confirmation w))"
  unfolding forward_exit_def
  by (intro seqw_step audit_bridge_good [OF assms]) (auto split: option.splits)

section \<open>Forwarding\<close>

lemma tg_deliver_step:
  assumes g: "good_cause fco None cause w" and wired: "audit_wired fco (ts_audit ts)"
    and t: "int (length (utf8 t)) \<le> tc_max_meshcore_length (ts_config ts)"
  shows "mesh_step fco (ts_config ts) w
     (snd (tg_deliver ev ts i m rf ct rendered t n cause w))"
proof -
  let ?failed = "\<lambda>reason v. forward_exit ev ts i m rf ct
      (BRIDGE_MESSAGE_FAILED, [(lit ''result'', JStr (lit ''failed'')), (lit ''reason'', JStr reason)]
         @ size_metadata n rendered)
      cause (Some (t, n, lit ''failed'')) (lit ''failed'') (Some forward_failure_text)
      (on_health ev (\<lambda>now. record_tg_to_mc now False (lit ''transport_error'')) v)"
  have failed: "log_step fco None v (snd (?failed reason v))" if "good_cause fco None cause v" for reason v
    using forward_exit_step [OF good_cause_step [OF that log_step_health] wired]
      log_step_trans [OF log_step_health] by blast
  show ?thesis
  proof (cases "ts_has_transport ts")
    case False
    with failed [OF g] show ?thesis by (simp add: tg_deliver_def mesh_step_log)
  next
    case True
    let ?out = "bind_result (meshcore_room (tc_channel_index (ts_config ts))) (\<lambda>room.
        make_outbound (rr_room_id room) (tc_channel_index (ts_config ts)) t (im_message_id m) (Some room)
          (JObj [(lit ''source_transport'', JStr telegram_transport)]))"
    show ?thesis
    proof (cases ?out)
      case (Inl e)
      with True show ?thesis by (simp add: tg_deliver_def mesh_step_log)
    next
      case (Inr out)
      then have out: "fits_mesh (ts_config ts) out"
        using t by (auto simp: fits_mesh_def bind_result_Inr_iff dest: make_outbound_fields)
      obtain r w1 where s: "transport_send out w = (r, w1)" by force
      note sent = transport_send_keeps [OF s]
      from sent world_inv_audit [of w1 w] out have first: "mesh_step fco (ts_config ts) w w1"
        by (auto simp: mesh_step_def)
      from g sent have g1: "good_cause fco None cause w1"
        by (simp add: good_cause_def cause_inv_def world_inv_audit [of w1 w])
      show ?thesis
      proof (cases r)
        case (Inl e)
        have "mesh_step fco (ts_config ts) w (snd (?failed reason w1))" for reason
          by (rule mesh_step_before_log [OF first failed [OF g1]])
        with True Inl \<open>?out = Inr out\<close> s first show ?thesis
          by (auto simp: tg_deliver_def)
      next
        case (Inr u)
        have "log_step fco None w1 (snd (tg_deliver ev ts i m rf ct rendered t n cause w))"
          using True Inr \<open>?out = Inr out\<close> s
          by (auto simp: tg_deliver_def
              intro!: seqw_step audit_bridge_good [OF g1 wired] log_step_trans [OF log_step_health tg_audit_step])
        with first show ?thesis by (rule mesh_step_before_log)
      qed
    qed
  qed
qed

lemma process_forward_update_step:
  assumes inv: "world_inv fco None w" and wired: "audit_wired fco (ts_audit ts)"
  shows "mesh_step fco (ts_config ts) w (snd (process_forward_update ev ts i rf ct t w))"
proof -
  have exit: "mesh_step fco tc v (snd (forward_exit ev ts i m rf ct event cause pending reason confirmation v))"
    if "good_cause fco None cause v" for m event cause pending reason confirmation tc v
    by (rule mesh_step_log [OF forward_exit_step [OF that wired]])
  have limiter: "log_step fco None v (tick (v\<lparr>w_tg_limiter := rl\<rparr>))" for v rl
    by (rule log_step_same) (simp_all add: frame_simps)
  have limited: "mesh_step fco tc v (snd (forward_exit ev ts i m rf ct event cause pending reason confirmation
        (tick (v\<lparr>w_tg_limiter := rl\<rparr>))))"
    if "good_cause fco None cause v" for m event cause pending reason confirmation tc v rl
    by (rule mesh_step_after_log [OF limiter exit [OF good_cause_step [OF that limiter]]])
  have deliver: "mesh_step fco (ts_config ts) v (snd (tg_deliver ev ts i m rf ct rendered x n cause
        (tick (v\<lparr>w_tg_limiter := rl\<rparr>))))"
    if "good_cause fco None cause v" "int (length (utf8 x)) \<le> tc_max_meshcore_length (ts_config ts)"
    for m rendered x n cause v rl
    by (rule mesh_step_after_log [OF limiter
          tg_deliver_step [OF good_cause_step [OF that(1) limiter] wired that(2)]])
  have start: "good_cause fco None None v" if "log_step fco None w v" for v
    using that inv by (simp add: good_cause_def log_step_def)
  have received: "log_step fco None v v' \<and> (\<forall>c. r = Inr c \<longrightarrow> good_cause fco None c v')"
    if "good_cause fco None None v" "audit_bridge ev (ts_audit ts) ty m corr metadata None v = (r, v')"
    for v v' r ty m corr metadata
    using audit_bridge_step [OF that(2) _ wired, of None] that(1) by (auto simp: good_cause_def log_step_def)
  show ?thesis
    unfolding process_forward_update_def
  proof (rule seqw_mesh [OF tg_inbound_step], goal_cases)
    case (1 m w1)
    note g1 = start [OF 1(2)]
    show ?case
    proof (cases "render_meshcore_forward_message t (tc_message_prefix (ts_config ts))
        (tc_max_meshcore_length (ts_config ts))")
      case (Inl e)
      then show ?thesis by (simp add: Let_def mesh_step_log)
    next
      case (Inr rendered)
      note fits = render_meshcore_bound [OF this]
      have after: "good_cause fco None c v" if "audit_bridge ev (ts_audit ts) ty m corr metadata None w1 = (Inr c, v)"
        for ty corr metadata c v using received [OF g1 that] by simp
      show ?thesis
        using fits
        by (auto simp: Inr Let_def mesh_step_log split: sum.splits option.splits prod.splits
            intro!: seqw_mesh audit_bridge_good [OF g1 wired] exit limited deliver dest: after)
    qed
  qed
qed

section \<open>Commands\<close>

lemma unprotected_inv:
  assumes "world_inv fco trail w" "ts_flow ts = fco" "\<And>fc uuid now. audit_stage fc (stage fc uuid now)"
  shows "world_inv fco None (snd (unprotected ev ts stage trail w))"
proof (cases "\<exists>fc tr. fco = Some fc \<and> trail = Some tr")
  case True
  then obtain fc tr where f: "fco = Some fc" "trail = Some tr" by blast
  let ?stage = "stage fc (ev_uuid ev (w_tick w)) (ev_now ev (w_tick w))"
  obtain tr' e st where a: "attempted ?stage tr (w_audit w) = (tr', e, st)" by (metis prod_cases3)
  from assms(1) f have "trail_inv fc tr (w_audit w)" by (simp add: world_inv_def)
  from audit_stage.attempted_inv [OF assms(3) this a] have "audit_inv fc st" by (rule trail_inv_audit_inv)
  moreover have "w_audit (snd (unprotected ev ts stage trail w)) = st"
    using a f assms(2) by (auto simp: unprotected_def attempted_def frame_simps split: prod.splits sum.splits)
  ultimately show ?thesis using f by (simp add: world_inv_def)
next
  case False
  with assms(1,2) show ?thesis
    by (auto simp: unprotected_def world_inv_forget split: option.splits)
qed

lemma unprotected_sent [frame_simps]: "w_sent (snd (unprotected ev ts stage trail w)) = w_sent w"
  by (simp add: unprotected_def frame_simps split: option.splits prod.splits)

lemma unprotected_keeps: "unprotected ev ts stage trail w = (r, w') \<Longrightarrow> w_sent w' = w_sent w"
  using unprotected_sent [of ev ts stage trail w] by simp

lemma send_command_response_step:
  assumes inv: "world_inv fco trail w" and fl: "ts_flow ts = fco"
  shows "world_inv fco None (snd (send_command_response ev ts t trail m w))
     \<and> w_sent (snd (send_command_response ev ts t trail m w)) = w_sent w"
proof (cases "make_outbound telegram_sender_id (tc_channel_index (ts_config ts)) (trim_telegram_response t)
    (im_message_id m) (im_reply_target m) (JObj [])")
  case (Inl e)
  with world_inv_forget [OF inv] show ?thesis by (simp add: send_command_response_def)
next
  case (Inr out)
  obtain r w1 where s: "telegram_send (tc_allowed_private_chat_id (ts_config ts)) (om_text out) w = (r, w1)"
    by force
  then have step: "log_step fco trail w w1" using log_step_telegram_send by (metis snd_conv)
  with inv have w1: "world_inv fco trail w1" "w_sent w1 = w_sent w" by (simp_all add: log_step_def)
  have sent: "world_inv fco None (snd (unprotected ev ts (\<lambda>fc uuid now tr. response_sent fc uuid now tr out) trail w1))"
    by (rule unprotected_inv [OF w1(1) fl]) (rule sent.audit_stage_axioms)
  have failed: "world_inv fco None (snd (unprotected ev ts (\<lambda>fc uuid now tr. response_failed fc uuid now tr) trail w1))"
    by (rule unprotected_inv [OF w1(1) fl]) (rule not_sent.audit_stage_axioms)
  have sleep: "world_inv fco None (sleep_or_stop b d v) = world_inv fco None v" for b d v
    by (rule world_inv_audit) (simp add: frame_simps)
  show ?thesis
  proof (cases r)
    case (Inr u)
    with \<open>make_outbound _ _ _ _ _ _ = Inr out\<close> s sent w1 show ?thesis
      by (simp add: send_command_response_def frame_simps)
  next
    case (Inl e)
    let ?u = "unprotected ev ts (\<lambda>fc uuid now tr. response_failed fc uuid now tr) trail w1"
    have "world_inv fco None (snd (seqw ?u (\<lambda>_ w2. (Inl e,
        if is_rate_limit e then sleep_or_stop (w_stopping w2) (min (retry_after e) (ts_backoff_max ts)) w2
        else w2)))) \<and> w_sent (snd (seqw ?u (\<lambda>_ w2. (Inl e,
        if is_rate_limit e then sleep_or_stop (w_stopping w2) (min (retry_after e) (ts_backoff_max ts)) w2
        else w2)))) = w_sent w1"
      using failed
      by (cases ?u; cases "fst ?u") (auto simp: sleep frame_simps dest: unprotected_keeps)
    with Inl \<open>make_outbound _ _ _ _ _ _ = Inr out\<close> s world_inv_forget [OF w1(1)] w1(2) show ?thesis
      by (auto simp: send_command_response_def)
  qed
qed

lemma degraded_trail_new: "degraded_trail m = Inr tr \<Longrightarrow>
    tr_latest_event_id tr = None \<and> tr_received_event_id tr = None"
  by (auto simp: degraded_trail_def bind_result_Inr_iff)

lemma tg_message_received_step:
  assumes inv: "world_inv fco None w" and fl: "ts_flow ts = fco"
    and r: "tg_message_received ev ts m w = (r, w')"
  shows "w_sent w' = w_sent w \<and> world_inv fco None w'
     \<and> (\<forall>trail. r = Inr trail \<longrightarrow> world_inv fco trail w')"
proof (cases fco)
  case None
  with r fl show ?thesis by (simp add: tg_message_received_def world_inv_def)
next
  case (Some fc)
  let ?r = "message_received fc (ev_uuid ev (w_tick w)) (ev_now ev (w_tick w)) m (w_audit w)"
  obtain x st where x: "?r = (x, st)" by (cases ?r)
  from inv Some have ai: "audit_inv fc (w_audit w)" by (simp add: world_inv_def)
  show ?thesis
  proof (cases x)
    case (Inr tr)
    with x have "?r = (Inr tr, st)" by simp
    from message_received_inv [OF ai this] have "trail_inv fc tr st" by simp
    with Inr x Some fl r show ?thesis
      by (auto simp: tg_message_received_def Let_def world_inv_def frame_simps trail_inv_audit_inv)
  next
    case (Inl e)
    with x message_received_raises have "db_tables (st_db st) = db_tables (st_db (w_audit w))" by blast
    with ai have st: "audit_inv fc st" using audit_inv_db by blast
    have w': "w_audit w' = st" "w_sent w' = w_sent w"
      using r x Inl Some fl by (auto simp: tg_message_received_def Let_def frame_simps split: if_splits)
    from r x Inl Some fl have "\<forall>trail. r = Inr trail \<longrightarrow> (\<exists>tr. degraded_trail m = Inr tr \<and> trail = Some tr)"
      by (auto simp: tg_message_received_def Let_def bind_result_Inr_iff split: if_splits)
    with st w' Some show ?thesis
      by (auto simp: world_inv_def trail_inv_def dest!: degraded_trail_new)
  qed
qed

text \<open>A service whose parts share one audit log.\<close>

definition tg_wired :: "flow_config option \<Rightarrow> 'h tg_service \<Rightarrow> bool" where
  "tg_wired fco ts \<longleftrightarrow> ts_flow ts = fco \<and> audit_wired fco (ts_audit ts)
     \<and> (\<forall>ro. ts_router ts = Some ro \<longrightarrow> ro_flow ro = fco)"

lemma silent_mesh:
  "w_sent w' = w_sent w \<Longrightarrow> world_inv fco None w' \<Longrightarrow> mesh_step fco tc w w'"
  by (simp add: mesh_step_def)

text \<open>Several steps: the log is kept, and at most \<open>n\<close> fitting messages were sent.\<close>

definition mesh_steps :: "flow_config option \<Rightarrow> tg_config \<Rightarrow> nat \<Rightarrow> world \<Rightarrow> world \<Rightarrow> bool" where
  "mesh_steps fco tc n w w' \<longleftrightarrow>
     world_inv fco None w'
     \<and> (\<exists>new. w_sent w' = w_sent w @ new \<and> length new \<le> n \<and> list_all (fits_mesh tc) new)"

lemma mesh_steps_one: "mesh_step fco tc w w' \<Longrightarrow> world_inv fco None w \<Longrightarrow> mesh_steps fco tc 1 w w'"
  by (auto simp: mesh_step_def mesh_steps_def)

lemma mesh_steps_mono: "mesh_steps fco tc m w w' \<Longrightarrow> m \<le> n \<Longrightarrow> mesh_steps fco tc n w w'"
  by (auto simp: mesh_steps_def)

lemma mesh_steps_then_log:
  "mesh_steps fco tc n w w1 \<Longrightarrow> log_step fco None w1 w2 \<Longrightarrow> mesh_steps fco tc n w w2"
  by (auto simp: mesh_steps_def log_step_def)

lemma mesh_steps_trans:
  assumes "mesh_steps fco tc m w w1" "mesh_steps fco tc n w1 w2"
  shows "mesh_steps fco tc (m + n) w w2"
proof -
  from assms obtain xs ys where "w_sent w1 = w_sent w @ xs" "w_sent w2 = w_sent w1 @ ys"
      "length xs \<le> m" "length ys \<le> n" "list_all (fits_mesh tc) (xs @ ys)" "world_inv fco None w2"
    by (auto simp: mesh_steps_def)
  then show ?thesis unfolding mesh_steps_def by (intro conjI exI [of _ "xs @ ys"]) auto
qed

context command_handlers
begin

lemma process_command_update_step:
  assumes inv: "world_inv fco None w" and wired: "tg_wired fco ts"
  shows "w_sent (snd (process_command_update run ev ts i m rf ct w)) = w_sent w
     \<and> world_inv fco None (snd (process_command_update run ev ts i m rf ct w))"
proof -
  define P where "P v \<longleftrightarrow> w_sent v = w_sent w \<and> world_inv fco None v" for v
  have fl: "ts_flow ts = fco" using wired by (simp add: tg_wired_def)
  have log: "P v'" if "P v" "log_step fco None v v'" for v v'
    using that unfolding P_def log_step_def by metis
  have finish: "P (snd (seqw (caught, v) (\<lambda>_ w. seqw (tg_audit ev ty reason rf ct mt w) (\<lambda>_ w. (x, w)))))"
    if "P v" for caught :: "unit result" and v ty reason mt and x :: "tg_decision result"
    using that by (intro seqw_keeps [where P = P]) (simp_all add: log [OF _ tg_audit_step])
  have P: "P w" using inv by (simp add: P_def)
  have "P (snd (process_command_update run ev ts i m rf ct w))"
  proof (cases "safe_command_text (ts_config ts) (ts_router ts) (py_str (jget_or m (lit ''text'') (JStr [])))")
    case (Inl e)
    with P show ?thesis by (simp add: process_command_update_def)
  next
    case (Inr t)
    show ?thesis
      unfolding process_command_update_def Inr sum.case
    proof (rule seqw_keeps [where P = P], rule log [OF P tg_inbound_step], rule seqw_keeps [where P = P])
      fix msg w1
      assume P1: "P w1"
      obtain r0 v0 where r0: "tg_message_received ev ts msg w1 = (r0, v0)" by force
      have "world_inv fco None w1" using P1 by (simp add: P_def)
      note received = tg_message_received_step [OF this fl]
      have "w_sent w1 = w_sent w" using P1 by (simp add: P_def)
      with received [OF r0] r0
      show "P (snd (tg_message_received ev ts msg w1))" by (simp add: P_def)
      fix trail w2
      assume got: "tg_message_received ev ts msg w1 = (Inr trail, w2)" and P2: "P w2"
      from received [OF got] have i2: "world_inv fco trail w2" by simp
      let ?handled = "case ts_router ts of
          None \<Rightarrow> (Inr (Some (lit ''No autorizado.'')), trail, w2)
        | Some ro \<Rightarrow> handle run ev ro msg trail w2"
      obtain r trail' w3 where h: "?handled = (r, trail', w3)" by (metis prod_cases3)
      have i3: "world_inv fco trail' w3 \<and> w_sent w3 = w_sent w"
      proof (cases "ts_router ts")
        case None
        with h i2 P2 show ?thesis by (auto simp: P_def)
      next
        case (Some ro)
        with h have "handle run ev ro msg trail w2 = (r, trail', w3)" by simp
        with handle_inv [OF i2 _ this] handle_sends [OF this] wired Some P2
        show ?thesis by (simp add: tg_wired_def P_def)
      qed
      let ?sent = "seqw (r, w3) (\<lambda>response w. case response of
          None \<Rightarrow> (Inr (), w)
        | Some response \<Rightarrow> send_command_response ev ts response trail' msg w)"
      have "P (snd ?sent)"
        using i3 world_inv_forget send_command_response_step [OF _ fl]
        by (cases r) (auto simp: P_def split: option.splits)
      moreover obtain sent w4 where "?sent = (sent, w4)" by force
      ultimately have "?sent = (sent, w4)" "P w4" by simp_all
      then show "P (snd (let (r, trail', w1) = ?handled;
              (sent, w2) = seqw (r, w1) (\<lambda>response w. case response of
                  None \<Rightarrow> (Inr (), w)
                | Some response \<Rightarrow> send_command_response ev ts response trail' msg w);
              caught = (case sent of Inr _ \<Rightarrow> Inr ()
                | Inl e \<Rightarrow> if \<not> is_conflict e \<and> is_network_error e then Inr () else Inl e)
            in seqw (caught, w2) (\<lambda>_ w.
               seqw (tg_audit ev (lit ''telegram.update.accepted'') (lit ''command'') rf ct
                       (Some (lit ''text'')) w) (\<lambda>_ w.
                 (Inr \<lparr>td_update_id = i, td_reason = lit ''command'', td_chat_type = ct,
                       td_message_type = Some (lit ''text'')\<rparr>, w)))))"
        unfolding h by (simp add: Let_def finish)
    qed
  qed
  then show ?thesis by (simp add: P_def)
qed

lemma process_update_step:
  assumes inv: "world_inv fco None w" and wired: "tg_wired fco ts"
  shows "mesh_step fco (ts_config ts) w (snd (process_update run ev ts u w))"
proof -
  have au: "audit_wired fco (ts_audit ts)" using wired by (simp add: tg_wired_def)
  have log: "world_inv fco None v" if "log_step fco None w v" for v
    using that inv by (simp add: log_step_def)
  have decided: "mesh_step fco tc v (snd (decide ev i ty reason rf ct mt v))" for tc v i ty reason rf ct mt
    by (rule mesh_step_log [OF decide_step])
  have command: "mesh_step fco tc v (snd (process_command_update run ev ts i m rf ct v))"
    if "log_step fco None w v" for tc v i m rf ct
    using process_command_update_step [OF log [OF that] wired, of ev i m rf ct] by (simp add: mesh_step_def)
  have forward: "mesh_step fco (ts_config ts) v (snd (process_forward_update ev ts i rf ct t v))"
    if "log_step fco None w v" for v i rf ct t
    by (rule process_forward_update_step [OF log [OF that] au])
  have same: "mesh_step fco tc w w" for tc by (simp add: mesh_step_log)
  show ?thesis
  proof (cases "update_id_of u")
    case (Inl e)
    then show ?thesis by (simp add: process_update_def same)
  next
    case (Inr i)
    show ?thesis
    proof (cases "\<exists>x. jget u (lit ''edited_message'') = Some (JObj x)")
      case True
      with Inr show ?thesis
        by (auto simp: process_update_def same intro!: seqw_mesh tg_seen_or_store_step decided
            split: sum.splits)
    next
      case False
      then have edited: "(case jget u (lit ''edited_message'') of Some (JObj x) \<Rightarrow> a | _ \<Rightarrow> b) = b"
        for a b :: "tg_decision result \<times> world"
        by (auto split: option.split json.split)
      show ?thesis
        unfolding process_update_def Inr sum.case edited Let_def
        by (auto simp: same intro!: seqw_mesh tg_seen_or_store_step decided command forward
            split: sum.split prod.split option.split json.split)
    qed
  qed
qed

text \<open>Several updates: no more messages than updates.\<close>

lemma process_updates_step:
  assumes "world_inv fco None w" "tg_wired fco ts"
  shows "mesh_steps fco (ts_config ts) (length us) w (snd (process_updates run ev ts us w))"
  using assms(1)
proof (induction us arbitrary: w)
  case Nil
  then show ?case by (simp add: mesh_steps_def)
next
  case (Cons u us)
  obtain r w1 where p: "process_update run ev ts u w = (r, w1)" by force
  with process_update_step [OF Cons.prems assms(2), of ev u]
  have first: "mesh_steps fco (ts_config ts) 1 w w1" by (intro mesh_steps_one Cons.prems) simp
  show ?case
  proof (cases r)
    case (Inl e)
    with p first show ?thesis by (auto intro: mesh_steps_mono)
  next
    case (Inr d)
    let ?g = "guard_telegram_db ev () (on_telegram (persist_last_update_id (td_update_id d)) w1)"
    obtain x w2 where g: "?g = (x, w2)" by force
    have "log_step fco None w1 (snd ?g)" by (intro guard_telegram_db_step log_step_telegram)
    with g first have second: "mesh_steps fco (ts_config ts) 1 w w2"
      by (auto intro: mesh_steps_then_log)
    from second Cons.prems have "world_inv fco None w2" by (simp add: mesh_steps_def)
    from mesh_steps_trans [OF second Cons.IH [OF this]] second p Inr g show ?thesis
      by (cases x; cases "process_updates run ev ts us w2"; cases "fst (process_updates run ev ts us w2)")
        (auto intro: mesh_steps_mono)
  qed
qed

lemma poll_once_step:
  assumes "world_inv fco None w" "tg_wired fco ts"
  shows "mesh_steps fco (ts_config ts) (case answer of Inl e \<Rightarrow> 0 | Inr us \<Rightarrow> length us) w
     (snd (poll_once run ev ts answer w))"
proof -
  obtain r w1 where l: "on_telegram last_update_id w = (r, w1)" by force
  have "log_step fco None w w1" using l by (rule on_telegram_step)
  moreover have "log_step fco None w1 (w1\<lparr>w_tg_offsets := xs\<rparr>)" for xs
    by (rule log_step_same) simp_all
  ultimately have log: "log_step fco None w (w1\<lparr>w_tg_offsets := xs\<rparr>)" for xs
    using log_step_trans by blast
  have first: "mesh_steps fco (ts_config ts) 0 w v" if "log_step fco None w v" for v
    using that assms(1) by (auto simp: mesh_steps_def log_step_def)
  have rest: "mesh_steps fco (ts_config ts) (length us) w (snd (process_updates run ev ts us v))"
    if "log_step fco None w v" for us v
    using mesh_steps_trans [OF first [OF that] process_updates_step [OF _ assms(2)]] that assms(1)
    by (simp add: log_step_def)
  show ?thesis
    using l \<open>log_step fco None w w1\<close> first [OF log] rest [OF log] first [of w1]
    by (cases r; cases answer) (auto simp: poll_once_def Let_def intro: mesh_steps_mono)
qed

end

section \<open>Updates that are not from the authorized user\<close>

text \<open>
  The texts that the service is for, said without the order of its checks; and the parts of the
  world that an update of anyone else leaves alone.
\<close>

definition authorized_text :: "tg_config \<Rightarrow> jobject \<Rightarrow> bool" where
  "authorized_text tc u \<longleftrightarrow>
     \<not> is_mapping (jget_null u (lit ''edited_message''))
     \<and> (case message_of u of
          None \<Rightarrow> False
        | Some m \<Rightarrow>
            (let chat = mapping_of (jget m (lit ''chat'')); sender = mapping_of (jget m (lit ''from'')) in
             py_str (jget_or chat (lit ''type'') (JStr [])) = lit ''private''
             \<and> id_text (jget chat (lit ''id'')) = Some (tc_allowed_private_chat_id tc)
             \<and> id_text (jget sender (lit ''id'')) = Some (tc_allowed_user_id tc)
             \<and> \<not> truthy (jget_or sender (lit ''is_bot'') (JBool False))
             \<and> (case jget m (lit ''text'') of Some (JStr t) \<Rightarrow> strip t \<noteq> [] | _ \<Rightarrow> False)))"

definition quiet :: "world \<Rightarrow> world \<Rightarrow> bool" where
  "quiet w w' \<longleftrightarrow> w_sent w' = w_sent w \<and> w_tg_sent w' = w_tg_sent w \<and> w_audit w' = w_audit w
     \<and> w_limiter w' = w_limiter w \<and> w_tg_limiter w' = w_tg_limiter w \<and> w_mc_limiter w' = w_mc_limiter w"

lemma quiet_refl [simp]: "quiet w w" by (simp add: quiet_def)

lemma quiet_trans: "quiet w w1 \<Longrightarrow> quiet w1 w2 \<Longrightarrow> quiet w w2" by (simp add: quiet_def)

lemma guard_telegram_db_quiet: "quiet w (snd p) \<Longrightarrow> quiet w (snd (guard_telegram_db ev d p))"
  by (auto simp: guard_telegram_db_def quiet_def frame_simps split: prod.splits sum.splits)

lemma on_telegram_quiet [simp]: "quiet w (snd (on_telegram f w))"
  by (simp add: quiet_def frame_simps)

lemma tick_quiet [simp]: "quiet w (tick w)" by (simp add: quiet_def frame_simps)

lemma tg_audit_quiet [simp]: "quiet w (snd (tg_audit ev ty reason rf ct mt w))"
  unfolding tg_audit_def by (rule guard_telegram_db_quiet) simp

lemma tg_seen_quiet: "tg_seen_or_store ev k i w = (r, w') \<Longrightarrow> quiet w w'"
proof -
  have "quiet w (snd (tg_seen_or_store ev k i w))" unfolding tg_seen_or_store_def
    by (rule guard_telegram_db_quiet [OF quiet_trans [OF tick_quiet on_telegram_quiet]])
  then show "tg_seen_or_store ev k i w = (r, w') \<Longrightarrow> quiet w w'" by simp
qed

lemma decide_quiet:
  "decide ev i ty reason rf ct mt w = (r, w') \<Longrightarrow>
     quiet w w' \<and> (\<forall>d. r = Inr d \<longrightarrow> td_reason d = reason)"
  using tg_audit_quiet [of w ev ty reason rf ct mt]
  by (cases "tg_audit ev ty reason rf ct mt w"; cases "fst (tg_audit ev ty reason rf ct mt w)")
    (auto simp: decide_def)

lemma classify_authorized:
  assumes "fst (classify tc (message_of u) (id_text (jget chat (lit ''id''))) (id_text (jget sender (lit ''id''))))
      = lit ''foundation_only''"
    and "\<not> is_mapping (jget_null u (lit ''edited_message''))"
    and "chat = (case message_of u of None \<Rightarrow> [] | Some m \<Rightarrow> mapping_of (jget m (lit ''chat'')))"
    and "sender = (case message_of u of None \<Rightarrow> [] | Some m \<Rightarrow> mapping_of (jget m (lit ''from'')))"
  shows "authorized_text tc u"
proof -
  have "jget m (lit ''text'') = Some (JStr t)" if "jget_null m (lit ''text'') = JStr t" for m t
    using that by (auto simp: jget_null_def jget_or_def split: option.splits)
  note string = this
  show ?thesis using assms
    by (auto simp: classify_def authorized_text_def Let_def lit_eq_iff
        split: option.splits if_splits json.splits dest!: string)
qed

lemma classify_reason:
  "fst (classify tc m c u) \<notin> {lit ''command'', lit ''forwarded''}"
  by (auto simp: classify_def Let_def lit_eq_iff split: option.splits json.splits)

end
