(* ===== verification/System_Facts.thy ===== *)
theory System_Facts
  imports Bridge_Service Tg_Service_Facts
begin

text \<open>
  The bridge and the Telegram service on one world: what they put on the mesh, and to whom the
  Telegram messages go, in every order of messages and polls.
\<close>

section \<open>What the bridge puts on the mesh\<close>

definition reply_sent :: "'h bridge \<Rightarrow> world \<Rightarrow> world \<Rightarrow> bool" where
  "reply_sent bg w w' \<longleftrightarrow>
     w_sent w' = w_sent w
     \<or> (\<exists>out. w_sent w' = w_sent w @ [out] \<and> om_channel_index out = bg_channel_index bg
          \<and> int (length (utf8 (om_text out))) \<le> max (bg_max_bytes bg) 11)"

lemma send_reply_fits:
  assumes "send_reply ev bg m t trail w = (r, w')"
    and "int (length (utf8 t)) \<le> max (bg_max_bytes bg) 11"
  shows "reply_sent bg w w'"
proof (cases "make_outbound (im_sender_id m) (bg_channel_index bg) t (im_message_id m)
    (im_reply_target m) (JObj [])")
  case (Inl e)
  with assms(1) show ?thesis by (simp add: send_reply_def reply_sent_def)
next
  case (Inr out)
  note fields = make_outbound_fields [OF Inr]
  obtain s w1 where s: "transport_send out w = (s, w1)" by force
  with transport_send_keeps have "w_sent w1 = w_sent w @ [out]" by blast
  with assms Inr s have "w_sent w' = w_sent w @ [out]"
    by (cases s) (auto simp: send_reply_def handle_response_send_failure_def Let_def frame_simps
        app_stage_defs split: if_splits)
  with fields assms(2) show ?thesis by (auto simp: reply_sent_def)
qed

lemma reply_sent_shift: "w_sent v = w_sent w \<Longrightarrow> reply_sent bg v w' = reply_sent bg w w'"
  by (simp add: reply_sent_def)

context bridge_parts
begin

lemma process_normal_text_sends:
  assumes "wired bg"
  shows "w_sent (snd (process_normal_text ev bg m trail w)) = w_sent w"
proof -
  have ignored: "w_sent (snd (app_message_ignored ev bg x trail v)) = w_sent v" for x v
    by (simp add: app_stage_defs frame_simps)
  show ?thesis
    using assms forward_sends [of ev m trail w]
    by (auto simp: process_normal_text_def wired_def ignored
        split: option.splits prod.splits sum.splits bool.splits)
qed

lemma process_admitted_fits:
  assumes "wired bg" "0 \<le> bg_max_bytes bg" "process_admitted run ev bg m trail w = (r, w')"
  shows "reply_sent bg w w'"
proof -
  obtain x t w1 where h: "handle run ev (bg_router bg) m trail w = (x, t, w1)" by (metis prod_cases3)
  note s = handle_sends [OF h]
  show ?thesis
  proof (cases "\<exists>response. x = Inr (Some response)")
    case True
    then obtain response where x: "x = Inr (Some response)" by blast
    show ?thesis
    proof (cases "trim_lora_response response (bg_max_bytes bg)")
      case (Inl e)
      with assms(3) h x s show ?thesis by (simp add: process_admitted_def reply_sent_def)
    next
      case (Inr y)
      with assms(3) h x have "send_reply ev bg m y t w1 = (r, w')" by (simp add: process_admitted_def)
      from send_reply_fits [OF this] fit_marked_bound [OF Inr [unfolded trim_lora_response_def] assms(2)]
      show ?thesis by (simp add: reply_sent_shift [OF s])
    qed
  next
    case False
    then consider e where "x = Inl e" | "x = Inr None"
      by (metis option.exhaust sum.exhaust)
    then have "w_sent w' = w_sent w1"
    proof cases
      case 1
      with assms(3) h show ?thesis by (simp add: process_admitted_def)
    next
      case 2
      with assms(3) h have "process_normal_text ev bg m t w1 = (r, w')" by (simp add: process_admitted_def)
      with process_normal_text_sends [OF assms(1), of ev m t w1] show ?thesis by simp
    qed
    with s show ?thesis by (simp add: reply_sent_def)
  qed
qed

lemma process_message_fits:
  assumes "wired bg" "0 \<le> bg_max_bytes bg" "process_message run ev bg m w = (r, w')"
  shows "reply_sent bg w w'"
proof -
  have ignored: "w_sent (snd (app_message_ignored ev bg x trail v)) = w_sent v" for x trail v
    by (simp add: app_stage_defs frame_simps)
  obtain x w1 where 1: "app_message_received ev bg m w = (x, w1)" by force
  with app_message_received_frame(1) have s1: "w_sent w1 = w_sent w" by (metis snd_conv)
  obtain y w2 where 2: "check_duplicate ev bg m w1 = (y, w2)" by force
  with check_duplicate_keeps s1 have s2: "w_sent w2 = w_sent w" by metis
  have new: "reply_sent bg w w'" if n: "process_new run ev bg m trail w2 = (r, w')" for trail
  proof -
    obtain ok rl where a: "allow (ev_mono ev (w_tick w2)) (im_sender_id m) (w_limiter w2) = (ok, rl)"
      by force
    let ?w = "tick (w2\<lparr>w_limiter := rl\<rparr>)"
    have sw: "w_sent ?w = w_sent w" using s2 by (simp add: frame_simps)
    show ?thesis
    proof (cases ok)
      case True
      with n a have "process_admitted run ev bg m trail ?w = (r, w')" by (simp add: process_new_def Let_def)
      from process_admitted_fits [OF assms(1,2) this] show ?thesis by (simp add: reply_sent_shift [OF sw])
    next
      case False
      obtain t w3 where i: "app_message_ignored ev bg (lit ''rate_limited'') trail ?w = (t, w3)" by force
      with ignored [of "lit ''rate_limited''" trail ?w] sw have s3: "w_sent w3 = w_sent w" by simp
      have "length (utf8 (lit ''Rate limit.'')) = 11" by (simp add: utf8_lit_length)
      moreover from False n a i have "send_reply ev bg m (lit ''Rate limit.'') t w3 = (r, w')"
        by (simp add: process_new_def Let_def)
      ultimately show ?thesis using send_reply_fits reply_sent_shift [OF s3] by fastforce
    qed
  qed
  show ?thesis
    using assms(3) 1 2 s1 s2
    by (auto simp: process_message_def ignored reply_sent_def [of bg w] split: sum.splits if_splits bool.splits
        dest: new [unfolded reply_sent_def])
qed

end

section \<open>Both services on one world\<close>

text \<open>
  The bridge and the Telegram service run as tasks of one event loop and share the databases,
  the health state and the transport. A step here is one message or one poll handled from
  beginning to end, in any order and with any messages, answers and failures; the switches of
  the event loop inside a handler are not modelled.
\<close>

inductive system_step ::
    "'h runner \<Rightarrow> env \<Rightarrow> 'h bridge \<Rightarrow> 'h tg_service \<Rightarrow> world \<Rightarrow> world \<Rightarrow> bool"
  for run ev bg ts where
  message: "process_message run ev bg m w = (r, w') \<Longrightarrow> system_step run ev bg ts w w'"
| poll: "poll_once run ev ts answer w = (r, w') \<Longrightarrow> system_step run ev bg ts w w'"

definition on_air :: "app_config \<Rightarrow> outbound_message \<Rightarrow> bool" where
  "on_air c out \<longleftrightarrow>
     om_channel_index out \<in> {mk_channel_index (cf_meshcore c), tc_channel_index (cf_telegram c)}
     \<and> int (length (utf8 (om_text out))) \<le> max (tc_max_meshcore_length (cf_telegram c)) 11"

lemma build_parts_fields:
  assumes "build_parts c fc = Inr (bg, ts)"
  shows "bg_channel_index bg = mk_channel_index (cf_meshcore c)"
    "bg_max_bytes bg = tc_max_meshcore_length (cf_telegram c)"
  using assms by (auto simp: build_parts_def build_service_def bind_result_Inr_iff)

lemma system_step_keeps:
  assumes "build_parts c fc = Inr (bg, Some ts)" "0 \<le> tc_max_meshcore_length (cf_telegram c)"
    and "system_step (run_builtin (build_services c client reader fc)) ev bg ts w w'"
    and "world_inv (Some fc) None w \<and> list_all (on_air c) (w_sent w)"
  shows "world_inv (Some fc) None w' \<and> list_all (on_air c) (w_sent w')"
proof -
  let ?sv = "build_services c client reader fc"
  have flow: "sv_flow ?sv = Some fc" by (simp add: build_services_def Let_def)
  obtain mf where wired: "parts.wired ?sv mf bg"
    and ts: "ts_flow ts = Some fc \<and> ts_audit ts = Some (fc_settings fc)
      \<and> ts_config ts = cf_telegram c \<and> ts_router ts = Some (bg_router bg)"
    using build_parts_wired [OF assms(1)] by metis
  note fields = build_parts_fields [OF assms(1)]
  from assms(3) show ?thesis
  proof cases
    case (message m r)
    from parts.process_message_inv [OF wired _ message] assms(4) flow
    have "world_inv (Some fc) None w'" by simp
    moreover from parts.process_message_fits [OF wired _ message] assms(2) fields
    have "reply_sent bg w w'" by simp
    ultimately show ?thesis using assms(4) fields by (auto simp: reply_sent_def on_air_def)
  next
    case (poll answer r)
    have "ro_flow (bg_router bg) = Some fc" using wired flow unfolding parts.wired_def by simp
    with ts have "tg_wired (Some fc) ts" by (simp add: tg_wired_def audit_wired_def)
    from builtins.poll_once_step [of ?sv, unfolded flow, OF _ this, of w answer ev] assms(4) poll ts
    have "mesh_steps (Some fc) (cf_telegram c) (case answer of Inl e \<Rightarrow> 0 | Inr us \<Rightarrow> length us) w w'"
      by simp
    moreover have "on_air c out" if "fits_mesh (cf_telegram c) out" for out
      using that by (auto simp: fits_mesh_def on_air_def)
    ultimately show ?thesis using assms(4) by (auto simp: mesh_steps_def list_all_iff)
  qed
qed

section \<open>Where the Telegram messages go\<close>

text \<open>Every new message goes to the one chat, and nothing closes the transport.\<close>

definition chat_step :: "str \<Rightarrow> world \<Rightarrow> world \<Rightarrow> bool" where
  "chat_step chat w w' \<longleftrightarrow>
     closing w' = closing w \<and> (\<exists>ts. w_tg_sent w' = w_tg_sent w @ map (Pair chat) ts)"

lemma chat_step_same: "w_tg_sent w' = w_tg_sent w \<and> closing w' = closing w \<Longrightarrow> chat_step chat w w'"
  by (auto simp: chat_step_def intro: exI [of _ "[]"])

lemma chat_step_refl [simp]: "chat_step chat w w"
  by (rule chat_step_same) simp

lemma chat_step_trans [trans]: "chat_step chat w w1 \<Longrightarrow> chat_step chat w1 w2 \<Longrightarrow> chat_step chat w w2"
  unfolding chat_step_def by (metis append_assoc map_append)

lemma chat_step_basic [simp]:
  "chat_step chat w (tick w)" "chat_step chat w (on_health ev f w)" "chat_step chat w (sleep_or_stop b d w)"
  "chat_step chat w (snd (on_telegram g w))" "chat_step chat w (snd (transport_send out w))"
  by (simp_all add: chat_step_same frame_simps)

lemma telegram_send_chat [simp]: "chat_step chat w (snd (telegram_send chat t w))"
  by (auto simp: chat_step_def frame_simps intro: exI [of _ "[t]"])

lemma seqw_chat:
  assumes "chat_step chat w (snd p)" "\<And>x w1. p = (Inr x, w1) \<Longrightarrow> chat_step chat w1 (snd (f x w1))"
  shows "chat_step chat w (snd (seqw p f))"
  using assms by (cases p; cases "fst p") (auto intro: chat_step_trans)

lemma guard_telegram_db_chat:
  "chat_step chat w (snd p) \<Longrightarrow> chat_step chat w (snd (guard_telegram_db ev d p))"
  using chat_step_trans [OF _ chat_step_basic(2)]
  by (auto simp: guard_telegram_db_def split: prod.splits sum.splits)

lemma tick_then_telegram [simp]: "chat_step chat w (snd (on_telegram g (tick w)))"
  by (rule chat_step_same) (simp add: frame_simps)

lemma audit_bridge_chat [simp]: "chat_step chat w (snd (audit_bridge ev audit ty m corr metadata cause w))"
  by (rule chat_step_same) (simp add: audit_bridge_def Let_def frame_simps split: prod.splits sum.splits)

lemma telegram_then_chat [simp]:
  "chat_step chat w (snd (case on_telegram g (tick w) of (r, w') \<Rightarrow> (f r, w')))"
  using tick_then_telegram [of chat w g] by (simp add: split_def)

lemma safe_create_chat [simp]:
  "chat_step chat w (snd (safe_create_bridge_record ev k corr tr room content n st w))"
  unfolding safe_create_bridge_record_def by (rule guard_telegram_db_chat) simp

lemma mc_chats [simp]:
  "chat_step chat w (snd (mc_audit_ignored ev mf m tr reason n b cause w))"
  "chat_step chat w (snd (mc_create_record ev mf m tr t n st w))"
  "chat_step chat w (snd (mc_record_failed ev mf m tr rendered n reason cause w))"
  by (auto simp: mc_audit_ignored_def mc_create_record_def mc_record_failed_def intro!: seqw_chat)

lemma mc_failed_chat [simp]: "chat_step chat w (snd (mc_failed ev mf m tr rendered n reason cause w))"
  unfolding mc_failed_def
  by (rule seqw_chat [OF chat_step_trans [OF chat_step_basic(2) mc_chats(3)]]) simp

lemma mc_consume_chat [simp]: "chat_step chat w (snd (mc_consume_pending_echo ev mf m t n w))"
  by (auto simp: mc_consume_pending_echo_def split: sum.split intro!: guard_telegram_db_chat)

lemma forward_normal_text_chat [simp]:
  "chat_step (tc_allowed_private_chat_id (mf_config mf)) w (snd (forward_normal_text mf ev m trail w))"
proof -
  let ?chat = "tc_allowed_private_chat_id (mf_config mf)"
  have deliver: "chat_step ?chat v (snd (mc_deliver ev mf m tr rendered t n cause v))" for tr rendered t n cause v
  proof -
    obtain r v1 where s: "telegram_send ?chat t v = (r, v1)" by force
    then have first: "chat_step ?chat v v1" using telegram_send_chat by (metis snd_conv)
    have "chat_step ?chat v1 (snd (mc_deliver ev mf m tr rendered t n cause v))"
      using s by (cases r) (auto simp: mc_deliver_def intro!: seqw_chat chat_step_trans [OF chat_step_basic(3) mc_failed_chat])
    with first show ?thesis by (rule chat_step_trans)
  qed
  have limiter: "chat_step ?chat v (tick (v\<lparr>w_mc_limiter := rl\<rparr>))" for v rl
    by (rule chat_step_same) (simp add: frame_simps)
  have limited: "chat_step ?chat v (snd (seqw (mc_audit_ignored ev mf m tr reason i b cause
        (tick (v\<lparr>w_mc_limiter := rl\<rparr>))) (\<lambda>_ w. seqw (mc_create_record ev mf m tr t n st w) (\<lambda>_ w. (Inr True, w)))))"
    for tr reason i b cause v rl t n st
    by (intro seqw_chat chat_step_trans [OF limiter mc_chats(1)]) simp_all
  have delivered: "chat_step ?chat v (snd (mc_deliver ev mf m tr rendered t n cause (tick (v\<lparr>w_mc_limiter := rl\<rparr>))))"
    for tr rendered t n cause v rl
    by (rule chat_step_trans [OF limiter deliver])
  have "chat_step ?chat v (snd (mc_guarded ev mf m tr rendered src k n cause v))" for tr rendered src k n cause v
    unfolding mc_guarded_def Let_def
    by (auto intro!: seqw_chat simp: limited delivered split: option.splits prod.splits if_splits)
  then show ?thesis
    unfolding forward_normal_text_def Let_def
    by (auto intro!: seqw_chat split: sum.splits)
qed

section \<open>Commands and the bridge\<close>

lemma staged_chats:
  "router_staged ev ro st1 trail w = (t, w') \<Longrightarrow> w_tg_sent w' = w_tg_sent w \<and> closing w' = closing w"
  "app_staged ev bg st2 trail w = (t', w') \<Longrightarrow> w_tg_sent w' = w_tg_sent w \<and> closing w' = closing w"
  using router_staged_frame [of ev ro st1 trail w] app_staged_frame [of ev bg st2 trail w] by simp_all

lemma run_builtin_tg: "run_builtin sv ev h cx args w = (r, cx', w') \<Longrightarrow> w_tg_sent w' = w_tg_sent w \<and> closing w' = closing w"
  using run_builtin_step [of sv _ cx w ev h args] by (simp add: inner_step_def)

lemma handle_tg_sent:
  assumes "handle (run_builtin sv) ev ro m trail w = (r, trail', w')"
  shows "w_tg_sent w' = w_tg_sent w \<and> closing w' = closing w"
proof -
  obtain t1 w1 where 1: "audit_command_parsed ev ro (parse_command (im_text m) (ro_prefix ro)) trail w = (t1, w1)"
    by force
  then have s1: "w_tg_sent w1 = w_tg_sent w \<and> closing w1 = closing w" unfolding router_stage_defs by (rule staged_chats(1))
  show ?thesis
  proof (cases "parse_command (im_text m) (ro_prefix ro)")
    case None
    with assms 1 s1 show ?thesis by (simp add: handle_def)
  next
    case (Some p)
    obtain out w2 where 2: "handle_command (run_builtin sv) ev ro m p t1 (tick w1) = (out, w2)" by force
    have auth: "w_tg_sent v2 = w_tg_sent v1 \<and> closing v2 = closing v1" if "audit_command_authorization ev ro x y z t v1 = (t', v2)"
      for x y z t t' v1 v2 using that unfolding router_stage_defs by (rule staged_chats(1))
    from 2 have s2: "w_tg_sent w2 = w_tg_sent w1 \<and> closing w2 = closing w1"
      by (fastforce simp: handle_command_def Let_def frame_simps split: option.splits prod.splits sum.splits if_splits
          dest: auth run_builtin_tg)
    have "w_tg_sent w3 = w_tg_sent w2 \<and> closing w3 = closing w2" if "handle_finally ev ro m p st out w2 = (t3, w3)" for st t3 w3
      using that by (auto simp: handle_finally_def Let_def router_stage_defs frame_simps split: option.splits
          dest: staged_chats(1))
    with assms 1 2 Some s1 s2 show ?thesis by (auto simp: handle_def split: prod.splits)
  qed
qed


lemma process_message_chat:
  assumes "process_message (run_builtin sv) ev bg m w = (r, w')"
    and "\<And>f m trail v. bg_forwarder bg = Some f \<Longrightarrow> chat_step chat v (snd (f ev m trail v))"
  shows "chat_step chat w w'"
proof -
  have ignored: "chat_step chat v (snd (app_message_ignored ev bg x trail v))" for x trail v
    by (rule chat_step_same) (simp add: app_stage_defs frame_simps)
  have reply: "chat_step chat v v'" if "send_reply ev bg m t trail v = (x, v')" for t trail v x v'
    using that transport_send_frame(5)
    by (intro chat_step_same)
      (force simp: send_reply_def handle_response_send_failure_def Let_def frame_simps app_stage_defs
        split: sum.splits prod.splits if_splits dest!: arg_cong [where f = snd])
  have normal: "chat_step chat v (snd (process_normal_text ev bg m trail v))" for trail v
  proof (cases "bg_forwarder bg")
    case None
    then show ?thesis by (simp add: process_normal_text_def ignored)
  next
    case (Some f)
    obtain x v1 where f: "f ev m trail v = (x, v1)" by force
    with assms(2) [OF Some, of v m trail] have first: "chat_step chat v v1" by simp
    have "chat_step chat v (snd (app_message_ignored ev bg y trail v1))" for y
      by (rule chat_step_trans [OF first ignored])
    with Some f first ignored show ?thesis
      by (auto simp: process_normal_text_def split: sum.split bool.split)
  qed
  have admitted: "chat_step chat v v'" if p: "process_admitted (run_builtin sv) ev bg m trail v = (x, v')"
    for trail v x v'
  proof -
    obtain y t v1 where h: "handle (run_builtin sv) ev (bg_router bg) m trail v = (y, t, v1)" by (metis prod_cases3)
    have "chat_step chat v v1" by (rule chat_step_same [OF handle_tg_sent [OF h]])
    moreover have "chat_step chat v1 v'"
      using p h normal [of v1 t]
      by (auto simp: process_admitted_def split: sum.splits option.splits dest: reply)
    ultimately show ?thesis by (rule chat_step_trans)
  qed
  have new: "chat_step chat v v'" if p: "process_new (run_builtin sv) ev bg m trail v = (x, v')" for trail v x v'
  proof -
    obtain ok rl where a: "allow (ev_mono ev (w_tick v)) (im_sender_id m) (w_limiter v) = (ok, rl)" by force
    have "chat_step chat v (tick (v\<lparr>w_limiter := rl\<rparr>))" by (rule chat_step_same) (simp add: frame_simps)
    moreover have "chat_step chat (tick (v\<lparr>w_limiter := rl\<rparr>)) v'"
    proof (cases ok)
      case True
      with p a show ?thesis by (auto simp: process_new_def Let_def dest: admitted)
    next
      case False
      obtain t v1 where i: "app_message_ignored ev bg (lit ''rate_limited'') trail (tick (v\<lparr>w_limiter := rl\<rparr>)) = (t, v1)"
        by force
      with ignored [of "tick (v\<lparr>w_limiter := rl\<rparr>)" "lit ''rate_limited''" trail] p a False show ?thesis
        by (auto simp: process_new_def Let_def dest!: reply intro: chat_step_trans)
    qed
    ultimately show ?thesis by (rule chat_step_trans)
  qed
  obtain x w1 where 1: "app_message_received ev bg m w = (x, w1)" by force
  with app_message_received_frame [of ev bg m w] have s1: "chat_step chat w w1" by (simp add: chat_step_same)
  obtain y w2 where 2: "check_duplicate ev bg m w1 = (y, w2)" by force
  then have "chat_step chat w1 w2"
    by (intro chat_step_same) (auto simp: check_duplicate_def frame_simps split: prod.splits)
  with s1 have s2: "chat_step chat w w2" by (rule chat_step_trans)
  show ?thesis
    using assms(1) 1 2 s1 s2
    by (auto simp: process_message_def split: sum.splits if_splits bool.splits
        intro: chat_step_trans [OF s1 ignored] chat_step_trans [OF s2 ignored] chat_step_trans [OF s2] dest: new)
qed

section \<open>The Telegram service\<close>

lemma tg_audit_chat [simp]: "chat_step chat w (snd (tg_audit ev ty reason rf ct mt w))"
  unfolding tg_audit_def by (rule guard_telegram_db_chat) simp

lemma tg_seen_chat [simp]: "chat_step chat w (snd (tg_seen_or_store ev k i w))"
  unfolding tg_seen_or_store_def by (rule guard_telegram_db_chat) simp

lemma decide_chat [simp]: "chat_step chat w (snd (decide ev i ty reason rf ct mt w))"
  unfolding decide_def by (rule seqw_chat) simp_all

lemma tg_inbound_chat [simp]: "chat_step chat w (snd (tg_inbound ev ts i t rf w))"
  by (simp add: tg_inbound_def Let_def chat_step_same frame_simps)

lemma tg_create_chat [simp]: "chat_step chat w (snd (tg_create_record ev ts m t n st w))"
  by (simp add: tg_create_record_def split: sum.split)

lemma tg_message_received_chat [simp]: "chat_step chat w (snd (tg_message_received ev ts m w))"
  by (rule chat_step_same)
    (simp add: tg_message_received_def Let_def frame_simps split: option.split prod.split sum.split)

lemma unprotected_chat [simp]: "chat_step chat w (snd (unprotected ev ts stage trail w))"
  by (rule chat_step_same) (simp add: unprotected_def frame_simps split: option.split prod.split)

abbreviation owner :: "'h tg_service \<Rightarrow> str" where
  "owner ts \<equiv> tc_allowed_private_chat_id (ts_config ts)"

lemma confirmation_chat [simp]: "chat_step (owner ts) w (snd (send_forward_confirmation ts t w))"
proof -
  obtain r w1 where s: "telegram_send (owner ts) t w = (r, w1)" by force
  then have "chat_step (owner ts) w w1" using telegram_send_chat by (metis snd_conv)
  with s show ?thesis
    by (auto simp: send_forward_confirmation_def split: sum.split intro: chat_step_trans)
qed

lemma forward_exit_chat [simp]:
  "chat_step (owner ts) w (snd (forward_exit ev ts i m rf ct event cause pending reason confirmation w))"
  unfolding forward_exit_def by (intro seqw_chat) (auto split: option.split)

lemma send_command_response_chat [simp]:
  "chat_step (owner ts) w (snd (send_command_response ev ts t trail m w))"
proof (cases "make_outbound telegram_sender_id (tc_channel_index (ts_config ts)) (trim_telegram_response t)
    (im_message_id m) (im_reply_target m) (JObj [])")
  case (Inl e)
  then show ?thesis by (simp add: send_command_response_def)
next
  case (Inr out)
  obtain r w1 where s: "telegram_send (owner ts) (om_text out) w = (r, w1)" by force
  then have "chat_step (owner ts) w w1" using telegram_send_chat by (metis snd_conv)
  moreover have "chat_step (owner ts) w1 (snd (send_command_response ev ts t trail m w))"
    using s Inr by (cases r) (auto simp: send_command_response_def intro!: seqw_chat)
  ultimately show ?thesis by (rule chat_step_trans)
qed

lemma tg_deliver_chat:
  "chat_step (owner ts) w (snd (tg_deliver ev ts i m rf ct rendered t n cause w))"
proof -
  have failed: "chat_step (owner ts) v (snd (forward_exit ev ts i m rf ct event cause pending reason confirmation
      (on_health ev f v)))" for v event pending reason confirmation f
    by (rule chat_step_trans [OF chat_step_basic(2) forward_exit_chat])
  show ?thesis
  proof (cases "ts_has_transport ts")
    case False
    with failed show ?thesis by (simp add: tg_deliver_def)
  next
    case True
    let ?out = "bind_result (meshcore_room (tc_channel_index (ts_config ts))) (\<lambda>room.
        make_outbound (rr_room_id room) (tc_channel_index (ts_config ts)) t (im_message_id m) (Some room)
          (JObj [(lit ''source_transport'', JStr telegram_transport)]))"
    show ?thesis
    proof (cases ?out)
      case (Inl e)
      with True show ?thesis by (simp add: tg_deliver_def)
    next
      case (Inr out)
      obtain r w1 where s: "transport_send out w = (r, w1)" by force
      then have "chat_step (owner ts) w w1" using chat_step_basic(5) by (metis snd_conv)
      moreover have "chat_step (owner ts) w1 (snd (tg_deliver ev ts i m rf ct rendered t n cause w))"
        using True Inr s failed
        by (cases r) (auto simp: tg_deliver_def
            intro!: seqw_chat chat_step_trans [OF chat_step_basic(2) tg_audit_chat])
      ultimately show ?thesis by (rule chat_step_trans)
    qed
  qed
qed

lemma process_forward_update_chat:
  "chat_step (owner ts) w (snd (process_forward_update ev ts i rf ct t w))"
proof -
  have limiter: "chat_step chat v (tick (v\<lparr>w_tg_limiter := rl\<rparr>))" for chat v rl
    by (rule chat_step_same) (simp add: frame_simps)
  have limited: "chat_step (owner ts) v (snd (forward_exit ev ts i m rf ct event cause pending reason confirmation
      (tick (v\<lparr>w_tg_limiter := rl\<rparr>))))" for m event cause pending reason confirmation v rl
    by (rule chat_step_trans [OF limiter forward_exit_chat])
  have delivered: "chat_step (owner ts) v (snd (tg_deliver ev ts i m rf ct rendered x n cause
      (tick (v\<lparr>w_tg_limiter := rl\<rparr>))))" for m rendered x n cause v rl
    by (rule chat_step_trans [OF limiter tg_deliver_chat])
  show ?thesis
    unfolding process_forward_update_def Let_def
    by (auto intro!: seqw_chat simp: limited delivered split: sum.split option.split prod.split)
qed

lemma process_command_update_chat:
  "chat_step (owner ts) w (snd (process_command_update (run_builtin sv) ev ts i m rf ct w))"
proof (cases "safe_command_text (ts_config ts) (ts_router ts) (py_str (jget_or m (lit ''text'') (JStr [])))")
  case (Inl e)
  then show ?thesis by (simp add: process_command_update_def)
next
  case (Inr t)
  have answer: "chat_step (owner ts) v (snd (let (r, trail', w1) =
        (case ts_router ts of
           None \<Rightarrow> (Inr (Some (lit ''No autorizado.'')), trail, v)
         | Some ro \<Rightarrow> handle (run_builtin sv) ev ro msg trail v);
        (sent, w2) = seqw (r, w1) (\<lambda>response w. case response of
            None \<Rightarrow> (Inr (), w)
          | Some response \<Rightarrow> send_command_response ev ts response trail' msg w);
        caught = (case sent of Inr _ \<Rightarrow> Inr ()
          | Inl e \<Rightarrow> if \<not> is_conflict e \<and> is_network_error e then Inr () else Inl e)
      in seqw (caught, w2) (\<lambda>_ w.
         seqw (tg_audit ev ty reason rf ct mt w) (\<lambda>_ w. (d, w)))))"
    for v trail msg ty reason mt and d :: "tg_decision result"
  proof -
    let ?handled = "case ts_router ts of
        None \<Rightarrow> (Inr (Some (lit ''No autorizado.'')), trail, v)
      | Some ro \<Rightarrow> handle (run_builtin sv) ev ro msg trail v"
    obtain r trail' v1 where h: "?handled = (r, trail', v1)" by (metis prod_cases3)
    have "w_tg_sent v1 = w_tg_sent v \<and> closing v1 = closing v"
      using h by (cases "ts_router ts") (auto dest: handle_tg_sent)
    then have 1: "chat_step (owner ts) v v1" by (rule chat_step_same)
    let ?sent = "seqw (r, v1) (\<lambda>response w. case response of
        None \<Rightarrow> (Inr (), w)
      | Some response \<Rightarrow> send_command_response ev ts response trail' msg w)"
    obtain sent v2 where s: "?sent = (sent, v2)" by force
    have "chat_step (owner ts) v (snd ?sent)"
      using 1 by (intro seqw_chat) (auto split: option.split)
    with s have 2: "chat_step (owner ts) v v2" by simp
    show ?thesis unfolding h using s 2
      by (auto simp: Let_def intro!: seqw_chat)
  qed
  show ?thesis
    unfolding process_command_update_def Inr sum.case
    by (rule seqw_chat, simp, rule seqw_chat, simp, rule answer)
qed

lemma process_update_chat: "chat_step (owner ts) w (snd (process_update (run_builtin sv) ev ts u w))"
proof (cases "update_id_of u")
  case (Inl e)
  then show ?thesis by (simp add: process_update_def)
next
  case (Inr i)
  show ?thesis
  proof (cases "\<exists>x. jget u (lit ''edited_message'') = Some (JObj x)")
    case True
    with Inr show ?thesis
      by (auto simp: process_update_def intro!: seqw_chat split: sum.split)
  next
    case False
    then have edited: "(case jget u (lit ''edited_message'') of Some (JObj x) \<Rightarrow> a | _ \<Rightarrow> b) = b"
      for a b :: "tg_decision result \<times> world"
      by (auto split: option.split json.split)
    show ?thesis
      unfolding process_update_def Inr sum.case edited Let_def
      by (auto intro!: seqw_chat process_forward_update_chat process_command_update_chat
          split: sum.split prod.split option.split json.split)
  qed
qed

lemma process_updates_chat: "chat_step (owner ts) w (snd (process_updates (run_builtin sv) ev ts us w))"
proof (induction us arbitrary: w)
  case (Cons u us)
  have "chat_step (owner ts) v (snd (guard_telegram_db ev () (on_telegram (persist_last_update_id k) v)))" for v k
    by (rule guard_telegram_db_chat) simp
  with Cons show ?case
    by (auto intro!: seqw_chat process_update_chat)
qed simp

lemma poll_once_chat: "chat_step (owner ts) w (snd (poll_once (run_builtin sv) ev ts answer w))"
proof -
  have "chat_step (owner ts) v (snd (process_updates (run_builtin sv) ev ts us (v\<lparr>w_tg_offsets := xs\<rparr>)))" for v us xs
    by (rule chat_step_trans [OF chat_step_same process_updates_chat]) simp
  moreover have "chat_step (owner ts) v (v\<lparr>w_tg_offsets := xs\<rparr>)" for v xs by (simp add: chat_step_same)
  ultimately show ?thesis
    unfolding poll_once_def Let_def by (cases answer) (auto intro!: seqw_chat)
qed

end
