(* ===== verification/Override_Facts.thy ===== *)
theory Override_Facts
  imports Plugins
begin

text \<open>
  The switches of the bridge, which are the effective values of the three runtime overrides:
  which parts of the program leave them alone, and what \<open>!bridge\<close> does to them.
\<close>

section \<open>Who moves the switches\<close>

definition switches :: "world \<Rightarrow> (str \<Rightarrow> bool result) option" where
  "switches w = map_option effective_value (w_health w)"

lemma switches_tick [simp]: "switches (tick w) = switches w"
  by (simp add: switches_def frame_simps)

lemma changed_switches:
  assumes "\<And>now h. hs_override_telegram_to_meshcore (update now h) = hs_override_telegram_to_meshcore h
      \<and> hs_override_meshcore_to_telegram (update now h) = hs_override_meshcore_to_telegram h
      \<and> hs_override_confirmation (update now h) = hs_override_confirmation h
      \<and> hs_configured_telegram_to_meshcore (update now h) = hs_configured_telegram_to_meshcore h
      \<and> hs_configured_meshcore_to_telegram (update now h) = hs_configured_meshcore_to_telegram h
      \<and> hs_configured_confirmation (update now h) = hs_configured_confirmation h"
  shows "switches (on_health ev (\<lambda>now. changed now (update now)) w) = switches w"
proof -
  have "effective_value (update now h) = effective_value h" for now h
    using assms [of now h] by (simp add: effective_value_def fun_eq_iff)
  then have "effective_value (changed now (update now) h) = effective_value h" for now h
    by (simp add: changed_def fun_eq_iff)
  then show ?thesis
    by (simp add: switches_def on_health_def tick_def split: option.splits)
qed

lemma switches_command [simp]: "switches (on_health ev record_command_processed w) = switches w"
  unfolding record_command_processed_def by (rule changed_switches [where update = "\<lambda>_. _"]) simp

lemma switches_audit_db [simp]:
  "switches (on_health ev (\<lambda>now. set_audit_db_health now st reason) w) = switches w"
  unfolding set_audit_db_health_def set_db_health_def Let_def
  by (rule changed_switches [where update = "\<lambda>now h. _ now h"]) (simp add: note_failure_def)

lemma staged_switches: "staged ev stage tr w = (tr', e, w') \<Longrightarrow> switches w' = switches w"
  by (auto dest: staged_keeps simp: switches_def)

lemma audit_bridge_override_switches [simp]:
  "switches (snd (audit_bridge_override ev sv ty md cx w)) = switches w"
  by (auto simp: audit_bridge_override_def split: option.splits prod.splits dest: staged_switches)

lemma audit_changes_switches [simp]: "switches (snd (audit_changes ev sv cs cx w)) = switches w"
proof (induction cs arbitrary: cx w)
  case (Cons c cs)
  obtain cx' w' where "audit_bridge_override ev sv BRIDGE_RUNTIME_OVERRIDE_RESET
      (change_metadata cx ''reset'' c) cx w = (cx', w')" by force
  with Cons [of cx' w'] audit_bridge_override_switches show ?case by (simp, metis snd_conv)
qed simp

lemma denied_switches [simp]: "switches (snd (snd (denied ev sv md cx w))) = switches w"
  by (simp add: denied_def)

lemma override_about:
  "audit_bridge_override ev sv ty md cx w = (cx', w') \<Longrightarrow> cx_user cx' = cx_user cx \<and> switches w' = switches w"
  using audit_bridge_override_about(1) [of ev sv ty md cx w] audit_bridge_override_switches [of ev sv ty md cx w]
  by simp

lemma bridge_admin_guard:
  assumes "au_role (cx_user cx) < Admin"
  shows "switches (snd (snd (bridge_set ev sv cx op target v w))) = switches w"
    "switches (snd (snd (bridge_reset ev sv cx w))) = switches w"
  using assms
  by (auto simp: bridge_set_def bridge_reset_def Let_def split: prod.splits dest!: override_about)

lemma bridge_command_switches:
  assumes "au_role (cx_user cx) < Admin"
  shows "switches (snd (snd (bridge_command ev sv cx args w))) = switches w"
  by (simp add: bridge_command_def handle_bridge_admin_def Let_def bridge_admin_guard [OF assms]
      split: option.split list.split)

lemma run_home_switches: "switches (snd (snd (run_home ev sv f cx w))) = switches w"
  by (simp add: run_home_def split: sum.split prod.split)

lemma run_builtin_switches:
  assumes "h = Bridge_Command \<Longrightarrow> au_role (cx_user cx) < Admin"
  shows "switches (snd (snd (run_builtin sv ev h cx args w))) = switches w"
  using assms bridge_command_switches
  by (cases h) (simp_all add: run_builtin_def Let_def run_home_switches last_command_def split: option.split)

lemma router_staged_switches:
  "router_staged ev ro stage trail w = (t, w') \<Longrightarrow> switches w' = switches w"
  using router_staged_frame(4) [of ev ro stage trail w] by (simp add: switches_def)

lemma legacy_switches [simp]: "switches (audit_legacy_command ev m c args r d e w) = switches w"
  by (simp add: switches_def audit_legacy_command_def Let_def split: prod.split sum.split)

lemma handle_finally_switches: "handle_finally ev ro m p s h w = (t, w') \<Longrightarrow> switches w' = switches w"
  by (auto simp: handle_finally_def Let_def router_stage_defs split: option.splits
      dest: router_staged_switches)

lemma handle_command_switches:
  assumes "\<And>u. map_of (az_users (ro_authorizer ro)) (sender_of m) = Some u \<Longrightarrow> au_role u < Admin"
    and "handle_command (run_builtin sv) ev ro m p trail w = (out, w')"
  shows "switches w' = switches w"
proof -
  have auth: "switches w2 = switches w1" if "audit_command_authorization ev ro x y z trail w1 = (t, w2)"
    for x y z t w1 w2 using that unfolding router_stage_defs by (rule router_staged_switches)
  have run: "switches w2 = switches w1"
    if "run_builtin sv ev h \<lparr>cx_message = m, cx_user = u, cx_audit_trail = t, cx_audit_metadata = md\<rparr> args w1 = (r, cx', w2)"
      "require_message (ro_authorizer ro) m x = Some u" for h u t md args w1 w2 r cx' x
  proof -
    from that(2) assms(1) have "au_role u < Admin" by (simp add: require_message_permitted permitted_def)
    with run_builtin_switches [of h _ sv ev args w1] that(1) show ?thesis by (metis command_context.select_convs(2) snd_conv)
  qed
  from assms(2) show ?thesis
    by (fastforce simp: handle_command_def Let_def split: option.splits prod.splits sum.splits if_splits
        dest: auth run)
qed

end
