(* ===== verification/Health_Events.thy ===== *)
theory Health_Events
  imports Bridge_Health
begin

text \<open>
  \<open>homeassistant_health_events.py\<close>: the task that publishes the health state to Home Assistant.
  The task, the callbacks it is woken by, and the changes of the health state interleave; they
  are the steps of a relation. \<open>pb_queue\<close> holds the calls that \<open>call_soon_threadsafe\<close> has
  scheduled, \<open>pb_phase\<close> is where the task waits, and \<open>pb_fired\<close> lists the calls of \<open>fire_event\<close> with
  what they ended in.
\<close>

datatype phase = Off | Waiting | Coalescing | Publishing bool

record publisher =
  pb_health :: health
  pb_channel :: int
  pb_enabled :: bool
  pb_has_loop :: bool
  pb_changed :: bool
  pb_critical :: bool
  pb_stop :: bool
  pb_published :: "str option"
  pb_degraded :: bool
  pb_queue :: "bool list"
  pb_fired :: "(json \<times> unit result) list"
  pb_phase :: phase

definition new_publisher :: "health \<Rightarrow> int \<Rightarrow> bool \<Rightarrow> publisher" where
  "new_publisher h channel_index enabled =
     \<lparr>pb_health = h, pb_channel = channel_index, pb_enabled = enabled, pb_has_loop = False,
      pb_changed = False, pb_critical = False, pb_stop = False, pb_published = None,
      pb_degraded = False, pb_queue = [], pb_fired = [], pb_phase = Off\<rparr>"

section \<open>Operations\<close>

definition notify :: "bool \<Rightarrow> publisher \<Rightarrow> publisher" where
  "notify critical p =
     (if \<not> pb_enabled p \<or> pb_stop p \<or> \<not> pb_has_loop p then p
      else p\<lparr>pb_queue := pb_queue p @ [critical]\<rparr>)"

definition mark_changed :: "bool \<Rightarrow> publisher \<Rightarrow> publisher" where
  "mark_changed critical p =
     (if pb_stop p then p
      else p\<lparr>pb_critical := (critical \<or> pb_critical p), pb_changed := True\<rparr>)"

definition start :: "publisher \<Rightarrow> publisher" where
  "start p =
     (if \<not> pb_enabled p \<or> pb_phase p \<noteq> Off then p
      else
        notify True (p\<lparr>pb_has_loop := True, pb_health := set_change_callback True (pb_health p),
                       pb_phase := Waiting\<rparr>))"

definition stop :: "publisher \<Rightarrow> publisher" where
  "stop p =
     (let q = p\<lparr>pb_stop := True, pb_health := set_change_callback False (pb_health p),
                pb_changed := True\<rparr> in
      if pb_phase q = Off then q else q\<lparr>pb_phase := Off, pb_has_loop := False\<rparr>)"

text \<open>
  An operation of the health state: the callback is \<open>notify\<close>, called with each flag that the
  operation adds to \<open>hs_notified\<close>.
\<close>

definition on_change :: "(health \<Rightarrow> health) \<Rightarrow> publisher \<Rightarrow> publisher" where
  "on_change f p =
     (let h = f (pb_health p);
          added = drop (length (hs_notified (pb_health p))) (hs_notified h)
      in fold notify added (p\<lparr>pb_health := h\<rparr>))"

text \<open>\<open>publish_if_needed\<close>, given the outcome of \<open>fire_event\<close>.\<close>

definition publish_if_needed ::
    "instant \<Rightarrow> bool \<Rightarrow> unit result \<Rightarrow> publisher \<Rightarrow> bool result \<times> publisher" where
  "publish_if_needed now force outcome p =
     (let s = snapshot now (pb_health p); fingerprint = event_fingerprint (pb_channel p) s in
      if \<not> force \<and> Some fingerprint = pb_published p then (Inr False, p)
      else
        (let fired = p\<lparr>pb_fired := pb_fired p @ [(event_payload (pb_channel p) s, outcome)]\<rparr> in
         case outcome of
           Inr _ \<Rightarrow> (Inr True, fired\<lparr>pb_published := Some fingerprint\<rparr>)
         | Inl e \<Rightarrow>
             if \<not> is_exception e then (Inl e, fired)
             else if pb_degraded fired then (Inr False, fired)
             else
               (Inr False,
                (on_change (record_failure now (lit ''transport_error'')) (fired\<lparr>pb_degraded := True\<rparr>))
                  \<lparr>pb_degraded := False\<rparr>)))"

section \<open>Steps\<close>

text \<open>
  The loop of \<open>run\<close>: it waits for a change or for the heartbeat; a change that is not critical
  waits for more of them, then one publication follows.
\<close>

inductive pub_step :: "publisher \<Rightarrow> publisher \<Rightarrow> bool" where
  health: "pub_step p (on_change f p)"
| marked: "pb_queue p = c # q \<Longrightarrow> pub_step p (mark_changed c (p\<lparr>pb_queue := q\<rparr>))"
| woken: "pb_phase p = Waiting \<Longrightarrow> pb_changed p \<Longrightarrow> \<not> pb_stop p \<Longrightarrow>
    pub_step p (p\<lparr>pb_changed := False, pb_critical := False,
                  pb_phase := (if pb_critical p then Publishing True else Coalescing)\<rparr>)"
| heartbeat: "pb_phase p = Waiting \<Longrightarrow> \<not> pb_stop p \<Longrightarrow> pub_step p (p\<lparr>pb_phase := Publishing True\<rparr>)"
| coalesced: "pb_phase p = Coalescing \<Longrightarrow>
    pub_step p (p\<lparr>pb_changed := False, pb_phase := Publishing False\<rparr>)"
| published: "pb_phase p = Publishing force \<Longrightarrow>
    publish_if_needed now force outcome p = (r, q) \<Longrightarrow>
    pub_step p (q\<lparr>pb_phase := (case r of Inl _ \<Rightarrow> Off | Inr _ \<Rightarrow> Waiting)\<rparr>)"
| started: "pub_step p (start p)"
| stopped: "pub_step p (stop p)"

inductive_cases pub_stepE: "pub_step p q"

inductive pub_reachable :: "publisher \<Rightarrow> publisher \<Rightarrow> bool" where
  here: "pub_reachable p p"
| there: "pub_reachable p q \<Longrightarrow> pub_step q r \<Longrightarrow> pub_reachable p r"

section \<open>Invariants\<close>

lemma notify_frame [simp]:
  "pb_fired (notify c p) = pb_fired p" "pb_published (notify c p) = pb_published p"
  "pb_stop (notify c p) = pb_stop p" "pb_phase (notify c p) = pb_phase p"
  "pb_enabled (notify c p) = pb_enabled p" "pb_health (notify c p) = pb_health p"
  "pb_channel (notify c p) = pb_channel p" "pb_degraded (notify c p) = pb_degraded p"
  "pb_has_loop (notify c p) = pb_has_loop p"
  by (simp_all add: notify_def)

lemma fold_notify_frame [simp]:
  "pb_fired (fold notify cs p) = pb_fired p" "pb_published (fold notify cs p) = pb_published p"
  "pb_stop (fold notify cs p) = pb_stop p" "pb_phase (fold notify cs p) = pb_phase p"
  "pb_enabled (fold notify cs p) = pb_enabled p" "pb_channel (fold notify cs p) = pb_channel p"
  "pb_health (fold notify cs p) = pb_health p" "pb_has_loop (fold notify cs p) = pb_has_loop p"
  by (induction cs arbitrary: p) simp_all

lemma on_change_frame [simp]:
  "pb_fired (on_change f p) = pb_fired p" "pb_published (on_change f p) = pb_published p"
  "pb_stop (on_change f p) = pb_stop p" "pb_phase (on_change f p) = pb_phase p"
  "pb_enabled (on_change f p) = pb_enabled p" "pb_channel (on_change f p) = pb_channel p"
  "pb_health (on_change f p) = f (pb_health p)" "pb_has_loop (on_change f p) = pb_has_loop p"
  by (simp_all add: on_change_def Let_def)

lemma publish_frame:
  assumes "publish_if_needed now force outcome p = (r, q)"
  shows "pb_stop q = pb_stop p" "pb_enabled q = pb_enabled p" "pb_channel q = pb_channel p"
    "pb_has_loop q = pb_has_loop p"
  using assms by (auto simp: publish_if_needed_def Let_def split: if_splits sum.splits)

text \<open>
  The fingerprint that the publisher should remember: that of the last event whose call succeeded.
\<close>

definition last_success :: "publisher \<Rightarrow> str option \<Rightarrow> bool" where
  "last_success p remembered \<longleftrightarrow>
     (case remembered of
        None \<Rightarrow> \<forall>(payload, outcome) \<in> set (pb_fired p). outcome \<noteq> Inr ()
      | Some fp \<Rightarrow>
          (\<exists>s before after. pb_fired p = before @ (event_payload (pb_channel p) s, Inr ()) # after
             \<and> event_fingerprint (pb_channel p) s = fp
             \<and> (\<forall>(payload, outcome) \<in> set after. outcome \<noteq> Inr ())))"

lemma last_successI:
  assumes "pb_fired p = before @ (event_payload (pb_channel p) s, Inr ()) # after"
    and "\<forall>(payload, outcome) \<in> set after. outcome \<noteq> Inr ()"
  shows "last_success p (Some (event_fingerprint (pb_channel p) s))"
  using assms unfolding last_success_def option.case by blast

lemma last_success_failed:
  assumes "last_success p r" "pb_fired q = pb_fired p @ [(payload, Inl e)]" "pb_channel q = pb_channel p"
  shows "last_success q r"
proof (cases r)
  case None
  with assms show ?thesis by (auto simp: last_success_def)
next
  case (Some fp)
  with assms(1) obtain s before after where
    "pb_fired p = before @ (event_payload (pb_channel p) s, Inr ()) # after"
    "event_fingerprint (pb_channel p) s = fp" "\<forall>(payload, outcome) \<in> set after. outcome \<noteq> Inr ()"
    by (auto simp: last_success_def)
  with assms(2,3) Some last_successI [of q before s "after @ [(payload, Inl e)]"] show ?thesis by auto
qed

lemma last_success_same:
  "last_success p r \<Longrightarrow> pb_fired q = pb_fired p \<Longrightarrow> pb_channel q = pb_channel p \<Longrightarrow> last_success q r"
  by (cases r) (simp_all add: last_success_def)

text \<open>
  The invariant: it does remember that one; a publisher that is disabled or was stopped has its task
  off.
\<close>

definition pub_inv :: "publisher \<Rightarrow> bool" where
  "pub_inv p \<longleftrightarrow>
     last_success p (pb_published p)
     \<and> (\<not> pb_enabled p \<longrightarrow> pb_phase p = Off) \<and> (pb_phase p \<noteq> Off \<longrightarrow> pb_has_loop p)"

lemma new_publisher_inv: "pub_inv (new_publisher h c b)"
  by (simp add: pub_inv_def new_publisher_def last_success_def)

lemma publish_inv:
  assumes "pub_inv p" "publish_if_needed now force outcome p = (r, q)"
  shows "last_success q (pb_published q)"
proof -
  let ?s = "snapshot now (pb_health p)"
  have l: "last_success p (pb_published p)" using assms(1) by (simp add: pub_inv_def)
  show ?thesis
  proof (cases "\<not> force \<and> Some (event_fingerprint (pb_channel p) ?s) = pb_published p")
    case True
    with assms(2) l show ?thesis by (auto simp: publish_if_needed_def Let_def)
  next
    case fires: False
    show ?thesis
    proof (cases outcome)
      case (Inl e)
      with fires assms(2) have "pb_fired q = pb_fired p @ [(event_payload (pb_channel p) ?s, Inl e)]"
          "pb_channel q = pb_channel p" "pb_published q = pb_published p"
        by (auto simp: publish_if_needed_def Let_def split: if_splits)
      with last_success_failed [OF l] show ?thesis by simp
    next
      case (Inr u)
      with fires assms(2) have "pb_fired q = pb_fired p @ [(event_payload (pb_channel p) ?s, Inr ())]"
          "pb_channel q = pb_channel p" "pb_published q = Some (event_fingerprint (pb_channel p) ?s)"
        by (auto simp: publish_if_needed_def Let_def)
      with last_successI [of q "pb_fired p" ?s "[]"] show ?thesis by simp
    qed
  qed
qed

lemma pub_step_inv:
  assumes "pub_step p q" "pub_inv p"
  shows "pub_inv q"
  using assms
proof (induction rule: pub_step.induct)
  case (published p force now outcome r q)
  note fr = publish_frame [OF published(2)]
  from published have "pb_enabled p" "pb_has_loop p" by (auto simp: pub_inv_def)
  with last_success_same [OF publish_inv [OF published(3,2)]] fr show ?case by (auto simp: pub_inv_def)
qed (auto simp: pub_inv_def mark_changed_def start_def stop_def Let_def split: if_splits
    intro: last_success_same)

lemma pub_reachable_inv: "pub_reachable p q \<Longrightarrow> pub_inv p \<Longrightarrow> pub_inv q"
  by (induction rule: pub_reachable.induct) (auto intro: pub_step_inv)

text \<open>After \<open>stop\<close> the publisher is silent, unless it is started again.\<close>

lemma stopped_silent:
  assumes "pub_step p q" "pb_phase p = Off"
  shows "pb_fired q = pb_fired p"
  using assms by cases (auto simp: mark_changed_def start_def stop_def Let_def)

section \<open>A failed publication\<close>

lemma record_failure_notifies:
  assumes "hs_change_callback h" "hs_last_failure h \<noteq> Some now"
  shows "hs_notified (record_failure now reason h) = hs_notified h @ [True]"
  using assms
  by (simp add: record_failure_def changed_def after_change_def Let_def write_healthcheck_def
      critical_transition_from_def snapshot_def note_failure_def split: option.splits)

text \<open>
  C39. A publication that fails asks for the next one: the failure it records is itself a
  critical change, so the callback schedules another publication at once, and
  \<open>_publishing_degraded\<close>, meant to break the circle, is false again when that one runs.
\<close>

theorem failed_publication_repeats:
  assumes "publish_if_needed now force (Inl e) p = (r, q)" "is_exception e"
    and "force \<or> Some (event_fingerprint (pb_channel p) (snapshot now (pb_health p))) \<noteq> pb_published p"
    and "\<not> pb_degraded p" "pb_enabled p" "\<not> pb_stop p" "pb_has_loop p"
    and "hs_change_callback (pb_health p)" "hs_last_failure (pb_health p) \<noteq> Some now"
  shows "r = Inr False \<and> pb_queue q = pb_queue p @ [True] \<and> \<not> pb_degraded q
    \<and> length (pb_fired q) = Suc (length (pb_fired p))"
proof -
  have "hs_notified (record_failure now (lit ''transport_error'') (pb_health p))
      = hs_notified (pb_health p) @ [True]"
    by (rule record_failure_notifies) (use assms(8,9) in auto)
  with assms(1-7) show ?thesis
    by (auto simp: publish_if_needed_def Let_def on_change_def notify_def)
qed

theorem failed_publication_repeats_witness:
  "pb_queue (snd (publish_if_needed 5 True (Inl (Exn TimeoutError []))
     (start (new_publisher (new_health (lit ''1'') None 0) 3 True)))) = [True, True]"
proof -
  let ?p = "start (new_publisher (new_health (lit ''1'') None 0) 3 True)"
  obtain r q where p: "publish_if_needed 5 True (Inl (Exn TimeoutError [])) ?p = (r, q)" by force
  have "r = Inr False \<and> pb_queue q = pb_queue ?p @ [True] \<and> \<not> pb_degraded q
      \<and> length (pb_fired q) = Suc (length (pb_fired ?p))"
    by (rule failed_publication_repeats [OF p])
      (simp_all add: start_def new_publisher_def notify_def set_change_callback_def new_health_def)
  with p show ?thesis by (simp add: start_def new_publisher_def notify_def)
qed

text \<open>
  C38. In every state that the publisher can reach, in any order of changes, heartbeats, publications
  and failures, it takes for published what the last successful call of \<open>fire_event\<close> carried, and
  nothing while none has succeeded; an attempt that failed does not count. A publisher that is
  disabled makes no call.
\<close>

theorem published_state_was_fired:
  assumes "pub_reachable (new_publisher h c enabled) q"
  shows "(case pb_published q of
        None \<Rightarrow> \<forall>(payload, outcome) \<in> set (pb_fired q). outcome \<noteq> Inr ()
      | Some fp \<Rightarrow>
          (\<exists>s before after. pb_fired q = before @ (event_payload c s, Inr ()) # after
             \<and> event_fingerprint c s = fp \<and> (\<forall>(payload, outcome) \<in> set after. outcome \<noteq> Inr ())))
    \<and> (\<not> enabled \<longrightarrow> pb_fired q = [])"
proof -
  have "pub_inv q \<and> pb_channel q = c \<and> (\<not> enabled \<longrightarrow> \<not> pb_enabled q \<and> pb_fired q = [])"
    using assms
  proof (induction "new_publisher h c enabled" q rule: pub_reachable.induct)
    case here
    show ?case using new_publisher_inv by (simp add: new_publisher_def)
  next
    case (there q r)
    have "pb_enabled r = pb_enabled q \<and> pb_channel r = pb_channel q"
      using there(3) by cases (auto simp: mark_changed_def start_def stop_def Let_def dest: publish_frame)
    moreover from there(2) have "\<not> enabled \<Longrightarrow> pb_phase q = Off" by (auto simp: pub_inv_def)
    ultimately show ?case using there(2) pub_step_inv [OF there(3)] stopped_silent [OF there(3)] by auto
  qed
  then show ?thesis by (auto simp: pub_inv_def last_success_def split: option.split)
qed

theorem published_state_was_fired_witness:
  "pb_fired (start (new_publisher (new_health (lit ''1'') None 0) 3 False)) = []"
proof -
  have "pub_reachable (new_publisher (new_health (lit ''1'') None 0) 3 False)
      (start (new_publisher (new_health (lit ''1'') None 0) 3 False))"
    by (rule pub_reachable.there [OF pub_reachable.here pub_step.started])
  from published_state_was_fired [OF this] show ?thesis by simp
qed

end
