(* ===== verification/Log_Redaction.thy ===== *)
theory Log_Redaction
  imports PyText
begin

text \<open>
  \<open>logging.py\<close>: the filter that takes secrets out of log records, its five regular expressions
  among them, and the registration of further secrets. What the library makes of the format and
  the arguments of a record (\<open>getMessage\<close>) is a field of the record.
\<close>

section \<open>Regular expressions\<close>

text \<open>
  A matcher answers the text it puts in the place of its match and the rest of the line. In the
  five expressions every repetition is followed by something that its own class excludes, so
  taking all of it is what a backtracking search ends with.
\<close>

type_synonym matcher = "str \<Rightarrow> (str \<times> str) option"

text \<open>
  Under \<open>IGNORECASE\<close> a small letter also matches its capital; \<open>i\<close> matches the dotted capital and
  the dotless small letter of Turkish, \<open>s\<close> the long \<open>s\<close>, \<open>k\<close> the sign of kelvin.
\<close>

definition ci :: "nat \<Rightarrow> nat \<Rightarrow> bool" where
  "ci p c \<longleftrightarrow> c = p \<or> 97 \<le> p \<and> p \<le> 122 \<and> c + 32 = p \<or> p = 105 \<and> c \<in> {304, 305}
     \<or> p = 115 \<and> c = 383 \<or> p = 107 \<and> c = 8490"

definition then_match :: "matcher \<Rightarrow> matcher \<Rightarrow> matcher" where
  "then_match a b t =
     (case a t of
        None \<Rightarrow> None
      | Some (x, r) \<Rightarrow> (case b r of None \<Rightarrow> None | Some (y, s) \<Rightarrow> Some (x @ y, s)))"

definition word_match :: "string \<Rightarrow> matcher" where
  "word_match w t =
     (if list_all2 ci (lit w) (take (length w) t)
      then Some (take (length w) t, drop (length w) t) else None)"

definition run_match :: "nat \<Rightarrow> (nat \<Rightarrow> bool) \<Rightarrow> matcher" where
  "run_match n P t =
     (if n \<le> length (takeWhile P t) then Some (takeWhile P t, dropWhile P t) else None)"

definition one_match :: "nat set \<Rightarrow> matcher" where
  "one_match cs t = (if t \<noteq> [] \<and> hd t \<in> cs then Some ([hd t], tl t) else None)"

definition redacted :: str where
  "redacted = lit ''[REDACTED]''"

definition hide_match :: "matcher \<Rightarrow> matcher" where
  "hide_match m t = (case m t of None \<Rightarrow> None | Some (x, r) \<Rightarrow> Some (redacted, r))"

text \<open>\<open>Pattern.sub\<close>: left to right, without overlaps.\<close>

function re_sub :: "matcher \<Rightarrow> str \<Rightarrow> str" where
  "re_sub m t =
     (case t of
        [] \<Rightarrow> []
      | c # cs \<Rightarrow>
          (case m t of
             Some (out, rest) \<Rightarrow>
               if length rest < length t then out @ re_sub m rest else c # re_sub m cs
           | None \<Rightarrow> c # re_sub m cs))"
  by pat_completeness auto
termination
  by (relation "measure (\<lambda>(m, t). length t)") auto

declare re_sub.simps [simp del]

abbreviation blanks :: matcher where
  "blanks \<equiv> run_match 0 is_space"

definition access_token_re :: matcher where
  "access_token_re =
     then_match (word_match ''\"access_token\"'')
     (then_match blanks
     (then_match (one_match {58})
     (then_match blanks
     (then_match (one_match {34})
     (then_match (hide_match (run_match 1 (\<lambda>c. c \<noteq> 34)))
       (one_match {34}))))))"

definition access_token_text_re :: matcher where
  "access_token_text_re =
     then_match (word_match ''access_token'')
     (then_match blanks
     (then_match (one_match {61, 58})
     (then_match blanks
       (hide_match (run_match 1 (\<lambda>c. \<not> is_space c))))))"

definition authorization_re :: matcher where
  "authorization_re =
     then_match (word_match ''authorization'')
     (then_match blanks
     (then_match (one_match {58})
     (then_match blanks
     (then_match (word_match ''bearer'')
     (then_match (run_match 1 is_space)
       (hide_match (run_match 1 (\<lambda>c. \<not> is_space c \<and> c \<notin> {44, 59}))))))))"

definition is_bearer_char :: "nat \<Rightarrow> bool" where
  "is_bearer_char c \<longleftrightarrow>
     65 \<le> c \<and> c \<le> 90 \<or> 97 \<le> c \<and> c \<le> 122 \<or> 48 \<le> c \<and> c \<le> 57
     \<or> c \<in> {46, 95, 126, 43, 47, 61, 45} \<or> c \<in> {304, 305, 383, 8490}"

definition bearer_re :: matcher where
  "bearer_re =
     then_match (word_match ''bearer'')
     (then_match (run_match 1 is_space)
       (hide_match (run_match 12 is_bearer_char)))"

definition supervisor_re :: matcher where
  "supervisor_re =
     then_match (word_match ''supervisor_token'')
     (then_match blanks
     (then_match (one_match {61, 58})
     (then_match blanks
       (hide_match (run_match 1 (\<lambda>c. \<not> is_space c))))))"

section \<open>The filter\<close>

definition hide_secret :: "str \<Rightarrow> str \<Rightarrow> str" where
  "hide_secret secret t =
     (let whole = replace secret redacted t in
      if length secret \<ge> 12
      then replace (drop (length secret - 8) secret) redacted (replace (take 8 secret) redacted whole)
      else whole)"

definition sanitize_text :: "str list \<Rightarrow> str \<Rightarrow> str" where
  "sanitize_text known_secrets t =
     fold hide_secret known_secrets
       (re_sub supervisor_re (re_sub bearer_re (re_sub authorization_re
         (re_sub access_token_text_re (re_sub access_token_re t)))))"

datatype log_value =
    LStr str
  | LTuple "log_value list"
  | LList "log_value list"
  | LDict "(log_value \<times> log_value) list"
  | LOther str

fun sanitize :: "str list \<Rightarrow> log_value \<Rightarrow> log_value" where
  "sanitize ks (LStr t) = LStr (sanitize_text ks t)"
| "sanitize ks (LTuple vs) = LTuple (map (sanitize ks) vs)"
| "sanitize ks (LList vs) = LList (map (sanitize ks) vs)"
| "sanitize ks (LDict kvs) = LDict (map (map_prod id (sanitize ks)) kvs)"
| "sanitize ks (LOther t) = LOther t"

text \<open>
  A record: \<open>lg_message\<close> is what \<open>getMessage\<close> answers when there are arguments; \<open>lg_exc_text\<close> is
  the text of the exception once a formatter has rendered it, \<open>lg_exc\<close> what it will render.
\<close>

record log_record =
  lg_msg :: log_value
  lg_args :: "log_value list"
  lg_message :: "str result"
  lg_exc :: "str option"
  lg_exc_text :: "str option"

definition redaction_filter :: "str list \<Rightarrow> log_record \<Rightarrow> log_record" where
  "redaction_filter ks r =
     (let r1 =
        (if lg_args r \<noteq> []
         then (case lg_message r of
                 Inr t \<Rightarrow> r\<lparr>lg_msg := LStr (sanitize_text ks t), lg_args := []\<rparr>
               | Inl e \<Rightarrow> r\<lparr>lg_msg := sanitize ks (lg_msg r), lg_args := map (sanitize ks) (lg_args r)\<rparr>)
         else r\<lparr>lg_msg := sanitize ks (lg_msg r)\<rparr>)
      in r1\<lparr>lg_exc_text :=
           (case lg_exc_text r1 of
              Some t \<Rightarrow> Some (if t = [] then t else sanitize_text ks t)
            | None \<Rightarrow> None)\<rparr>)"

text \<open>
  What the formatter of a handler adds for an exception, after the filters of the handler: it
  renders the exception when no other handler has done so before.
\<close>

definition printed_exception :: "str list \<Rightarrow> log_record \<Rightarrow> str option" where
  "printed_exception ks r =
     (let r1 = redaction_filter ks r
      in if lg_exc_text r1 \<noteq> None \<and> lg_exc_text r1 \<noteq> Some [] then lg_exc_text r1 else lg_exc r1)"

section \<open>Configuration\<close>

text \<open>\<open>SecretRedactionFilter.__init__\<close>; the filters are shared with the handlers.\<close>

definition new_filter :: "str list \<Rightarrow> str list" where
  "new_filter known_secrets = filter (\<lambda>s. s \<noteq> []) known_secrets"

definition configure_logging :: "(str \<Rightarrow> str option) \<Rightarrow> str list list" where
  "configure_logging getenv =
     [new_filter [case getenv (lit ''SUPERVISOR_TOKEN'') of Some v \<Rightarrow> v | None \<Rightarrow> []]]"

definition register_redaction_secret :: "str \<Rightarrow> str list list \<Rightarrow> str list list" where
  "register_redaction_secret secret fs =
     (if secret = [] then fs
      else map (\<lambda>ks. if secret \<in> set ks then ks else ks @ [secret]) fs)"

section \<open>What the filter hides\<close>

text \<open>The texts that the filter looks for: the secrets and the ends of the long ones.\<close>

definition watched :: "str list \<Rightarrow> str set" where
  "watched ks =
     set ks \<union> {take 8 k | k. k \<in> set ks \<and> length k \<ge> 12}
       \<union> {drop (length k - 8) k | k. k \<in> set ks \<and> length k \<ge> 12}"

text \<open>
  A text that its own replacement cannot bring back: it has no brackets and is no part of
  \<open>REDACTED\<close>.
\<close>

definition unlike_redacted :: "str \<Rightarrow> bool" where
  "unlike_redacted p \<longleftrightarrow> 91 \<notin> set p \<and> 93 \<notin> set p \<and> \<not> sublist p redacted"

lemma contains_sublist: "contains t p \<longleftrightarrow> sublist p t"
  by (induction t) (auto simp: starts_with_prefix sublist_Cons_right)

lemma redacted_ends: "hd redacted = 91" "last redacted = 93" "redacted \<noteq> []"
  by (simp_all add: redacted_def lit_def)

lemma prefix_redacted_append: "91 \<notin> set p \<Longrightarrow> prefix p (redacted @ t) \<Longrightarrow> p = []"
  by (cases p) (auto simp: redacted_def lit_def)

lemma sublist_redacted_append:
  assumes "unlike_redacted p" and "sublist p (redacted @ t)"
  shows "sublist p t"
proof -
  have suffix_Nil: "xs = []" if "suffix xs redacted" "set xs \<subseteq> set p" for xs
  proof (rule ccontr)
    assume "xs \<noteq> []"
    note suf = that(1)
    obtain zs where "redacted = zs @ xs" using suf by (auto simp: suffix_def)
    with redacted_ends(2) have "last (zs @ xs) = 93" by simp
    with \<open>xs \<noteq> []\<close> have "last xs = 93" by simp
    with \<open>xs \<noteq> []\<close> that(2) assms(1) show False
      by (auto simp: unlike_redacted_def dest: last_in_set)
  qed
  from assms(2) consider "sublist p redacted" | "sublist p t"
    | xs ys where "p = xs @ ys" "suffix xs redacted" "prefix ys t"
    by (auto simp: sublist_append)
  then show ?thesis
  proof cases
    case 1
    with assms(1) show ?thesis by (simp add: unlike_redacted_def)
  next
    case 3
    with suffix_Nil [of xs] show ?thesis by auto
  qed simp
qed

lemma prefix_replace: "91 \<notin> set p \<Longrightarrow> prefix p (replace old redacted t) \<Longrightarrow> prefix p t"
proof (induction "length t" arbitrary: t p)
  case (Suc n)
  then obtain c cs where t: "t = c # cs" "n = length cs" by (cases t) auto
  show ?case
  proof (cases p)
    case (Cons d q)
    from Suc(3,4) Cons have "\<not> (old \<noteq> [] \<and> starts_with t old)"
      by (subst (asm) replace.simps) (use prefix_redacted_append [of p] in \<open>auto simp: t\<close>)
    with Suc(4) have "prefix p (c # replace old redacted cs) \<or> prefix p t"
      by (subst (asm) replace.simps) (auto simp: t split: if_splits)
    with Suc(1) [OF t(2), of q] Suc(3) Cons t(1) show ?thesis by auto
  qed simp
qed (simp add: replace.simps)

text \<open>Replacing brings no such text into a line that has none of it \<dots>\<close>

lemma replace_keeps_hidden:
  assumes "unlike_redacted p" and "\<not> sublist p t"
  shows "\<not> sublist p (replace old redacted t)"
  using assms(2)
proof (induction "length t" arbitrary: t rule: less_induct)
  case less
  have bracket: "91 \<notin> set p" using assms(1) by (simp add: unlike_redacted_def)
  show ?case
  proof (cases "old = [] \<or> t = []")
    case False
    then obtain c cs where t: "t = c # cs" by (cases t) auto
    show ?thesis
    proof (cases "starts_with t old")
      case True
      let ?rest = "drop (length old) t"
      have "\<not> sublist p (replace old redacted ?rest)"
        using less(1) [of ?rest] less(2) False sublist_drop [of "length old" t]
        by (auto simp del: sublist_drop intro: sublist_order.order_trans)
      with sublist_redacted_append [OF assms(1)] True False show ?thesis
        by (subst replace.simps) auto
    next
      case start: False
      with False have e: "replace old redacted t = c # replace old redacted cs"
        by (subst replace.simps) (simp add: t)
      have "\<not> sublist p (replace old redacted cs)"
        using less by (simp add: t sublist_Cons_right)
      moreover have "\<not> prefix p (c # replace old redacted cs)"
        using prefix_replace [OF bracket, of old t] less(2) by (auto simp: e sublist_def prefix_def)
      ultimately show ?thesis by (simp add: e sublist_Cons_right)
    qed
  qed (use less(2) in \<open>auto simp: replace.simps\<close>)
qed

text \<open>\<dots> and replacing the text itself leaves none of it.\<close>

lemma replace_hides:
  assumes "unlike_redacted p"
  shows "\<not> sublist p (replace p redacted t)"
proof (induction "length t" arbitrary: t rule: less_induct)
  case less
  have p: "91 \<notin> set p" "p \<noteq> []" using assms by (auto simp: unlike_redacted_def)
  show ?case
  proof (cases t)
    case Nil
    with p(2) show ?thesis by (simp add: replace.simps)
  next
    case (Cons c cs)
    show ?thesis
    proof (cases "starts_with t p")
      case True
      have "\<not> sublist p (replace p redacted (drop (length p) t))"
        using less p(2) Cons by simp
      with sublist_redacted_append [OF assms] True p(2) Cons show ?thesis
        by (subst replace.simps) auto
    next
      case False
      with Cons p(2) have e: "replace p redacted t = c # replace p redacted cs"
        by (subst replace.simps) simp
      from prefix_replace [OF p(1), of p t] False have "\<not> prefix p (c # replace p redacted cs)"
        by (auto simp: e starts_with_prefix)
      moreover have "\<not> sublist p (replace p redacted cs)" using less Cons by simp
      ultimately show ?thesis by (simp add: e sublist_Cons_right)
    qed
  qed
qed

lemma hide_secret_keeps: "unlike_redacted p \<Longrightarrow> \<not> sublist p t \<Longrightarrow> \<not> sublist p (hide_secret s t)"
  by (simp add: hide_secret_def Let_def replace_keeps_hidden)

lemma hide_secrets_keep:
  "unlike_redacted p \<Longrightarrow> \<not> sublist p t \<Longrightarrow> \<not> sublist p (fold hide_secret ks t)"
  by (induction ks arbitrary: t) (simp_all add: hide_secret_keeps)

lemma hide_secret_hides:
  "unlike_redacted p \<Longrightarrow> p \<in> watched [s] \<Longrightarrow> \<not> sublist p (hide_secret s t)"
  by (auto simp: watched_def hide_secret_def Let_def replace_hides replace_keeps_hidden)

lemma watched_Cons: "watched (k # ks) = watched [k] \<union> watched ks"
  by (auto simp: watched_def)

lemma sanitize_text_hides:
  assumes "unlike_redacted p" and "p \<in> watched ks"
  shows "\<not> sublist p (sanitize_text ks t)"
proof -
  have "\<not> sublist p (fold hide_secret ks u)" for u
    using assms(2)
  proof (induction ks arbitrary: u)
    case (Cons k ks)
    show ?case
    proof (cases "p \<in> watched [k]")
      case True
      with assms(1) show ?thesis by (simp add: hide_secrets_keep hide_secret_hides)
    next
      case False
      with Cons show ?thesis by (simp add: watched_Cons [of k ks])
    qed
  qed (simp add: watched_def)
  then show ?thesis by (simp add: sanitize_text_def)
qed

lemma register_mem:
  "ks \<in> set (register_redaction_secret s fs) \<Longrightarrow>
     (s \<noteq> [] \<longrightarrow> s \<in> set ks) \<and> (\<exists>ks0 \<in> set fs. set ks0 \<subseteq> set ks)"
  by (auto simp: register_redaction_secret_def split: if_splits)

lemma register_knows:
  "ks \<in> set (fold register_redaction_secret added fs) \<Longrightarrow>
     set added - {[]} \<subseteq> set ks \<and> (\<exists>ks0 \<in> set fs. set ks0 \<subseteq> set ks)"
proof (induction added arbitrary: fs)
  case (Cons s added)
  from Cons(1) [of "register_redaction_secret s fs"] Cons(2)
  obtain ks1 where "set added - {[]} \<subseteq> set ks" "ks1 \<in> set (register_redaction_secret s fs)"
      "set ks1 \<subseteq> set ks" by auto
  moreover from register_mem [OF this(2)] obtain ks0
    where "s \<noteq> [] \<longrightarrow> s \<in> set ks1" "ks0 \<in> set fs" "set ks0 \<subseteq> set ks1" by auto
  ultimately show ?case by (cases "s = []") (auto simp del: fold_simps)
qed auto

text \<open>
  The texts that a logged value shows: itself, or those inside its tuples, lists and dictionaries.
  What is no text is shown by its own \<open>str\<close>, which the filter does not see, and the keys of
  dictionaries are left alone.
\<close>

fun shown_texts :: "log_value \<Rightarrow> str list" where
  "shown_texts (LStr t) = [t]"
| "shown_texts (LTuple vs) = concat (map shown_texts vs)"
| "shown_texts (LList vs) = concat (map shown_texts vs)"
| "shown_texts (LDict kvs) = concat (map (\<lambda>kv. shown_texts (snd kv)) kvs)"
| "shown_texts (LOther t) = []"

lemma sanitize_hides:
  assumes "unlike_redacted p" and "p \<in> watched ks"
  shows "t \<in> set (shown_texts (sanitize ks v)) \<Longrightarrow> \<not> sublist p t"
proof (induction v rule: shown_texts.induct)
  case (4 kvs)
  then show ?case by force
qed (auto simp: sanitize_text_hides [OF assms])

text \<open>
  C12. Once the token of the supervisor is configured and further secrets are registered, no text of a
  record that has passed the filter of a handler contains a secret, nor the first or the last eight
  characters of one with twelve or more: neither its message, nor what is left of its arguments, nor
  the text of an exception that was rendered before, whatever the order of the secrets and whatever
  else the line says. It holds for every such secret without brackets that is no part of the word
  \<open>REDACTED\<close>, and for the texts of the record, those in tuples, lists and dictionaries included; an
  object that is logged without arguments, the keys of dictionaries, and an exception that is
  rendered later are not covered. A record whose arguments can be formatted leaves the filter as one
  text without arguments.
\<close>

theorem logs_hide_secrets:
  assumes "ks \<in> set (fold register_redaction_secret added (configure_logging getenv))"
    and "s \<in> set added \<or> getenv (lit ''SUPERVISOR_TOKEN'') = Some s"
    and "p = s \<or> length s \<ge> 12 \<and> p \<in> {take 8 s, drop (length s - 8) s}"
    and "unlike_redacted p"
  shows "(\<forall>v \<in> set (lg_msg (redaction_filter ks r) # lg_args (redaction_filter ks r)).
            \<forall>t \<in> set (shown_texts v). \<not> contains t p)
    \<and> (\<forall>e. lg_exc_text (redaction_filter ks r) = Some e \<longrightarrow> \<not> contains e p)
    \<and> (\<forall>t. lg_args r \<noteq> [] \<and> lg_message r = Inr t \<longrightarrow>
         (\<exists>t'. lg_msg (redaction_filter ks r) = LStr t') \<and> lg_args (redaction_filter ks r) = [])"
proof -
  have "p \<noteq> []" using assms(4) by (auto simp: unlike_redacted_def)
  with assms(3) have "s \<noteq> []" by auto
  with register_knows [OF assms(1)] assms(2) have "s \<in> set ks"
    by (auto simp: configure_logging_def new_filter_def)
  with assms(3) have w: "p \<in> watched ks" by (auto simp: watched_def)
  note hides = sanitize_text_hides [OF assms(4) w] sanitize_hides [OF assms(4) w]
  have "\<not> contains e p" if "lg_exc_text (redaction_filter ks r) = Some e" for e
    using that hides \<open>p \<noteq> []\<close>
    by (auto simp: redaction_filter_def Let_def contains_sublist split: option.splits if_splits sum.splits)
  moreover have "\<not> contains t p"
    if "v \<in> set (lg_msg (redaction_filter ks r) # lg_args (redaction_filter ks r))" "t \<in> set (shown_texts v)" for v t
    using that hides by (auto simp: redaction_filter_def Let_def contains_sublist split: if_splits sum.splits)
  ultimately show ?thesis by (auto simp: redaction_filter_def Let_def)
qed

definition sample_secret :: str where
  "sample_secret = lit ''123456:abcdefghijklmnopqrst''"

definition sample_record :: log_record where
  "sample_record = \<lparr>lg_msg = LStr (lit ''sent 123456:a to bot''), lg_args = [], lg_message = Inr [],
     lg_exc = None, lg_exc_text = None\<rparr>"

lemma sample_unlike_redacted: "unlike_redacted (take 8 sample_secret)"
  by (simp add: unlike_redacted_def sample_secret_def redacted_def lit_def contains_sublist [symmetric] starts_with_def)

theorem logs_hide_secrets_witness:
  "\<exists>t. lg_msg (redaction_filter [sample_secret] sample_record) = LStr t
     \<and> \<not> contains t (take 8 sample_secret)"
  using logs_hide_secrets [of "[sample_secret]" "[sample_secret]" "\<lambda>_. None" sample_secret "take 8 sample_secret"
      sample_record] sample_unlike_redacted
  by (simp add: configure_logging_def new_filter_def register_redaction_secret_def redaction_filter_def Let_def
      sample_secret_def sample_record_def)

text \<open>
  An exception that no handler has rendered yet is printed as it is: the filter runs before the
  formatter.
\<close>

lemma fresh_exception_unfiltered:
  "lg_exc_text r = None \<Longrightarrow> printed_exception ks r = lg_exc r"
  by (auto simp: printed_exception_def redaction_filter_def Let_def split: sum.splits)

end
