(* ===== verification/Supervisor.thy ===== *)
theory Supervisor
  imports Health_Events Config
begin

text \<open>
  The end of \<open>main.py\<close>: the publisher of health events that \<open>amain\<close> builds, and \<open>_run_services\<close>,
  which runs the bridge and the Telegram service as two tasks and takes both down when one of
  them fails. What the event loop delivers is a list of turns: in each, some tasks end, or the
  task of \<open>main\<close> itself is cancelled. Two things are left out: a second cancellation that arrives
  while the clean-up awaits, which would cut it short, and a task that refuses its cancellation and
  never ends.
\<close>

section \<open>The publisher\<close>

definition build_health_event_publisher :: "app_config \<Rightarrow> health \<Rightarrow> publisher option" where
  "build_health_event_publisher c h =
     (if \<not> hg_events_enabled (cf_health c) then None
      else if hc_base_url (cf_homeassistant c) = [] \<or> hc_token (cf_homeassistant c) = [] then None
      else Some (new_publisher h (mk_channel_index (cf_meshcore c)) (hg_events_enabled (cf_health c))))"

section \<open>Tasks\<close>

datatype service = Bridge | Telegram

datatype ending =
    Returned
  | Raised exn
  | Was_cancelled

datatype turn =
    Turn "(service \<times> ending) list"
  | Interrupt

record supervisor =
  sv_running :: "service list"
  sv_done :: "(service \<times> ending) list"
  sv_publisher :: "publisher option"
  sv_telegram_stopped :: bool
  sv_bridge_closed :: bool

definition end_task :: "service \<times> ending \<Rightarrow> supervisor \<Rightarrow> supervisor" where
  "end_task e sv =
     (if fst e \<in> set (sv_running sv)
      then sv\<lparr>sv_running := removeAll (fst e) (sv_running sv), sv_done := sv_done sv @ [e]\<rparr>
      else sv)"

definition end_tasks :: "(service \<times> ending) list \<Rightarrow> supervisor \<Rightarrow> supervisor" where
  "end_tasks es sv = fold end_task es sv"

text \<open>
  \<open>_first_task_exception\<close>; the order of the list is that in which Python iterates over the set.
\<close>

fun first_task_exception :: "(service \<times> ending) list \<Rightarrow> exn option" where
  "first_task_exception [] = None"
| "first_task_exception ((s, Raised e) # es) = Some e"
| "first_task_exception ((s, x) # es) = first_task_exception es"

text \<open>
  \<open>asyncio.wait\<close> with \<open>FIRST_EXCEPTION\<close>: a task that returns or is cancelled does not end it as
  long as another runs. The flag tells whether the wait was interrupted; \<open>None\<close> is still waiting.
\<close>

fun wait_first_exception :: "turn list \<Rightarrow> supervisor \<Rightarrow> (bool \<times> supervisor) option" where
  "wait_first_exception [] sv = None"
| "wait_first_exception (Interrupt # ts) sv = Some (True, sv)"
| "wait_first_exception (Turn es # ts) sv =
     (let sv' = end_tasks es sv in
      if sv_running sv' = [] \<or> first_task_exception (sv_done sv') \<noteq> None then Some (False, sv')
      else wait_first_exception ts sv')"

text \<open>Cancelling and gathering what still runs; \<open>on_cancel\<close> is what a task ends with then.\<close>

definition cancel_running :: "(service \<Rightarrow> ending) \<Rightarrow> supervisor \<Rightarrow> supervisor" where
  "cancel_running on_cancel sv = end_tasks (map (\<lambda>s. (s, on_cancel s)) (sv_running sv)) sv"

definition start_supervisor :: "bool \<Rightarrow> publisher option \<Rightarrow> supervisor" where
  "start_supervisor with_telegram publisher =
     \<lparr>sv_running = Bridge # (if with_telegram then [Telegram] else []), sv_done = [],
      sv_publisher = map_option start publisher, sv_telegram_stopped = False,
      sv_bridge_closed = False\<rparr>"

text \<open>
  The \<open>finally\<close> block. \<open>stop_result\<close> and \<open>close_result\<close> are the outcomes of stopping the publisher and of
  closing the bridge; only an \<open>Exception\<close> is suppressed.
\<close>

definition shut_down ::
    "bool \<Rightarrow> (service \<Rightarrow> ending) \<Rightarrow> unit result \<Rightarrow> unit result \<Rightarrow> supervisor \<Rightarrow> unit result \<times> supervisor" where
  "shut_down with_telegram on_cancel stop_result close_result sv =
     (let suppressed = (\<lambda>r. case r of Inl e \<Rightarrow> if is_exception e then Inr () else Inl e | Inr _ \<Rightarrow> Inr ());
          sv1 = sv\<lparr>sv_telegram_stopped := with_telegram, sv_publisher := map_option stop (sv_publisher sv)\<rparr>
      in case (if sv_publisher sv = None then Inr () else suppressed stop_result) of
           Inl e \<Rightarrow> (Inl e, sv1)
         | Inr _ \<Rightarrow> (suppressed close_result, (cancel_running on_cancel sv1)\<lparr>sv_bridge_closed := True\<rparr>))"

text \<open>
  \<open>_run_services\<close>. Without Telegram and publisher the bridge is awaited directly, and closes
  itself; \<open>None\<close> is still running.
\<close>

definition result_of_ending :: "ending \<Rightarrow> unit result" where
  "result_of_ending x =
     (case x of Returned \<Rightarrow> Inr () | Raised e \<Rightarrow> Inl e | Was_cancelled \<Rightarrow> raise CancelledError '''')"

fun await_bridge :: "(service \<Rightarrow> ending) \<Rightarrow> turn list \<Rightarrow> unit result option" where
  "await_bridge on_cancel [] = None"
| "await_bridge on_cancel (Interrupt # ts) = Some (result_of_ending (on_cancel Bridge))"
| "await_bridge on_cancel (Turn es # ts) =
     (case map_of es Bridge of
        Some x \<Rightarrow> Some (result_of_ending x)
      | None \<Rightarrow> await_bridge on_cancel ts)"

definition run_services ::
    "(service \<Rightarrow> ending) \<Rightarrow> unit result \<Rightarrow> unit result \<Rightarrow> bool \<Rightarrow> publisher option \<Rightarrow> turn list
       \<Rightarrow> (unit result \<times> supervisor) option" where
  "run_services on_cancel stop_result close_result with_telegram publisher turns =
     (if \<not> with_telegram \<and> publisher = None
      then map_option (\<lambda>r. (r, start_supervisor False None)) (await_bridge on_cancel turns)
      else
        (case wait_first_exception turns (start_supervisor with_telegram publisher) of
           None \<Rightarrow> None
         | Some (interrupted, sv) \<Rightarrow>
             (let first_exception = (if interrupted then None else first_task_exception (sv_done sv));
                  gathered = (if interrupted then sv else cancel_running on_cancel sv)
              in case shut_down with_telegram on_cancel stop_result close_result gathered of
                   (Inl e, sv') \<Rightarrow> Some (Inl e, sv')
                 | (Inr _, sv') \<Rightarrow>
                     Some (if interrupted then raise CancelledError ''''
                           else case first_exception of Some e \<Rightarrow> Inl e | None \<Rightarrow> Inr (), sv'))))"

section \<open>One failure ends both\<close>

lemma end_task_fields [simp]:
  "sv_running (end_task e sv) = removeAll (fst e) (sv_running sv)"
  "sv_done (end_task e sv) = sv_done sv @ (if fst e \<in> set (sv_running sv) then [e] else [])"
  by (simp_all add: end_task_def)

lemma end_tasks_running: "set (sv_running (end_tasks es sv)) = set (sv_running sv) - fst ` set es"
  unfolding end_tasks_def by (induction es arbitrary: sv) auto

lemma end_tasks_done:
  "\<exists>es'. sv_done (end_tasks es sv) = sv_done sv @ es' \<and> set es' \<subseteq> set es
     \<and> (\<forall>s \<in> set (sv_running sv). s \<in> fst ` set es \<longrightarrow> map_of es' s = map_of es s)"
  unfolding end_tasks_def
proof (induction es arbitrary: sv)
  case (Cons e es)
  show ?case
  proof (cases "fst e \<in> set (sv_running sv)")
    case True
    let ?sv = "end_task e sv"
    obtain es' where "sv_done (fold end_task es ?sv) = sv_done ?sv @ es'" "set es' \<subseteq> set es"
        "\<forall>s \<in> set (sv_running ?sv). s \<in> fst ` set es \<longrightarrow> map_of es' s = map_of es s"
      using Cons by blast
    with True show ?thesis by (intro exI [of _ "e # es'"]) auto
  next
    case False
    with Cons [of sv] show ?thesis by (auto simp: end_task_def [of e])
  qed
qed simp

lemma end_tasks_frame [simp]:
  "sv_publisher (end_tasks es sv) = sv_publisher sv"
  "sv_telegram_stopped (end_tasks es sv) = sv_telegram_stopped sv"
  unfolding end_tasks_def
  by (induction es arbitrary: sv; simp add: end_task_def)+

lemma cancel_running_all: "sv_running (cancel_running on_cancel sv) = []"
  using end_tasks_running [of "map (\<lambda>s. (s, on_cancel s)) (sv_running sv)" sv]
  by (simp add: cancel_running_def image_image)

lemma first_task_exception_None: "first_task_exception es = None \<longleftrightarrow> (\<forall>s e. (s, Raised e) \<notin> set es)"
  by (induction es rule: first_task_exception.induct) auto

lemma first_task_exception_Some: "first_task_exception es = Some e \<Longrightarrow> \<exists>s. (s, Raised e) \<in> set es"
  by (induction es rule: first_task_exception.induct) auto

lemma wait_quiet:
  assumes "\<forall>t \<in> set quiet. \<exists>es. t = Turn es \<and> (\<forall>s e. (s, Raised e) \<notin> set es) \<and> s0 \<notin> fst ` set es"
    and "s0 \<in> set (sv_running sv)" and "\<forall>s e. (s, Raised e) \<notin> set (sv_done sv)"
  shows "\<exists>sv'. wait_first_exception (quiet @ ts) sv = wait_first_exception ts sv'
      \<and> s0 \<in> set (sv_running sv') \<and> (\<forall>s e. (s, Raised e) \<notin> set (sv_done sv'))
      \<and> sv_publisher sv' = sv_publisher sv"
  using assms
proof (induction quiet arbitrary: sv)
  case (Cons t quiet)
  then obtain es where t: "t = Turn es" "\<forall>s e. (s, Raised e) \<notin> set es" "s0 \<notin> fst ` set es" by auto
  let ?sv = "end_tasks es sv"
  obtain es' where "sv_done ?sv = sv_done sv @ es'" "set es' \<subseteq> set es"
    using end_tasks_done [of es sv] by blast
  with t(2) Cons(4) have clean: "\<forall>s e. (s, Raised e) \<notin> set (sv_done ?sv)" by auto
  have running: "s0 \<in> set (sv_running ?sv)"
    using Cons(3) t(3) by (simp add: end_tasks_running)
  from Cons(1) [OF _ running clean] Cons(2) obtain sv' where
    "wait_first_exception (quiet @ ts) ?sv = wait_first_exception ts sv'"
    "s0 \<in> set (sv_running sv')" "\<forall>s e. (s, Raised e) \<notin> set (sv_done sv')" "sv_publisher sv' = sv_publisher sv"
    by auto
  moreover have "wait_first_exception ((t # quiet) @ ts) sv = wait_first_exception (quiet @ ts) ?sv"
    using running clean by (auto simp: t(1) Let_def first_task_exception_None)
  ultimately show ?case by auto
qed auto

lemma shut_down_quietly:
  assumes "\<forall>x. stop_result = Inl x \<longrightarrow> is_exception x" and "\<forall>x. close_result = Inl x \<longrightarrow> is_exception x"
  shows "\<exists>sv'. shut_down with_telegram on_cancel stop_result close_result sv = (Inr (), sv')
     \<and> sv_running sv' = [] \<and> sv_bridge_closed sv' \<and> sv_telegram_stopped sv' = with_telegram
     \<and> sv_publisher sv' = map_option stop (sv_publisher sv)"
  using assms
  by (cases stop_result; cases close_result)
    (simp_all add: shut_down_def Let_def cancel_running_all, simp_all add: cancel_running_def)

text \<open>
  C11. When one of the services fails, after whatever quiet time and whatever the others do in the
  same turn, the run ends with the exception of a service that failed in that turn; by then no
  task is left, the Telegram service is told to stop, the publisher is stopped, its task gone,
  and the bridge is closed. A failure of the shutdown itself does not hide the exception.
\<close>

theorem failed_service_stops_all:
  assumes "with_telegram \<or> publisher \<noteq> None"
    and "\<forall>t \<in> set quiet. \<exists>es. t = Turn es \<and> (\<forall>s e. (s, Raised e) \<notin> set es) \<and> s0 \<notin> fst ` set es"
    and "s0 = Bridge \<or> with_telegram" and "map_of es s0 = Some (Raised e0)"
    and "\<forall>x. stop_result = Inl x \<longrightarrow> is_exception x"
    and "\<forall>x. close_result = Inl x \<longrightarrow> is_exception x"
  shows "\<exists>s e sv. run_services on_cancel stop_result close_result with_telegram publisher
             (quiet @ Turn es # later) = Some (Inl e, sv)
      \<and> (s, Raised e) \<in> set es \<and> sv_running sv = [] \<and> sv_bridge_closed sv
      \<and> sv_telegram_stopped sv = with_telegram
      \<and> (\<forall>p. sv_publisher sv = Some p \<longrightarrow> pb_stop p \<and> pb_phase p = Off)"
proof -
  let ?start = "start_supervisor with_telegram publisher"
  have start: "s0 \<in> set (sv_running ?start)" "\<forall>s e. (s, Raised e) \<notin> set (sv_done ?start)"
    using assms(3) by (cases s0) (auto simp: start_supervisor_def)
  from wait_quiet [OF assms(2) start, of "Turn es # later"] obtain sv1 where
    wait: "wait_first_exception (quiet @ Turn es # later) ?start = wait_first_exception (Turn es # later) sv1"
    and sv1: "s0 \<in> set (sv_running sv1)" "\<forall>s e. (s, Raised e) \<notin> set (sv_done sv1)" by blast
  let ?sv = "end_tasks es sv1"
  have mem: "(s0, Raised e0) \<in> set es" using assms(4) by (rule map_of_SomeD)
  obtain es' where es': "sv_done ?sv = sv_done sv1 @ es'" "set es' \<subseteq> set es"
      "\<forall>s \<in> set (sv_running sv1). s \<in> fst ` set es \<longrightarrow> map_of es' s = map_of es s"
    using end_tasks_done [of es sv1] by blast
  with sv1(1) mem assms(4) have "map_of es' s0 = Some (Raised e0)" by force
  then have "(s0, Raised e0) \<in> set (sv_done ?sv)" by (auto simp: es'(1) dest: map_of_SomeD)
  then obtain e where e: "first_task_exception (sv_done ?sv) = Some e"
    using first_task_exception_None [of "sv_done ?sv"] by (cases "first_task_exception (sv_done ?sv)") auto
  from first_task_exception_Some [OF e] es'(1,2) sv1(2) obtain s where "(s, Raised e) \<in> set es" by auto
  have "wait_first_exception (quiet @ Turn es # later) ?start = Some (False, ?sv)"
    using wait e by (simp add: Let_def)
  note wait = this
  obtain sv where sv: "shut_down with_telegram on_cancel stop_result close_result (cancel_running on_cancel ?sv)
        = (Inr (), sv)" "sv_running sv = []" "sv_bridge_closed sv" "sv_telegram_stopped sv = with_telegram"
      "sv_publisher sv = map_option stop (sv_publisher (cancel_running on_cancel ?sv))"
    using shut_down_quietly [OF assms(5,6), of with_telegram on_cancel "cancel_running on_cancel ?sv"] by blast
  have "run_services on_cancel stop_result close_result with_telegram publisher
      (quiet @ Turn es # later) = Some (Inl e, sv)"
    using assms(1) by (simp add: run_services_def Let_def wait sv(1) e) blast
  moreover have stopped: "pb_stop (stop p) \<and> pb_phase (stop p) = Off" for p
    by (simp add: stop_def Let_def)
  from sv(5) stopped have "\<forall>p. sv_publisher sv = Some p \<longrightarrow> pb_stop p \<and> pb_phase p = Off" by auto
  ultimately show ?thesis using sv(2-4) \<open>(s, Raised e) \<in> set es\<close> by blast
qed

theorem failed_service_stops_all_witness:
  "\<exists>s e sv. run_services (\<lambda>_. Was_cancelled) (Inr ()) (Inl (Exn OSError [])) True None
       ([Turn []] @ Turn [(Telegram, Raised (Exn DatabaseError []))] # []) = Some (Inl e, sv)
     \<and> sv_running sv = [] \<and> sv_bridge_closed sv"
  using failed_service_stops_all [of True None "[Turn []]" Telegram "[(Telegram, Raised (Exn DatabaseError []))]"
      "Exn DatabaseError []" "Inr ()" "Inl (Exn OSError [])" "\<lambda>_. Was_cancelled" "[]"]
  by auto

end
