(* ===== verification/Schema.thy ===== *)
theory Schema
  imports Audit_Store
begin

text \<open>
  \<open>storage/database.py\<close>: the schema that \<open>connect_database\<close> lays over a database file, and the
  checks that SQLite makes of an inserted row under it. SQLite itself is not under the
  repository; what its documentation says of \<open>CREATE \<dots> IF NOT EXISTS\<close>, of column constraints and
  of defaults is written out here.
\<close>

section \<open>The schema\<close>

datatype sql_type = Sql_integer | Sql_real | Sql_text

datatype sql_value =
    Null
  | IntV int
  | RealV rat
  | TextV str

text \<open>A \<open>CHECK\<close> holds of \<open>NULL\<close>, so \<open>x IS NULL OR x >= n\<close> is the constraint \<open>At_least n\<close>.\<close>

datatype constraint =
    Not_null
  | Primary_key
  | Autoincrement
  | Unique
  | Default_now
  | At_least int
  | One_of "int list"
  | Length_at_most nat

datatype column = Column (column_name: string) (column_type: sql_type) (constraints: "constraint list")

text \<open>The flag tells whether the statement says \<open>IF NOT EXISTS\<close>.\<close>

datatype ddl =
    Create_table bool string "column list"
  | Create_index bool string string "string list"

abbreviation If_not_exists :: bool where
  "If_not_exists \<equiv> True"

definition row_id :: column where
  "row_id = Column ''id'' Sql_integer [Primary_key, Autoincrement]"

definition created_now :: column where
  "created_now = Column ''created_at'' Sql_text [Not_null, Default_now]"

abbreviation text_column :: "string \<Rightarrow> column" where
  "text_column n \<equiv> Column n Sql_text [Not_null]"

abbreviation optional_text :: "string \<Rightarrow> column" where
  "optional_text n \<equiv> Column n Sql_text []"

definition event_columns :: "column list" where
  "event_columns =
     [row_id, Column ''event_id'' Sql_text [Not_null, Unique],
      Column ''schema_version'' Sql_integer [Not_null, At_least 1],
      text_column ''event_type'', text_column ''correlation_id'', optional_text ''causation_event_id'',
      text_column ''transport'', text_column ''source_room_id'', text_column ''source_room_kind'',
      optional_text ''reply_target_transport'', optional_text ''reply_target_room_id'',
      optional_text ''reply_target_room_kind'', optional_text ''sender_ref_hash'',
      optional_text ''sender_identity_kind'',
      Column ''sender_stable'' Sql_integer [Not_null, One_of [0, 1]],
      optional_text ''message_ref_hash'', optional_text ''command_name'', optional_text ''command_result'',
      Column ''duration_ms'' Sql_integer [At_least 0],
      Column ''metadata_json'' Sql_text [Not_null, Length_at_most 4096],
      text_column ''occurred_at'', text_column ''created_at'']"

definition schema :: "ddl list" where
  "schema =
     [Create_table If_not_exists ''inbound_messages''
        [row_id, text_column ''transport'', optional_text ''message_id'', text_column ''sender_id'',
         Column ''channel_index'' Sql_integer [Not_null], text_column ''text_hash'',
         text_column ''received_at'', created_now],
      Create_table If_not_exists ''command_executions''
        [row_id, optional_text ''message_id'', text_column ''sender_id'', text_column ''command'',
         text_column ''args_json'', text_column ''result'',
         Column ''duration_ms'' Sql_integer [Not_null], optional_text ''error'', created_now],
      Create_table If_not_exists ''confirmations''
        [row_id, text_column ''confirmation_id'', text_column ''sender_id'', text_column ''command'',
         text_column ''args_json'', text_column ''expires_at'', text_column ''status'', created_now],
      Create_table If_not_exists ''authorized_users''
        [Column ''sender_id'' Sql_text [Primary_key], text_column ''name'', text_column ''role'', created_now],
      Create_table If_not_exists ''audit_events''
        [row_id, text_column ''event_type'', text_column ''data_json'', created_now],
      Create_table If_not_exists ''audit_metadata''
        [Column ''key'' Sql_text [Primary_key], text_column ''value'', text_column ''updated_at''],
      Create_table If_not_exists ''normalized_audit_events'' event_columns,
      Create_index If_not_exists ''idx_normalized_audit_correlation_time'' ''normalized_audit_events''
        [''correlation_id'', ''occurred_at''],
      Create_index If_not_exists ''idx_normalized_audit_causation'' ''normalized_audit_events'' [''causation_event_id''],
      Create_index If_not_exists ''idx_normalized_audit_type_time'' ''normalized_audit_events''
        [''event_type'', ''occurred_at''],
      Create_index If_not_exists ''idx_normalized_audit_room_time'' ''normalized_audit_events''
        [''transport'', ''source_room_id'', ''occurred_at''],
      Create_index If_not_exists ''idx_normalized_audit_sender_time'' ''normalized_audit_events''
        [''sender_ref_hash'', ''occurred_at''],
      Create_table If_not_exists ''deduplication_keys''
        [Column ''dedup_key'' Sql_text [Primary_key], Column ''expires_at'' Sql_real [Not_null], created_now],
      Create_table If_not_exists ''telegram_state''
        [Column ''key'' Sql_text [Primary_key], text_column ''value'',
         Column ''updated_at'' Sql_text [Not_null, Default_now]],
      Create_table If_not_exists ''telegram_update_deduplication''
        [Column ''update_ref_hash'' Sql_text [Primary_key], Column ''expires_at'' Sql_real [Not_null],
         created_now],
      Create_table If_not_exists ''telegram_audit_events''
        [row_id, text_column ''event_type'', optional_text ''update_ref_hash'',
         optional_text ''chat_ref_hash'', optional_text ''user_ref_hash'', optional_text ''chat_type'',
         optional_text ''message_type'', text_column ''reason'', created_now],
      Create_table If_not_exists ''telegram_bridge_pending''
        [Column ''bridge_message_id'' Sql_text [Primary_key], text_column ''correlation_id'',
         text_column ''destination_transport'', text_column ''destination_room_id'',
         text_column ''content_ref_hash'', Column ''size_bytes'' Sql_integer [Not_null],
         text_column ''status'', Column ''created_at'' Sql_real [Not_null],
         Column ''expires_at'' Sql_real [Not_null]]]"

section \<open>Opening a database\<close>

type_synonym sql_row = "(string \<times> sql_value) list"

record database =
  sd_tables :: "(string \<times> column list) list"
  sd_indexes :: "string list"
  sd_rows :: "string \<Rightarrow> sql_row list"

definition empty_database :: database where
  "empty_database = \<lparr>sd_tables = [], sd_indexes = [], sd_rows = (\<lambda>_. [])\<rparr>"

fun run_ddl :: "ddl \<Rightarrow> database \<Rightarrow> unit result \<times> database" where
  "run_ddl (Create_table if_not_exists t cols) db =
     (if t \<in> fst ` set (sd_tables db)
      then ((if if_not_exists then Inr () else raise OperationalError ''table already exists''), db)
      else (Inr (), db\<lparr>sd_tables := sd_tables db @ [(t, cols)], sd_rows := (sd_rows db)(t := [])\<rparr>))"
| "run_ddl (Create_index if_not_exists i t names) db =
     (if i \<in> set (sd_indexes db)
      then ((if if_not_exists then Inr () else raise OperationalError ''index already exists''), db)
      else
        (case map_of (sd_tables db) t of
           None \<Rightarrow> (raise OperationalError ''no such table'', db)
         | Some cols \<Rightarrow>
             if set names \<subseteq> column_name ` set cols then (Inr (), db\<lparr>sd_indexes := i # sd_indexes db\<rparr>)
             else (raise OperationalError ''table has no column of this name'', db)))"

text \<open>
  The calls of \<open>connect_database\<close> in their order. Each may fail, by a schedule; the statements of
  a script that ran before stay.
\<close>

datatype open_step =
    Make_directory
  | Connect
  | Pragma string
  | Statement ddl

definition open_steps :: "open_step list" where
  "open_steps =
     [Make_directory, Connect, Pragma ''journal_mode=WAL'', Pragma ''busy_timeout=50'',
      Pragma ''foreign_keys=ON'', Pragma ''synchronous=NORMAL''] @ map Statement schema"

fun run_step :: "open_step \<Rightarrow> database \<Rightarrow> unit result \<times> database" where
  "run_step (Statement d) db = run_ddl d db"
| "run_step Make_directory db = (Inr (), db)"
| "run_step Connect db = (Inr (), db)"
| "run_step (Pragma p) db = (Inr (), db)"

fun run_steps :: "open_step list \<Rightarrow> exn option list \<Rightarrow> database \<Rightarrow> unit result \<times> database" where
  "run_steps [] faults db = (Inr (), db)"
| "run_steps (s # ss) faults db =
     (case faults of
        Some e # _ \<Rightarrow> (Inl e, db)
      | _ \<Rightarrow>
          (case run_step s db of
             (Inl e, db') \<Rightarrow> (Inl e, db')
           | (Inr _, db') \<Rightarrow> run_steps ss (drop 1 faults) db'))"

text \<open>A database in memory starts empty and needs no directory.\<close>

definition connect_database :: "str \<Rightarrow> exn option list \<Rightarrow> database \<Rightarrow> unit result \<times> database" where
  "connect_database path faults db =
     (if path = lit '':memory:'' then run_steps (tl open_steps) faults empty_database
      else run_steps open_steps faults db)"

text \<open>\<open>Path(p).with_name('telegram.db')\<close>, for a path in its normal form with a name.\<close>

definition telegram_database_path :: "str \<Rightarrow> str" where
  "telegram_database_path audit_database_path =
     (if audit_database_path = lit '':memory:'' then audit_database_path
      else rev (dropWhile (\<lambda>c. c \<noteq> 47) (rev audit_database_path)) @ lit ''telegram.db'')"

section \<open>The names of connections\<close>

text \<open>
  \<open>_CONNECTION_INFO\<close>: what the debug log calls a connection, by the \<open>id\<close> of its object. A
  connection that was closed leaves its entry, which the next connection with its \<open>id\<close> replaces.
\<close>

record connection_info =
  ci_name :: str
  ci_path :: str
  ci_identity :: str

definition connection_identity :: "crypto \<Rightarrow> int \<Rightarrow> str \<Rightarrow> str result" where
  "connection_identity cr i path =
     bind_result (sha256_text cr (dec i @ lit '':'' @ path)) (\<lambda>digest. Inr (take 12 digest))"

definition register_connection ::
    "crypto \<Rightarrow> int \<Rightarrow> str \<Rightarrow> str \<Rightarrow> (int \<rightharpoonup> connection_info) \<Rightarrow> (int \<rightharpoonup> connection_info) result" where
  "register_connection cr i path name infos =
     bind_result (connection_identity cr i path) (\<lambda>identity.
       Inr (infos(i \<mapsto> \<lparr>ci_name = name, ci_path = path, ci_identity = identity\<rparr>)))"

definition connection_info_of :: "crypto \<Rightarrow> int \<Rightarrow> (int \<rightharpoonup> connection_info) \<Rightarrow> connection_info result" where
  "connection_info_of cr i infos =
     bind_result (connection_identity cr i []) (\<lambda>identity.
       Inr (case infos i of
              Some info \<Rightarrow> info
            | None \<Rightarrow> \<lparr>ci_name = lit ''unknown'', ci_path = lit ''unknown'', ci_identity = identity\<rparr>))"

text \<open>\<open>connect_database\<close> with the name of the connection; \<open>i\<close> is the \<open>id\<close> of the new object.\<close>

definition open_connection ::
    "crypto \<Rightarrow> int \<Rightarrow> str \<Rightarrow> str \<Rightarrow> exn option list \<Rightarrow> database \<Rightarrow> (int \<rightharpoonup> connection_info)
       \<Rightarrow> unit result \<times> database \<times> (int \<rightharpoonup> connection_info)" where
  "open_connection cr i path name faults db infos =
     (case connect_database path faults db of
        (Inl e, db') \<Rightarrow> (Inl e, db', infos)
      | (Inr _, db') \<Rightarrow>
          (case register_connection cr i path name infos of
             Inl e \<Rightarrow> (Inl e, db', infos)
           | Inr infos' \<Rightarrow> (Inr (), db', infos')))"

section \<open>Inserting a row\<close>

text \<open>\<open>length\<close> of SQLite counts the characters before the first \<open>NUL\<close>; a number is short.\<close>

fun constraint_ok :: "constraint \<Rightarrow> sql_value \<Rightarrow> bool" where
  "constraint_ok Not_null v = (v \<noteq> Null)"
| "constraint_ok (At_least n) v =
     (case v of IntV i \<Rightarrow> n \<le> i | RealV r \<Rightarrow> of_int n \<le> r | _ \<Rightarrow> True)"
| "constraint_ok (One_of ns) v =
     (case v of IntV i \<Rightarrow> i \<in> set ns | RealV r \<Rightarrow> r \<in> of_int ` set ns | Null \<Rightarrow> True | TextV t \<Rightarrow> False)"
| "constraint_ok (Length_at_most n) v =
     (case v of TextV t \<Rightarrow> length (takeWhile (\<lambda>c. c \<noteq> 0) t) \<le> n | _ \<Rightarrow> True)"
| "constraint_ok c v = True"

definition fill_row :: "int \<Rightarrow> str \<Rightarrow> column list \<Rightarrow> sql_row \<Rightarrow> sql_row" where
  "fill_row next_id now cols vs =
     map (\<lambda>c. (column_name c,
        case map_of vs (column_name c) of
          Some v \<Rightarrow> v
        | None \<Rightarrow>
            if Autoincrement \<in> set (constraints c) then IntV next_id
            else if Default_now \<in> set (constraints c) then TextV now
            else Null)) cols"

definition is_unique :: "column \<Rightarrow> bool" where
  "is_unique c \<longleftrightarrow> Unique \<in> set (constraints c) \<or> Primary_key \<in> set (constraints c)"

definition clashes :: "column list \<Rightarrow> sql_row \<Rightarrow> sql_row \<Rightarrow> bool" where
  "clashes cols row old \<longleftrightarrow>
     (\<exists>c \<in> set cols. is_unique c \<and> map_of row (column_name c) = map_of old (column_name c)
        \<and> map_of row (column_name c) \<noteq> Some Null)"

text \<open>\<open>next_id\<close> is the number that \<open>AUTOINCREMENT\<close> gives, one that no row has.\<close>

definition insert_row :: "int \<Rightarrow> str \<Rightarrow> string \<Rightarrow> sql_row \<Rightarrow> database \<Rightarrow> unit result \<times> database" where
  "insert_row next_id now t vs db =
     (case map_of (sd_tables db) t of
        None \<Rightarrow> (raise OperationalError ''no such table'', db)
      | Some cols \<Rightarrow>
          (let row = fill_row next_id now cols vs in
           if \<not> fst ` set vs \<subseteq> column_name ` set cols
           then (raise OperationalError ''table has no column of this name'', db)
           else if \<exists>c \<in> set cols. \<exists>k \<in> set (constraints c). \<not> constraint_ok k (the (map_of row (column_name c)))
           then (raise IntegrityError ''constraint failed'', db)
           else if \<exists>old \<in> set (sd_rows db t). clashes cols row old
           then (raise IntegrityError ''UNIQUE constraint failed'', db)
           else (Inr (), db\<lparr>sd_rows := (sd_rows db)(t := sd_rows db t @ [row])\<rparr>)))"

definition opt_text :: "str option \<Rightarrow> sql_value" where
  "opt_text x = (case x of None \<Rightarrow> Null | Some t \<Rightarrow> TextV t)"

text \<open>The values that \<open>insert_event\<close> binds.\<close>

definition event_values :: "event_row \<Rightarrow> sql_row" where
  "event_values r =
     [(''event_id'', TextV (er_event_id r)), (''schema_version'', IntV (er_schema_version r)),
      (''event_type'', TextV (er_event_type r)), (''correlation_id'', TextV (er_correlation_id r)),
      (''causation_event_id'', opt_text (er_causation_event_id r)),
      (''transport'', TextV (er_transport r)), (''source_room_id'', TextV (er_source_room_id r)),
      (''source_room_kind'', TextV (er_source_room_kind r)),
      (''reply_target_transport'', opt_text (er_reply_target_transport r)),
      (''reply_target_room_id'', opt_text (er_reply_target_room_id r)),
      (''reply_target_room_kind'', opt_text (er_reply_target_room_kind r)),
      (''sender_ref_hash'', opt_text (er_sender_ref_hash r)),
      (''sender_identity_kind'', opt_text (er_sender_identity_kind r)),
      (''sender_stable'', IntV (er_sender_stable r)),
      (''message_ref_hash'', opt_text (er_message_ref_hash r)),
      (''command_name'', opt_text (er_command_name r)),
      (''command_result'', opt_text (er_command_result r)),
      (''duration_ms'', case er_duration_ms r of None \<Rightarrow> Null | Some d \<Rightarrow> IntV d),
      (''metadata_json'', TextV (er_metadata_json r)),
      (''occurred_at'', TextV (er_occurred_at r)), (''created_at'', TextV (er_created_at r))]"

end
