(* ===== verification/Schema_Facts.thy ===== *)
theory Schema_Facts
  imports Schema
begin

text \<open>
  Opening a database keeps what is there, and the table of normalized events behaves as the list
  of rows that the model of the repository keeps: of its constraints only the uniqueness of the
  event identifier can ever fail.
\<close>

section \<open>Opening\<close>

text \<open>Nothing that was there is touched, and what is new is an empty table of the schema.\<close>

definition laid_over :: "open_step list \<Rightarrow> database \<Rightarrow> database \<Rightarrow> bool" where
  "laid_over ss db db' \<longleftrightarrow>
     (\<forall>t cols. map_of (sd_tables db) t = Some cols \<longrightarrow>
        map_of (sd_tables db') t = Some cols \<and> sd_rows db' t = sd_rows db t)
     \<and> (\<forall>t cols. map_of (sd_tables db) t = None \<longrightarrow> map_of (sd_tables db') t = Some cols \<longrightarrow>
          (\<exists>b. Statement (Create_table b t cols) \<in> set ss) \<and> sd_rows db' t = [])
     \<and> set (sd_indexes db) \<subseteq> set (sd_indexes db')"

fun there :: "open_step \<Rightarrow> database \<Rightarrow> bool" where
  "there (Statement (Create_table b t cols)) db = (t \<in> fst ` set (sd_tables db))"
| "there (Statement (Create_index b i t names)) db = (i \<in> set (sd_indexes db))"
| "there s db = True"

fun repeatable :: "open_step \<Rightarrow> bool" where
  "repeatable (Statement (Create_table if_not_exists t cols)) = if_not_exists"
| "repeatable (Statement (Create_index if_not_exists i t names)) = if_not_exists"
| "repeatable s = True"

lemma laid_over_refl: "laid_over ss db db"
  by (auto simp: laid_over_def)

lemma laid_over_trans: "laid_over [s] db db1 \<Longrightarrow> laid_over ss db1 db2 \<Longrightarrow> laid_over (s # ss) db db2"
  unfolding laid_over_def by (auto; metis not_None_eq option.inject)

lemma map_of_fst: "map_of xs k = Some v \<Longrightarrow> k \<in> fst ` set xs"
  by (metis map_of_eq_None_iff option.distinct(1))

lemma run_step_over:
  "run_step s db = (r, db') \<Longrightarrow> laid_over [s] db db' \<and> (r = Inr () \<longrightarrow> there s db')"
  by (cases "(s, db)" rule: there.cases)
    (auto simp: laid_over_def map_add_Some_iff dest: map_of_SomeD weak_map_of_SomeI map_of_fst
      split: if_splits option.splits)

lemma there_over: "there s db \<Longrightarrow> laid_over ss db db' \<Longrightarrow> there s db'"
  by (cases "(s, db)" rule: there.cases)
    (auto simp: laid_over_def domI dest!: weak_map_of_SomeI, force dest: map_of_SomeD)

lemma run_step_there: "there s db \<Longrightarrow> repeatable s \<Longrightarrow> run_step s db = (Inr (), db)"
  by (cases "(s, db)" rule: there.cases) auto

lemma run_steps_there: "\<forall>s \<in> set ss. there s db \<and> repeatable s \<Longrightarrow> run_steps ss [] db = (Inr (), db)"
  by (induction ss) (auto simp: run_step_there)

lemma run_steps_over:
  "run_steps ss faults db = (r, db') \<Longrightarrow>
     laid_over ss db db' \<and> (r = Inr () \<longrightarrow> (\<forall>s \<in> set ss. there s db'))"
proof (induction ss arbitrary: faults db)
  case (Cons s ss)
  show ?case
  proof (cases "\<exists>e fs. faults = Some e # fs")
    case True
    with Cons(2) show ?thesis by (auto intro: laid_over_refl)
  next
    case False
    obtain q db1 where s: "run_step s db = (q, db1)" by fastforce
    note over = run_step_over [OF s]
    from False have "run_steps (s # ss) faults db =
        (case q of Inl e \<Rightarrow> (Inl e, db1) | Inr _ \<Rightarrow> run_steps ss (drop 1 faults) db1)"
      by (auto simp: s split: list.splits option.splits sum.splits)
    note step = this
    show ?thesis
    proof (cases q)
      case (Inl e)
      with step Cons(2) over laid_over_trans [of s db db1 ss db1] show ?thesis
        by (auto intro: laid_over_refl)
    next
      case (Inr u)
      with step Cons(2) have "run_steps ss (drop 1 faults) db1 = (r, db')" by simp
      from Cons(1) [OF this] over Inr laid_over_trans [of s db db1 ss db'] there_over [of s db1 ss db']
      show ?thesis by auto
    qed
  qed
qed (simp add: laid_over_refl)

lemma open_steps_repeatable: "s \<in> set open_steps \<Longrightarrow> repeatable s"
  by (auto simp: open_steps_def schema_def)

text \<open>
  C14. Opening a database file, whatever call fails, leaves every table that was there with its
  columns and its rows, and adds nothing but empty tables of the schema. When it succeeds every
  table and index of the schema is there, and opening the file again changes nothing.
\<close>

theorem opening_keeps_data:
  assumes "path \<noteq> lit '':memory:''" and "connect_database path faults db = (r, db')"
  shows "laid_over open_steps db db'
    \<and> (r = Inr () \<longrightarrow>
         (\<forall>d \<in> set schema. there (Statement d) db') \<and> connect_database path [] db' = (Inr (), db'))"
proof -
  from assms have run: "run_steps open_steps faults db = (r, db')" by (simp add: connect_database_def)
  from run_steps_over [OF this] assms(1) show ?thesis
    by (auto simp: connect_database_def run_steps_there open_steps_repeatable) (auto simp: open_steps_def)
qed

theorem opening_keeps_data_witness:
  "let db = snd (connect_database (lit ''audit.db'') [None, None, None, None, None, None, None,
                    Some (Exn OperationalError (lit ''database is locked''))] empty_database);
       db' = snd (connect_database (lit ''audit.db'') [] db)
   in map fst (sd_tables db) = [''inbound_messages''] \<and> length (sd_tables db') = 12
     \<and> connect_database (lit ''audit.db'') [] db' = (Inr (), db')"
proof -
  let ?db = "snd (connect_database (lit ''audit.db'') [None, None, None, None, None, None, None,
                    Some (Exn OperationalError (lit ''database is locked''))] empty_database)"
  let ?r = "connect_database (lit ''audit.db'') [] ?db"
  note defs = connect_database_def open_steps_def schema_def empty_database_def event_columns_def
  have "fst ?r = Inr ()" "length (sd_tables (snd ?r)) = 12" "map fst (sd_tables ?db) = [''inbound_messages'']"
    by (simp_all add: defs)
  moreover from this(1) have "?r = (Inr (), snd ?r)" by (simp add: prod_eq_iff)
  from opening_keeps_data [OF _ this] have "connect_database (lit ''audit.db'') [] (snd ?r) = (Inr (), snd ?r)"
    by simp
  ultimately show ?thesis by (simp add: Let_def)
qed

section \<open>The table of normalized events\<close>

abbreviation events_table :: string where
  "events_table \<equiv> ''normalized_audit_events''"

text \<open>The rows of the table carry the values of the events, in their order.\<close>

definition carries :: "sql_row \<Rightarrow> event_row \<Rightarrow> bool" where
  "carries row r \<longleftrightarrow> (\<exists>i. row = (''id'', IntV i) # event_values r)"

definition represents :: "database \<Rightarrow> audit_tables \<Rightarrow> bool" where
  "represents db t \<longleftrightarrow>
     map_of (sd_tables db) events_table = Some event_columns
     \<and> list_all2 carries (sd_rows db events_table) (at_events t)"

definition is_fresh :: "int \<Rightarrow> database \<Rightarrow> bool" where
  "is_fresh i db \<longleftrightarrow> (\<forall>row \<in> set (sd_rows db events_table). map_of row ''id'' \<noteq> Some (IntV i))"

lemma fill_event_row:
  "fill_row i now event_columns (event_values r) = (''id'', IntV i) # event_values r"
  by (simp add: fill_row_def event_columns_def row_id_def event_values_def)

lemma event_row_columns: "fst ` set (event_values r) \<subseteq> column_name ` set event_columns"
  by (simp add: event_columns_def event_values_def)

lemma event_constraints:
  assumes "1 \<le> er_schema_version r" and "er_sender_stable r \<in> {0, 1}"
    and "\<forall>d \<in> set (opt_list (er_duration_ms r)). 0 \<le> d" and "length (er_metadata_json r) \<le> 4096"
  shows "\<forall>c \<in> set event_columns. \<forall>k \<in> set (constraints c).
     constraint_ok k (the (map_of ((''id'', IntV i) # event_values r) (column_name c)))"
proof -
  have "length (takeWhile (\<lambda>c. c \<noteq> 0) (er_metadata_json r)) \<le> 4096"
    using assms(4) length_takeWhile_le [of "\<lambda>c. c \<noteq> 0" "er_metadata_json r"] by linarith
  then show ?thesis
    using assms(1-3)
    by (auto simp: event_columns_def event_values_def row_id_def opt_list_def split: option.splits)
qed

lemma event_clashes:
  assumes "carries old q"
  shows "clashes event_columns ((''id'', IntV i) # event_values r) old
    \<longleftrightarrow> map_of old ''id'' = Some (IntV i) \<or> er_event_id q = er_event_id r"
  using assms by (auto simp: clashes_def carries_def is_unique_def event_columns_def row_id_def event_values_def)

section \<open>The names of connections\<close>

text \<open>A connection that was opened is known by its name, and the others by theirs.\<close>

lemma open_connection_named:
  assumes "open_connection cr i path name faults db infos = (Inr u, db', infos')"
  shows "connection_info_of cr j infos' =
    (if j = i then bind_result (connection_identity cr i path) (\<lambda>identity.
       Inr \<lparr>ci_name = name, ci_path = path, ci_identity = identity\<rparr>)
     else connection_info_of cr j infos)"
    and "connect_database path faults db = (Inr (), db')"
proof -
  from assms have reg: "register_connection cr i path name infos = Inr infos'"
    and "connect_database path faults db = (Inr (), db')"
    by (auto simp: open_connection_def split: prod.splits sum.splits)
  then obtain identity where i: "connection_identity cr i path = Inr identity"
      "infos' = infos(i \<mapsto> \<lparr>ci_name = name, ci_path = path, ci_identity = identity\<rparr>)"
    by (auto simp: register_connection_def bind_result_Inr_iff)
  have "encodable []" "connection_identity cr i [] = Inr (take 12 (cr_sha256 cr (utf8 (dec i @ lit '':''))))"
    if "encodable (dec i @ lit '':'')"
    using that by (simp_all add: connection_identity_def sha256_text_def encode_def bind_result_def)
  moreover have "encodable (dec i @ lit '':'')"
    using i(1) by (auto simp: connection_identity_def sha256_text_def encode_def bind_result_def split: if_splits)
  ultimately show "connection_info_of cr j infos' =
    (if j = i then bind_result (connection_identity cr i path) (\<lambda>identity.
       Inr \<lparr>ci_name = name, ci_path = path, ci_identity = identity\<rparr>)
     else connection_info_of cr j infos)"
    using i by (auto simp: connection_info_of_def bind_result_def)
  show "connect_database path faults db = (Inr (), db')" by fact
qed

end
