(* ===== verification/Rest_Client.thy ===== *)
theory Rest_Client
  imports System_Commands
begin

text \<open>
  \<open>adapters/homeassistant.py\<close>: the client of the REST interface. The HTTP library is not under the
  repository: \<open>http\<close> answers a request with a reply or raises; that \<open>raise_for_status\<close> raises for
  every status outside 200 to 299 is its documented behaviour. Each answer becomes what the
  commands take as the parameters \<open>ha_client\<close> and \<open>ha_answers\<close>.
\<close>

section \<open>Requests and replies\<close>

datatype http_method = Get | Post

record http_request =
  hq_method :: http_method
  hq_url :: str
  hq_headers :: "(str \<times> str) list"
  hq_json :: "jobject option"
  hq_verify :: bool
  hq_timeout :: seconds

record http_reply =
  hp_status :: nat
  hp_content :: bytes
  hp_json :: "json result"

type_synonym http = "http_request \<Rightarrow> http_reply result"

record rest_client =
  rs_base_url :: str
  rs_token :: str
  rs_verify_tls :: bool
  rs_timeout_seconds :: seconds
  rs_aliases :: "str \<rightharpoonup> str"

definition new_rest_client :: "str \<Rightarrow> str \<Rightarrow> bool \<Rightarrow> seconds \<Rightarrow> (str \<rightharpoonup> str) \<Rightarrow> rest_client" where
  "new_rest_client base_url token verify_tls timeout_seconds entity_aliases =
     \<lparr>rs_base_url = rstrip_slashes base_url, rs_token = token, rs_verify_tls = verify_tls,
      rs_timeout_seconds = timeout_seconds, rs_aliases = entity_aliases\<rparr>"

definition rest_headers :: "rest_client \<Rightarrow> (str \<times> str) list" where
  "rest_headers rs =
     [(lit ''Authorization'', lit ''Bearer '' @ rs_token rs), (lit ''Content-Type'', lit ''application/json'')]"

definition rest_request :: "http_method \<Rightarrow> str \<Rightarrow> jobject option \<Rightarrow> rest_client \<Rightarrow> http_request" where
  "rest_request m path body rs =
     \<lparr>hq_method = m, hq_url = rs_base_url rs @ path, hq_headers = rest_headers rs, hq_json = body,
      hq_verify = rs_verify_tls rs, hq_timeout = rs_timeout_seconds rs\<rparr>"

definition raise_for_status :: "http_reply \<Rightarrow> unit result" where
  "raise_for_status reply =
     (if 200 \<le> hp_status reply \<and> hp_status reply \<le> 299 then Inr ()
      else raise (OtherError (lit ''HTTPStatusError'')) ''error response'')"

definition max_json_bytes :: nat where
  "max_json_bytes = 1000000"

definition validate_response_size :: "http_reply \<Rightarrow> unit result" where
  "validate_response_size reply =
     (if length (hp_content reply) > max_json_bytes
      then raise ValueError ''Home Assistant response too large'' else Inr ())"

section \<open>Operations\<close>

definition rest_get :: "http \<Rightarrow> rest_client \<Rightarrow> str \<Rightarrow> json result" where
  "rest_get http rs path =
     bind_result (http (rest_request Get path None rs)) (\<lambda>reply.
     bind_result (raise_for_status reply) (\<lambda>_.
     bind_result (validate_response_size reply) (\<lambda>_. hp_json reply)))"

text \<open>\<open>check_available\<close>: any exception becomes an answer, with the name of its class.\<close>

definition rest_check_available :: "http \<Rightarrow> rest_client \<Rightarrow> (bool \<times> str) result" where
  "rest_check_available http rs =
     (case bind_result (http (rest_request Get (lit ''/api/'') None rs)) raise_for_status of
        Inr _ \<Rightarrow> Inr (True, lit ''OK'')
      | Inl e \<Rightarrow> if is_exception e then Inr (False, class_name (exn_class e)) else Inl e)"

definition rest_get_config :: "http \<Rightarrow> rest_client \<Rightarrow> jobject result" where
  "rest_get_config http rs = bind_result (rest_get http rs (lit ''/api/config'')) py_dict"

definition rest_get_states :: "http \<Rightarrow> rest_client \<Rightarrow> jobject list result" where
  "rest_get_states http rs =
     bind_result (rest_get http rs (lit ''/api/states'')) (\<lambda>response.
       case response of
         JArr xs \<Rightarrow> Inr (map obj_items (filter is_mapping xs))
       | _ \<Rightarrow> raise ValueError ''Home Assistant states response was not a list'')"

definition resolve_entity :: "rest_client \<Rightarrow> str \<Rightarrow> str" where
  "resolve_entity rs entity_or_alias =
     (case rs_aliases rs entity_or_alias of Some i \<Rightarrow> i | None \<Rightarrow> entity_or_alias)"

definition rest_get_state :: "http \<Rightarrow> rest_client \<Rightarrow> str \<Rightarrow> jobject result" where
  "rest_get_state http rs entity_or_alias =
     bind_result (rest_get http rs (lit ''/api/states/'' @ resolve_entity rs entity_or_alias)) py_dict"

definition rest_call_service :: "http \<Rightarrow> rest_client \<Rightarrow> str \<Rightarrow> str \<Rightarrow> jobject \<Rightarrow> json list result" where
  "rest_call_service http rs domain service payload =
     bind_result (http (rest_request Post
        (lit ''/api/services/'' @ domain @ lit ''/'' @ service) (Some payload) rs)) (\<lambda>reply.
     bind_result (raise_for_status reply) (\<lambda>_.
     bind_result (validate_response_size reply) (\<lambda>_.
     bind_result (hp_json reply) py_items)))"

section \<open>As the parameters of the commands\<close>

definition rest_ha_client :: "http \<Rightarrow> rest_client \<Rightarrow> ha_client" where
  "rest_ha_client http rs =
     \<lparr>cl_available = rest_check_available http rs, cl_config = rest_get_config http rs,
      cl_state = rest_get_state http rs\<rparr>"

text \<open>\<open>timed_out\<close>: whether reading the entities one by one exceeds the total time.\<close>

definition rest_ha_answers :: "http \<Rightarrow> rest_client \<Rightarrow> bool \<Rightarrow> ha_answers" where
  "rest_ha_answers http rs timed_out =
     \<lparr>ha_bulk = Some (bind_result (rest_get_states http rs) (\<lambda>ds. Inr (JArr (map JObj ds)))),
      ha_entity = rest_get_state http rs, ha_total_timeout = timed_out\<rparr>"

section \<open>Facts\<close>

text \<open>Whatever the network does, short of a cancellation, asking for the availability answers.\<close>

lemma check_available_answers:
  "\<forall>q. \<forall>e. http q = Inl e \<longrightarrow> is_exception e \<Longrightarrow> \<exists>b m. rest_check_available http rs = Inr (b, m)"
  by (auto simp: rest_check_available_def bind_result_def raise_for_status_def split: sum.splits)

lemma rest_get_accepted:
  "rest_get http rs path = Inr j \<Longrightarrow> \<exists>reply. http (rest_request Get path None rs) = Inr reply
     \<and> 200 \<le> hp_status reply \<and> hp_status reply \<le> 299 \<and> length (hp_content reply) \<le> max_json_bytes
     \<and> hp_json reply = Inr j"
  by (auto simp: rest_get_def bind_result_Inr_iff raise_for_status_def validate_response_size_def
      split: if_splits)

lemma py_dict_exception: "py_dict v = Inl e \<Longrightarrow> is_exception e"
proof -
  have "dict_pairs xs = Inl e \<Longrightarrow> is_exception e" for xs
  proof (induction xs)
    case (Cons x xs)
    then show ?case
      by (cases x) (auto simp: py_items_def bind_result_def split: sum.splits list.splits json.splits)
  qed simp
  then show "py_dict v = Inl e \<Longrightarrow> is_exception e"
    by (auto simp: py_dict_def py_items_def bind_result_def split: sum.splits json.splits)
qed

text \<open>A network that answers or fails, but does not cancel.\<close>

definition uncancelled :: "http \<Rightarrow> bool" where
  "uncancelled http \<longleftrightarrow>
     (\<forall>q. case http q of
        Inl e \<Rightarrow> is_exception e
      | Inr reply \<Rightarrow> (case hp_json reply of Inl e \<Rightarrow> is_exception e | Inr _ \<Rightarrow> True))"

lemma rest_get_exception:
  assumes "uncancelled http" and "rest_get http rs path = Inl e"
  shows "is_exception e"
proof (cases "http (rest_request Get path None rs)")
  case (Inl x)
  with assms show ?thesis
    by (auto simp: rest_get_def uncancelled_def split: sum.splits)
next
  case (Inr reply)
  with assms(1) have "hp_json reply = Inl x \<Longrightarrow> is_exception x" for x
    by (auto simp: uncancelled_def split: sum.splits dest!: spec [of _ "rest_request Get path None rs"])
  with assms(2) Inr show ?thesis
    by (auto simp: rest_get_def raise_for_status_def validate_response_size_def split: if_splits)
qed

lemma rest_dict_exception:
  "uncancelled http \<Longrightarrow> bind_result (rest_get http rs path) py_dict = Inl e \<Longrightarrow> is_exception e"
  by (cases "rest_get http rs path") (auto dest: rest_get_exception py_dict_exception)

lemma safe_state_value_total:
  "uncancelled http \<Longrightarrow> \<exists>t. safe_state_value (rest_ha_client http rs) i = Inr t"
  by (auto simp: safe_state_value_def rest_ha_client_def rest_get_state_def split: sum.splits
      dest: rest_dict_exception)

lemma status_entity_lines_total:
  "uncancelled http \<Longrightarrow> \<exists>ls. status_entity_lines (rest_ha_client http rs) es = Inr ls"
proof (induction es)
  case (Cons e es)
  with safe_state_value_total [of http rs "sc_entity_id e"] show ?case by auto
qed simp

lemma render_ha_status_total:
  "uncancelled http \<Longrightarrow> \<exists>t. render_ha_status (Some (rest_ha_client http rs)) st = Inr t"
  by (auto simp: render_ha_status_def rest_ha_client_def rest_get_config_def split: sum.splits
      dest: rest_dict_exception)

lemma get_states_total:
  assumes "uncancelled http"
  shows "\<exists>states. get_states (rest_ha_answers http rs timed_out) ids = Inr states"
proof (cases "rest_get_states http rs")
  case (Inl e)
  with assms have "is_exception e"
    by (cases "rest_get http rs (lit ''/api/states'')")
      (auto simp: rest_get_states_def dest: rest_get_exception split: json.splits)
  with Inl show ?thesis by (simp add: get_states_def rest_ha_answers_def get_states_bulk_def Let_def)
next
  case (Inr ds)
  then show ?thesis by (simp add: get_states_def rest_ha_answers_def get_states_bulk_def Let_def)
qed

text \<open>
  C15. Over the REST client the status commands always answer: whatever Home Assistant replies, with
  whatever status, size or content, and whatever the network raises short of a cancellation,
  \<open>estado\<close> and \<open>exterior\<close> return a text, and the states of configured entities are read with one
  entry for each entity asked for.
\<close>

theorem status_commands_answer:
  assumes "uncancelled http"
  shows "(\<exists>t. estado config (Some (rest_ha_client http rs)) cx args = Inr t)
    \<and> (\<exists>t. exterior config (Some (rest_ha_client http rs)) = Inr t)
    \<and> (\<exists>states. get_states (rest_ha_answers http rs timed_out) ids = Inr states
         \<and> map fst states = unique_ids ids)"
proof -
  have "\<exists>b m. rest_check_available http rs = Inr (b, m)"
    using assms by (intro check_available_answers) (auto simp: uncancelled_def split: sum.splits)
  then obtain b m where a: "cl_available (rest_ha_client http rs) = Inr (b, m)"
    by (auto simp: rest_ha_client_def)
  have "\<exists>t. estado config (Some (rest_ha_client http rs)) cx args = Inr t"
    using render_ha_status_total [OF assms, of rs "(b, m)"]
      status_entity_lines_total [OF assms, of rs "map snd (cf_status_entities (the config))"]
    by (auto simp: estado_def a Let_def split: option.splits)
  moreover have "\<exists>t. exterior config (Some (rest_ha_client http rs)) = Inr t"
  proof (cases config)
    case (Some c)
    obtain t1 t2 where
      "safe_state_value (rest_ha_client http rs) (wc_temperature_entity (cf_weather_status c)) = Inr t1"
      "safe_state_value (rest_ha_client http rs) (wc_humidity_entity (cf_weather_status c)) = Inr t2"
      using safe_state_value_total [OF assms] by metis
    with Some show ?thesis by (auto simp: exterior_def Let_def)
  qed (simp add: exterior_def)
  moreover obtain states where "get_states (rest_ha_answers http rs timed_out) ids = Inr states"
    using get_states_total [OF assms] by blast
  moreover from get_states_keys(1) [OF this] have "map fst states = unique_ids ids" .
  ultimately show ?thesis by blast
qed

theorem status_commands_answer_witness:
  "let rs = new_rest_client (lit ''http://ha:8123/'') (lit ''0123456789'') True 5 Map.empty;
       http = (\<lambda>q. if hq_url q = lit ''http://ha:8123/api/''
                   then Inr \<lparr>hp_status = 200, hp_content = [], hp_json = Inr JNull\<rparr>
                   else Inl (Exn TimeoutError []))
   in \<exists>t. exterior None (Some (rest_ha_client http rs)) = Inr t
        \<and> (\<exists>states. get_states (rest_ha_answers http rs True) [lit ''a'', lit ''a''] = Inr states
             \<and> map fst states = unique_ids [lit ''a'', lit ''a''])"
proof -
  let ?rs = "new_rest_client (lit ''http://ha:8123/'') (lit ''0123456789'') True 5 Map.empty"
  let ?http = "\<lambda>q. if hq_url q = lit ''http://ha:8123/api/''
                   then Inr \<lparr>hp_status = 200, hp_content = [], hp_json = Inr JNull\<rparr>
                   else Inl (Exn TimeoutError [])"
  have "uncancelled ?http" by (simp add: uncancelled_def)
  from status_commands_answer [OF this, of None ?rs _ _ True "[lit ''a'', lit ''a'']"]
  show ?thesis by (auto simp: Let_def)
qed

end
