(* ===== verification/Config_File.thy ===== *)
theory Config_File
  imports Config
begin

text \<open>
  \<open>load_config\<close> of \<open>config.py\<close>: the settings assembled from the file and the environment, which
  has precedence, and validated. The text of the file is decoded by \<open>yaml\<close>, whose answer is a
  parameter. A setting that must be a text and has another type in the file, which Python would
  carry along until its first use, ends the loading here; so does a time that is infinite.
\<close>

section \<open>Settings\<close>

definition wrong_type :: "'a result" where
  "wrong_type = raise (OtherError (lit ''wrong type'')) ''a setting has the wrong type''"

definition text_setting :: "json \<Rightarrow> str result" where
  "text_setting v = (case v of JStr s \<Rightarrow> Inr s | _ \<Rightarrow> wrong_type)"

definition optional_setting :: "json \<Rightarrow> str option result" where
  "optional_setting v = (case v of JNull \<Rightarrow> Inr None | JStr s \<Rightarrow> Inr (Some s) | _ \<Rightarrow> wrong_type)"

text \<open>\<open>float(text)\<close>, as an exact decimal.\<close>

definition decimal_value :: "str \<Rightarrow> seconds option" where
  "decimal_value u =
     (let mantissa = takeWhile (\<lambda>c. c \<notin> {101, 69}) u;
          exponent = drop (Suc (length mantissa)) u;
          whole = takeWhile (\<lambda>c. c \<noteq> 46) mantissa;
          fraction = drop (Suc (length whole)) mantissa;
          part = (\<lambda>ds. if ds = [] then Some 0 else digits_value False 0 ds)
      in
      if whole = [] \<and> fraction = [] then None
      else
        (case (part whole, part fraction,
               if mantissa = u then Some 0
               else if exponent \<noteq> [] \<and> is_space (hd exponent) then None else int_of_text exponent) of
           (Some w, Some f, Some e) \<Rightarrow>
             Some ((of_nat w + of_nat f / 10 ^ length (filter is_digit fraction))
                     * (if e \<ge> 0 then 10 ^ nat e else 1 / 10 ^ nat (- e)))
         | _ \<Rightarrow> None))"

definition py_float :: "str \<Rightarrow> seconds result" where
  "py_float t =
     (let s = strip t; negative = (s \<noteq> [] \<and> hd s = 45);
          u = (if s \<noteq> [] \<and> hd s \<in> {43, 45} then tl s else s)
      in
      if lower u \<in> {lit ''inf'', lit ''infinity'', lit ''nan''} then wrong_type
      else
        (case decimal_value u of
           Some x \<Rightarrow> Inr (if negative then - x else x)
         | None \<Rightarrow> raise ValueError ''could not convert string to float''))"

definition env_float :: "(str \<Rightarrow> str option) \<Rightarrow> string \<Rightarrow> json \<Rightarrow> seconds result" where
  "env_float getenv name dflt = py_float (py_str (getenv_or getenv name dflt))"

text \<open>\<open>v.get(key, {})\<close> and \<open>v.items()\<close> of something that should be a mapping.\<close>

definition attribute_of_dict :: "json \<Rightarrow> jobject result" where
  "attribute_of_dict v =
     (case v of
        JObj d \<Rightarrow> Inr d
      | _ \<Rightarrow> raise (OtherError (lit ''AttributeError'')) ''object has no attribute of a mapping'')"

section \<open>The sections\<close>

definition load_event_types :: "json \<Rightarrow> str list result" where
  "load_event_types v = bind_result (py_items v) (each text_setting)"

text \<open>
  The fields that the program reads nowhere are converted, since that may fail, and dropped.
\<close>

definition load_meshcore :: "(str \<Rightarrow> str option) \<Rightarrow> jobject \<Rightarrow> meshcore_config result" where
  "load_meshcore getenv d =
     (let get = (\<lambda>key dflt. jget_or d (lit key) dflt) in
      bind_result (env_int getenv ''MESHCORE_CHANNEL_INDEX'' (get ''channel_index'' (JInt 1))) (\<lambda>channel.
      bind_result (optional_setting (getenv_or getenv ''MESHCORE_SERIAL_PORT'' (get ''serial_port'' JNull))) (\<lambda>port.
      bind_result (env_int getenv ''MESHCORE_BAUDRATE'' (get ''baudrate'' (JInt 115200))) (\<lambda>_.
      bind_result (env_float getenv ''MESHCORE_RECONNECT_INITIAL_SECONDS''
                     (get ''reconnect_initial_seconds'' (JFloat (lit ''1.0'')))) (\<lambda>_.
      bind_result (env_float getenv ''MESHCORE_RECONNECT_MAX_SECONDS''
                     (get ''reconnect_max_seconds'' (JFloat (lit ''30.0'')))) (\<lambda>_.
      bind_result (optional_setting (getenv_or getenv ''MESHCORE_HA_ENTRY_ID'' (get ''ha_entry_id'' JNull))) (\<lambda>entry.
      bind_result (load_event_types (get ''event_types'' (JArr [JStr (lit ''meshcore_message'')]))) (\<lambda>types.
        Inr \<lparr>mk_transport = py_str (getenv_or getenv ''MESHCORE_TRANSPORT''
                               (get ''transport'' (JStr (lit ''placeholder'')))),
             mk_channel_index = channel, mk_serial_port = port, mk_ha_entry_id = entry,
             mk_event_types = types,
             mk_require_stable_sender = env_bool getenv ''MESHCORE_REQUIRE_STABLE_SENDER''
               (get ''require_stable_sender'' (JBool True)),
             mk_allow_channel_without_sender = env_bool getenv ''MESHCORE_ALLOW_CHANNEL_WITHOUT_SENDER''
               (get ''allow_channel_without_sender'' (JBool False)),
             mk_healthcheck_path = None\<rparr>))))))))"

definition load_homeassistant :: "(str \<Rightarrow> str option) \<Rightarrow> jobject \<Rightarrow> homeassistant_config result" where
  "load_homeassistant getenv d =
     (let get = (\<lambda>key dflt. jget_or d (lit key) dflt) in
      bind_result (case getenv_or getenv ''HA_BASE_URL'' (get ''base_url'' (JStr [])) of
                     JStr s \<Rightarrow> Inr (rstrip_slashes s)
                   | _ \<Rightarrow> raise (OtherError (lit ''AttributeError'')) ''object has no attribute rstrip'') (\<lambda>base_url.
      bind_result (text_setting (getenv_or getenv ''HA_TOKEN'' (get ''token'' (JStr [])))) (\<lambda>token.
      bind_result (env_float getenv ''HA_TIMEOUT_SECONDS'' (get ''timeout_seconds'' (JFloat (lit ''5.0'')))) (\<lambda>t.
      bind_result (optional_setting (getenv_or getenv ''HA_WEBSOCKET_URL'' (get ''websocket_url'' JNull))) (\<lambda>url.
        Inr \<lparr>hc_base_url = base_url, hc_token = token,
             hc_verify_tls = env_bool getenv ''HA_VERIFY_TLS'' (get ''verify_tls'' (JBool True)),
             hc_timeout_seconds = t, hc_websocket_url = url\<rparr>)))))"

section \<open>The file\<close>

text \<open>
  \<open>_read_yaml\<close>: \<open>None\<close> is a file that does not exist, otherwise what reading and decoding it
  answers.
\<close>

definition read_yaml :: "json result option \<Rightarrow> jobject result" where
  "read_yaml file =
     (case file of
        None \<Rightarrow> raise ValueError ''config file does not exist''
      | Some content \<Rightarrow>
          bind_result content (\<lambda>data.
            if \<not> truthy data then Inr []
            else (case data of
                    JObj d \<Rightarrow> Inr d
                  | _ \<Rightarrow> raise ValueError ''configuration root must be a mapping'')))"

definition load_config :: "(str \<Rightarrow> str option) \<Rightarrow> str option \<Rightarrow> json result option \<Rightarrow> app_config result" where
  "load_config getenv config_path file =
     bind_result (if config_path = None \<or> config_path = Some [] then Inr [] else read_yaml file) (\<lambda>d.
       let get = (\<lambda>key dflt. jget_or d (lit key) dflt) in
       bind_result (py_dict (get ''meshcore'' (JObj []))) (\<lambda>meshcore_data.
       bind_result (py_dict (get ''homeassistant'' (JObj []))) (\<lambda>ha_data.
       bind_result (load_meshcore getenv meshcore_data) (\<lambda>mk.
       bind_result (load_homeassistant getenv ha_data) (\<lambda>hc.
       bind_result (text_setting (getenv_or getenv ''COMMAND_PREFIX'' (get ''command_prefix'' (JStr (lit ''!''))))) (\<lambda>pfx.
       bind_result (text_setting (getenv_or getenv ''DATABASE_PATH''
                      (get ''database_path'' (JStr (lit ''data/audit.db''))))) (\<lambda>path.
       bind_result (env_int getenv ''DEDUPLICATION_WINDOW_SECONDS''
                      (get ''deduplication_window_seconds'' (JInt 300))) (\<lambda>window.
       bind_result (env_int getenv ''AUDIT_RETENTION_DAYS'' (get ''audit_retention_days'' (JInt 30))) (\<lambda>_.
       bind_result (bind_result (attribute_of_dict (get ''users'' (JObj []))) parse_users) (\<lambda>users.
       bind_result (py_dict (get ''entities'' (JObj []))) (\<lambda>_.
       bind_result (bind_result (attribute_of_dict (get ''status'' (JObj []))) (\<lambda>st.
                    bind_result (attribute_of_dict (jget_or st (lit ''entities'') (JObj [])))
                      parse_status_entities)) (\<lambda>status.
       bind_result (parse_weather_status (get ''weather_status'' (JObj []))) (\<lambda>weather.
       bind_result (parse_home_status (get ''home_status'' (JObj []))) (\<lambda>home.
       bind_result (parse_telegram getenv (get ''telegram'' (JObj []))) (\<lambda>telegram.
       bind_result (parse_health getenv (get ''health'' (JObj []))) (\<lambda>hlth.
       bind_result (py_dict (get ''servers'' (JObj []))) (\<lambda>_.
       bind_result (bind_result (attribute_of_dict (get ''security'' (JObj []))) (\<lambda>sec.
                    parse_rate_limit getenv (jget_or sec (lit ''rate_limit'') (JObj [])))) (\<lambda>limit.
         let c = \<lparr>cf_command_prefix = pfx, cf_database_path = path, cf_deduplication_window = window,
                  cf_meshcore = mk, cf_homeassistant = hc, cf_users = users,
                  cf_room_policies = legacy_room_policies mk, cf_status_entities = status,
                  cf_weather_status = weather, cf_home_status = home, cf_telegram = telegram,
                  cf_health = hlth, cf_rate_limit = limit\<rparr>
         in bind_result (validate_config c) (\<lambda>_. Inr c)))))))))))))))))))"

end
