(* ===== verification/Startup.thy ===== *)
theory Startup
  imports Config_File HA_App_Facts Secret_File_Facts Log_Redaction Bridge_Service
begin

text \<open>
  The beginning of \<open>amain\<close> in \<open>main.py\<close>, up to the point where the services run: the arguments
  choose where the configuration comes from and how the audit is keyed, logging is configured,
  and the Telegram token is loaded and registered with the redaction filters. \<open>Assembly\<close> goes on
  from there.
\<close>

section \<open>Loading\<close>

text \<open>
  What the process is started with: the environment, the decoded options file of the App, the
  decoded configuration file, and the answers of \<open>secrets\<close>. \<open>path_of\<close> splits the text of a path.
\<close>

record launch =
  la_app_mode :: bool
  la_getenv :: "str \<Rightarrow> str option"
  la_config_path :: str
  la_options :: "json result"
  la_config :: "json result option"
  la_fresh_key :: bytes
  la_key_suffix :: str

definition choose_config :: "launch \<Rightarrow> app_config result" where
  "choose_config la =
     (if la_app_mode la
      then bind_result (load_app_config (la_getenv la) (la_options la) None) (\<lambda>(c, options). Inr c)
      else load_config (la_getenv la) (Some (la_config_path la)) (la_config la))"

definition choose_audit_settings :: "crypto \<Rightarrow> (str \<Rightarrow> path) \<Rightarrow> launch \<Rightarrow> audit_settings act" where
  "choose_audit_settings cr path_of la =
     (if la_app_mode la
      then homeassistant_app_settings cr (la_fresh_key la) (la_key_suffix la) (path_of (lit ''/data/audit.key''))
      else settings_from_environment cr path_of (la_getenv la) False)"

text \<open>
  The secrets of \<open>_build_telegram_services\<close>: without Telegram there is no token, without an audit
  key there is no Telegram.
\<close>

definition telegram_secrets ::
    "(str \<Rightarrow> path) \<Rightarrow> app_config \<Rightarrow> audit_settings \<Rightarrow> str list list \<Rightarrow> (str option \<times> str list list) act" where
  "telegram_secrets path_of c s filters =
     (if \<not> tc_enabled (cf_telegram c) then give (None, filters)
      else if as_audit_key s = None
      then fail (Exn RuntimeError (lit ''Telegram foundation requires normalized audit key''))
      else
        and_then (load_or_import_token (tc_bot_token_import (cf_telegram c))
                    (path_of (tc_bot_token_file (cf_telegram c)))) (\<lambda>token.
          give (Some token, register_redaction_secret token filters)))"

record started =
  su_config :: app_config
  su_settings :: audit_settings
  su_token :: "str option"
  su_filters :: "str list list"

definition start_up :: "crypto \<Rightarrow> (str \<Rightarrow> path) \<Rightarrow> launch \<Rightarrow> started act" where
  "start_up cr path_of la =
     and_then (\<lambda>io. (choose_config la, io)) (\<lambda>c.
     and_then (choose_audit_settings cr path_of la) (\<lambda>s.
     and_then (telegram_secrets path_of c s (configure_logging (la_getenv la))) (\<lambda>secrets.
       give \<lparr>su_config = c, su_settings = s, su_token = fst secrets, su_filters = snd secrets\<rparr>)))"

section \<open>What a successful start guarantees\<close>

lemma load_config_valid: "load_config getenv path file = Inr c \<Longrightarrow> validate_config c = Inr ()"
  unfolding load_config_def Let_def by (auto elim!: bind_result_InrE)

lemma app_settings_keyed:
  "homeassistant_app_settings cr fresh sfx p io = (Inr s, io') \<Longrightarrow> as_enabled s \<and> as_audit_key s \<noteq> None"
  by (auto simp: homeassistant_app_settings_def and_then_Inr enabled_with_def give_def)

lemma enabled_settings_keyed:
  assumes "choose_audit_settings cr path_of la io = (Inr s, io')" "as_enabled s"
  shows "as_audit_key s \<noteq> None"
proof (cases "la_app_mode la")
  case True
  with assms app_settings_keyed show ?thesis by (fastforce simp: choose_audit_settings_def)
next
  case False
  with assms show ?thesis
    by (auto simp: choose_audit_settings_def settings_from_environment_def standalone_settings_def
        and_then_Inr enabled_with_def legacy_disabled_def give_def fail_def split: if_splits)
qed

lemma registered_set:
  "ks \<in> set (register_redaction_secret token fs) \<Longrightarrow> token \<noteq> [] \<Longrightarrow> \<exists>ks0 \<in> set fs. set ks = insert token (set ks0)"
  by (auto simp: register_redaction_secret_def)

lemma app_token_is_the_supervisors:
  assumes "choose_config la = Inr c" "la_app_mode la"
  shows "la_getenv la (lit ''SUPERVISOR_TOKEN'') = Some (hc_token (cf_homeassistant c))"
    "hc_token (cf_homeassistant c) \<noteq> []"
  using assms
  by (auto simp: choose_config_def load_app_config_def runtime_from_environment_def to_app_config_def
      elim!: bind_result_InrE split: option.splits if_splits)

lemma choose_config_valid:
  assumes "choose_config la = Inr c"
    and "la_app_mode la \<longrightarrow> 10 \<le> length (hc_token (cf_homeassistant c))"
  shows "validate_config c = Inr ()"
proof (cases "la_app_mode la")
  case True
  with assms(1) obtain options where "load_app_config (la_getenv la) (la_options la) None = Inr (c, options)"
    by (auto simp: choose_config_def elim!: bind_result_InrE)
  from accepted_app_config [OF this] assms(2) True show ?thesis by simp
next
  case False
  with assms(1) load_config_valid show ?thesis by (auto simp: choose_config_def)
qed

lemma loaded_token_ok:
  assumes "load_or_import_token v p io = (Inr t, io')"
  shows "matches_token t"
proof (cases "v = []")
  case True
  from assms obtain raw io1 where "(case decode_utf8_strict raw of
      None \<Rightarrow> fail (Exn TelegramTokenError (lit ''Telegram bot token file is not UTF-8''))
    | Some t \<Rightarrow> (\<lambda>io. (validate_bot_token (strip t), io))) io1 = (Inr t, io')"
    unfolding load_or_import_token_def read_token_file_def using True
    by (simp only: if_True if_False simp_thms and_then_Inr) blast
  then show ?thesis by (auto simp: fail_def split: option.splits dest: validate_bot_token_Inr(1))
next
  case False
  with assms show ?thesis
    by (auto simp: load_or_import_token_def and_then_Inr give_def dest: validate_bot_token_Inr(1))
qed

lemma telegram_secrets_Inr:
  assumes "telegram_secrets path_of c s fs io = (Inr (token, fs'), io')"
  shows "tc_enabled (cf_telegram c) \<longrightarrow> as_audit_key s \<noteq> None \<and> (\<exists>t. token = Some t \<and> matches_token t)"
    and "\<not> tc_enabled (cf_telegram c) \<longrightarrow> token = None"
    and "ks' \<in> set fs' \<Longrightarrow> \<exists>ks \<in> set fs. set ks' = {t. token = Some t} \<union> set ks"
    and "fs' = [] \<longleftrightarrow> fs = []"
proof -
  consider (off) "\<not> tc_enabled (cf_telegram c)" "token = None" "fs' = fs"
    | (on) t where "tc_enabled (cf_telegram c)" "as_audit_key s \<noteq> None" "token = Some t"
        "fs' = register_redaction_secret t fs" "matches_token t"
  proof (cases "tc_enabled (cf_telegram c)")
    case True
    with assms have key: "as_audit_key s \<noteq> None"
      by (cases "as_audit_key s") (auto simp: telegram_secrets_def fail_def)
    with True assms obtain t io1 where "load_or_import_token (tc_bot_token_import (cf_telegram c))
        (path_of (tc_bot_token_file (cf_telegram c))) io = (Inr t, io1)"
        and t: "token = Some t" "fs' = register_redaction_secret t fs"
      by (auto simp: telegram_secrets_def and_then_Inr give_def)
    note ok = loaded_token_ok [OF this(1)]
    show thesis using that(2) [OF True key t ok] .
  next
    case False
    with assms that(1) show thesis by (simp add: telegram_secrets_def give_def)
  qed
  note split = this
  from split show "tc_enabled (cf_telegram c) \<longrightarrow> as_audit_key s \<noteq> None \<and> (\<exists>t. token = Some t \<and> matches_token t)"
    by cases auto
  from split show "\<not> tc_enabled (cf_telegram c) \<longrightarrow> token = None" by cases auto
  from split show "fs' = [] \<longleftrightarrow> fs = []" by cases (auto simp: register_redaction_secret_def)
  show "\<exists>ks \<in> set fs. set ks' = {t. token = Some t} \<union> set ks" if "ks' \<in> set fs'"
    using split
  proof cases
    case (on t)
    from matches_token_chars(2) [OF on(5)] registered_set [of ks' t fs] that on(3,4) show ?thesis by auto
  qed (use that in auto)
qed

text \<open>
  C10. What a start that succeeds has, in either mode: a configuration that passes the validation
  (in the App, which does not run it, exactly the length of the Supervisor's token is open, so it
  passes when that token has ten characters); an audit key wherever the audit is on, in the App,
  where the audit is always on, and wherever Telegram is on; a bot token of the documented form
  exactly when Telegram is on; in the App, a configuration from which the parts can be built
  whatever the digests; and redaction filters that know the token of the bot and the variable
  \<open>SUPERVISOR_TOKEN\<close>, which in the App is the token for Home Assistant, and nothing else. The token
  that a configuration file gives for Home Assistant is thus not among the known secrets.
\<close>

theorem successful_start:
  assumes "start_up cr path_of la io = (Inr su, io')"
  shows "((la_app_mode la \<longrightarrow> 10 \<le> length (hc_token (cf_homeassistant (su_config su))))
          \<longrightarrow> validate_config (su_config su) = Inr ())
    \<and> (la_app_mode la \<longrightarrow> as_enabled (su_settings su))
    \<and> (as_enabled (su_settings su) \<or> tc_enabled (cf_telegram (su_config su)) \<longrightarrow> as_audit_key (su_settings su) \<noteq> None)
    \<and> (case su_token su of None \<Rightarrow> \<not> tc_enabled (cf_telegram (su_config su))
         | Some t \<Rightarrow> tc_enabled (cf_telegram (su_config su)) \<and> matches_token t)
    \<and> (la_app_mode la \<longrightarrow> (\<forall>crypto. \<exists>bg ts.
          build_parts (su_config su) \<lparr>fc_crypto = crypto, fc_settings = su_settings su\<rparr> = Inr (bg, ts)))
    \<and> su_filters su \<noteq> []
    \<and> (\<forall>ks \<in> set (su_filters su). set ks = {t. su_token su = Some t}
          \<union> {s. la_getenv la (lit ''SUPERVISOR_TOKEN'') = Some s \<and> s \<noteq> []})
    \<and> (la_app_mode la \<longrightarrow>
          la_getenv la (lit ''SUPERVISOR_TOKEN'') = Some (hc_token (cf_homeassistant (su_config su)))
          \<and> hc_token (cf_homeassistant (su_config su)) \<noteq> [])"
proof -
  from assms obtain c s token fs io1 io2 where parts: "choose_config la = Inr c"
      "choose_audit_settings cr path_of la io = (Inr s, io1)"
      "telegram_secrets path_of c s (configure_logging (la_getenv la)) io1 = (Inr (token, fs), io2)"
      "su = \<lparr>su_config = c, su_settings = s, su_token = token, su_filters = fs\<rparr>"
    by (auto simp: start_up_def and_then_Inr give_def)
  note tg = telegram_secrets_Inr [OF parts(3)]
  note valid = choose_config_valid [OF parts(1)]
  have app: "as_enabled s \<and> as_audit_key s \<noteq> None \<and> mk_transport (cf_meshcore c) = lit ''homeassistant''"
    if "la_app_mode la"
    using that parts(1,2) app_settings_keyed
    by (fastforce simp: choose_config_def choose_audit_settings_def load_app_config_def to_app_config_def
        elim!: bind_result_InrE)
  have "\<exists>bg ts. build_parts c \<lparr>fc_crypto = crypto, fc_settings = s\<rparr> = Inr (bg, ts)" if "la_app_mode la" for crypto
    using app [OF that]
    by (auto simp: build_parts_def build_service_def build_transport_def build_telegram_services_def)
  moreover have "set ks = {t. token = Some t} \<union> {s. la_getenv la (lit ''SUPERVISOR_TOKEN'') = Some s \<and> s \<noteq> []}"
    if "ks \<in> set fs" for ks
    using tg(3) [OF that] by (auto simp: configure_logging_def new_filter_def split: option.splits)
  moreover have "fs \<noteq> []" using tg(4) by (simp add: configure_logging_def)
  moreover have "case token of None \<Rightarrow> \<not> tc_enabled (cf_telegram c)
      | Some t \<Rightarrow> tc_enabled (cf_telegram c) \<and> matches_token t"
    using tg(1,2) by (auto split: option.split)
  ultimately show ?thesis
    using valid app tg(1) enabled_settings_keyed [OF parts(2)] app_token_is_the_supervisors [OF parts(1)]
    unfolding parts(4) started.select_convs by blast
qed

definition sample_launch :: launch where
  "sample_launch =
     \<lparr>la_app_mode = True, la_getenv = sample_environment, la_config_path = [],
      la_options = Inr (JObj sample_app_payload), la_config = None,
      la_fresh_key = replicate 32 7, la_key_suffix = lit ''00''\<rparr>"

definition sample_digests :: crypto where
  "sample_digests = \<lparr>cr_sha256 = (\<lambda>bs. bs), cr_hmac = (\<lambda>k bs. bs)\<rparr>"

lemma sample_start:
  "\<exists>su io'. start_up sample_digests (\<lambda>t. ([], t)) sample_launch (sample_io []) = (Inr su, io')
     \<and> hc_token (cf_homeassistant (su_config su)) = lit ''0123456789''
     \<and> \<not> tc_enabled (cf_telegram (su_config su))"
proof -
  obtain po where po: "app_options_from_mapping sample_app_payload = Inr po" "po_telegram po = default_app_telegram"
    using sample_options by blast
  obtain rt where rt: "runtime_from_environment sample_environment = Inr rt" "rt_token rt = lit ''0123456789''"
    by (simp add: runtime_from_environment_def sample_environment_def)
  let ?c = "to_app_config po rt"
  have c: "choose_config sample_launch = Inr ?c"
    by (simp add: choose_config_def sample_launch_def load_app_config_def app_options_from_file_def po(1) rt(1))
  obtain k io' where "load_or_create_app_audit_key sample_digests (replicate 32 7) (lit ''00'')
      ([], lit ''/data/audit.key'') (sample_io []) = (Inr k, io')"
    using key_on_calm_disk [of "sample_io []" "([], lit ''/data/audit.key'')" "lit ''00''" "replicate 32 7"
        sample_digests] by (auto simp: sample_io_def calm_def)
  then have "choose_audit_settings sample_digests (\<lambda>t. ([], t)) sample_launch (sample_io [])
      = (Inr (enabled_with k), io')"
    by (simp add: choose_audit_settings_def sample_launch_def homeassistant_app_settings_def and_then_def give_def)
  moreover have "\<not> tc_enabled (cf_telegram ?c)"
    by (simp add: to_app_config_def app_telegram_config_def po(2) default_app_telegram_def)
  ultimately show ?thesis
    by (simp add: start_up_def and_then_def c telegram_secrets_def give_def to_app_config_def rt(2))
qed

theorem successful_start_witness:
  "\<exists>su io'. start_up sample_digests (\<lambda>t. ([], t)) sample_launch (sample_io []) = (Inr su, io')
     \<and> validate_config (su_config su) = Inr () \<and> as_audit_key (su_settings su) \<noteq> None
     \<and> (\<forall>ks \<in> set (su_filters su). set ks = {lit ''0123456789''})"
proof -
  obtain su io' where su: "start_up sample_digests (\<lambda>t. ([], t)) sample_launch (sample_io []) = (Inr su, io')"
      "hc_token (cf_homeassistant (su_config su)) = lit ''0123456789''"
      "\<not> tc_enabled (cf_telegram (su_config su))"
    using sample_start by blast
  have "la_getenv sample_launch (lit ''SUPERVISOR_TOKEN'') = Some (lit ''0123456789'')" "la_app_mode sample_launch"
    by (simp_all add: sample_launch_def sample_environment_def)
  with su successful_start [OF su(1)] show ?thesis by (auto simp: lit_eq_iff split: option.splits)
qed

end
