(* ===== verification/Diagnostics.thy ===== *)
theory Diagnostics
  imports Mc_Transport Ws_Client
begin

text \<open>
  The command-line tools: the health check of the App (\<open>homeassistant_app_health.py\<close>), and
  \<open>diagnostics/meshcore.py\<close>, which prints what Home Assistant and the serial ports offer without
  exposing identifiers or texts. What a tool prints is the list of its lines. Times of the event
  loop, the texts of numbers under \<open>:g\<close> and what the serial library answers are parameters.
\<close>

section \<open>The health check of the App\<close>

definition system_exit :: "string \<Rightarrow> 'a result" where
  "system_exit m = raise (OtherError (lit ''SystemExit'')) m"

text \<open>\<open>file\<close>: \<open>None\<close> when it does not exist, otherwise the decoding of its text.\<close>

definition app_healthcheck :: "instant \<Rightarrow> json result option \<Rightarrow> unit result" where
  "app_healthcheck now file =
     (case file of
        None \<Rightarrow> system_exit ''healthcheck file does not exist''
      | Some content \<Rightarrow>
          bind_result content (\<lambda>payload.
            case payload of
              JObj d \<Rightarrow>
                (let st = jget_null d (lit ''status'') in
                 if is_mapping st \<or> (\<exists>xs. st = JArr xs) then raise TypeError ''unhashable type''
                 else if st \<notin> {JStr (lit ''ok''), JStr (lit ''degraded'')}
                 then system_exit ''healthcheck status is not ok or degraded''
                 else
                   (case jget_null d (lit ''updated_at'') of
                      JStr t \<Rightarrow>
                        (case from_isoformat (replace (lit ''Z'') (lit ''+00:00'') t) of
                           None \<Rightarrow> raise ValueError ''Invalid isoformat string''
                         | Some parsed \<Rightarrow>
                             if now - parsed > 300 * 1000000 then system_exit ''healthcheck is stale''
                             else Inr ())
                    | _ \<Rightarrow> system_exit ''healthcheck timestamp is missing''))
            | _ \<Rightarrow> system_exit ''healthcheck status is not ok or degraded''))"

section \<open>Redaction\<close>

definition redact_id :: "str \<Rightarrow> str" where
  "redact_id v =
     (if length v \<le> 12 then v else take 8 v @ lit ''...'' @ drop (length v - 4) v)"

definition redact_optional :: "str \<Rightarrow> str" where
  "redact_optional v = (if v \<noteq> [] then lit ''<redacted>'' else lit ''N/D'')"

definition env_token_or_arg :: "(str \<Rightarrow> str option) \<Rightarrow> str option \<Rightarrow> str result" where
  "env_token_or_arg getenv v =
     (let token = (if present v then the v
                   else case getenv (lit ''HA_TOKEN'') of Some t \<Rightarrow> t | None \<Rightarrow> [])
      in if token = [] then raise RuntimeError ''HA token is required. Pass --ha-token or set HA_TOKEN.''
         else Inr token)"

definition verify_tls_flag :: "str \<Rightarrow> bool" where
  "verify_tls_flag v \<longleftrightarrow> lower (strip v) \<notin> {lit ''0'', lit ''false'', lit ''no'', lit ''off''}"

section \<open>Inspecting\<close>

definition service_lines :: "jobject \<Rightarrow> str list" where
  "service_lines services =
     (case jget_or services (lit ''meshcore'') (JObj []) of
        JObj d \<Rightarrow>
          if d = [] then [lit ''Services: none found'']
          else lit ''Services:'' # map (\<lambda>n. lit ''- meshcore.'' @ n) (sort (remdups (map fst d)))
      | _ \<Rightarrow> [lit ''Services: none found''])"

definition entry_lines :: "str option \<Rightarrow> jobject list \<Rightarrow> str list" where
  "entry_lines entry_id entries =
     (let meshcore = filter (\<lambda>e. jget e (lit ''domain'') = Some (JStr (lit ''meshcore''))) entries;
          field = (\<lambda>e key dflt. py_str (jget_or e (lit key) (JStr (lit dflt))))
      in
      [lit ''Config entries:'']
      @ (if meshcore = [] then [lit ''- none found through WebSocket config_entries/get''] else [])
      @ map (\<lambda>e. lit ''- entry_id='' @ redact_id (field e ''entry_id'' '''')
                   @ lit '' title='' @ redact_optional (field e ''title'' ''meshcore'')
                   @ lit '' state='' @ field e ''state'' ''unknown'')
          (filter (\<lambda>e. \<not> (present entry_id \<and> field e ''entry_id'' '''' \<noteq> the entry_id)) meshcore))"

text \<open>The lines printed, and how the inspection ends.\<close>

definition ha_inspect :: "jobject result \<Rightarrow> jobject list result \<Rightarrow> str option \<Rightarrow> str list \<times> int result" where
  "ha_inspect services entries entry_id =
     (case services of
        Inl e \<Rightarrow> ([], Inl e)
      | Inr d \<Rightarrow>
          (let head = lit ''Home Assistant MeshCore integration:'' # service_lines d;
               tail = [lit ''Events to listen:'', lit ''- meshcore_message'',
                       lit ''- meshcore_delivery_update'', lit ''- meshcore_raw_event'']
           in
           case entries of
             Inr es \<Rightarrow> (head @ entry_lines entry_id es @ tail, Inr 0)
           | Inl e \<Rightarrow>
               if is_exception e
               then (head @ [lit ''Config entries: ERROR '' @ class_name (exn_class e)]
                      @ entry_lines entry_id [] @ tail, Inr 0)
               else (head, Inl e)))"

section \<open>Listening\<close>

definition listen_line :: "bool \<Rightarrow> jobject \<Rightarrow> str" where
  "listen_line show_message_content data =
     (let get = (\<lambda>key. py_str (jget_null data (lit key)));
          text = py_str (jget_or data (lit ''message'') (JStr []))
      in
      lit ''- type='' @ get ''message_type'' @ lit '' channel='' @ get ''channel_idx''
      @ lit '' sender='' @ redact_optional (py_str (jget_or data (lit ''sender_name'') (JStr [])))
      @ lit '' pubkey_prefix='' @ redact_optional (py_str (jget_or data (lit ''pubkey_prefix'') (JStr [])))
      @ lit '' hop_count='' @ get ''hop_count'' @ lit '' snr='' @ get ''snr''
      @ lit '' text='' @ (if show_message_content then text else lit ''<redacted>''))"

text \<open>The events with the times at which they come; what is not on the channel is passed over.\<close>

fun listen_lines ::
    "seconds \<Rightarrow> int \<Rightarrow> bool \<Rightarrow> (seconds \<times> ha_event) list \<Rightarrow> str list \<times> int result" where
  "listen_lines deadline channel_index show [] = ([], Inr 0)"
| "listen_lines deadline channel_index show ((now, e) # es) =
     (let rest = listen_lines deadline channel_index show es in
      if now \<ge> deadline then ([], Inr 0)
      else if jget (ve_data e) (lit ''message_type'') \<noteq> Some (JStr (lit ''channel'')) then rest
      else
        (case json_int (jget_or (ve_data e) (lit ''channel_idx'') (JInt (- 1))) of
           Inl x \<Rightarrow> ([], Inl x)
         | Inr i \<Rightarrow>
             if i \<noteq> channel_index then rest
             else (listen_line show (ve_data e) # fst rest, snd rest)))"

definition ha_listen ::
    "str \<Rightarrow> seconds \<Rightarrow> seconds \<Rightarrow> int \<Rightarrow> bool \<Rightarrow> (seconds \<times> ha_event) list \<Rightarrow> str list \<times> int result" where
  "ha_listen seconds_text start secs channel_index show events =
     (case listen_lines (start + secs) channel_index show events of
        (ls, r) \<Rightarrow>
          ((lit ''Listening for meshcore_message on channel '' @ dec channel_index @ lit '' for ''
              @ seconds_text @ lit ''s'') # ls, r))"

section \<open>The serial probe\<close>

record serial_port =
  sp_device :: str
  sp_description :: str
  sp_hwid :: str

definition python_support_lines :: "(string \<Rightarrow> bool) \<Rightarrow> str list" where
  "python_support_lines found =
     map (\<lambda>(name, module). lit ''- '' @ lit name @ lit '': '' @ (if found module then lit ''yes'' else lit ''no''))
       [(''pyserial'', ''serial''), (''bleak'', ''bleak''), (''meshcore'', ''meshcore''),
        (''serial_asyncio'', ''serial_asyncio'')]"

definition hex_digit :: "nat \<Rightarrow> nat" where
  "hex_digit n = (if n < 10 then 48 + n else 87 + n)"

definition hex_text :: "bytes \<Rightarrow> str" where
  "hex_text bs = concat (map (\<lambda>b. [hex_digit (b div 16), hex_digit (b mod 16)]) bs)"

definition serial_probe_lines ::
    "(string \<Rightarrow> bool) \<Rightarrow> serial_port list \<Rightarrow> int \<Rightarrow> str option \<Rightarrow> str \<Rightarrow> bytes result \<Rightarrow> str list \<times> int result" where
  "serial_probe_lines found ports channel_index port seconds_text probe =
     (let head =
        [lit ''MeshCore Companion diagnostic'',
         lit ''Configured admin channel index: '' @ dec channel_index, lit ''Python support:'']
        @ python_support_lines found
        @ [lit ''Serial ports:''] @ (if ports = [] then [lit ''- none detected''] else [])
        @ map (\<lambda>p. lit ''- '' @ sp_device p @ lit '': '' @ sp_description p @ lit '' ('' @ sp_hwid p @ lit '')'') ports
        @ [lit ''Companion protocol:'',
           lit ''- channel enumeration: not available until MeshCore protocol/library is confirmed'',
           lit ''- message receive/send: not available until MeshCore protocol/library is confirmed'']
      in
      if \<not> present port then (head, Inr 0)
      else
        (let listening = lit ''Listening for raw serial bytes on '' @ the port @ lit '' for '' @ seconds_text @ lit ''s'' in
         case probe of
           Inl e \<Rightarrow> (head @ [listening], Inl e)
         | Inr [] \<Rightarrow> (head @ [listening, lit ''No raw bytes received.''], Inr 0)
         | Inr (b # bs) \<Rightarrow>
             (head @ [listening,
                lit ''Read '' @ dec (int (length (b # bs))) @ lit '' raw bytes. Hex preview: ''
                  @ hex_text (take 64 (b # bs))], Inr 0)))"

text \<open>\<open>None\<close> stands for a serial library that cannot be imported.\<close>

definition list_serial_ports :: "serial_port list option \<Rightarrow> serial_port list" where
  "list_serial_ports comports = (case comports of None \<Rightarrow> [] | Some ports \<Rightarrow> ports)"

type_synonym serial_reader = "str \<Rightarrow> int \<Rightarrow> seconds \<Rightarrow> nat \<Rightarrow> bytes result"

definition read_serial_probe :: "serial_reader option \<Rightarrow> str \<Rightarrow> int \<Rightarrow> seconds \<Rightarrow> bytes result" where
  "read_serial_probe serial port baudrate secs =
     (case serial of
        None \<Rightarrow> raise RuntimeError ''pyserial is required for serial probing''
      | Some read \<Rightarrow> read port baudrate secs 512)"

section \<open>The commands\<close>

text \<open>
  The arguments as \<open>argparse\<close> leaves them, and what the tools meet outside: the answers of a client
  with an address, a token and a choice about certificates, the events with their times, the
  modules that are found, the serial library, and the text of a number of seconds.
\<close>

record diag_args =
  da_command :: "str option"
  da_port :: "str option"
  da_baudrate :: int
  da_listen_seconds :: seconds
  da_channel_index :: int
  da_ha_url :: str
  da_ha_token :: "str option"
  da_ha_verify_tls :: str
  da_entry_id :: "str option"
  da_seconds :: seconds
  da_show_message_content :: bool

record diag_world =
  dw_getenv :: "str \<Rightarrow> str option"
  dw_client :: "str \<Rightarrow> str \<Rightarrow> bool \<Rightarrow> jobject result \<times> jobject list result"
  dw_events :: "str \<Rightarrow> str \<Rightarrow> bool \<Rightarrow> (seconds \<times> ha_event) list"
  dw_start :: seconds
  dw_found :: "string \<Rightarrow> bool"
  dw_comports :: "serial_port list option"
  dw_serial :: "serial_reader option"
  dw_seconds_text :: "seconds \<Rightarrow> str"

definition legacy_serial_probe :: "diag_args \<Rightarrow> diag_world \<Rightarrow> str list \<times> int result" where
  "legacy_serial_probe da dw =
     serial_probe_lines (dw_found dw) (list_serial_ports (dw_comports dw)) (da_channel_index da)
       (da_port da) (dw_seconds_text dw (da_listen_seconds da))
       (read_serial_probe (dw_serial dw) (the (da_port da)) (da_baudrate da) (da_listen_seconds da))"

definition diagnose :: "diag_args \<Rightarrow> diag_world \<Rightarrow> str list \<times> int result" where
  "diagnose da dw =
     (let needs = (\<lambda>go.
        if da_ha_url da = []
        then ([], raise RuntimeError ''Home Assistant URL is required. Pass --ha-url or set HA_BASE_URL.'')
        else
          (case env_token_or_arg (dw_getenv dw) (da_ha_token da) of
             Inl e \<Rightarrow> ([], Inl e)
           | Inr token \<Rightarrow> go token (verify_tls_flag (da_ha_verify_tls da))))
      in
      if da_command da = Some (lit ''ha-inspect'')
      then needs (\<lambda>token verify.
             case dw_client dw (da_ha_url da) token verify of
               (services, entries) \<Rightarrow> ha_inspect services entries (da_entry_id da))
      else if da_command da = Some (lit ''ha-listen'')
      then needs (\<lambda>token verify.
             ha_listen (dw_seconds_text dw (da_seconds da)) (dw_start dw) (da_seconds da)
               (da_channel_index da) (da_show_message_content da)
               (dw_events dw (da_ha_url da) token verify))
      else legacy_serial_probe da dw)"

section \<open>What is not printed\<close>

text \<open>Without the switch, what is printed does not depend on the texts of the messages.\<close>

definition same_but_message :: "ha_event \<Rightarrow> ha_event \<Rightarrow> bool" where
  "same_but_message e e' \<longleftrightarrow>
     (\<forall>k. k \<noteq> lit ''message'' \<longrightarrow> jget (ve_data e) k = jget (ve_data e') k)"

lemma listen_line_hides:
  "same_but_message e e' \<Longrightarrow> listen_line False (ve_data e) = listen_line False (ve_data e')"
  by (simp add: same_but_message_def listen_line_def Let_def jget_or_def jget_null_def)

lemma listen_lines_hide:
  "list_all2 (\<lambda>x y. fst x = fst y \<and> same_but_message (snd x) (snd y)) es es' \<Longrightarrow>
     listen_lines deadline c False es = listen_lines deadline c False es'"
proof (induction rule: list_all2_induct)
  case (Cons x xs y ys)
  obtain now e e' where xy: "x = (now, e)" "y = (now, e')" "same_but_message e e'"
    using Cons(1) by (cases x; cases y) auto
  from xy(3) have same: "jget (ve_data e) (lit ''message_type'') = jget (ve_data e') (lit ''message_type'')"
      "jget (ve_data e) (lit ''channel_idx'') = jget (ve_data e') (lit ''channel_idx'')"
    by (simp_all add: same_but_message_def)
  show ?case
    unfolding xy(1,2) listen_lines.simps Let_def jget_or_def same Cons(3) listen_line_hides [OF xy(3)] ..
qed simp

text \<open>Without the switch, no listening prints what a message says.\<close>

theorem diagnose_hides_texts:
  assumes "da_command da = Some (lit ''ha-listen'')" "\<not> da_show_message_content da"
    and "\<And>url token verify. list_all2 (\<lambda>x y. fst x = fst y \<and> same_but_message (snd x) (snd y))
           (dw_events dw url token verify) (f url token verify)"
  shows "diagnose da (dw\<lparr>dw_events := f\<rparr>) = diagnose da dw"
proof -
  have "listen_lines d c False (f url token verify) = listen_lines d c False (dw_events dw url token verify)"
    for d c url token verify
    by (rule listen_lines_hide [OF assms(3), symmetric])
  with assms(1,2) show ?thesis
    by (simp add: diagnose_def Let_def ha_listen_def split: sum.splits)
qed

text \<open>A longer identifier shows twelve of its characters only.\<close>

lemma length_redact_id: "length (redact_id v) \<le> 15"
  by (simp add: redact_id_def)

lemma stale_health_fails:
  assumes "app_healthcheck now (Some (Inr (JObj d))) = Inr ()"
  shows "\<exists>t parsed. jget_null d (lit ''updated_at'') = JStr t
     \<and> from_isoformat (replace (lit ''Z'') (lit ''+00:00'') t) = Some parsed \<and> now - parsed \<le> 300000000"
  using assms by (auto simp: app_healthcheck_def system_exit_def Let_def not_less
      split: if_splits json.splits option.splits)

end
