(* ===== verification/Health_File.thy ===== *)
theory Health_File
  imports Secret_File_Facts Bridge_Health
begin

text \<open>
  How \<open>BridgeHealthState.write_healthcheck\<close> (\<open>bridge_health.py\<close>) puts the health file in its
  place: a temporary file in the same directory, written, synced and renamed, with every error of
  the file system swallowed and the temporary file removed. The names that \<open>tempfile.mkstemp\<close>
  draws are a parameter; a name that is taken makes it draw the next one. A write that takes nothing
  counts as an error of the device.
\<close>

section \<open>Writing\<close>

definition health_tmp_path :: "path \<Rightarrow> str \<Rightarrow> path" where
  "health_tmp_path p drawn = (fst p, lit ''.'' @ snd p @ lit ''.'' @ drawn @ lit ''.tmp'')"

fun mkstemp :: "path \<Rightarrow> str list \<Rightarrow> path act" where
  "mkstemp p [] = fail (Exn FileExistsError (lit ''No usable temporary file name found''))"
| "mkstemp p (drawn # more_names) =
     on_error
       (and_then (create_exclusive (health_tmp_path p drawn)) (\<lambda>_. give (health_tmp_path p drawn)))
       (\<lambda>e. if exn_class e = FileExistsError then mkstemp p more_names else fail e)"

definition no_progress :: exn where
  "no_progress = Exn OSError (lit ''short write'')"

text \<open>What the buffer of the handle still holds, given what has reached the file.\<close>

definition unwritten :: "path \<Rightarrow> bytes \<Rightarrow> io \<Rightarrow> bytes" where
  "unwritten tmp data io =
     (case io_disk io tmp of Some (Regular m u bs) \<Rightarrow> drop (length bs) data | _ \<Rightarrow> [])"

text \<open>
  The \<open>with\<close> block. The handle buffers what is written until \<open>flush\<close>; closing it tries to write
  what is left.
\<close>

definition write_temp :: "path \<Rightarrow> bytes \<Rightarrow> unit act" where
  "write_temp tmp data =
     and_finally
       (and_then (write_all no_progress tmp data) (\<lambda>_. touch))
       (and_finally (\<lambda>io. write_all no_progress tmp (unwritten tmp data io) io) touch)"

definition remove_temp :: "path \<Rightarrow> unit act" where
  "remove_temp tmp =
     on_error (\<lambda>io. if io_disk io tmp \<noteq> None then unlink tmp io else give () io)
       (\<lambda>e. if is_os_error e then give () else fail e)"

definition swallow :: "exn \<Rightarrow> unit act" where
  "swallow e = (if is_os_error e then give () else fail e)"

text \<open>From \<open>mkdir\<close> to the clean-up, which has work to do only when the rename was not reached.\<close>

definition replace_file :: "path \<Rightarrow> bytes \<Rightarrow> path \<Rightarrow> unit act" where
  "replace_file p data tmp =
     on_error (and_then (write_temp tmp data) (\<lambda>_. rename tmp p))
       (\<lambda>e. and_finally (swallow e) (remove_temp tmp))"

definition write_health_file :: "path \<Rightarrow> str list \<Rightarrow> bytes \<Rightarrow> unit act" where
  "write_health_file p names data =
     and_then
       (on_error (and_then touch (\<lambda>_. and_then (mkstemp p names) (\<lambda>tmp. give (Some tmp))))
         (\<lambda>e. and_then (swallow e) (\<lambda>_. give None)))
       (\<lambda>tmp. case tmp of None \<Rightarrow> give () | Some t \<Rightarrow> replace_file p data t)"

text \<open>The text, which the health state records as written; \<open>p\<close> is the configured path.\<close>

definition health_text :: "instant \<Rightarrow> health \<Rightarrow> str" where
  "health_text now h = dumps_default (json_sort (health_payload now h)) @ [10]"

definition save_health :: "instant \<Rightarrow> health \<Rightarrow> path \<Rightarrow> str list \<Rightarrow> unit act" where
  "save_health now h p names =
     (if present (hs_healthcheck_path h) then write_health_file p names (utf8 (health_text now h))
      else give ())"

lemma save_health_records:
  "hs_written (write_healthcheck now h) =
     hs_written h @ (if present (hs_healthcheck_path h) then [health_text now h] else [])"
  by (auto simp: write_healthcheck_def health_text_def present_def split: option.splits)

section \<open>What a crash can leave\<close>

lemma health_tmp_differs [simp]: "health_tmp_path p t \<noteq> p" "p \<noteq> health_tmp_path p t"
  unfolding health_tmp_path_def by (rule hidden_name_differs hidden_name_differs [symmetric])+

lemma keeps_with_state: "(\<And>x. keeps P (k x)) \<Longrightarrow> keeps P (\<lambda>io. k (g io) io)"
  by (simp add: keeps_def)

lemma keeps_swallow [keeps_intros]: "keeps P (swallow e)"
  unfolding swallow_def by (intro keeps_intros)

lemma keeps_remove_temp [keeps_intros]: "free_at t P \<Longrightarrow> keeps P (remove_temp t)"
  unfolding remove_temp_def by (intro keeps_intros)

lemma keeps_write_temp [keeps_intros]: "free_at t P \<Longrightarrow> keeps P (write_temp t data)"
  unfolding write_temp_def
  by (intro keeps_intros keeps_with_state [where k = "\<lambda>d. write_all no_progress t d"])

lemma write_temp_Inr:
  assumes "write_temp t data io = (Inr u, io')" "io_disk io t = Some (Regular m o' [])"
  shows "io_disk io' t = Some (Regular m o' data)"
proof -
  from assms(1) obtain io1 io2 io3 where steps: "write_all no_progress t data io = (Inr (), io1)"
      "touch io1 = (Inr u, io2)" "write_all no_progress t (unwritten t data io2) io2 = (Inr (), io3)"
      "touch io3 = (Inr (), io')"
    by (auto simp: write_temp_def and_finally_Inr and_then_Inr)
  have two: "io_disk io2 t = Some (Regular m o' data)"
    using write_all_Inr [OF steps(1) assms(2)] touch_Inr [OF steps(2)] by simp
  then have "unwritten t data io2 = []" by (simp add: unwritten_def)
  with write_all_Inr [OF steps(3) two] touch_Inr [OF steps(4)] show ?thesis by simp
qed

text \<open>The drawn file is new: \<open>mkstemp\<close> never opens a file that is there.\<close>

lemma create_exclusive_cases:
  assumes "create_exclusive t io = (r, io')"
  obtains
    (new) "r = Inr ()" "io_disk io t = None"
      "io_disk io' = (io_disk io)(t \<mapsto> Regular 384 (io_uid io) [])"
      "io_trace io' = io_disk io' # io_trace io"
  | (failed) e where "r = Inl e" "io_disk io' = io_disk io" "io_trace io' = io_trace io"
      "io_uid io' = io_uid io"
  using assms
  by (auto simp: create_exclusive_def sys_call_def set_node_def Let_def split: option.splits if_splits)

lemma mkstemp_cases:
  assumes "mkstemp p names io = (r, io')"
  obtains
    (new) t where "r = Inr t" "t \<noteq> p" "io_disk io t = None"
      "io_disk io' = (io_disk io)(t \<mapsto> Regular 384 (io_uid io) [])"
      "io_trace io' = io_disk io' # io_trace io"
  | (failed) e where "r = Inl e" "io_disk io' = io_disk io" "io_trace io' = io_trace io"
  using assms
proof (induction names arbitrary: io thesis)
  case Nil
  then show ?case by simp
next
  case (Cons drawn names)
  let ?t = "health_tmp_path p drawn"
  obtain s io1 where c: "create_exclusive ?t io = (s, io1)" by fastforce
  then show ?case
  proof (cases rule: create_exclusive_cases)
    case new
    with c Cons.prems(3) have "r = Inr ?t" "io' = io1"
      by (simp_all add: on_error_def and_then_def give_def)
    with new show ?thesis by (intro Cons.prems(1) [of ?t]) (simp_all only: health_tmp_differs not_False_eq_True)
  next
    case (failed e)
    show ?thesis
    proof (cases "exn_class e = FileExistsError")
      case True
      with c failed Cons.prems(3) have run: "mkstemp p names io1 = (r, io')"
        by (simp add: on_error_def and_then_def)
      show ?thesis
      proof (rule Cons.IH [OF _ _ run])
        fix t
        assume "r = Inr t" "t \<noteq> p" "io_disk io1 t = None"
          "io_disk io' = (io_disk io1)(t \<mapsto> Regular 384 (io_uid io1) [])"
          "io_trace io' = io_disk io' # io_trace io1"
        with failed show thesis by (intro Cons.prems(1) [of t]) (simp_all only: simp_thms)
      next
        fix e
        assume "r = Inl e" "io_disk io' = io_disk io1" "io_trace io' = io_trace io1"
        with failed show thesis by (intro Cons.prems(2) [of e]) simp_all
      qed
    next
      case False
      with c failed Cons.prems(3) have "r = Inl e" "io' = io1"
        by (simp_all add: on_error_def and_then_def fail_def)
      with failed show ?thesis by (intro Cons.prems(2)) simp_all
    qed
  qed
qed

text \<open>
  The health file holds what it held or the whole new text, and every other file that was there
  holds what it held.
\<close>

definition swapped :: "path \<Rightarrow> node \<Rightarrow> disk \<Rightarrow> disk \<Rightarrow> bool" where
  "swapped p new d d' \<longleftrightarrow>
     (d' p = d p \<or> d' p = Some new) \<and> (\<forall>q. q \<noteq> p \<longrightarrow> d q \<noteq> None \<longrightarrow> d' q = d q)"

lemma swapped_refl [simp]: "swapped p new d d"
  by (simp add: swapped_def)

lemma free_swapped: "t \<noteq> p \<Longrightarrow> d t = None \<Longrightarrow> free_at t (swapped p new d)"
  by (auto simp: free_at_def swapped_def)

lemma replace_file_swaps:
  assumes run: "replace_file p data t io = (r, io')"
    and t: "t \<noteq> p" "io_disk io t = Some (Regular 384 uid [])"
    and d: "d t = None" "swapped p (Regular 384 uid data) d (io_disk io)"
  shows "swapped p (Regular 384 uid data) d (io_disk io')"
    "x \<in> set (io_trace io') \<Longrightarrow> x \<in> set (io_trace io) \<or> swapped p (Regular 384 uid data) d x"
proof -
  let ?new = "Regular 384 uid data"
  let ?P = "swapped p ?new d"
  have free: "free_at t ?P" using t(1) d(1) by (rule free_swapped)
  obtain r1 io1 where wrote: "write_temp t data io = (r1, io1)" by fastforce
  note k = keepsD [OF keeps_write_temp [OF free] d(2) wrote]
  have tidy: "keeps ?P (and_finally (swallow e) (remove_temp t))" for e
    using free by (intro keeps_intros)
  have "?P (io_disk io') \<and> (x \<in> set (io_trace io') \<longrightarrow> x \<in> set (io_trace io) \<or> ?P x)"
  proof (cases r1)
    case (Inl e)
    with wrote run have "and_finally (swallow e) (remove_temp t) io1 = (r, io')"
      by (simp add: replace_file_def on_error_def and_then_def)
    from keepsD [OF tidy k(1) this] k(2)
    show ?thesis by blast
  next
    case (Inr u)
    have new: "io_disk io1 t = Some ?new"
      using write_temp_Inr [OF _ t(2)] wrote Inr by simp
    obtain r2 io2 where second: "rename t p io1 = (r2, io2)" by fastforce
    from second new show ?thesis
    proof (cases rule: rename_cases)
      case (1 e)
      with wrote Inr second run have "and_finally (swallow e) (remove_temp t) io2 = (r, io')"
        by (simp add: replace_file_def on_error_def and_then_def)
      from keepsD [OF tidy _ this] 1 k show ?thesis by auto
    next
      case 2
      with wrote Inr second run have "io' = io2"
        by (simp add: replace_file_def on_error_def and_then_def)
      moreover have "?P ((io_disk io1)(p := Some ?new, t := None))"
        using k(1) t(1) d(1) by (auto simp: swapped_def)
      ultimately show ?thesis using 2 k(2) by auto
    qed
  qed
  then show "?P (io_disk io')" "x \<in> set (io_trace io') \<Longrightarrow> x \<in> set (io_trace io) \<or> ?P x"
    by blast+
qed

lemma health_file_replaced_at_once:
  assumes run: "save_health now h p names io = (r, io')"
  shows "\<forall>d. d \<in> insert (io_disk io') (set (io_trace io')) - set (io_trace io) \<longrightarrow>
      swapped p (Regular 384 (io_uid io) (utf8 (health_text now h))) (io_disk io) d"
proof (cases "present (hs_healthcheck_path h)")
  case False
  with run show ?thesis by (auto simp: save_health_def)
next
  case True
  let ?data = "utf8 (health_text now h)"
  let ?P = "swapped p (Regular 384 (io_uid io) ?data) (io_disk io)"
  obtain r1 io1 where first: "touch io = (r1, io1)" by fastforce
  have same: "io_disk io1 = io_disk io" "io_trace io1 = io_trace io" "io_uid io1 = io_uid io"
    using first by (auto simp: touch_def sys_call_def Let_def give_def split: option.splits)
  show ?thesis
  proof (cases r1)
    case (Inl e)
    with True run first have "io' = io1"
      by (auto simp: save_health_def write_health_file_def on_error_def and_then_def swallow_def
          give_def fail_def split: if_splits)
    with same show ?thesis by auto
  next
    case (Inr u)
    obtain r2 io2 where second: "mkstemp p names io1 = (r2, io2)" by fastforce
    then show ?thesis
    proof (cases rule: mkstemp_cases)
      case (new t)
      with True run first Inr second have rest: "replace_file p ?data t io2 = (r, io')"
        by (auto simp: save_health_def write_health_file_def on_error_def and_then_def give_def)
      have P: "?P (io_disk io2)" using new same by (auto simp: swapped_def)
      note steps = replace_file_swaps [OF rest new(2) _ _ P]
      from steps P new same show ?thesis by auto
    next
      case (failed e)
      with True run first Inr second have "io' = io2"
        by (auto simp: save_health_def write_health_file_def on_error_def and_then_def swallow_def
            give_def fail_def split: if_splits)
      with failed same show ?thesis by auto
    qed
  qed
qed

section \<open>What the caller sees\<close>

text \<open>An act is tame when system calls that fail with errors of the system are its only failures.\<close>

definition os_faults :: "io \<Rightarrow> bool" where
  "os_faults io \<longleftrightarrow> (\<forall>e. Some e \<in> set (io_faults io) \<longrightarrow> is_os_error e)"

definition tame :: "'a act \<Rightarrow> bool" where
  "tame m \<longleftrightarrow>
     (\<forall>io. os_faults io \<longrightarrow>
        os_faults (snd (m io)) \<and> (\<forall>e. fst (m io) = Inl e \<longrightarrow> is_os_error e))"

named_theorems tame_intros \<open>tame acts\<close>

lemma tameI:
  assumes "\<And>io r io'. os_faults io \<Longrightarrow> m io = (r, io') \<Longrightarrow>
      os_faults io' \<and> (\<forall>e. r = Inl e \<longrightarrow> is_os_error e)"
  shows "tame m"
  using assms unfolding tame_def by (metis prod.collapse)

lemma tameD:
  assumes "tame m" "os_faults io" "m io = (r, io')"
  shows "os_faults io'" "r = Inl e \<Longrightarrow> is_os_error e"
  using assms unfolding tame_def by (metis fst_conv snd_conv)+

lemma os_errors [simp]:
  "is_os_error (Exn OSError m)" "is_os_error (Exn FileNotFoundError m)"
  "is_os_error (Exn FileExistsError m)" "is_os_error no_progress"
  by (simp_all add: is_os_error_def no_progress_def)

lemma tame_give [tame_intros]: "tame (give x)" "is_os_error e \<Longrightarrow> tame (fail e)"
  by (auto intro!: tameI)

lemma tame_and_then [tame_intros]: "tame m \<Longrightarrow> (\<And>x. tame (k x)) \<Longrightarrow> tame (and_then m k)"
  by (rule tameI) (auto simp: and_then_def dest: tameD split: prod.splits sum.splits)

lemma tame_and_finally [tame_intros]: "tame m \<Longrightarrow> tame c \<Longrightarrow> tame (and_finally m c)"
  by (rule tameI) (auto simp: and_finally_def dest: tameD split: prod.splits sum.splits)

lemma tame_on_error [tame_intros]:
  "tame m \<Longrightarrow> (\<And>e. is_os_error e \<Longrightarrow> tame (h e)) \<Longrightarrow> tame (on_error m h)"
  by (rule tameI) (auto simp: on_error_def dest: tameD split: prod.splits sum.splits)

lemma tame_if [tame_intros]: "tame m \<Longrightarrow> tame m' \<Longrightarrow> tame (\<lambda>io. if b io then m io else m' io)"
  by (simp add: tame_def)

lemma tame_branch [tame_intros]: "(b \<Longrightarrow> tame m) \<Longrightarrow> (\<not> b \<Longrightarrow> tame m') \<Longrightarrow> tame (if b then m else m')"
  by simp

lemma tame_sys_call [tame_intros]:
  assumes "\<And>io r io'. m io = (r, io') \<Longrightarrow> io_faults io' = io_faults io \<and> (\<forall>e. r = Inl e \<longrightarrow> is_os_error e)"
  shows "tame (sys_call m)"
proof (rule tameI)
  fix io r io' assume faults: "os_faults io" and run: "sys_call m io = (r, io')"
  have rest: "os_faults (io\<lparr>io_faults := drop 1 (io_faults io)\<rparr>)"
    using faults by (auto simp: os_faults_def dest: in_set_dropD)
  show "os_faults io' \<and> (\<forall>e. r = Inl e \<longrightarrow> is_os_error e)"
  proof (cases "io_fault io")
    case None
    with run have "m (io\<lparr>io_faults := drop 1 (io_faults io)\<rparr>) = (r, io')"
      by (simp add: sys_call_def)
    from assms [OF this] rest show ?thesis by (simp add: os_faults_def)
  next
    case (Some e)
    with faults have "is_os_error e"
      by (auto simp: io_fault_def os_faults_def split: list.splits)
    with Some run rest show ?thesis by (auto simp: sys_call_def)
  qed
qed

lemma tame_calls [tame_intros]:
  "tame touch" "tame (create_exclusive t)" "tame (append_bytes t data)" "tame (rename t p)" "tame (unlink t)"
  unfolding touch_def create_exclusive_def append_bytes_def rename_def unlink_def
  by (rule tame_sys_call, auto simp: set_node_def Let_def split: if_splits option.splits node.splits)+

lemma tame_write_all [tame_intros]: "is_os_error e \<Longrightarrow> tame (write_all e t data)"
proof (induction data rule: length_induct)
  case (1 data)
  show ?case
  proof (rule tameI)
    fix io r io' assume faults: "os_faults io" and run: "write_all e t data io = (r, io')"
    obtain r1 io1 where a: "append_bytes t data io = (r1, io1)" by fastforce
    note first = tameD [OF tame_calls(3) faults a]
    show "os_faults io' \<and> (\<forall>e. r = Inl e \<longrightarrow> is_os_error e)"
    proof (cases "data \<noteq> [] \<and> (\<exists>n. r1 = Inr n \<and> 0 < n)")
      case True
      then obtain n where n: "r1 = Inr n" "0 < n" by blast
      with 1 True have "tame (write_all e t (drop n data))" by simp
      moreover have "write_all e t (drop n data) io1 = (r, io')"
        using run a n True by (simp add: write_all.simps [of e t data])
      ultimately show ?thesis using first(1) by (blast dest: tameD)
    next
      case False
      with run a first faults 1(2) show ?thesis
        by (cases r1) (auto simp: write_all.simps [of e t data] split: if_splits)
    qed
  qed
qed

lemma tame_with_state: "(\<And>x. tame (k x)) \<Longrightarrow> tame (\<lambda>io. k (g io) io)"
  by (simp add: tame_def)

lemma tame_swallow [tame_intros]: "is_os_error e \<Longrightarrow> tame (swallow e)"
  by (simp add: swallow_def tame_intros)

lemma tame_mkstemp [tame_intros]: "tame (mkstemp p names)"
  by (induction names) (auto intro!: tame_intros)

lemma tame_remove_temp [tame_intros]: "tame (remove_temp t)"
  unfolding remove_temp_def by (intro tame_intros)

lemma tame_write_temp [tame_intros]: "tame (write_temp t data)"
  unfolding write_temp_def
  by (intro tame_intros tame_with_state [where k = "\<lambda>d. write_all no_progress t d"] os_errors)

text \<open>What is swallowed does not come out.\<close>

lemma on_error_gives:
  assumes "tame m" "os_faults io" "on_error m h io = (r, io')"
    and "\<And>e io1 r1 io2. is_os_error e \<Longrightarrow> os_faults io1 \<Longrightarrow> h e io1 = (r1, io2) \<Longrightarrow> \<exists>x. r1 = Inr x"
  shows "\<exists>x. r = Inr x"
  using assms(3) tameD [OF assms(1,2)] assms(4)
  by (auto simp: on_error_def split: prod.splits sum.splits)

lemma swallow_os [simp]: "is_os_error e \<Longrightarrow> swallow e = give ()"
  by (simp add: swallow_def)

lemma remove_temp_gives:
  assumes "os_faults io" "remove_temp t io = (r, io')"
  shows "\<exists>x. r = Inr x"
  using assms(2) unfolding remove_temp_def
  by (rule on_error_gives [rotated 2]) (auto intro!: tame_intros assms(1))

lemma replace_file_gives:
  assumes "os_faults io" "replace_file p data t io = (r, io')"
  shows "\<exists>x. r = Inr x"
  using assms(2) unfolding replace_file_def
proof (rule on_error_gives [rotated 2])
  fix e io1 r1 io2
  assume "is_os_error e" "os_faults io1" "and_finally (swallow e) (remove_temp t) io1 = (r1, io2)"
  with remove_temp_gives show "\<exists>x. r1 = Inr x"
    by (fastforce simp: and_finally_def give_def split: prod.splits sum.splits)
qed (auto intro!: tame_intros assms(1))

lemma save_health_never_raises:
  assumes "os_faults io" "save_health now h p names io = (r, io')"
  shows "r = Inr ()"
proof (cases "present (hs_healthcheck_path h)")
  case False
  with assms show ?thesis by (simp add: save_health_def)
next
  case True
  let ?start = "and_then touch (\<lambda>_. and_then (mkstemp p names) (\<lambda>tmp. give (Some tmp)))"
  let ?h = "\<lambda>e. and_then (swallow e) (\<lambda>_. give None)"
  obtain r1 io1 where first: "on_error ?start ?h io = (r1, io1)" by fastforce
  have "tame (on_error ?start ?h)" by (intro tame_intros)
  from tameD(1) [OF this assms(1) first] have faults: "os_faults io1" .
  have "\<exists>x. r1 = Inr x"
    using first by (rule on_error_gives [rotated 2])
      (auto intro!: tame_intros assms(1) simp: and_then_def give_def)
  then obtain tmp where "r1 = Inr tmp" by blast
  with True assms(2) first
  have "(case tmp of None \<Rightarrow> give () | Some t \<Rightarrow> replace_file p (utf8 (health_text now h)) t) io1 = (r, io')"
    by (simp add: save_health_def write_health_file_def and_then_def)
  with replace_file_gives [OF faults] show ?thesis by (cases tmp) auto
qed

text \<open>On a calm disk the file is there afterwards, and the temporary one is not.\<close>

lemma save_health_calm:
  assumes "io_faults io = []" "io_writes io = []" "present (hs_healthcheck_path h)"
    and "io_disk io (health_tmp_path p drawn) = None" "io_disk io p \<noteq> Some Directory"
  shows "\<exists>io'. save_health now h p (drawn # names) io = (Inr (), io')
    \<and> io_disk io' = (io_disk io)(p \<mapsto> Regular 384 (io_uid io) (utf8 (health_text now h)))"
proof -
  let ?t = "health_tmp_path p drawn" and ?data = "utf8 (health_text now h)"
  let ?io1 = "set_node ?t (Some (Regular 384 (io_uid io) [])) io"
  let ?io2 = "set_node ?t (Some (Regular 384 (io_uid io) ?data)) ?io1"
  have calm: "io_faults ?io1 = []" "io_writes ?io1 = []" "io_faults ?io2 = []"
    using assms(1,2) by (simp_all add: set_node_def Let_def)
  have "?data \<noteq> []" by (simp add: health_text_def)
  moreover have "io_writes ?io1 = []" "io\<lparr>io_writes := []\<rparr> = io" "?io1\<lparr>io_writes := []\<rparr> = ?io1"
    using assms(2) by (cases io, simp_all add: set_node_def Let_def)
  ultimately have write_all: "write_all no_progress ?t ?data ?io1 = (Inr (), ?io2)"
    using calm
    by (simp add: write_all.simps [of no_progress ?t ?data] write_all.simps [of no_progress ?t "[]"]
        append_bytes_def sys_call_calm) (simp add: set_node_def Let_def)
  have "unwritten ?t ?data ?io2 = []" by (simp add: unwritten_def set_node_def Let_def)
  with write_all calm have temp: "write_temp ?t ?data ?io1 = (Inr (), ?io2)"
    by (simp add: write_temp_def and_finally_def and_then_def touch_calm
        write_all.simps [of no_progress ?t "[]"])
  have "mkstemp p (drawn # names) io = (Inr ?t, ?io1)"
    using assms by (simp add: on_error_def and_then_def create_exclusive_def sys_call_calm give_def)
  then have "save_health now h p (drawn # names) io = replace_file p ?data ?t ?io1"
    using assms
    by (simp add: save_health_def write_health_file_def and_then_def on_error_def touch_calm give_def
        del: mkstemp.simps)
  moreover have "(io_disk io)(?t \<mapsto> Regular 384 (io_uid io) ?data, p \<mapsto> Regular 384 (io_uid io) ?data,
      ?t := None) = (io_disk io)(p \<mapsto> Regular 384 (io_uid io) ?data)"
    using assms(4) by (auto simp: fun_eq_iff)
  ultimately show ?thesis
    using temp calm assms(5)
    by (simp add: replace_file_def on_error_def and_then_def rename_def sys_call_calm)
      (simp add: set_node_def Let_def fun_upd_twist)
qed

text \<open>
  C23. Saving the health file is atomic and silent: whatever call fails, however little each write
  takes and wherever the process dies, the file holds what it held before or the whole new text,
  and no other file that was there has changed; errors of the file system do not come out.
\<close>

theorem health_file_kept:
  assumes "save_health now h p names io = (r, io')"
  shows "(\<forall>d. d \<in> insert (io_disk io') (set (io_trace io')) - set (io_trace io) \<longrightarrow>
      swapped p (Regular 384 (io_uid io) (utf8 (health_text now h))) (io_disk io) d)
    \<and> (os_faults io \<longrightarrow> r = Inr ())"
  using health_file_replaced_at_once [OF assms] save_health_never_raises [OF _ assms] by blast

text \<open>On a full disk, the third call fails: the old file stays, and the temporary one goes.\<close>

definition sample_full_disk :: io where
  "sample_full_disk =
     set_node sample_path (Some (Regular 384 1000 [123, 125]))
       (sample_io [None, None, Some (Exn OSError (lit ''No space left on device'')),
          Some (Exn OSError (lit ''No space left on device''))])"

definition sample_health :: health where
  "sample_health = new_health (lit ''1.0.0'') (Some (lit ''/data/secret'')) 0"

theorem health_file_kept_witness:
  "\<exists>io'. save_health 0 sample_health sample_path [lit ''x''] sample_full_disk = (Inr (), io')
     \<and> io_disk io' sample_path \<in>
         {Some (Regular 384 1000 [123, 125]), Some (Regular 384 1000 (utf8 (health_text 0 sample_health)))}"
proof -
  obtain r io' where run: "save_health 0 sample_health sample_path [lit ''x''] sample_full_disk = (r, io')"
    by fastforce
  have start: "io_disk sample_full_disk sample_path = Some (Regular 384 1000 [123, 125])"
    "io_trace sample_full_disk = [io_disk sample_full_disk]" "io_uid sample_full_disk = 1000"
    "os_faults sample_full_disk"
    by (auto simp: sample_full_disk_def sample_io_def set_node_def Let_def os_faults_def)
  from health_file_kept [OF run] start have "r = Inr ()"
    "io_disk io' = io_disk sample_full_disk
     \<or> swapped sample_path (Regular 384 1000 (utf8 (health_text 0 sample_health)))
         (io_disk sample_full_disk) (io_disk io')"
    by auto
  with run start show ?thesis by (auto simp: swapped_def)
qed

end
