(* ===== verification/Transports.thy ===== *)
theory Transports
  imports Bridge_Service Ws_Client
begin

text \<open>
  The transports that \<open>main.py\<close> can wire in, with their construction: the one over Home Assistant
  (\<open>transport/homeassistant_meshcore.py\<close>) with the WebSocket client it makes and the callbacks it
  registers there, the placeholder (\<open>transport/meshcore.py\<close>), and the queue that stands for a mesh
  in the tests (\<open>transport/fake.py\<close>). The socket library is a parameter: what is handed to it is
  the record \<open>connect_arguments\<close>.
\<close>

section \<open>The WebSocket client\<close>

datatype callback = Mark_connected | Mark_subscribed | Mark_disconnected

record ws_client =
  wc_base_url :: str
  wc_token :: str
  wc_verify_tls :: bool
  wc_timeout_seconds :: seconds
  wc_max_message_bytes :: int
  wc_websocket_url_override :: "str option"
  wc_on_subscribed :: "callback option"
  wc_on_idle :: "callback option"
  wc_on_authenticated :: "callback option"
  wc_on_disconnected :: "callback option"

definition new_ws_client :: "str \<Rightarrow> str \<Rightarrow> bool \<Rightarrow> seconds \<Rightarrow> int \<Rightarrow> str option \<Rightarrow> ws_client" where
  "new_ws_client base_url token verify_tls timeout_seconds max_bytes override =
     \<lparr>wc_base_url = base_url, wc_token = token, wc_verify_tls = verify_tls,
      wc_timeout_seconds = timeout_seconds, wc_max_message_bytes = max_bytes,
      wc_websocket_url_override = override, wc_on_subscribed = None, wc_on_idle = None,
      wc_on_authenticated = None, wc_on_disconnected = None\<rparr>"

text \<open>The argument \<open>ssl\<close>: \<open>None\<close>, or the constant \<open>False\<close>.\<close>

record connect_arguments =
  ca_url :: str
  ca_open_timeout :: seconds
  ca_ping_interval :: seconds
  ca_ping_timeout :: seconds
  ca_max_size :: int
  ca_ssl :: "bool option"

definition connect_arguments_of :: "ws_client \<Rightarrow> connect_arguments result" where
  "connect_arguments_of wc =
     bind_result (websocket_url (wc_websocket_url_override wc) (wc_base_url wc)) (\<lambda>url.
       Inr \<lparr>ca_url = url, ca_open_timeout = wc_timeout_seconds wc, ca_ping_interval = 20,
            ca_ping_timeout = wc_timeout_seconds wc, ca_max_size = wc_max_message_bytes wc,
            ca_ssl = (if wc_verify_tls wc then None else Some False)\<rparr>)"

section \<open>The transport over Home Assistant\<close>

record ha_mc_settings =
  hm_channel_index :: int
  hm_ha_base_url :: str
  hm_ha_token :: str
  hm_ha_verify_tls :: bool
  hm_ha_timeout_seconds :: seconds
  hm_ha_websocket_url :: "str option"
  hm_ha_entry_id :: "str option"
  hm_event_types :: "str list"
  hm_require_stable_sender :: bool
  hm_allow_channel_without_sender :: bool
  hm_max_message_bytes :: int
  hm_healthcheck_path :: "str option"

text \<open>What the reception uses of them.\<close>

definition reception_settings :: "ha_mc_settings \<Rightarrow> mc_settings" where
  "reception_settings hm =
     \<lparr>ms_channel_index = hm_channel_index hm, ms_require_stable_sender = hm_require_stable_sender hm,
      ms_allow_channel_without_sender = hm_allow_channel_without_sender hm\<rparr>"

definition client_of_settings :: "ha_mc_settings \<Rightarrow> ws_client" where
  "client_of_settings hm =
     new_ws_client (hm_ha_base_url hm) (hm_ha_token hm) (hm_ha_verify_tls hm)
       (hm_ha_timeout_seconds hm) (hm_max_message_bytes hm) (hm_ha_websocket_url hm)"

record ha_transport =
  ht_settings :: ha_mc_settings
  ht_client :: ws_client
  ht_core :: mc_transport

definition new_ha_transport :: "ha_mc_settings \<Rightarrow> ws_client option \<Rightarrow> health option \<Rightarrow> ha_transport" where
  "new_ha_transport hm given health =
     (let client = (case given of Some wc \<Rightarrow> wc | None \<Rightarrow> client_of_settings hm);
          client = client\<lparr>wc_on_idle := Some Mark_subscribed, wc_on_authenticated := Some Mark_connected,
                          wc_on_disconnected := Some Mark_disconnected\<rparr>;
          client = (if present (hm_healthcheck_path hm)
                    then client\<lparr>wc_on_subscribed := Some Mark_subscribed\<rparr> else client)
      in
      \<lparr>ht_settings = hm, ht_client = client,
       ht_core = \<lparr>mt_entry_id = hm_ha_entry_id hm, mt_calls = [], mt_health = health,
                  mt_healthcheck_path = hm_healthcheck_path hm, mt_written = []\<rparr>\<rparr>)"

definition redact_identifier :: "str \<Rightarrow> str" where
  "redact_identifier v =
     (if length v \<le> 8 then lit ''***'' else take 4 v @ lit ''...'' @ drop (length v - 4) v)"

text \<open>The client calls what is registered for an action.\<close>

fun run_callback :: "instant \<Rightarrow> callback option \<Rightarrow> mc_transport \<Rightarrow> mc_transport" where
  "run_callback now None mt = mt"
| "run_callback now (Some Mark_connected) mt = mark_connected now mt"
| "run_callback now (Some Mark_subscribed) mt = mark_subscribed now mt"
| "run_callback now (Some Mark_disconnected) mt = mark_disconnected now mt"

fun callback_for :: "ws_action \<Rightarrow> ws_client \<Rightarrow> callback option" where
  "callback_for Authenticated wc = wc_on_authenticated wc"
| "callback_for Subscribed wc = wc_on_subscribed wc"
| "callback_for Idle wc = wc_on_idle wc"
| "callback_for Disconnected wc = wc_on_disconnected wc"
| "callback_for (Yield e) wc = None"

section \<open>The other transports\<close>

text \<open>\<open>FakeTransport\<close>: \<open>receive\<close> waits, here \<open>None\<close>, while the queue is empty.\<close>

record fake_transport =
  ft_inbound :: "inbound_message list"
  ft_sent :: "outbound_message list"

definition new_fake :: fake_transport where
  "new_fake = \<lparr>ft_inbound = [], ft_sent = []\<rparr>"

definition fake_receive :: "fake_transport \<Rightarrow> (inbound_message \<times> fake_transport) option" where
  "fake_receive ft =
     (case ft_inbound ft of [] \<Rightarrow> None | m # ms \<Rightarrow> Some (m, ft\<lparr>ft_inbound := ms\<rparr>))"

definition fake_send :: "outbound_message \<Rightarrow> fake_transport \<Rightarrow> fake_transport" where
  "fake_send m ft = ft\<lparr>ft_sent := ft_sent ft @ [m]\<rparr>"

definition fake_inject :: "inbound_message \<Rightarrow> fake_transport \<Rightarrow> fake_transport" where
  "fake_inject m ft = ft\<lparr>ft_inbound := ft_inbound ft @ [m]\<rparr>"

text \<open>\<open>MeshCoreTransport\<close>: nothing is received or sent.\<close>

definition placeholder_receive :: "inbound_message result" where
  "placeholder_receive =
     raise NotImplementedError ''MeshCore transport is intentionally not implemented until the local Companion connection model and protocol are confirmed. Use `meshcore-diagnose` first.''"

definition placeholder_send :: "outbound_message \<Rightarrow> unit result" where
  "placeholder_send m =
     raise NotImplementedError ''MeshCore transport is intentionally not implemented until the Companion API is confirmed.''"

section \<open>Wiring\<close>

datatype wired_transport = Over_home_assistant ha_transport | Placeholder int

definition settings_of_config :: "app_config \<Rightarrow> ha_mc_settings" where
  "settings_of_config c =
     (let mk = cf_meshcore c; hc = cf_homeassistant c in
      \<lparr>hm_channel_index = mk_channel_index mk, hm_ha_base_url = hc_base_url hc,
       hm_ha_token = hc_token hc, hm_ha_verify_tls = hc_verify_tls hc,
       hm_ha_timeout_seconds = hc_timeout_seconds hc, hm_ha_websocket_url = hc_websocket_url hc,
       hm_ha_entry_id = mk_ha_entry_id mk, hm_event_types = mk_event_types mk,
       hm_require_stable_sender = mk_require_stable_sender mk,
       hm_allow_channel_without_sender = mk_allow_channel_without_sender mk,
       hm_max_message_bytes = 262144, hm_healthcheck_path = mk_healthcheck_path mk\<rparr>)"

definition make_transport :: "app_config \<Rightarrow> health option \<Rightarrow> wired_transport result" where
  "make_transport c health =
     (if mk_transport (cf_meshcore c) = lit ''homeassistant''
      then Inr (Over_home_assistant (new_ha_transport (settings_of_config c) None health))
      else if mk_transport (cf_meshcore c) = lit ''usb''
      then raise NotImplementedError ''USB transport is not available in this branch. Use meshcore.transport=homeassistant or the experimental USB PR.''
      else Inr (Placeholder (mk_channel_index (cf_meshcore c))))"

text \<open>The service loop on the placeholder: \<open>receive\<close> raises before there is a message.\<close>

definition run_on_placeholder :: "'h runner \<Rightarrow> env \<Rightarrow> 'h bridge \<Rightarrow> world \<Rightarrow> exn \<times> world" where
  "run_on_placeholder run ev bg w =
     (case placeholder_receive of
        Inl e \<Rightarrow> run_forever run ev bg [] e w
      | Inr m \<Rightarrow> (Exn CancelledError [], w))"

section \<open>Facts\<close>

lemma make_transport_checks: "bind_result (make_transport c health) (\<lambda>_. Inr ()) = build_transport c"
  by (simp add: make_transport_def build_transport_def)

text \<open>The callbacks of the client are the ones of \<open>on_action\<close>.\<close>

lemma registered_callbacks:
  assumes "ht = new_ha_transport hm None health" "mt_healthcheck_path mt = hm_healthcheck_path hm"
  shows "run_callback now (callback_for a (ht_client ht)) mt = on_action now a mt"
  using assms
  by (cases a) (auto simp: new_ha_transport_def client_of_settings_def new_ws_client_def Let_def)

lemma fake_is_a_queue:
  "fake_receive (fold fake_inject ms new_fake)
    = (case ms of [] \<Rightarrow> None | m # ms' \<Rightarrow> Some (m, fold fake_inject ms' new_fake))"
proof -
  have inbound: "fold fake_inject ms ft = ft\<lparr>ft_inbound := ft_inbound ft @ ms\<rparr>" for ms ft
    by (induction ms arbitrary: ft) (simp_all add: fake_inject_def)
  show ?thesis by (cases ms) (simp_all add: inbound fake_receive_def fake_inject_def new_fake_def)
qed

lemma placeholder_ends_at_once:
  "run_on_placeholder run ev bg w
    = (Exn NotImplementedError (lit ''MeshCore transport is intentionally not implemented until the local Companion connection model and protocol are confirmed. Use `meshcore-diagnose` first.''), close w)"
  by (simp add: run_on_placeholder_def placeholder_receive_def)

lemma redact_identifier_hides:
  "8 < length v \<Longrightarrow> length (redact_identifier v) = 11"
  by (simp add: redact_identifier_def)

section \<open>What a session leaves on the health\<close>

lemma meshcore_state_simps [simp]:
  "hs_meshcore_transport_state (set_meshcore_connected now up h) = connection_word up"
  "hs_ha_websocket_state (set_meshcore_connected now up h) = connection_word up"
  "hs_meshcore_transport_state (record_failure now r h) = hs_meshcore_transport_state h"
  "hs_ha_websocket_state (record_failure now r h) = hs_ha_websocket_state h"
  "hs_last_failure_reason (record_failure now r h) = safe_reason r"
  by (simp_all add: set_meshcore_connected_def record_failure_def changed_def after_change_def Let_def
      write_healthcheck_def note_failure_def split: option.splits)

definition shows_connection :: "bool \<Rightarrow> mc_transport \<Rightarrow> bool" where
  "shows_connection up mt \<longleftrightarrow>
     (\<forall>h. mt_health mt = Some h \<longrightarrow>
        hs_meshcore_transport_state h = connection_word up \<and> hs_ha_websocket_state h = connection_word up)"

lemma on_action_shows:
  "shows_connection True (on_action now Authenticated mt)"
  "shows_connection True (on_action now Idle mt)"
  "shows_connection False (on_action now Disconnected mt)"
  "shows_connection True mt \<Longrightarrow> shows_connection True (on_action now Subscribed mt)"
  "shows_connection up mt \<Longrightarrow> shows_connection up (on_action now (Yield e) mt)"
  by (auto simp: shows_connection_def mark_connected_def mark_subscribed_def mark_disconnected_def Let_def)

lemma listen_actions:
  "listen loads max_bytes inputs st = (actions, st') \<Longrightarrow>
     set actions \<subseteq> range Yield \<union> {Idle}
     \<or> (\<exists>before. actions = before @ [Disconnected] \<and> set before \<subseteq> range Yield \<union> {Idle})"
proof (induction loads max_bytes inputs st arbitrary: actions st' rule: listen.induct)
  case (1 loads max_bytes st)
  then show ?case by auto
next
  case (2 loads max_bytes inputs st)
  obtain as s where "listen loads max_bytes inputs (st\<lparr>wk_queue := []\<rparr>) = (as, s)" by fastforce
  from "2.IH" [OF this] "2.prems" this show ?case
    by (auto simp: Let_def)
next
  case (3 loads max_bytes f inputs st)
  show ?case
  proof (cases "reader_step loads max_bytes True f (st\<lparr>wk_queue := []\<rparr>)")
    case (Pair r s)
    show ?thesis
    proof (cases r)
      case (Inl e)
      with Pair "3.prems" show ?thesis by auto
    next
      case (Inr u)
      obtain as s' where l: "listen loads max_bytes inputs s = (as, s')" by fastforce
      with Pair Inr "3.prems" have "actions = map Yield (wk_queue st) @ as" by simp
      with "3.IH" [OF Pair [symmetric] Inr l] show ?thesis
        by auto
    qed
  qed
qed

text \<open>
  After a connection has ended with a failure the health shows that the mesh is not reachable, and
  while it is up, from the authentication on, that it is.
\<close>

theorem session_health:
  assumes "event_session loads max_bytes token event_types wz last_id = Inr (actions, st)"
  shows "shows_connection (Disconnected \<notin> set actions) (fold (on_action now) actions mt)"
proof -
  consider (down) before where "actions = before @ [Disconnected]"
    | (up) rest where "actions = [Authenticated, Subscribed] @ rest" "set rest \<subseteq> range Yield \<union> {Idle}"
  proof -
    from assms consider "actions = [] @ [Disconnected]" | "actions = [Authenticated] @ [Disconnected]"
      | rest inputs s where "actions = [Authenticated, Subscribed] @ rest"
          "listen loads max_bytes inputs s = (rest, st) \<or> (\<exists>st2. listen loads max_bytes inputs s = (rest, st2))"
      by (auto simp: event_session_def Let_def bind_result_Inr_iff split: sum.splits prod.splits)
    then show thesis
    proof cases
      case (3 rest inputs s)
      then obtain st2 where "listen loads max_bytes inputs s = (rest, st2)" by blast
      from listen_actions [OF this] show thesis
      proof
        assume "set rest \<subseteq> range Yield \<union> {Idle}"
        with 3(1) show thesis by (rule up)
      next
        assume "\<exists>before. rest = before @ [Disconnected] \<and> set before \<subseteq> range Yield \<union> {Idle}"
        then obtain before where "rest = before @ [Disconnected]" by blast
        with 3(1) show thesis by (intro down [of "[Authenticated, Subscribed] @ before"]) simp
      qed
    qed (erule down)+
  qed
  then show ?thesis
  proof cases
    case (down before)
    then show ?thesis by (simp add: on_action_shows del: on_action.simps)
  next
    case (up rest)
    have "shows_connection True mt' \<Longrightarrow> shows_connection True (fold (on_action now) rest mt')" for mt'
      using up(2) by (induction rest arbitrary: mt') (auto simp: on_action_shows simp del: on_action.simps)
    moreover have "Disconnected \<notin> set actions" using up by auto
    ultimately show ?thesis by (simp add: up(1) on_action_shows del: on_action.simps)
  qed
qed

text \<open>
  A connection that fails after it was up is taken up again, but a refused attempt to do so ends
  the events for good, with its exception; \<open>receive\<close> passes it on, and the service loop ends.
\<close>

theorem refused_reconnect_is_final:
  assumes "event_session loads max_bytes token event_types wz last_id = Inr (actions, st)"
    and "wx_connect (wz_script wz') = Inl e"
  shows "event_sessions loads max_bytes token event_types (wz # wz' # wzs) last_id = (actions, Some e)"
  using assms by (simp add: event_session_def)

text \<open>The client never asks for an encrypted connection by the argument that says so.\<close>

lemma tls_never_requested: "connect_arguments_of wc = Inr ca \<Longrightarrow> ca_ssl ca \<noteq> Some True"
  by (auto simp: connect_arguments_of_def bind_result_Inr_iff split: if_splits)

end
