(* ===== verification/Telegram_Enroll.thy ===== *)
theory Telegram_Enroll
  imports Tg_Client
begin

text \<open>
  \<open>scripts/telegram-enroll.py\<close>: the tool that finds the identifiers of the owner's private chat.
  It is a function of what it is given from outside: the text typed at the prompt, the answers of
  the Bot API and the readings of the clock. Its trace holds what it prints and what it posts. The
  parsing of the arguments is left out.
\<close>

section \<open>Requests\<close>

datatype enroll_event =
    Out str
  | Err str
  | Posted (posted_url: str) (posted_payload: jobject)

type_synonym 'a enroll = "enroll_event list \<times> 'a result"

text \<open>\<open>_post\<close>: what a failure prints names the method and the status, never the URL.\<close>

definition enroll_post ::
    "str \<Rightarrow> str \<Rightarrow> str \<Rightarrow> jobject \<Rightarrow> http_answer \<Rightarrow> jobject option enroll" where
  "enroll_post base_url token m payload answer =
     (let url = rstrip_slashes base_url @ lit ''/bot'' @ token @ lit ''/'' @ m;
          sent = Posted url payload;
          failed = (\<lambda>t. ([sent, Err t], Inr None))
      in
      case answer of
        Inl e \<Rightarrow>
          if exn_class e = HTTPError then failed (lit ''Telegram '' @ m @ lit '' request failed'')
          else ([sent], Inl e)
      | Inr response \<Rightarrow>
          if hr_status response = 409
          then failed (lit ''Telegram returned HTTP 409. Another consumer or webhook is active for this bot.'')
          else if hr_status response \<ge> 400
          then failed (lit ''Telegram '' @ m @ lit '' returned HTTP '' @ dec (hr_status response))
          else
            (case hr_json response of
               None \<Rightarrow> failed (lit ''Telegram '' @ m @ lit '' returned invalid JSON'')
             | Some (JObj data) \<Rightarrow> ([sent], Inr (Some data))
             | Some _ \<Rightarrow> ([sent], Inr None)))"

definition get_me :: "str \<Rightarrow> str \<Rightarrow> http_answer \<Rightarrow> bool enroll" where
  "get_me base_url token answer =
     (case enroll_post base_url token (lit ''getMe'') [] answer of
        (tr, Inl e) \<Rightarrow> (tr, Inl e)
      | (tr, Inr None) \<Rightarrow> (tr, Inr False)
      | (tr, Inr (Some data)) \<Rightarrow>
          if jget data (lit ''ok'') \<noteq> Some (JBool True)
          then (tr @ [Err (lit ''Telegram getMe failed'')], Inr False)
          else (tr @ [Out (lit ''Telegram bot token accepted.'')], Inr True))"

definition dict_items :: "json \<Rightarrow> jobject list" where
  "dict_items v =
     (case v of JArr items \<Rightarrow> concat (map (\<lambda>i. case i of JObj d \<Rightarrow> [d] | _ \<Rightarrow> []) items) | _ \<Rightarrow> [])"

definition get_updates ::
    "str \<Rightarrow> str \<Rightarrow> int option \<Rightarrow> int \<Rightarrow> http_answer \<Rightarrow> jobject list enroll" where
  "get_updates base_url token offset timeout answer =
     (case enroll_post base_url token (lit ''getUpdates'')
             (updates_payload offset timeout [lit ''message'']) answer of
        (tr, Inl e) \<Rightarrow> (tr, Inl e)
      | (tr, Inr None) \<Rightarrow> (tr, Inr [])
      | (tr, Inr (Some data)) \<Rightarrow> (tr, Inr (dict_items (jget_or data (lit ''result'') (JArr [])))))"

text \<open>\<open>isinstance(v, int)\<close> holds of booleans as well.\<close>

definition as_int :: "json option \<Rightarrow> int option" where
  "as_int v =
     (case v of
        Some (JInt i) \<Rightarrow> Some i
      | Some (JBool b) \<Rightarrow> Some (if b then 1 else 0)
      | _ \<Rightarrow> None)"

fun max_update_id :: "int option \<Rightarrow> jobject list \<Rightarrow> int option" where
  "max_update_id m [] = m"
| "max_update_id m (u # us) =
     (case as_int (jget u (lit ''update_id'')) of
        None \<Rightarrow> max_update_id m us
      | Some i \<Rightarrow> max_update_id (Some (case m of None \<Rightarrow> i | Some j \<Rightarrow> max j i)) us)"

definition initial_offset :: "str \<Rightarrow> str \<Rightarrow> http_answer \<Rightarrow> int option enroll" where
  "initial_offset base_url token answer =
     (case get_updates base_url token None 0 answer of
        (tr, Inl e) \<Rightarrow> (tr, Inl e)
      | (tr, Inr updates) \<Rightarrow> (tr, Inr (map_option (\<lambda>i. i + 1) (max_update_id None updates))))"

section \<open>The owner\<close>

definition enroll_id_text :: "json option \<Rightarrow> str option" where
  "enroll_id_text v =
     (case v of
        Some (JInt i) \<Rightarrow> Some (py_str (JInt i))
      | Some (JBool b) \<Rightarrow> Some (py_str (JBool b))
      | Some (JStr s) \<Rightarrow> Some s
      | _ \<Rightarrow> None)"

definition extract_private_human_identity :: "jobject \<Rightarrow> (str \<times> str) option" where
  "extract_private_human_identity update =
     (case jget update (lit ''message'') of
        Some (JObj message) \<Rightarrow>
          (case jget message (lit ''text'') of
             Some (JStr t) \<Rightarrow>
               if strip t = [] then None
               else
                 (case (jget message (lit ''chat''), jget message (lit ''from'')) of
                    (Some (JObj chat), Some (JObj sender)) \<Rightarrow>
                      if jget chat (lit ''type'') \<noteq> Some (JStr (lit ''private'')) then None
                      else if jget sender (lit ''is_bot'') = Some (JBool True) then None
                      else
                        (case (enroll_id_text (jget chat (lit ''id'')), enroll_id_text (jget sender (lit ''id''))) of
                           (Some chat_id, Some user_id) \<Rightarrow> Some (chat_id, user_id)
                         | _ \<Rightarrow> None)
                  | _ \<Rightarrow> None)
           | _ \<Rightarrow> None)
      | _ \<Rightarrow> None)"

section \<open>Waiting\<close>

fun scan_updates :: "int option \<Rightarrow> jobject list \<Rightarrow> int option \<times> (str \<times> str) option" where
  "scan_updates offset [] = (offset, None)"
| "scan_updates offset (u # us) =
     (let offset' = (case as_int (jget u (lit ''update_id'')) of Some i \<Rightarrow> Some (i + 1) | None \<Rightarrow> offset)
      in case extract_private_human_identity u of
           Some identity \<Rightarrow> (offset', Some identity)
         | None \<Rightarrow> scan_updates offset' us)"

text \<open>
  A round of the loop: the clock at its test, the clock when the timeout is computed, and the
  answer. The outcome is \<open>None\<close> while the tool is still waiting after the rounds given.
\<close>

record enroll_round =
  er_now :: seconds
  er_then :: seconds
  er_answer :: http_answer

definition py_trunc :: "seconds \<Rightarrow> int" where
  "py_trunc x = (if x < 0 then \<lceil>x\<rceil> else \<lfloor>x\<rfloor>)"

fun enroll_wait ::
    "str \<Rightarrow> str \<Rightarrow> seconds \<Rightarrow> int option \<Rightarrow> enroll_round list
       \<Rightarrow> enroll_event list \<times> int result option" where
  "enroll_wait base_url token deadline offset [] = ([], None)"
| "enroll_wait base_url token deadline offset (r # rs) =
     (if er_now r \<ge> deadline
      then ([Err (lit ''timed out waiting for a private human text message'')], Some (Inr 1))
      else
        (case get_updates base_url token offset
                (min 10 (max 1 (py_trunc (deadline - er_then r)))) (er_answer r) of
           (tr, Inl e) \<Rightarrow> (tr, Some (Inl e))
         | (tr, Inr updates) \<Rightarrow>
             (case scan_updates offset updates of
                (_, Some (chat_id, user_id)) \<Rightarrow>
                  (tr @ [Out (lit ''allowed_private_chat_id: '' @ [34] @ chat_id @ [34]),
                         Out (lit ''allowed_user_id: '' @ [34] @ user_id @ [34])], Some (Inr 0))
              | (offset', None) \<Rightarrow>
                  (case enroll_wait base_url token deadline offset' rs of
                     (tr', outcome) \<Rightarrow> (tr @ tr', outcome)))))"

definition enroll ::
    "str \<Rightarrow> str \<Rightarrow> int \<Rightarrow> http_answer \<Rightarrow> http_answer \<Rightarrow> seconds \<Rightarrow> enroll_round list
       \<Rightarrow> enroll_event list \<times> int result option" where
  "enroll typed base_url timeout me first start rounds =
     (let token = strip typed in
      if token = [] then ([Err (lit ''token is required'')], Some (Inr 2))
      else
        (case get_me base_url token me of
           (tr, Inl e) \<Rightarrow> (tr, Some (Inl e))
         | (tr, Inr False) \<Rightarrow> (tr, Some (Inr 1))
         | (tr, Inr True) \<Rightarrow>
             (let hint = [Out (lit ''Open the private chat with the bot, press Start, and send one text message.'')]
              in
              case initial_offset base_url token first of
                (tr1, Inl e) \<Rightarrow> (tr @ hint @ tr1, Some (Inl e))
              | (tr1, Inr offset) \<Rightarrow>
                  (case enroll_wait base_url token (start + of_int (max timeout 1)) offset rounds of
                     (tr2, outcome) \<Rightarrow> (tr @ hint @ tr1 @ tr2, outcome)))))"

section \<open>The token stays out of what is printed\<close>

fun is_printed :: "enroll_event \<Rightarrow> bool" where
  "is_printed (Posted _ _) = False"
| "is_printed _ = True"

abbreviation printed :: "enroll_event list \<Rightarrow> enroll_event list" where
  "printed \<equiv> filter is_printed"

definition same_print :: "enroll_event list \<times> 'a \<Rightarrow> enroll_event list \<times> 'a \<Rightarrow> bool" where
  "same_print x y \<longleftrightarrow> printed (fst x) = printed (fst y) \<and> snd x = snd y"

lemma same_printE:
  assumes "same_print x y"
  obtains tr tr' r where "x = (tr, r)" "y = (tr', r)" "printed tr = printed tr'"
  using assms by (cases x; cases y) (auto simp: same_print_def)

lemma same_print_post:
  "same_print (enroll_post b t m p answer) (enroll_post b' t' m p' answer)"
  by (auto simp: enroll_post_def same_print_def Let_def split: sum.splits option.splits json.splits)

lemma same_print_get_me: "same_print (get_me b t answer) (get_me b t' answer)"
  using same_print_post [of b t "lit ''getMe''" "[]" answer b t' "[]"]
  by (auto simp: get_me_def same_print_def split: prod.splits sum.splits option.splits)

lemma same_print_get_updates:
  "same_print (get_updates b t offset timeout answer) (get_updates b t' offset' timeout' answer)"
  using same_print_post [of b t "lit ''getUpdates''" "updates_payload offset timeout [lit ''message'']"
      answer b t' "updates_payload offset' timeout' [lit ''message'']"]
  by (auto simp: get_updates_def same_print_def split: prod.splits sum.splits option.splits)

lemma same_print_initial: "same_print (initial_offset b t answer) (initial_offset b t' answer)"
  using same_print_get_updates [of b t None 0 answer t' None 0]
  by (auto simp: initial_offset_def same_print_def split: prod.splits sum.splits)

lemma same_print_wait:
  "same_print (enroll_wait b t deadline offset rounds) (enroll_wait b t' deadline offset rounds)"
proof (induction rounds arbitrary: offset)
  case Nil
  then show ?case by (simp add: same_print_def)
next
  case (Cons r rs)
  let ?timeout = "min 10 (max 1 (py_trunc (deadline - er_then r)))"
  note one = same_print_get_updates [of b t offset ?timeout "er_answer r" t' offset ?timeout]
  obtain tr x tr' where runs: "get_updates b t offset ?timeout (er_answer r) = (tr, x)"
      "get_updates b t' offset ?timeout (er_answer r) = (tr', x)" "printed tr = printed tr'"
    using one by (rule same_printE)
  show ?case
  proof (cases x)
    case (Inl e)
    with runs show ?thesis by (simp add: same_print_def)
  next
    case (Inr updates)
    obtain offset' found where scan: "scan_updates offset updates = (offset', found)" by fastforce
    with runs Inr Cons.IH [of offset'] show ?thesis
      by (cases found) (auto simp: same_print_def split: prod.splits)
  qed
qed

text \<open>
  The token that is typed has no influence on what the enrolment prints or on how it ends: two
  tokens that get the same answers give the same lines.
\<close>

theorem enroll_prints_no_token:
  assumes "strip typed \<noteq> []" "strip other \<noteq> []"
  shows "printed (fst (enroll typed b timeout me first start rounds))
       = printed (fst (enroll other b timeout me first start rounds))
    \<and> snd (enroll typed b timeout me first start rounds)
      = snd (enroll other b timeout me first start rounds)"
proof -
  let ?t = "strip typed" and ?t' = "strip other"
  let ?deadline = "start + of_int (max timeout 1)"
  obtain tr x tr' where me: "get_me b ?t me = (tr, x)" "get_me b ?t' me = (tr', x)" "printed tr = printed tr'"
    using same_print_get_me [of b ?t me ?t'] by (rule same_printE)
  obtain tr1 y tr1' where first: "initial_offset b ?t first = (tr1, y)"
      "initial_offset b ?t' first = (tr1', y)" "printed tr1 = printed tr1'"
    using same_print_initial [of b ?t first ?t'] by (rule same_printE)
  show ?thesis
  proof (cases "x = Inr True \<and> (\<exists>offset. y = Inr offset)")
    case False
    with assms me first show ?thesis
      by (cases x; cases y) (auto simp: enroll_def Let_def split: bool.splits)
  next
    case True
    then obtain offset where ok: "x = Inr True" "y = Inr offset" by blast
    with assms me first same_print_wait [of b ?t ?deadline offset rounds ?t'] show ?thesis
      by (auto simp: enroll_def same_print_def Let_def split: prod.splits)
  qed
qed

section \<open>Whose identifiers are printed\<close>

text \<open>A private message with a text, of somebody who is no bot.\<close>

definition private_human :: "jobject \<Rightarrow> str \<Rightarrow> str \<Rightarrow> bool" where
  "private_human update chat_id user_id \<longleftrightarrow>
     (\<exists>message t chat sender.
        jget update (lit ''message'') = Some (JObj message)
        \<and> jget message (lit ''text'') = Some (JStr t) \<and> strip t \<noteq> []
        \<and> jget message (lit ''chat'') = Some (JObj chat)
        \<and> jget message (lit ''from'') = Some (JObj sender)
        \<and> jget chat (lit ''type'') = Some (JStr (lit ''private''))
        \<and> jget sender (lit ''is_bot'') \<noteq> Some (JBool True)
        \<and> enroll_id_text (jget chat (lit ''id'')) = Some chat_id
        \<and> enroll_id_text (jget sender (lit ''id'')) = Some user_id)"

lemma extract_is_private_human:
  "extract_private_human_identity u = Some (chat_id, user_id) \<longleftrightarrow> private_human u chat_id user_id"
  by (auto simp: extract_private_human_identity_def private_human_def
      split: option.splits json.splits if_splits)

definition answered_with :: "http_answer \<Rightarrow> jobject \<Rightarrow> bool" where
  "answered_with answer u \<longleftrightarrow>
     (\<exists>response data. answer = Inr response \<and> hr_status response < 400
        \<and> hr_json response = Some (JObj data)
        \<and> u \<in> set (dict_items (jget_or data (lit ''result'') (JArr []))))"

lemma get_updates_answered:
  "get_updates b t offset timeout answer = (tr, Inr updates) \<Longrightarrow> u \<in> set updates \<Longrightarrow> answered_with answer u"
  by (auto simp: get_updates_def enroll_post_def answered_with_def Let_def
      split: sum.splits option.splits json.splits if_splits)

lemma scan_updates_found:
  "scan_updates offset us = (offset', Some identity) \<Longrightarrow>
     \<exists>u \<in> set us. extract_private_human_identity u = Some identity"
  by (induction offset us rule: scan_updates.induct) (auto simp: Let_def split: option.splits)

lemma enroll_wait_found:
  "enroll_wait b t deadline offset rounds = (tr, Some (Inr 0)) \<Longrightarrow>
     \<exists>r \<in> set rounds. er_now r < deadline
       \<and> (\<exists>u chat_id user_id. answered_with (er_answer r) u \<and> private_human u chat_id user_id
            \<and> drop (length tr - 2) tr
                = [Out (lit ''allowed_private_chat_id: '' @ [34] @ chat_id @ [34]),
                   Out (lit ''allowed_user_id: '' @ [34] @ user_id @ [34])])"
proof (induction rounds arbitrary: offset tr)
  case Nil
  then show ?case by simp
next
  case (Cons r rs)
  let ?timeout = "min 10 (max 1 (py_trunc (deadline - er_then r)))"
  from Cons.prems obtain tr1 updates where now: "er_now r < deadline"
    and got: "get_updates b t offset ?timeout (er_answer r) = (tr1, Inr updates)"
    by (auto split: if_splits prod.splits sum.splits)
  obtain offset' found where scan: "scan_updates offset updates = (offset', found)" by fastforce
  show ?case
  proof (cases found)
    case (Some identity)
    obtain chat_id user_id where i: "identity = (chat_id, user_id)" by fastforce
    with scan Some obtain u where "u \<in> set updates" "private_human u chat_id user_id"
      using scan_updates_found extract_is_private_human by metis
    moreover from got this(1) have "answered_with (er_answer r) u" by (rule get_updates_answered)
    moreover have "tr = tr1 @ [Out (lit ''allowed_private_chat_id: '' @ [34] @ chat_id @ [34]),
                   Out (lit ''allowed_user_id: '' @ [34] @ user_id @ [34])]"
      using Cons.prems now got scan Some i by simp
    ultimately show ?thesis using now by auto
  next
    case None
    then obtain tr2 where rest: "enroll_wait b t deadline offset' rs = (tr2, Some (Inr 0))"
        "tr = tr1 @ tr2"
      using Cons.prems now got scan by (auto split: prod.splits)
    from Cons.IH [OF rest(1)] obtain r' u chat_id user_id where r':
      "r' \<in> set rs" "er_now r' < deadline" "answered_with (er_answer r') u"
      "private_human u chat_id user_id"
      and tail: "drop (length tr2 - 2) tr2
                = [Out (lit ''allowed_private_chat_id: '' @ [34] @ chat_id @ [34]),
                   Out (lit ''allowed_user_id: '' @ [34] @ user_id @ [34])]"
      by blast
    have "2 \<le> length tr2" using arg_cong [OF tail, of length] by simp
    then have "drop (length tr - 2) tr = drop (length tr2 - 2) tr2" by (simp add: rest(2))
    with r' tail show ?thesis by (metis list.set_intros(2))
  qed
qed

theorem enroll_finds_private_human:
  assumes "enroll typed b timeout me first start rounds = (tr, Some (Inr 0))"
  shows "\<exists>r \<in> set rounds. er_now r < start + of_int (max timeout 1)
       \<and> (\<exists>u chat_id user_id. answered_with (er_answer r) u \<and> private_human u chat_id user_id
            \<and> drop (length tr - 2) tr
                = [Out (lit ''allowed_private_chat_id: '' @ [34] @ chat_id @ [34]),
                   Out (lit ''allowed_user_id: '' @ [34] @ user_id @ [34])])"
proof -
  let ?deadline = "start + of_int (max timeout 1)"
  from assms obtain before offset tr' where wait:
      "enroll_wait b (strip typed) ?deadline offset rounds = (tr', Some (Inr 0))" "tr = before @ tr'"
    by (auto simp: enroll_def Let_def split: if_splits prod.splits sum.splits bool.splits)
  from enroll_wait_found [OF wait(1)] obtain r u chat_id user_id where r:
      "r \<in> set rounds" "er_now r < ?deadline" "answered_with (er_answer r) u"
      "private_human u chat_id user_id"
    and tail: "drop (length tr' - 2) tr'
                = [Out (lit ''allowed_private_chat_id: '' @ [34] @ chat_id @ [34]),
                   Out (lit ''allowed_user_id: '' @ [34] @ user_id @ [34])]"
    by blast
  have "2 \<le> length tr'" using arg_cong [OF tail, of length] by simp
  then have "drop (length tr - 2) tr = drop (length tr' - 2) tr'" by (simp add: wait(2))
  with r tail show ?thesis by metis
qed

section \<open>The end of the wait\<close>

lemma enroll_wait_ends:
  "r \<in> set rounds \<Longrightarrow> deadline \<le> er_now r \<Longrightarrow> snd (enroll_wait b t deadline offset rounds) \<noteq> None"
proof (induction rounds arbitrary: offset)
  case (Cons r' rs)
  show ?case
  proof (cases "deadline \<le> er_now r'")
    case False
    with Cons have "snd (enroll_wait b t deadline o' rs) \<noteq> None" for o' by auto
    with False show ?thesis
      by (auto split: prod.splits sum.splits option.splits) (metis snd_conv option.distinct(1))
  qed simp
qed simp

text \<open>Once the clock has passed the deadline, the tool has ended.\<close>

theorem enroll_ends:
  assumes "r \<in> set rounds" "start + of_int (max timeout 1) \<le> er_now r"
  shows "\<exists>tr result. enroll typed b timeout me first start rounds = (tr, Some result)"
proof -
  let ?deadline = "start + of_int (max timeout 1)"
  have "snd (enroll typed b timeout me first start rounds) \<noteq> None"
    using enroll_wait_ends [OF assms, of b "strip typed"]
    by (auto simp: enroll_def Let_def split: prod.splits sum.splits bool.splits)
      (metis snd_conv option.distinct(1))+
  then show ?thesis by (metis option.exhaust prod.collapse)
qed

text \<open>Every update that is seen is acknowledged by the offset of the next request.\<close>

lemma scan_updates_offset:
  "scan_updates offset us = (offset', None) \<Longrightarrow> us \<noteq> [] \<Longrightarrow>
     as_int (jget (last us) (lit ''update_id'')) = Some i \<Longrightarrow> offset' = Some (i + 1)"
  by (induction offset us rule: scan_updates.induct) (auto simp: Let_def split: option.splits if_splits)

lemma max_update_id_mono: "max_update_id (Some m) us = Some n \<Longrightarrow> m \<le> n"
  by (induction us arbitrary: m) (auto split: option.splits, fastforce)

text \<open>No update of the first answer is taken for the owner's message: the first offset is past it.\<close>

lemma initial_offset_past:
  assumes "u \<in> set us" "as_int (jget u (lit ''update_id'')) = Some i"
  shows "\<exists>n. max_update_id m us = Some n \<and> i \<le> n"
  using assms
proof (induction us arbitrary: m)
  case (Cons v us)
  have some: "\<exists>n. max_update_id (Some k) us = Some n" for k
    by (induction us arbitrary: k) (auto split: option.splits)
  show ?case
  proof (cases "u = v")
    case True
    let ?k = "case m of None \<Rightarrow> i | Some j \<Rightarrow> max j i"
    obtain n where n: "max_update_id (Some ?k) us = Some n" using some by blast
    have "i \<le> ?k" by (auto split: option.splits)
    with max_update_id_mono [OF n] have "i \<le> n" by linarith
    with n True Cons.prems show ?thesis by simp
  next
    case False
    with Cons show ?thesis by (auto split: option.splits)
  qed
qed simp

end
