(* ===== verification/Release_Notes.thy ===== *)
theory Release_Notes
  imports PyJson PyNumber
begin

text \<open>
  The scripts that publish a release: \<open>scripts/build_release_notes.py\<close>, which takes the section of
  a version out of the changelog, and \<open>scripts/upsert_github_release.py\<close>, which creates the
  release or updates the one that is there. The answers of the server are a parameter. Regular
  expressions are written as functions on the text; the parsing of the arguments is left out.
\<close>

section \<open>Versions\<close>

definition is_version_char :: "nat \<Rightarrow> bool" where
  "is_version_char c \<longleftrightarrow>
     c = 45 \<or> c = 46 \<or> 65 \<le> c \<and> c \<le> 90 \<or> 97 \<le> c \<and> c \<le> 122 \<or> is_digit c"

text \<open>What follows the digits that \<open>t\<close> begins with, and what follows a full stop.\<close>

definition after_number :: "str \<Rightarrow> str option" where
  "after_number t = (if takeWhile is_digit t = [] then None else Some (dropWhile is_digit t))"

definition after_dot :: "str \<Rightarrow> str option" where
  "after_dot t = (if starts_with t [46] then Some (drop 1 t) else None)"

text \<open>\<open>\d+\.\d+\.\d+(?:[-.A-Za-z0-9]+)?\<close>\<close>

definition is_release_version :: "str \<Rightarrow> bool" where
  "is_release_version t =
     (case Option.bind (after_number t) (\<lambda>t.
           Option.bind (after_dot t) (\<lambda>t.
           Option.bind (after_number t) (\<lambda>t.
           Option.bind (after_dot t) after_number))) of
        None \<Rightarrow> False
      | Some rest \<Rightarrow> list_all is_version_char rest)"

definition is_release_tag :: "str \<Rightarrow> bool" where
  "is_release_tag t \<longleftrightarrow> starts_with t [118] \<and> is_release_version (drop 1 t)"

definition is_prerelease_version :: "str \<Rightarrow> bool" where
  "is_prerelease_version version = contains version [45]"

section \<open>The changelog\<close>

text \<open>
  The flag says that the text begins a line. The body of a section ends before the next line that
  begins a section; a heading counts only when its line is ended.
\<close>

fun until_section :: "bool \<Rightarrow> str \<Rightarrow> str" where
  "until_section at_line [] = []"
| "until_section at_line (c # cs) =
     (if at_line \<and> starts_with (c # cs) (lit ''## ['') then [] else c # until_section (c = 10) cs)"

fun find_section :: "str \<Rightarrow> bool \<Rightarrow> str \<Rightarrow> str option" where
  "find_section heading at_line [] = None"
| "find_section heading at_line (c # cs) =
     (if at_line \<and> starts_with (c # cs) heading
         \<and> 10 \<in> set (drop (length heading) (c # cs))
      then Some (until_section True (drop 1 (dropWhile (\<lambda>d. d \<noteq> 10) (drop (length heading) (c # cs)))))
      else find_section heading (c = 10) cs)"

definition extract_changelog_section :: "str \<Rightarrow> str \<Rightarrow> str result" where
  "extract_changelog_section changelog version =
     (case find_section (lit ''## ['' @ version @ lit '']'') True changelog of
        None \<Rightarrow> Inl (Exn ValueError (lit ''CHANGELOG.md does not contain a section for '' @ version))
      | Some section \<Rightarrow>
          (let body = strip section in
           if body = []
           then Inl (Exn ValueError (lit ''CHANGELOG.md section for '' @ version @ lit '' is empty''))
           else Inr body))"

definition nl :: str where "nl = [10]"

definition build_release_notes :: "str \<Rightarrow> str \<Rightarrow> str \<Rightarrow> str \<Rightarrow> str result" where
  "build_release_notes version changelog image_name digest =
     (if \<not> is_release_version version
      then raise ValueError ''version must be a release version without the leading v''
      else if \<not> starts_with digest (lit ''sha256:'') \<or> length digest \<noteq> 7 + 64
      then raise ValueError ''digest must be a sha256 digest''
      else
        bind_result (extract_changelog_section changelog version) (\<lambda>body.
          Inr (lit ''## MeshCore Control Bridge '' @ version @ nl @ nl @ body @ nl @ nl
            @ lit ''### Container image'' @ nl @ nl @ [96] @ image_name @ [58] @ version @ [96] @ nl @ nl
            @ lit ''Multiarch digest:'' @ nl @ nl @ [96] @ digest @ [96] @ nl @ nl
            @ lit ''Platforms:'' @ nl @ nl
            @ lit ''- `linux/amd64`'' @ nl @ lit ''- `linux/arm64`'' @ nl)))"

section \<open>The release\<close>

definition build_release_payload :: "str \<Rightarrow> str \<Rightarrow> str \<Rightarrow> bool \<Rightarrow> jobject result" where
  "build_release_payload tag_name title body prerelease =
     (if \<not> is_release_tag tag_name then raise ValueError ''tag_name must look like vX.Y.Z''
      else if strip title = [] then raise ValueError ''title must not be empty''
      else if strip body = [] then raise ValueError ''body must not be empty''
      else Inr [(lit ''tag_name'', JStr tag_name), (lit ''name'', JStr title), (lit ''body'', JStr body),
                (lit ''draft'', JBool False), (lit ''prerelease'', JBool prerelease)])"

record release_client =
  rl_repository :: str
  rl_token :: str

definition new_release_client :: "str \<Rightarrow> str \<Rightarrow> release_client result" where
  "new_release_client repository token =
     (if \<not> contains repository [47] then raise ValueError ''repository must be owner/name''
      else if token = [] then raise ValueError ''GitHub token is required''
      else Inr \<lparr>rl_repository = repository, rl_token = token\<rparr>)"

datatype gh_method = GET | POST | PATCH

record gh_request =
  gr_method :: gh_method
  gr_url :: str
  gr_headers :: "(str \<times> str) list"
  gr_data :: "bytes option"

text \<open>What \<open>urlopen\<close> gives: the decoded body, an \<open>HTTPError\<close> with its code, or another exception.\<close>

datatype gh_answer = Body json | HttpError int | Fails exn

definition release_request :: "release_client \<Rightarrow> gh_method \<Rightarrow> str \<Rightarrow> jobject option \<Rightarrow> gh_request" where
  "release_request rl m path payload =
     \<lparr>gr_method = m,
      gr_url = lit ''https://api.github.com/repos/'' @ rl_repository rl @ path,
      gr_headers =
        [(lit ''Accept'', lit ''application/vnd.github+json''),
         (lit ''Authorization'', lit ''Bearer '' @ rl_token rl),
         (lit ''X-GitHub-Api-Version'', lit ''2022-11-28'')]
        @ (case payload of None \<Rightarrow> [] | Some _ \<Rightarrow> [(lit ''Content-Type'', lit ''application/json'')]),
      gr_data = map_option (\<lambda>d. utf8 (dumps_default (JObj d))) payload\<rparr>"

text \<open>\<open>None\<close> for a code 404.\<close>

definition release_answer :: "gh_answer \<Rightarrow> json result" where
  "release_answer answer =
     (case answer of
        Body v \<Rightarrow> Inr v
      | HttpError code \<Rightarrow>
          if code = 404 then Inr JNull
          else Inl (Exn RuntimeError (lit ''GitHub API request failed with HTTP '' @ dec code))
      | Fails e \<Rightarrow> Inl e)"

definition release_object :: "gh_answer \<Rightarrow> jobject result" where
  "release_object answer =
     bind_result (release_answer answer) (\<lambda>v.
       case v of JObj d \<Rightarrow> Inr d | _ \<Rightarrow> raise RuntimeError ''GitHub API did not return a release object'')"

text \<open>The server is given the requests so far and the new one.\<close>

type_synonym gh_server = "gh_request list \<Rightarrow> gh_request \<Rightarrow> gh_answer"

definition get_by_tag :: "gh_server \<Rightarrow> release_client \<Rightarrow> str \<Rightarrow> gh_request list \<times> jobject option result" where
  "get_by_tag server rl tag_name =
     (let rq = release_request rl GET (lit ''/releases/tags/'' @ tag_name) None in
      ([rq], bind_result (release_answer (server [] rq)) (\<lambda>v. case v of JObj d \<Rightarrow> Inr (Some d) | _ \<Rightarrow> Inr None)))"

definition create_release ::
    "gh_server \<Rightarrow> release_client \<Rightarrow> jobject \<Rightarrow> gh_request list \<Rightarrow> gh_request list \<times> jobject result" where
  "create_release server rl payload sent =
     (let rq = release_request rl POST (lit ''/releases'') (Some payload)
      in (sent @ [rq], release_object (server sent rq)))"

definition update_release ::
    "gh_server \<Rightarrow> release_client \<Rightarrow> json \<Rightarrow> jobject \<Rightarrow> gh_request list \<Rightarrow> gh_request list \<times> jobject result" where
  "update_release server rl release_id payload sent =
     (let rq = release_request rl PATCH (lit ''/releases/'' @ py_str release_id) (Some payload)
      in (sent @ [rq], release_object (server sent rq)))"

fun is_int :: "json option \<Rightarrow> bool" where
  "is_int (Some (JInt _)) = True"
| "is_int (Some (JBool _)) = True"
| "is_int _ = False"

definition upsert :: "gh_server \<Rightarrow> release_client \<Rightarrow> jobject \<Rightarrow> gh_request list \<times> jobject result" where
  "upsert server rl payload =
     (case jget payload (lit ''tag_name'') of
        None \<Rightarrow> ([], Inl (Exn KeyError ([39] @ lit ''tag_name'' @ [39])))
      | Some tag \<Rightarrow>
          (case get_by_tag server rl (py_str tag) of
             (sent, Inl e) \<Rightarrow> (sent, Inl e)
           | (sent, Inr None) \<Rightarrow> create_release server rl payload sent
           | (sent, Inr (Some existing)) \<Rightarrow>
               if \<not> is_int (jget existing (lit ''id''))
               then (sent, raise RuntimeError ''existing release is missing a numeric id'')
               else update_release server rl (jget_null existing (lit ''id'')) payload sent))"

text \<open>The script, from the text of the notes to the address that it prints.\<close>

definition publish_release ::
    "gh_server \<Rightarrow> (str \<Rightarrow> str option) \<Rightarrow> str \<Rightarrow> str \<Rightarrow> str result \<Rightarrow> bool \<Rightarrow> gh_request list \<times> str result" where
  "publish_release server getenv tag title notes prerelease =
     (case bind_result notes (\<lambda>body.
            bind_result (build_release_payload tag title body prerelease) (\<lambda>payload.
            bind_result (new_release_client
                (case getenv (lit ''GITHUB_REPOSITORY'') of Some r \<Rightarrow> r | None \<Rightarrow> [])
                (case getenv (lit ''GITHUB_TOKEN'') of Some t \<Rightarrow> t | None \<Rightarrow> [])) (\<lambda>rl. Inr (payload, rl)))) of
        Inl e \<Rightarrow> ([], Inl e)
      | Inr (payload, rl) \<Rightarrow>
          (case upsert server rl payload of
             (sent, r) \<Rightarrow>
               (sent, bind_result r (\<lambda>d.
                  Inr (py_str (jget_or d (lit ''html_url'') (JStr (lit ''release-upserted''))))))))"

section \<open>Sections\<close>

text \<open>A changelog as a preamble and its sections, each a heading and a body of whole lines.\<close>

definition section_text :: "str \<times> str \<times> str \<Rightarrow> str" where
  "section_text s = (case s of (version, date, body) \<Rightarrow> lit ''## ['' @ version @ lit '']'' @ date @ nl @ body @ nl)"

definition no_heading :: "str \<Rightarrow> bool" where
  "no_heading t \<longleftrightarrow> until_section True (t @ nl) = t @ nl"

text \<open>A heading stays on its line, and a version holds no bracket.\<close>

definition plain_version :: "str \<Rightarrow> bool" where
  "plain_version v \<longleftrightarrow> 93 \<notin> set v \<and> 10 \<notin> set v"

definition wf_section :: "str \<times> str \<times> str \<Rightarrow> bool" where
  "wf_section s = (case s of (version, date, body) \<Rightarrow> plain_version version \<and> 10 \<notin> set date \<and> no_heading body)"

definition changelog_text :: "str \<Rightarrow> (str \<times> str \<times> str) list \<Rightarrow> str" where
  "changelog_text pre sections = pre @ nl @ concat (map section_text sections)"

abbreviation heading :: "str \<Rightarrow> str" where
  "heading v \<equiv> lit ''## ['' @ v @ lit '']''"

lemma prefix_within_line:
  assumes "prefix p (t @ nl @ rest)" "10 \<notin> set p"
  shows "prefix p t"
  using assms by (auto simp: nl_def prefix_append prefix_Cons)

lemma no_newline_in_mark: "10 \<notin> set (lit ''## ['')"
  by (simp add: lit_def)

lemma mark_within_line:
  assumes "\<not> starts_with (t @ nl) (lit ''## ['')"
  shows "\<not> starts_with (t @ nl @ rest) (lit ''## ['' @ h)"
proof
  assume "starts_with (t @ nl @ rest) (lit ''## ['' @ h)"
  then have "prefix (lit ''## ['') (t @ nl @ rest)"
    unfolding starts_with_prefix by (rule append_prefixD)
  then have "prefix (lit ''## ['') t" by (rule prefix_within_line [OF _ no_newline_in_mark])
  then have "prefix (lit ''## ['') (t @ nl)" by (rule prefix_prefix)
  with assms show False by (simp add: starts_with_prefix)
qed

lemma find_section_next:
  "\<not> (b \<and> starts_with (c # cs) h) \<Longrightarrow> find_section h b (c # cs) = find_section h (c = 10) cs"
  by auto

lemma until_section_next:
  "\<not> (b \<and> starts_with (c # cs) (lit ''## [''))
    \<Longrightarrow> until_section b (c # cs) = c # until_section (c = 10) cs"
  by auto

lemma until_section_starts:
  "until_section True t = t \<Longrightarrow> t \<noteq> [] \<Longrightarrow> \<not> starts_with t (lit ''## ['')"
  by (cases t) auto

lemma no_mark_ahead:
  assumes "until_section b (c # t @ nl) = c # t @ nl"
  shows "\<not> (b \<and> starts_with (c # t @ nl @ rest) (lit ''## ['' @ h))"
proof (cases b)
  case True
  from assms have "until_section True (c # t @ nl) = c # t @ nl" by (simp only: True)
  then have "\<not> starts_with (c # t @ nl) (lit ''## ['')"
    by (rule until_section_starts) simp
  then have "\<not> starts_with ((c # t) @ nl) (lit ''## ['')" by (simp only: append_Cons not_False_eq_True)
  from mark_within_line [OF this, of rest h] show ?thesis by simp
qed simp

text \<open>Lines without a heading are passed over by the search and taken into a body.\<close>

lemma find_section_skip:
  "until_section b (t @ nl) = t @ nl \<Longrightarrow>
     find_section (lit ''## ['' @ h) b (t @ nl @ rest) = find_section (lit ''## ['' @ h) True rest"
proof (induction t arbitrary: b)
  case Nil
  then show ?case by (simp add: nl_def starts_with_def lit_def)
next
  case (Cons c t)
  have "\<not> (b \<and> starts_with (c # t @ nl @ rest) (lit ''## ['' @ h))"
    using Cons.prems by (intro no_mark_ahead) simp
  moreover have "until_section (c = 10) (t @ nl) = t @ nl"
    using Cons.prems by (simp split: if_splits)
  ultimately show ?case
    using Cons.IH [of "c = 10"] find_section_next [of b c "t @ nl @ rest" "lit ''## ['' @ h"]
    by (simp del: find_section.simps)
qed

lemma until_section_skip:
  "until_section b (t @ nl) = t @ nl \<Longrightarrow> until_section b (t @ nl @ rest) = t @ nl @ until_section True rest"
proof (induction t arbitrary: b)
  case Nil
  then show ?case by (simp add: nl_def starts_with_def lit_def)
next
  case (Cons c t)
  have "\<not> (b \<and> starts_with (c # t @ nl @ rest) (lit ''## [''))"
    using Cons.prems no_mark_ahead [of b c t rest "[]"] by simp
  moreover have "until_section (c = 10) (t @ nl) = t @ nl"
    using Cons.prems by (simp split: if_splits)
  ultimately show ?case
    using Cons.IH [of "c = 10"] until_section_next [of b c "t @ nl @ rest"]
    by (simp del: until_section.simps)
qed

text \<open>The rest of a line is no heading.\<close>

lemma find_section_line:
  "10 \<notin> set t \<Longrightarrow> find_section h False (t @ nl @ rest) = find_section h True rest"
  by (induction t) (auto simp: nl_def)

lemma heading_unique:
  fixes v v' :: str
  assumes "prefix (v @ [93]) (v' @ [93] @ rest)" "93 \<notin> set v" "93 \<notin> set v'"
  shows "v = v'"
proof -
  from assms(1) obtain u where "v @ [93] @ u = v' @ [93] @ rest" by (auto simp: prefix_def)
  then have same: "takeWhile (\<lambda>c. c \<noteq> 93) (v @ [93] @ u) = takeWhile (\<lambda>c. c \<noteq> 93) (v' @ [93] @ rest)"
    by simp
  have upto: "takeWhile (\<lambda>c. c \<noteq> 93) (w @ [93] @ x) = w" if "93 \<notin> set w" for w x :: str
    using that by (induction w) auto
  show ?thesis using same unfolding upto [OF assms(2)] upto [OF assms(3)] .
qed

lemma starts_with_heading:
  assumes "plain_version v" "plain_version v'"
  shows "starts_with (heading v' @ rest) (heading v) \<longleftrightarrow> v' = v"
proof -
  have bracket: "lit '']'' = [93]" by (simp add: lit_def)
  have "starts_with (heading v' @ rest) (heading v) \<longleftrightarrow> prefix (v @ [93]) (v' @ [93] @ rest)"
    by (simp only: starts_with_prefix append_assoc same_prefix_prefix bracket)
  also have "\<dots> \<longleftrightarrow> v' = v"
    using heading_unique [of v v' rest] assms by (auto simp: plain_version_def)
  finally show ?thesis .
qed

lemma find_section_step:
  assumes v: "plain_version v" and s: "wf_section (v', date, body)"
  shows "find_section (heading v) True (section_text (v', date, body) @ rest) =
    (if v' = v then Some (body @ nl @ until_section True rest) else find_section (heading v) True rest)"
proof -
  let ?text = "section_text (v', date, body) @ rest"
  have parts: "plain_version v'" "10 \<notin> set date" "until_section True (body @ nl) = body @ nl"
    using s by (simp_all add: wf_section_def no_heading_def)
  have full: "?text = heading v' @ date @ nl @ body @ nl @ rest" by (simp add: section_text_def)
  obtain c cs where c: "?text = c # cs" "cs = lit ''# ['' @ v' @ lit '']'' @ date @ nl @ body @ nl @ rest" "c = 35"
    by (simp add: section_text_def lit_def)
  have begins: "starts_with ?text (heading v) \<longleftrightarrow> v' = v"
    unfolding full using starts_with_heading [OF v parts(1)] by simp
  show ?thesis
  proof (cases "v' = v")
    case True
    have "drop (length (heading v)) ?text = date @ nl @ body @ nl @ rest" by (subst full) (simp add: True)
    moreover have "dropWhile (\<lambda>d. d \<noteq> 10) (date @ nl @ body @ nl @ rest) = nl @ body @ nl @ rest"
      using parts(2) by (induction date) (auto simp: nl_def)
    ultimately have "find_section (heading v) True ?text = Some (until_section True (body @ nl @ rest))"
      using begins True unfolding c(1) by (simp add: nl_def)
    with True until_section_skip [OF parts(3)] show ?thesis by simp
  next
    case False
    have "10 \<notin> set (lit ''# ['' @ v' @ lit '']'' @ date)"
      using parts(1,2) by (simp add: plain_version_def lit_def)
    from find_section_line [OF this, of "heading v" "body @ nl @ rest"]
    have "find_section (heading v) False cs = find_section (heading v) True (body @ nl @ rest)"
      by (simp add: c(2))
    moreover have "find_section (heading v) True ?text = find_section (heading v) False cs"
      using begins False unfolding c(1) by (simp add: c(3))
    ultimately show ?thesis using False find_section_skip [OF parts(3), of "v @ lit '']''" rest] by simp
  qed
qed

lemma until_section_sections:
  "until_section True (concat (map section_text sections)) = []"
proof (cases sections)
  case (Cons s ss)
  obtain v d b where "s = (v, d, b)" by (metis prod_cases3)
  then show ?thesis
    by (simp add: Cons section_text_def lit_def starts_with_def)
qed simp

lemma find_section_sections:
  assumes "plain_version v" "list_all wf_section sections"
  shows "find_section (heading v) True (concat (map section_text sections)) =
    map_option (\<lambda>(date, body). body @ nl) (map_of sections v)"
  using assms(2)
proof (induction sections)
  case (Cons s ss)
  obtain v' d b where s: "s = (v', d, b)" by (metis prod_cases3)
  with Cons find_section_step [OF assms(1), of v' d b "concat (map section_text ss)"]
  show ?case by (auto simp: until_section_sections)
qed simp

lemma strip_newline: "strip (t @ nl) = strip t"
proof -
  have space: "is_space 10" by (simp add: is_space_def)
  show ?thesis
  proof (cases "list_all is_space t")
    case True
    with space have "strip t = []" "strip (t @ nl) = []" by (simp_all add: strip_eq_Nil_iff nl_def)
    then show ?thesis by simp
  next
    case False
    then have "lstrip (t @ nl) = lstrip t @ nl"
      unfolding lstrip_def by (auto simp: list_all_iff intro: dropWhile_append1)
    then show ?thesis using space by (simp add: strip_def rstrip_def nl_def)
  qed
qed

text \<open>
  The extraction is the lookup in the list of sections: the first section of the version, without
  the white space around it; a version without a section, or with an empty one, is an error.
\<close>

theorem changelog_lookup:
  assumes "no_heading pre" "list_all wf_section sections" "plain_version version"
  shows "extract_changelog_section (changelog_text pre sections) version =
    (case map_of sections version of
       None \<Rightarrow> Inl (Exn ValueError (lit ''CHANGELOG.md does not contain a section for '' @ version))
     | Some (date, body) \<Rightarrow>
         if strip body = []
         then Inl (Exn ValueError (lit ''CHANGELOG.md section for '' @ version @ lit '' is empty''))
         else Inr (strip body))"
proof -
  have "find_section (heading version) True (changelog_text pre sections) =
      find_section (heading version) True (concat (map section_text sections))"
    unfolding changelog_text_def
    using find_section_skip [of True pre "version @ lit '']''"] assms(1) by (simp add: no_heading_def)
  also have "\<dots> = map_option (\<lambda>(date, body). body @ nl) (map_of sections version)"
    by (rule find_section_sections [OF assms(3,2)])
  finally show ?thesis
    by (simp add: extract_changelog_section_def strip_newline Let_def split: option.split prod.split)
qed

section \<open>One write at most\<close>

definition writes :: "gh_request list \<Rightarrow> gh_request list" where
  "writes = filter (\<lambda>rq. gr_method rq \<noteq> GET)"

text \<open>
  \<open>upsert\<close> asks for the tag first. It creates a release only when the server has none with the
  tag, and otherwise updates the one that it was given, by its number; it writes once at most.
\<close>

theorem upsert_writes_once:
  assumes "jget payload (lit ''tag_name'') = Some tag" "upsert server rl payload = (sent, r)"
  shows "\<exists>rq rest. sent = rq # rest \<and> gr_method rq = GET \<and> gr_data rq = None
    \<and> (case release_answer (server [] rq) of
         Inl e \<Rightarrow> rest = [] \<and> r = Inl e
       | Inr (JObj existing) \<Rightarrow>
           if is_int (jget existing (lit ''id''))
           then rest = [release_request rl PATCH
                          (lit ''/releases/'' @ py_str (jget_null existing (lit ''id''))) (Some payload)]
           else rest = [] \<and> (\<exists>e. r = Inl e)
       | Inr _ \<Rightarrow> rest = [release_request rl POST (lit ''/releases'') (Some payload)])"
proof -
  let ?rq = "release_request rl GET
      (lit ''/releases/tags/'' @ py_str tag) None"
  have get: "gr_method ?rq = GET" "gr_data ?rq = None" by (simp_all add: release_request_def)
  obtain rest where "sent = ?rq # rest" and rest: "(case release_answer (server [] ?rq) of
         Inl e \<Rightarrow> rest = [] \<and> r = Inl e
       | Inr (JObj existing) \<Rightarrow>
           if is_int (jget existing (lit ''id''))
           then rest = [release_request rl PATCH
                          (lit ''/releases/'' @ py_str (jget_null existing (lit ''id''))) (Some payload)]
           else rest = [] \<and> (\<exists>e. r = Inl e)
       | Inr _ \<Rightarrow> rest = [release_request rl POST (lit ''/releases'') (Some payload)])"
    using assms(2) unfolding upsert_def assms(1) get_by_tag_def create_release_def update_release_def Let_def
    by (cases "release_answer (server [] ?rq)")
      (auto split: json.splits if_splits)
  with get show ?thesis by blast
qed

text \<open>What is published is no draft, under a tag of a version, with a title and a text.\<close>

lemma payload_is_final:
  assumes "build_release_payload tag title body prerelease = Inr d"
  shows "jget d (lit ''draft'') = Some (JBool False)" "jget d (lit ''prerelease'') = Some (JBool prerelease)"
    "jget d (lit ''tag_name'') = Some (JStr tag)" "is_release_tag tag"
  using assms by (auto simp: build_release_payload_def jget_def lit_def split: if_splits)

end
