(* ===== verification/Assembly.thy ===== *)
theory Assembly
  imports Startup Transports Supervisor Schema_Facts System_Facts
begin

text \<open>
  \<open>amain\<close> of \<open>main.py\<close> as a whole, from the launch to the services that are handed to
  \<open>_run_services\<close>: the configuration, the audit key, the databases with the migration of the tables
  of Telegram, the transport, the token, the parts and the publisher. The object of the health
  state is shared in the program; here the transport, the publisher and the world each start with
  the same value of it.
\<close>

section \<open>Databases\<close>

text \<open>
  The files with their schema, the failures of opening them, and the connections to the tables of
  the audit and of Telegram in each.
\<close>

record store =
  so_files :: "str \<Rightarrow> database"
  so_faults :: "str \<Rightarrow> exn option list"
  so_audit :: "str \<Rightarrow> audit_tables conn"
  so_telegram :: "str \<Rightarrow> tg_tables conn"

definition connect_at :: "str \<Rightarrow> store \<Rightarrow> unit result \<times> store" where
  "connect_at path so =
     (case connect_database path (so_faults so path) (so_files so path) of
        (r, db) \<Rightarrow> (r, so\<lparr>so_files := (so_files so)(path := db)\<rparr>))"

text \<open>The database of Telegram, into which the tables of the audit database are copied.\<close>

definition open_telegram_store :: "app_config \<Rightarrow> store \<Rightarrow> unit result \<times> store" where
  "open_telegram_store c so =
     (let audit = cf_database_path c; telegram = telegram_database_path audit in
      case connect_at telegram so of
        (Inl e, so1) \<Rightarrow> (Inl e, so1)
      | (Inr _, so1) \<Rightarrow>
          if telegram = audit then (Inr (), so1)
          else
            (case connect_at audit so1 of
               (Inl e, so2) \<Rightarrow> (Inl e, so2)
             | (Inr _, so2) \<Rightarrow>
                 (case migrate_telegram_tables (db_tables (so_telegram so2 audit)) (so_telegram so2 telegram) of
                    (r, conn) \<Rightarrow> (r, so2\<lparr>so_telegram := (so_telegram so2)(telegram := conn)\<rparr>))))"

section \<open>The program\<close>

record program =
  pg_config :: app_config
  pg_settings :: audit_settings
  pg_health :: health
  pg_transport :: wired_transport
  pg_token :: "str option"
  pg_filters :: "str list list"
  pg_bridge :: "builtin bridge"
  pg_telegram :: "builtin tg_service option"
  pg_publisher :: "publisher option"

text \<open>\<open>build_service\<close> up to the transport, and \<open>_build_telegram_services\<close> with what it reads.\<close>

definition assemble_bridge :: "app_config \<Rightarrow> health \<Rightarrow> store \<Rightarrow> wired_transport result \<times> store" where
  "assemble_bridge c h so =
     (case connect_at (cf_database_path c) so of
        (Inl e, so1) \<Rightarrow> (Inl e, so1)
      | (Inr _, so1) \<Rightarrow> (make_transport c (Some h), so1))"

definition assemble_telegram ::
    "(str \<Rightarrow> path) \<Rightarrow> app_config \<Rightarrow> audit_settings \<Rightarrow> str list list \<Rightarrow> io \<times> store
       \<Rightarrow> (str option \<times> str list list) result \<times> io \<times> store" where
  "assemble_telegram path_of c s filters st =
     (case telegram_secrets path_of c s filters (fst st) of
        (Inl e, io) \<Rightarrow> (Inl e, io, snd st)
      | (Inr secrets, io) \<Rightarrow>
          if fst secrets = None then (Inr secrets, io, snd st)
          else
            (case open_telegram_store c (snd st) of
               (Inl e, so) \<Rightarrow> (Inl e, io, so)
             | (Inr _, so) \<Rightarrow> (Inr secrets, io, so)))"

definition assemble ::
    "crypto \<Rightarrow> (str \<Rightarrow> path) \<Rightarrow> launch \<Rightarrow> str \<Rightarrow> instant \<Rightarrow> io \<times> store \<Rightarrow> program result \<times> io \<times> store" where
  "assemble cr path_of la version now st =
     (case choose_config la of
        Inl e \<Rightarrow> (Inl e, st)
      | Inr c \<Rightarrow>
          (case choose_audit_settings cr path_of la (fst st) of
             (Inl e, io) \<Rightarrow> (Inl e, io, snd st)
           | (Inr s, io) \<Rightarrow>
               (let fc = \<lparr>fc_crypto = cr, fc_settings = s\<rparr>; h = start_health c version now in
                case assemble_bridge c h (snd st) of
                  (Inl e, so) \<Rightarrow> (Inl e, io, so)
                | (Inr transport, so) \<Rightarrow>
                    (case assemble_telegram path_of c s (configure_logging (la_getenv la)) (io, so) of
                       (Inl e, st2) \<Rightarrow> (Inl e, st2)
                     | (Inr (token, filters), st2) \<Rightarrow>
                         (bind_result (build_parts c fc) (\<lambda>(bg, ts).
                            Inr \<lparr>pg_config = c, pg_settings = s, pg_health = h, pg_transport = transport,
                                 pg_token = token, pg_filters = filters, pg_bridge = bg, pg_telegram = ts,
                                 pg_publisher = build_health_event_publisher c h\<rparr>), st2)))))"

text \<open>
  The world in which the services of the program start: the audit log is that of the configured
  file, the tables of Telegram are those of the file derived from it.
\<close>

definition launch_world ::
    "program \<Rightarrow> str \<Rightarrow> instant \<Rightarrow> store \<Rightarrow> exn option list \<Rightarrow> exn option list \<Rightarrow> world" where
  "launch_world pg version now so send_faults tg_faults =
     start_world (pg_config pg) version now (so_audit so (cf_database_path (pg_config pg)))
       (so_telegram so (telegram_database_path (cf_database_path (pg_config pg)))) send_faults tg_faults"

section \<open>Steps of the program\<close>

text \<open>
  Between two switches of the event loop the bridge handles a message or, when Telegram is enabled,
  the Telegram service handles what one poll brings.
\<close>

inductive program_step ::
    "'h runner \<Rightarrow> env \<Rightarrow> 'h bridge \<Rightarrow> 'h tg_service option \<Rightarrow> world \<Rightarrow> world \<Rightarrow> bool"
  for run ev bg telegram where
  on_message: "process_message run ev bg m w = (r, w') \<Longrightarrow> program_step run ev bg telegram w w'"
| on_poll: "telegram = Some ts \<Longrightarrow> poll_once run ev ts answer w = (r, w') \<Longrightarrow> program_step run ev bg telegram w w'"

inductive_cases program_stepE: "program_step run ev bg telegram w w'"

lemma program_step_with_telegram:
  "program_step run ev bg (Some ts) w w' \<longleftrightarrow> system_step run ev bg ts w w'"
  by (auto elim!: program_stepE system_step.cases intro: program_step.intros system_step.intros)

lemma program_step_keeps:
  assumes "build_parts c fc = Inr (bg, telegram)" "0 \<le> tc_max_meshcore_length (cf_telegram c)"
    and "program_step (run_builtin (build_services c client reader fc)) ev bg telegram w w'"
    and "world_inv (Some fc) None w \<and> list_all (on_air c) (w_sent w)"
  shows "world_inv (Some fc) None w' \<and> list_all (on_air c) (w_sent w')"
proof (cases telegram)
  case (Some ts)
  with assms show ?thesis
    unfolding Some program_step_with_telegram by (metis system_step_keeps)
next
  case None
  let ?sv = "build_services c client reader fc"
  have flow: "sv_flow ?sv = Some fc" by (simp add: build_services_def Let_def)
  obtain mf where wired: "parts.wired ?sv mf bg"
    using build_parts_wired [OF assms(1)] by metis
  note fields = build_parts_fields [OF assms(1)]
  from assms(3) None obtain m r where message: "process_message (run_builtin ?sv) ev bg m w = (r, w')"
    by (auto elim: program_stepE)
  from parts.process_message_inv [OF wired _ message] assms(4) flow
  have "world_inv (Some fc) None w'" by simp
  moreover from parts.process_message_fits [OF wired _ message] assms(2) fields
  have "reply_sent bg w w'" by simp
  ultimately show ?thesis using assms(4) fields by (auto simp: reply_sent_def on_air_def)
qed

lemma forwarder_chat:
  assumes "build_parts c fc = Inr (bg, telegram)" "bg_forwarder bg = Some f"
  shows "chat_step (tc_allowed_private_chat_id (cf_telegram c)) v (snd (f ev m trail v))"
proof -
  from assms(2,1) obtain ts mf where mf: "build_telegram_services c fc = Inr (Some (ts, mf))"
      "f = forward_normal_text mf"
    by (auto simp: build_parts_def build_service_def bind_result_Inr_iff)
  from mf(1) have "mf_config mf = cf_telegram c"
    by (auto simp: build_telegram_services_def split: if_splits option.splits)
  with forward_normal_text_chat [of mf v ev m trail] mf(2) show ?thesis by simp
qed

lemma program_step_chat:
  assumes "build_parts c fc = Inr (bg, telegram)"
    and "program_step (run_builtin sv) ev bg telegram w w'"
  shows "chat_step (tc_allowed_private_chat_id (cf_telegram c)) w w'"
  using assms(2)
proof cases
  case (on_message m r)
  then show ?thesis by (rule process_message_chat) (rule forwarder_chat [OF assms(1)])
next
  case (on_poll ts answer r)
  with assms(1) have "ts_config ts = cf_telegram c"
    by (auto simp: build_parts_def bind_result_Inr_iff build_telegram_services_def
        split: if_splits option.splits)
  with on_poll poll_once_chat [of ts w sv ev answer] show ?thesis by simp
qed

text \<open>No message closes the transport; the end of the run does, once.\<close>

lemma run_forever_closes:
  assumes "build_parts c fc = Inr (bg, telegram)"
    and "run_forever (run_builtin sv) ev bg ms ended w = (e, w')" "closing w = (False, n)"
  shows "closing w' = (True, Suc n)"
  using assms(2,3)
proof (induction ms arbitrary: w)
  case Nil
  then show ?case by (auto simp: close_def closing_def)
next
  case (Cons m ms)
  obtain r v where p: "process_message (run_builtin sv) ev bg m w = (r, v)" by force
  from p have "chat_step (tc_allowed_private_chat_id (cf_telegram c)) w v"
    by (rule process_message_chat) (rule forwarder_chat [OF assms(1)])
  then have "closing v = closing w" by (simp add: chat_step_def)
  with Cons p show ?case by (cases r) (auto simp: close_def closing_def)
qed

section \<open>What an assembled program is made of\<close>

lemma assemble_Inr:
  assumes "assemble cr path_of la version now st = (Inr pg, st')"
  obtains io1 io2 where "choose_config la = Inr (pg_config pg)"
    "choose_audit_settings cr path_of la (fst st) = (Inr (pg_settings pg), io1)"
    "make_transport (pg_config pg) (Some (pg_health pg)) = Inr (pg_transport pg)"
    "telegram_secrets path_of (pg_config pg) (pg_settings pg) (configure_logging (la_getenv la)) io1
       = (Inr (pg_token pg, pg_filters pg), io2)"
    "build_parts (pg_config pg) \<lparr>fc_crypto = cr, fc_settings = pg_settings pg\<rparr> = Inr (pg_bridge pg, pg_telegram pg)"
    "pg_health pg = start_health (pg_config pg) version now"
    "pg_publisher pg = build_health_event_publisher (pg_config pg) (pg_health pg)"
  using assms
  by (auto simp: assemble_def assemble_bridge_def assemble_telegram_def Let_def bind_result_Inr_iff
      split: sum.splits prod.splits if_splits)

text \<open>Assembling goes as far as the start-up of \<open>Startup\<close>, and further.\<close>

lemma assemble_starts_up:
  assumes "assemble cr path_of la version now st = (Inr pg, st')"
  shows "\<exists>io'. start_up cr path_of la (fst st) = (Inr \<lparr>su_config = pg_config pg,
    su_settings = pg_settings pg, su_token = pg_token pg, su_filters = pg_filters pg\<rparr>, io')"
  using assms by (rule assemble_Inr) (simp add: start_up_def and_then_def give_def)

lemma chosen_config_bounds:
  assumes "choose_config la = Inr c"
  shows "0 < mk_channel_index (cf_meshcore c)" "0 < tc_channel_index (cf_telegram c)"
    "1 \<le> tc_max_meshcore_length (cf_telegram c)"
proof -
  have "0 < mk_channel_index (cf_meshcore c) \<and> 0 < tc_channel_index (cf_telegram c)
      \<and> 1 \<le> tc_max_meshcore_length (cf_telegram c)"
  proof (cases "la_app_mode la")
    case True
    with assms obtain payload po rt where parts: "app_options_from_mapping payload = Inr po" "c = to_app_config po rt"
      by (auto simp: choose_config_def load_app_config_def app_options_from_file_def
          elim!: bind_result_InrE split: json.splits)
    from app_options_ok(1,3) [OF parts(1)] show ?thesis
      by (simp add: parts(2) to_app_config_def app_telegram_config_def app_telegram_ok_def)
  next
    case False
    from choose_config_valid [OF assms] False have "validate_config c = Inr ()" by simp
    then show ?thesis unfolding validate_config_def Let_def guards_Inr_iff by auto
  qed
  then show "0 < mk_channel_index (cf_meshcore c)" "0 < tc_channel_index (cf_telegram c)"
    "1 \<le> tc_max_meshcore_length (cf_telegram c)" by auto
qed

text \<open>Opening the databases leaves the rows of the audit alone.\<close>

lemma connect_at_audit: "so_audit (snd (connect_at path so)) = so_audit so"
  by (simp add: connect_at_def split: prod.split)

lemma open_telegram_store_audit: "so_audit (snd (open_telegram_store c so)) = so_audit so"
  using connect_at_audit [of "telegram_database_path (cf_database_path c)" so]
    connect_at_audit [of "cf_database_path c"]
  by (auto simp: open_telegram_store_def Let_def split: prod.splits sum.splits) (metis snd_conv)+

lemma assemble_bridge_audit: "so_audit (snd (assemble_bridge c h so)) = so_audit so"
  using connect_at_audit [of "cf_database_path c" so]
  by (auto simp: assemble_bridge_def split: prod.splits sum.splits)

lemma assemble_telegram_audit: "so_audit (snd (snd (assemble_telegram path_of c s fs st))) = so_audit (snd st)"
  using open_telegram_store_audit [of c "snd st"]
  by (auto simp: assemble_telegram_def split: prod.splits sum.splits)

lemma assemble_audit: "so_audit (snd (snd (assemble cr path_of la version now st))) = so_audit (snd st)"
  using assemble_bridge_audit assemble_telegram_audit
  by (auto simp: assemble_def Let_def split: prod.splits sum.splits) (metis snd_conv)+

section \<open>The migration\<close>

lemma add_missing_again: "add_missing s (add_missing s t) = add_missing s t"
  by (auto simp: add_missing_def map_add_def fun_eq_iff split: option.splits)

lemma copy_tables_idempotent:
  "copy_tables s (snd (copy_tables s t)) = copy_tables s t"
proof -
  let ?new = "\<lambda>t. filter (\<lambda>r. br_bridge_message_id r \<notin> br_bridge_message_id ` set (tt_pending t)) (tt_pending s)"
  have "?new (snd (copy_tables s t)) = []"
    by (auto simp: copy_tables_def filter_empty_conv)
  then show ?thesis
    by (simp add: copy_tables_def add_missing_again)
qed

text \<open>What is in the tables stays, in its place.\<close>

definition nothing_lost :: "tg_tables \<Rightarrow> tg_tables \<Rightarrow> bool" where
  "nothing_lost t t' \<longleftrightarrow>
     tt_state t \<subseteq>\<^sub>m tt_state t' \<and> tt_updates t \<subseteq>\<^sub>m tt_updates t'
     \<and> prefix (tt_audit t) (tt_audit t') \<and> prefix (tt_pending t) (tt_pending t')"

lemma copy_tables_keeps: "nothing_lost t (snd (copy_tables s t))"
  by (auto simp: nothing_lost_def copy_tables_def add_missing_def map_le_def map_add_def)

text \<open>
  C24. The migration of the tables never takes back what the Telegram database knows: the number of the
  last update, the seen updates, the audit rows and the pending records of the target stay. When
  it fails the target is as it was, and when it is repeated, as on each start, it adds nothing.
\<close>

theorem migration_keeps_progress:
  assumes "migrate_telegram_tables source c = (r, c')"
  shows "nothing_lost (db_tables c) (db_tables c')
    \<and> (\<forall>e. r = Inl e \<longrightarrow> db_tables c' = db_tables c)
    \<and> (\<forall>u c2 r2. r = Inr u \<longrightarrow> migrate_telegram_tables source c' = (r2, c2) \<longrightarrow> db_tables c2 = db_tables c')
    \<and> (distinct_ids (db_tables c) \<longrightarrow> distinct_ids source \<longrightarrow> distinct_ids (db_tables c'))"
proof (cases r)
  case (Inl e)
  with assms have "db_tables c' = db_tables c"
    unfolding migrate_telegram_tables_def by (auto intro: sqlite.write_rolls_back)
  with Inl show ?thesis by (simp add: nothing_lost_def map_le_def)
next
  case (Inr u)
  with assms sqlite.write_commits have "copy_tables source (db_tables c) = (Inr u, db_tables c')"
    unfolding migrate_telegram_tables_def by fastforce
  then have c': "db_tables c' = snd (copy_tables source (db_tables c))" by simp
  have again: "db_tables c2 = db_tables c'" if m: "migrate_telegram_tables source c' = (r2, c2)" for r2 c2
  proof (cases r2)
    case (Inl e)
    with m show ?thesis unfolding migrate_telegram_tables_def by (auto intro: sqlite.write_rolls_back)
  next
    case (Inr v)
    with m sqlite.write_commits have "copy_tables source (db_tables c') = (Inr v, db_tables c2)"
      unfolding migrate_telegram_tables_def by fastforce
    with copy_tables_idempotent [of source "db_tables c"] show ?thesis by (simp add: c' copy_tables_def)
  qed
  have "distinct_ids (db_tables c')" if "distinct_ids (db_tables c)" "distinct_ids source"
    using that by (auto simp: c' copy_tables_def distinct_ids_def distinct_map_filter) (metis imageI)
  moreover have "nothing_lost (db_tables c) (db_tables c')" unfolding c' by (rule copy_tables_keeps)
  ultimately show ?thesis using again Inr by blast
qed

theorem migration_keeps_progress_witness:
  "let offset = (\<lambda>t. empty_tg_tables\<lparr>tt_state := [lit ''last_update_id'' \<mapsto> t]\<rparr>) in
   \<exists>r c'. migrate_telegram_tables (offset (lit ''5'')) (new_conn (offset (lit ''9'')) []) = (r, c')
     \<and> tt_state (db_tables c') (lit ''last_update_id'') = Some (lit ''9'')"
proof -
  let ?offset = "\<lambda>t. empty_tg_tables\<lparr>tt_state := [lit ''last_update_id'' \<mapsto> t]\<rparr>"
  obtain r c' where run:
      "migrate_telegram_tables (?offset (lit ''5'')) (new_conn (?offset (lit ''9'')) []) = (r, c')"
    by fastforce
  from migration_keeps_progress [OF run]
  have "[lit ''last_update_id'' \<mapsto> lit ''9''] \<subseteq>\<^sub>m tt_state (db_tables c')"
    by (simp add: nothing_lost_def new_conn_def)
  then show ?thesis using run by (auto simp: map_le_def Let_def)
qed

section \<open>A program that starts\<close>

definition sample_store :: store where
  "sample_store =
     \<lparr>so_files = (\<lambda>_. empty_database), so_faults = (\<lambda>_. []),
      so_audit = (\<lambda>_. new_conn empty_tables []),
      so_telegram = (\<lambda>_. new_conn empty_tg_tables [])\<rparr>"

lemma fresh_database_opens: "fst (connect_database path [] empty_database) = Inr ()"
  by (simp add: connect_database_def open_steps_def schema_def empty_database_def event_columns_def)

lemma sample_assembled:
  "\<exists>pg st'. assemble sample_digests (\<lambda>t. ([], t)) sample_launch (lit ''1.0.0'') 0 (sample_io [], sample_store)
       = (Inr pg, st')
     \<and> hc_token (cf_homeassistant (pg_config pg)) = lit ''0123456789''"
proof -
  obtain su io' where su: "start_up sample_digests (\<lambda>t. ([], t)) sample_launch (sample_io []) = (Inr su, io')"
      "hc_token (cf_homeassistant (su_config su)) = lit ''0123456789''"
      "\<not> tc_enabled (cf_telegram (su_config su))"
    using sample_start by blast
  from su(1) obtain c s token fs io1 where parts: "choose_config sample_launch = Inr c"
      "choose_audit_settings sample_digests (\<lambda>t. ([], t)) sample_launch (sample_io []) = (Inr s, io1)"
      "telegram_secrets (\<lambda>t. ([], t)) c s (configure_logging (la_getenv sample_launch)) io1 = (Inr (token, fs), io')"
      "su_config su = c"
    by (auto simp: start_up_def and_then_Inr give_def)
  have app: "as_audit_key s \<noteq> None" "mk_transport (cf_meshcore c) = lit ''homeassistant''"
    using parts(1,2) app_settings_keyed
    by (auto simp: choose_config_def choose_audit_settings_def sample_launch_def load_app_config_def
        to_app_config_def elim!: bind_result_InrE)
  have connected: "\<exists>db. connect_at path so = (Inr (), so\<lparr>so_files := (so_files so)(path := db)\<rparr>)"
    if "so_faults so = (\<lambda>_. [])" "so_files so path = empty_database" for path so
    using fresh_database_opens [of path] that
    by (cases "connect_database path [] empty_database") (auto simp: connect_at_def)
  let ?h = "start_health c (lit ''1.0.0'') 0"
  obtain so where so: "connect_at (cf_database_path c) sample_store = (Inr (), so)"
    using connected [of sample_store "cf_database_path c"] by (auto simp: sample_store_def)
  obtain transport where "make_transport c (Some ?h) = Inr transport"
    using app(2) by (simp add: make_transport_def)
  with so have bridge: "assemble_bridge c ?h sample_store = (Inr transport, so)"
    by (simp add: assemble_bridge_def)
  have off: "\<not> tc_enabled (cf_telegram c)" using su(3) parts(4) by simp
  then have "token = None" using telegram_secrets_Inr(2) [OF parts(3)] by simp
  with parts(3) have telegram: "assemble_telegram (\<lambda>t. ([], t)) c s (configure_logging (la_getenv sample_launch)) (io1, so)
      = (Inr (token, fs), io', so)"
    by (simp add: assemble_telegram_def)
  have "\<exists>bg ts. build_parts c \<lparr>fc_crypto = sample_digests, fc_settings = s\<rparr> = Inr (bg, ts)"
    using app(2) off
    by (simp add: build_parts_def build_service_def build_transport_def build_telegram_services_def)
  then obtain bg ts where "build_parts c \<lparr>fc_crypto = sample_digests, fc_settings = s\<rparr> = Inr (bg, ts)" by blast
  with parts bridge telegram su(2) show ?thesis
    by (simp add: assemble_def Let_def)
qed

end
