(* ===== verification/Samples.thy ===== *)
theory Samples
  imports HA_App_Facts Secret_File_Facts Ws_Client Bridge_Facts System_Facts Override_Facts Mc_Transport Tg_Client Health_Events
    Log_Redaction Supervisor Schema_Facts Rest_Client Startup Diagnostics Health_File
    Transports Telegram_Enroll Release_Notes Assembly
begin

text \<open>
  A small installation, used where a property has hypotheses, to show that they can hold: one
  registered user with the role \<open>admin\<close>, the mesh channel 3, both directions of the Telegram
  bridge on, and an audit key. The digests are a concrete function that keeps nothing secret.
\<close>

definition sample_sender :: str where
  "sample_sender = lit ''meshcore-pubkey-prefix:0a1b2c''"

definition sample_telegram :: tg_config where
  "sample_telegram =
     \<lparr>tc_enabled = True, tc_bot_token_import = [], tc_bot_token_file = [],
      tc_allowed_private_chat_id = lit ''100'', tc_allowed_user_id = lit ''200'',
      tc_authorized_user_role = Admin, tc_channel_index = 3, tc_forward_mc_to_tg = True,
      tc_forward_tg_to_mc = True, tc_command_prefix = lit ''!'', tc_max_meshcore_length = 140,
      tc_max_telegram_length = 4000, tc_message_prefix = lit ''TG: '',
      tc_mc_to_tg_prefix = lit ''MC: '', tc_send_confirmation = True,
      tc_forwarding_rate_limit = \<lparr>rc_commands = 5, rc_window_seconds = 60\<rparr>,
      tc_inbound_rate_limit = \<lparr>rc_commands = 5, rc_window_seconds = 60\<rparr>\<rparr>"

definition sample_config :: app_config where
  "sample_config =
     \<lparr>cf_command_prefix = lit ''!'', cf_database_path = lit ''data/audit.db'',
      cf_deduplication_window = 30,
      cf_meshcore =
        \<lparr>mk_transport = lit ''fake'', mk_channel_index = 3, mk_serial_port = None,
         mk_ha_entry_id = None, mk_event_types = [lit ''meshcore_message''],
         mk_require_stable_sender = True, mk_allow_channel_without_sender = False,
         mk_healthcheck_path = None\<rparr>,
      cf_homeassistant =
        \<lparr>hc_base_url = [], hc_token = [], hc_verify_tls = True, hc_timeout_seconds = 5,
         hc_websocket_url = None\<rparr>,
      cf_users = [(sample_sender,
        \<lparr>au_sender_id = sample_sender, au_name = lit ''ana'', au_role = Admin\<rparr>)],
      cf_room_policies =
        [(lit ''fake:channel:3'',
          \<lparr>rp_room_id = lit ''fake:channel:3'', rp_enabled = True, rp_minimum_role = Readonly,
           rp_allow_commands = True\<rparr>)],
      cf_status_entities = [],
      cf_weather_status =
        \<lparr>wc_temperature_entity = [], wc_humidity_entity = [], wc_label = lit ''Exterior''\<rparr>,
      cf_home_status =
        \<lparr>hx_alarm = \<lparr>ac_entity_id = [], ac_door_entities = [], ac_motion_entities = []\<rparr>,
         hx_home =
           \<lparr>ho_person_entities = [], ho_presence_entities = [], ho_door_entities = [],
            ho_light_entities = [], ho_temperature_entity = [], ho_humidity_entity = [],
            ho_ups_battery_entity = []\<rparr>,
         hx_servers = [],
         hx_network =
           \<lparr>nc_internet_entity = [], nc_router_entity = [], nc_dns_entity = [],
            nc_home_assistant_entity = [], nc_additional_entities = []\<rparr>\<rparr>,
      cf_telegram = sample_telegram,
      cf_health = \<lparr>hg_events_enabled = True, hg_heartbeat_seconds = 60\<rparr>,
      cf_rate_limit = \<lparr>rc_commands = 5, rc_window_seconds = 60\<rparr>\<rparr>"

definition sample_crypto :: crypto where
  "sample_crypto = \<lparr>cr_sha256 = (\<lambda>bs. bs), cr_hmac = (\<lambda>k bs. replicate 64 97)\<rparr>"

definition sample_key :: audit_key where
  "sample_key = \<lparr>ak_key = replicate 32 7, ak_key_id = lit ''k1''\<rparr>"

definition sample_flow :: flow_config where
  "sample_flow =
     \<lparr>fc_crypto = sample_crypto,
      fc_settings = \<lparr>as_enabled = True, as_audit_key = Some sample_key, as_warn_disabled = True\<rparr>\<rparr>"

definition sample_env :: env where
  "sample_env =
     \<lparr>ev_crypto = sample_crypto, ev_uuid = (\<lambda>n. replicate (32 - length (dec_nat n)) 48 @ dec_nat n), ev_now = (\<lambda>n. int n),
      ev_time = (\<lambda>n. of_nat n), ev_mono = (\<lambda>n. of_nat n)\<rparr>"

definition sample_world :: world where
  "sample_world =
     start_world sample_config (lit ''1'') 0 (new_conn empty_tables []) (new_conn empty_tg_tables []) [] []"

text \<open>A Home Assistant that is down.\<close>

definition sample_client :: "nat \<Rightarrow> ha_client" where
  "sample_client n =
     \<lparr>cl_available = Inr (False, lit ''timeout''), cl_config = Inl (Exn TimeoutError []),
      cl_state = (\<lambda>_. Inl (Exn TimeoutError []))\<rparr>"

definition sample_reader :: "nat \<Rightarrow> ha_answers" where
  "sample_reader n =
     \<lparr>ha_bulk = None, ha_entity = (\<lambda>_. Inl (Exn TimeoutError [])), ha_total_timeout = False\<rparr>"

definition sample_run :: "builtin runner" where
  "sample_run = run_builtin (build_services sample_config sample_client sample_reader sample_flow)"

text \<open>A text that the registered user sends on the channel of the bridge, as received.\<close>

definition sample_room :: room_ref where
  "sample_room =
     \<lparr>rr_transport = lit ''fake'', rr_room_id = lit ''fake:channel:3'',
      rr_room_kind = lit ''meshcore_channel'', rr_display_name = None,
      rr_metadata = JObj [(lit ''channel_index'', JInt 3)]\<rparr>"

definition sample_message :: "str \<Rightarrow> inbound_message" where
  "sample_message t =
     \<lparr>im_transport = lit ''fake'', im_message_id = Some (lit ''m1''), im_sender_id = sample_sender,
      im_channel_index = 3, im_text = t, im_received_at = 0, im_metadata = JObj [],
      im_schema_version = 1, im_source_room = Some sample_room,
      im_reply_target = Some sample_room,
      im_sender = Some
        \<lparr>si_sender_id = sample_sender, si_transport_scope = lit ''fake'',
         si_identity_kind = lit ''meshcore_pubkey_prefix'', si_stable = True,
         si_display_name = None, si_metadata = JObj []\<rparr>,
      im_message = Some
        \<lparr>mi_message_id = Some (lit ''m1''), mi_id_kind = lit ''platform'',
         mi_correlation_id = lit ''corr:'' @ replicate 32 48,
         mi_origin = \<lparr>mo_transport = lit ''fake'', mo_room_id = lit ''fake:channel:3'',
                      mo_message_id = Some (lit ''m1''), mo_bridge_instance_id = None\<rparr>\<rparr>\<rparr>"

definition sample_forwarder :: mc_forwarder where
  "sample_forwarder =
     \<lparr>mf_config = sample_telegram, mf_key = sample_key, mf_audit = Some (fc_settings sample_flow),
      mf_backoff_max = 30\<rparr>"

definition sample_service :: "builtin tg_service" where
  "sample_service =
     \<lparr>ts_config = sample_telegram, ts_key = sample_key, ts_audit = Some (fc_settings sample_flow),
      ts_router = Some (build_router sample_config sample_flow), ts_flow = Some sample_flow,
      ts_has_transport = True, ts_backoff_initial = 1, ts_backoff_max = 30\<rparr>"

definition sample_bridge :: "builtin bridge" where
  "sample_bridge =
     \<lparr>bg_router = build_router sample_config sample_flow, bg_flow = Some sample_flow,
      bg_dedup_window = 30, bg_channel_index = 3,
      bg_forwarder = Some (forward_normal_text sample_forwarder), bg_max_bytes = 140\<rparr>"

lemma sample_built: "build_parts sample_config sample_flow = Inr (sample_bridge, Some sample_service)"
  by (simp add: build_parts_def build_service_def build_transport_def build_telegram_services_def
      sample_config_def sample_telegram_def sample_bridge_def sample_service_def sample_forwarder_def
      sample_flow_def)

lemma sample_world_inv: "audit_inv sample_flow (new_audit_state (new_conn empty_tables []))"
  by (simp add: audit_inv_def new_audit_state_def new_conn_def empty_tables_def stored_events_def
      events_ok_def)

text \<open>
  Without an audit flow, a message of the registered user passes the guards; a limiter without
  quota then gives the fixed reply.
\<close>

lemma sample_received: "app_message_received sample_env (sample_bridge\<lparr>bg_flow := None\<rparr>) m w = (Inr None, w)"
  by (simp add: app_message_received_def)

lemma sample_room_allowed: "allows_room (ro_authorizer (bg_router (sample_bridge\<lparr>bg_flow := None\<rparr>))) (sample_message t)"
  by (simp add: sample_bridge_def build_router_def room_policies_def sample_config_def sample_telegram_def
   allows_room_def policy_of_def sample_message_def sample_room_def telegram_room_id_def)

lemma sample_dedup_keys: "\<exists>k l. dedup_key sample_crypto (sample_message t) = Inr k \<and> legacy_key sample_crypto 30 (sample_message t) = Inr l"
  by (simp add: dedup_key_def dedup_material_def legacy_key_def sample_message_def sample_room_def sample_crypto_def
   sha256_text_def hash_private_def encode_def sample_sender_def present_def sender_of_def utf8_def lit_def encode_cp_def is_scalar_def dec_def
   dec_nat_eval)

lemma sample_not_duplicate: "\<exists>w'. check_duplicate sample_env (sample_bridge\<lparr>bg_flow := None\<rparr>) (sample_message t) (sample_world\<lparr>w_limiter := rl\<rparr>)
   = (Inr False, w') \<and> w_limiter w' = rl \<and> w_send_faults w' = []"
proof -
  obtain k l where "dedup_key sample_crypto (sample_message t) = Inr k" "legacy_key sample_crypto 30 (sample_message t) = Inr l"
   using sample_dedup_keys by blast
  then show ?thesis 
  by (simp add: check_duplicate_def sample_bridge_def sample_env_def sample_world_def start_world_def new_audit_state_def
    seen_or_store_def store_key_def purge_keys_def
   empty_tables_def tick_def)
qed


lemma sample_admitted: "\<exists>w'. process_message run sample_env (sample_bridge\<lparr>bg_flow := None\<rparr>) (sample_message t) (sample_world\<lparr>w_limiter := rl\<rparr>)
   = process_new run sample_env (sample_bridge\<lparr>bg_flow := None\<rparr>) (sample_message t) None w' \<and> w_limiter w' = rl \<and> w_send_faults w' = []"
proof -
  have ch: "im_channel_index (sample_message t) = bg_channel_index (sample_bridge\<lparr>bg_flow := None\<rparr>)"
    by (simp add: sample_message_def sample_bridge_def)
  from sample_not_duplicate [where rl = rl] obtain w' where w': "check_duplicate sample_env (sample_bridge\<lparr>bg_flow := None\<rparr>) (sample_message t) (sample_world\<lparr>w_limiter := rl\<rparr>)
   = (Inr False, w')" "w_limiter w' = rl \<and> w_send_faults w' = []" by blast
  show ?thesis using ch sample_room_allowed [of t] w' by (intro exI [of _ w']) (simp add: process_message_def sample_received)
qed

lemma sample_rate_limited: "\<exists>out w'. process_message run sample_env (sample_bridge\<lparr>bg_flow := None\<rparr>) (sample_message t) (sample_world\<lparr>w_limiter := new_limiter 0 60\<rparr>)
   = (Inr (Some out), w') \<and> om_text out = lit ''Rate limit.''"
proof -
  obtain w' where w': "process_message run sample_env (sample_bridge\<lparr>bg_flow := None\<rparr>) (sample_message t) (sample_world\<lparr>w_limiter := new_limiter 0 60\<rparr>)
   = process_new run sample_env (sample_bridge\<lparr>bg_flow := None\<rparr>) (sample_message t) None w'" "w_limiter w' = new_limiter 0 60" "w_send_faults w' = []" using sample_admitted by blast
  have "\<not> fst (allow x y (new_limiter 0 60))" for x y by (simp add: allow_def new_limiter_def)
  then obtain rl where al: "allow (ev_mono sample_env (w_tick w')) (im_sender_id (sample_message t)) (w_limiter w') = (False, rl)"
    using w'(2) by (metis prod.collapse)
  have o: "strip (im_sender_id (sample_message t)) \<noteq> []"
    by (simp add: sample_message_def sample_sender_def strip_eq_Nil_iff lit_def is_space_def)
  show ?thesis unfolding w'(1) process_new_def al using w'(3) o
    by (simp add: Let_def app_stage_defs app_staged_def send_reply_def make_outbound_ok transport_send_def tick_def)
qed

lemma sample_valid: "validate_config sample_config = Inr ()"
  unfolding validate_config_def Let_def guards_Inr_iff
  by (simp add: sample_config_def sample_telegram_def)

lemma sample_inserted:
  "\<exists>e t'. insert_event (fc_settings sample_flow) 0 e empty_tables = (Inr True, t')
     \<and> ae_event_type e = MESSAGE_RECEIVED"
proof -
  let ?e = "\<lparr>ae_event_type = MESSAGE_RECEIVED, ae_correlation_id = lit ''corr:'' @ replicate 32 48,
      ae_transport = lit ''fake'', ae_source_room_id = lit ''fake:channel:3'',
      ae_source_room_kind = lit ''meshcore_channel'', ae_sender_stable = True,
      ae_event_id = lit ''evt:'' @ replicate 32 48, ae_causation_event_id = None,
      ae_reply_target_transport = None, ae_reply_target_room_id = None,
      ae_reply_target_room_kind = None, ae_sender_ref_hash = None, ae_sender_identity_kind = None,
      ae_message_ref_hash = None, ae_command_name = None, ae_command_result = None,
      ae_duration_ms = None, ae_metadata = JObj [(lit ''channel_index'', JInt 3)], ae_occurred_at = 0, ae_schema_version = 1\<rparr>"
  have hex: "matches_prefixed_hex p n (p @ replicate n 48)" for p n
    by (simp add: matches_prefixed_hex_def list_all_length is_lower_hex_def)
  then have ids: "matches_event_id (lit ''evt:'' @ replicate 32 48)"
      "matches_correlation_id (lit ''corr:'' @ replicate 32 48)"
    by (simp_all add: matches_event_id_def matches_correlation_id_def)
  have req: "validate_required_text (lit (c # s)) n = Inr ()" if "\<not> is_space (of_char c)" for c s n
    using that by (simp add: validate_required_text_def strip_eq_Nil_iff lit_Cons)
  obtain t where m: "canonical_metadata_json MESSAGE_RECEIVED (JObj [(lit ''channel_index'', JInt 3)]) = Inr t"
    by (simp add: canonical_metadata_json_def validate_metadata_def Let_def audit_metadata_max_depth_def
        audit_metadata_max_items_def audit_metadata_max_string_length_def audit_metadata_max_bytes_def
        lit_def dec_def dec_nat_eval json_string_def json_char_def)
  have v: "validate_event sample_key ?e = Inr ()"
    by (simp add: validate_event_def validate_event_identity_def ids req m is_space_def
        normalized_audit_schema_version_def validate_opt_def validate_reference_key_id_def check_def)
  have "encodable (replicate n 48)" for n by (simp add: encodable_def list_all_length is_scalar_def)
  then show ?thesis
    by (intro exI [of _ ?e])
      (simp add: insert_event_def sample_flow_def v m Let_def then_tx_def bind_texts_def event_texts_def
        insert_event_row_def record_metadata_def empty_tables_def opt_list_def)
qed

lemma sample_valid_event:
  "\<exists>e m. validate_event sample_key e = Inr ()
     \<and> canonical_metadata_json (ae_event_type e) (ae_metadata e) = Inr m"
proof -
  obtain e t' where i: "insert_event (fc_settings sample_flow) 0 e empty_tables = (Inr True, t')"
    using sample_inserted by blast
  have k: "as_audit_key (fc_settings sample_flow) = Some sample_key" "as_enabled (fc_settings sample_flow)"
    by (simp_all add: sample_flow_def)
  from i k have "validate_event sample_key e = Inr ()"
    by (cases "validate_event sample_key e") (auto simp: insert_event_def)
  with i k show ?thesis
    by (cases "canonical_metadata_json (ae_event_type e) (ae_metadata e)") (auto simp: insert_event_def)
qed

section \<open>An update, a pending record and an event\<close>

definition sample_update :: "str \<Rightarrow> jobject" where
  "sample_update t =
     [(lit ''update_id'', JInt 7),
      (lit ''message'', JObj
        [(lit ''chat'', JObj [(lit ''id'', JInt 100), (lit ''type'', JStr (lit ''private''))]),
         (lit ''from'', JObj [(lit ''id'', JInt 200), (lit ''is_bot'', JBool False)]),
         (lit ''text'', JStr t)])]"

definition sample_record :: bridge_record where
  "sample_record = \<lparr>br_bridge_message_id = lit ''bridge:'' @ lit ''1'', br_correlation_id = [],
     br_destination_transport = [], br_destination_room_id = [],
     br_content_ref_hash = lit ''hmac-sha256:v1:'' @ lit ''k1'' @ [58] @ replicate 64 97, br_size_bytes = 1,
     br_status = lit ''accepted_by_meshcore_transport'', br_created_at = 0, br_expires_at = 600\<rparr>"

lemma sample_create:
  "create_bridge_record sample_crypto sample_key (lit ''1'') 0 [] [] [] (lit ''x'') 1
     (lit ''accepted_by_meshcore_transport'') (new_conn empty_tg_tables [])
   = (Inr sample_record, new_conn (empty_tg_tables\<lparr>tt_pending := [sample_record]\<rparr>) [])"
proof -
  have h: "content_ref_hash sample_crypto sample_key (lit ''x'') = Inr (br_content_ref_hash sample_record)"
    by (simp add: content_ref_hash_def key_reference_def sample_crypto_def sample_key_def encode_def
        sample_record_def is_scalar_def)
  have "store_record 0 sample_record empty_tg_tables
      = (Inr (), empty_tg_tables\<lparr>tt_pending := [sample_record]\<rparr>)"
    by (simp add: store_record_def purge_pending_def empty_tg_tables_def then_tx_def bind_texts_def sample_record_def)
  from undisturbed_write [where operation = "store_record 0 sample_record", OF this] h show ?thesis
    by (simp add: create_bridge_record_def bridge_statuses_def sample_record_def bridge_pending_window_def Let_def)
qed

definition sample_event :: ha_event where
  "sample_event =
     \<lparr>ve_event_type = lit ''meshcore_message'',
      ve_data = [(lit ''message_type'', JStr (lit ''channel'')), (lit ''channel_idx'', JInt 3),
        (lit ''message'', JStr (lit ''hola'')), (lit ''pubkey_prefix'', JStr (lit ''0a1b2c''))],
      ve_time_fired = None, ve_context_id = Some (lit ''c1'')\<rparr>"

definition sample_settings :: mc_settings where
  "sample_settings =
     \<lparr>ms_channel_index = 3, ms_require_stable_sender = True, ms_allow_channel_without_sender = False\<rparr>"

lemma sample_copy: "\<exists>md. copy_metadata (JObj (mc_metadata_of sample_event)) = Inr md"
  by (simp add: copy_metadata_def mc_metadata_of_def sample_event_def Let_def jget_null_def jget_or_def jget_def
      lit_eq_iff lit_def dec_def dec_nat_eval json_string_def json_char_def max_metadata_bytes_def has_stable_sender_def pubkey_prefix_def optional_str_def jstr_opt_def)

lemma sample_event_accepted:
  "\<exists>m. event_to_inbound sample_crypto (lit ''0'') 0 sample_settings sample_event = Inr (Some m)"
proof -
  have texts: "validate_schema_text (lit (c # cs)) n = Inr ()" if "\<not> is_space (of_char c)" for c cs n
    using that by (simp add: validate_schema_text_def check_def strip_eq_Nil_iff lit_Cons)
  have app: "validate_schema_text (lit (c # cs) @ t) n = Inr ()" if "\<not> is_space (of_char c)" for c cs t n
    using that by (simp add: validate_schema_text_def check_def strip_eq_Nil_iff lit_Cons)
  note schema = texts app mc_name_def channel_room_id_def is_space_def check_def
  have "copy_metadata (JObj [(lit ''channel_index'', JInt 3)]) = Inr (JObj [(lit ''channel_index'', JInt 3)])"
    by (simp add: copy_metadata_def max_metadata_bytes_def lit_def dec_def dec_nat_eval json_string_def json_char_def)
  then obtain room where room: "room_channel mc_name 3 = Inr room" "rr_transport room = mc_name"
      "rr_room_id room = channel_room_id mc_name 3"
    by (auto simp: room_channel_def make_room_ref_def schema validate_kind_def room_kinds_def)
  have stable: "has_stable_sender (ve_data sample_event)"
      "mc_sender_id sample_settings (ve_data sample_event) = lit ''meshcore-pubkey-prefix:'' @ lower (lit ''0a1b2c'')"
    by (simp_all add: has_stable_sender_def mc_sender_id_def sample_event_def pubkey_prefix_def jget_def
        optional_str_def lit_eq_iff)
  obtain sender where sender: "from_sender_id (mc_sender_id sample_settings (ve_data sample_event)) mc_name = Inr sender"
      "si_transport_scope sender = mc_name"
    by (auto simp: stable from_sender_id_def make_sender_identity_def schema validate_kind_def
        identity_kind_of_def identity_kinds_def)
  have "message_identity_from (lit ''0'') mc_name (channel_room_id mc_name 3) (Some (lit ''ha:'' @ lit ''c1''))
      (Some (lit ''platform'')) \<noteq> Inl e" for e
    by (auto simp: message_identity_from_def make_message_origin_def schema present_def)
  then obtain ident where ident: "message_identity_from (lit ''0'') mc_name (channel_room_id mc_name 3)
      (Some (lit ''ha:'' @ lit ''c1'')) (Some (lit ''platform'')) = Inr ident"
    by (cases "message_identity_from (lit ''0'') mc_name (channel_room_id mc_name 3)
      (Some (lit ''ha:'' @ lit ''c1'')) (Some (lit ''platform''))") auto
  have fields: "ve_event_type sample_event = lit ''meshcore_message''"
      "jget (ve_data sample_event) (lit ''outgoing'') = None"
      "jget (ve_data sample_event) (lit ''message_type'') = Some (JStr (lit ''channel''))"
      "jget_or (ve_data sample_event) (lit ''channel_idx'') (JInt (-1)) = JInt 3"
      "py_str (jget_or (ve_data sample_event) (lit ''message'') (JStr [])) = lit ''hola''"
      "ve_context_id sample_event = Some (lit ''c1'')"
    by (simp_all add: sample_event_def jget_def jget_or_def lit_eq_iff)
  have id: "mc_message_id sample_crypto sample_event = Inr (lit ''ha:'' @ lit ''c1'')"
    by (simp add: mc_message_id_def fields(6) present_def)
  have "strip (lit ''hola'') \<noteq> []" by (simp add: strip_eq_Nil_iff lit_def is_space_def)
  moreover obtain md where "copy_metadata (JObj (mc_metadata_of sample_event)) = Inr md" using sample_copy by blast
  ultimately show ?thesis
    using room sender ident stable
    by (simp add: event_to_inbound_def Let_def fields id json_int_def sample_settings_def present_def
        inbound_post_init_def schema validate_schema_version_def normalized_message_schema_version_def
        validate_transport_consistency_def)
qed

end
