(* ===== verification/Spec2Isabelle.thy ===== *)
theory Spec2Isabelle
  imports Samples
begin

text \<open>
  This development models \<open>meshcore-control-bridge\<close>, a Python service that takes commands and
  texts from a MeshCore radio mesh and from one Telegram chat, answers them, forwards texts
  between the two, and reports what it does in an audit log and to Home Assistant. All files
  named here are under \<open>src/src/meshcore_control/\<close>, those of \<open>scripts/\<close> under \<open>src/\<close>.

  \<^bold>\<open>How the program works.\<close> \<open>main.py\<close> builds the parts from the configuration. The
  transport turns events of Home Assistant into messages (\<open>transport/homeassistant_meshcore.py\<close>);
  \<open>BridgeService.process_message\<close> (\<open>app.py\<close>) takes each through its guards: channel, room,
  duplicates, rate limit; then the router (\<open>commands/router.py\<close>) runs the command it may hold,
  and a text that is no command goes to the forwarder to Telegram. The Telegram service
  (\<open>telegram/service.py\<close>) polls for updates, ignores what is not from the authorized user,
  and runs a command or forwards the text to the mesh. Both share the databases, the health
  state and the transport.

  \<^bold>\<open>The theories and the code.\<close>
  \<^item> \<open>Bridge_Prelude\<close>, \<open>PyText\<close>, \<open>PyNumber\<close>, \<open>PyJson\<close>, \<open>PyTime\<close>: exceptions and results, and
    the parts of Python that the program uses: strings as lists of code points with UTF-8,
    integers, JSON, times. A result is \<open>Inl\<close> an exception or \<open>Inr\<close> a value, so every raise and
    every early return of the source is a branch.
  \<^item> \<open>Byte_Fit\<close>: trimming and rendering within byte limits (\<open>app.py\<close>, \<open>telegram/service.py\<close>,
    \<open>plugins/home_status.py\<close>).
  \<^item> \<open>Messages\<close>, \<open>Authorization\<close>, \<open>Config\<close>, \<open>Config_File\<close>: \<open>models.py\<close>, \<open>auth/\<close>, \<open>config.py\<close>.
  \<^item> \<open>Admission\<close>, \<open>Rate_Limit\<close>, \<open>Deduplication\<close>: \<open>security/\<close>. \<open>Admission\<close> is the interface of
    a gate that admits by time; the limiter, the duplicates of messages and those of updates
    interpret it.
  \<^item> \<open>Sqlite\<close>: \<open>write_transaction\<close> of \<open>storage/database.py\<close>, statement by statement: \<open>BEGIN\<close>,
    \<open>SAVEPOINT\<close>, \<open>COMMIT\<close>, \<open>RELEASE\<close>, \<open>ROLLBACK\<close> and \<open>ROLLBACK TO\<close> act on the tables and on the stack
    of saved tables of a connection, each with a schedule of its failures; a failing \<open>ROLLBACK\<close>
    still ends the transaction, as SQLite documents. Its interface \<open>atomic_writes\<close> is what the
    stores use. \<open>Schema\<close>, \<open>Schema_Facts\<close>: the
    schema, the opening of a database, and the table of normalized events under its constraints.
  \<^item> \<open>Audit_Events\<close>, \<open>Audit_Store\<close>, \<open>Audit_Flow\<close>: \<open>storage/normalized_audit.py\<close>,
    \<open>storage/repositories.py\<close>, \<open>storage/audit_flow.py\<close>. The interface \<open>audit_stage\<close> is what
    every stage of the flow promises.
  \<^item> \<open>Bridge_Health\<close>, \<open>Health_Events\<close>: \<open>bridge_health.py\<close> and the publisher of
    \<open>homeassistant_health_events.py\<close>, a step relation. \<open>Health_File\<close>: how the health file is put
    in its place, on the file system of \<open>Posix_Files\<close>.
  \<^item> \<open>World\<close>: the state that the services share; the clocks, fresh identifiers and digests are
    answered by an environment, the failures of the two networks by schedules.
  \<^item> \<open>Commands\<close>, \<open>Router\<close>, \<open>Home_Status\<close>, \<open>HA_State\<close>, \<open>System_Commands\<close>, \<open>Plugins\<close>:
    \<open>commands/\<close>, \<open>plugins/\<close>, \<open>adapters/homeassistant_state.py\<close>.
  \<^item> \<open>Bridge_App\<close>: \<open>app.py\<close>. \<open>Service_Contracts\<close> and \<open>Bridge_Contract\<close> hold the interfaces
    \<open>command_handlers\<close> and \<open>bridge_parts\<close>: what the bridge relies on in the handlers and in the
    forwarder, and what follows. \<open>Plugins\<close> and \<open>Bridge_Service\<close> interpret them on the model.
  \<^item> \<open>Tg_Store\<close>, \<open>Tg_Client\<close>, \<open>Tg_Forward\<close>, \<open>Tg_Service\<close>: \<open>telegram/\<close>. \<open>Mc_Transport\<close>:
    \<open>transport/homeassistant_meshcore.py\<close>. \<open>Transports\<close>: its construction with the callbacks
    of the health state, and the other transports. \<open>Rest_Client\<close>: \<open>adapters/homeassistant.py\<close>.
  \<^item> \<open>Diagnostics\<close>: \<open>diagnostics/meshcore.py\<close> and \<open>homeassistant_app_health.py\<close>.
  \<^item> \<open>Startup\<close>, \<open>Bridge_Service\<close>, \<open>Supervisor\<close>: \<open>main.py\<close>, what \<open>amain\<close> loads, how it wires the
    parts, and how \<open>_run_services\<close> runs them and takes them down. \<open>Assembly\<close>: \<open>amain\<close> as one
    function from the launch to the services, with the databases it opens and the migration of
    the tables of Telegram; its step relation \<open>program_step\<close> covers a program with and without
    Telegram, and its steps start on the audit rows and the tables of Telegram of the opened
    files. \<open>Log_Redaction\<close>: \<open>logging.py\<close>; what is no text in a record is printed by its own
    \<open>str\<close> and stays outside what is shown of the filter.
  \<^item> \<open>HA_App_Options\<close>, \<open>HA_App_Facts\<close>: \<open>homeassistant_app.py\<close>, the options of the Home
    Assistant App and the configuration made from them.
  \<^item> \<open>Posix_Files\<close>, \<open>Secret_Files\<close>, \<open>Secret_File_Facts\<close>: \<open>telegram/token.py\<close> and the key file of
    \<open>storage/normalized_audit.py\<close>, on a file system whose calls may fail, write in part, be
    overtaken by another process, and whose states are recorded for what a crash leaves behind.
  \<^item> \<open>Ws_Client\<close>: \<open>adapters/homeassistant_ws.py\<close>; commands and sessions as functions of what the
    socket delivers, and \<open>ws_run\<close>, the interleavings of the tasks that share a connection, with
    cancellations before, during and after the sending and the end of the reader.
  \<^item> \<open>Telegram_Enroll\<close>, \<open>Release_Notes\<close>: \<open>scripts/telegram-enroll.py\<close>,
    \<open>scripts/build_release_notes.py\<close> and \<open>scripts/upsert_github_release.py\<close>.
  \<^item> \<open>Tg_Forward_Facts\<close>, \<open>Tg_Service_Facts\<close>, \<open>System_Facts\<close>, \<open>Override_Facts\<close>,
    \<open>Bridge_Facts\<close>: what each operation may do to the shared world. \<open>Samples\<close>: a small
    installation on which the hypotheses of the properties hold.

  \<^bold>\<open>What is shown.\<close> In this theory: at most one answer per message; from the launch to every state
  of the services, the channel and the size of everything put on the mesh, the recipient of
  everything sent in Telegram and the well-formedness of the audit log; the limits of what
  unauthorized senders cause, the recognition of echoes, and the polling loop. In the theories of the components: what each operation computes, its bounds,
  its invariants and its behaviour when something fails.

  \<^bold>\<open>Loops.\<close> Every loop of the model ends by itself: the retries of a write are counted down from
  \<open>sqlite_write_retries\<close>, texts get shorter, and \<open>run_forever\<close> and \<open>poll_loop\<close>, which run
  until they are stopped in the program, run here on the finite list of what arrives in a
  stretch of time. No fuel is used.

  \<^bold>\<open>What is not modelled.\<close> The switches of the event loop inside a handler of messages or
  polls: each is one step of the relations \<open>system_step\<close> and \<open>program_step\<close> (on a websocket connection the tasks do
  interleave, see \<open>ws_run\<close>). The HTTP client and the socket, whose answers are parameters
  (\<open>http\<close>, \<open>ha_client\<close>, \<open>ha_answers\<close>, \<open>http_answer\<close>, \<open>ws_script\<close>, the schedules of the world); the
  levels and formats of log handlers; the parsing of the arguments of the process and of the
  scripts. In the shared world the health file is the list of texts handed to its replacement;
  what becomes of one of them on the disk is \<open>Health_File\<close>. SHA-256 and HMAC are the parameter \<open>crypto\<close>, the decoders of JSON and
  YAML are parameters. The lower-case and white-space tables of \<open>PyText\<close> cover the characters that
  its definitions name; a character outside them is its own lower case and no white space.
\<close>

section \<open>The services together\<close>

text \<open>
  C2. Whatever a message says, and whatever fails on the way, the bridge that \<open>amain\<close> builds
  puts at most one message on the mesh for it: exactly the reply it returns when it returns
  one, nothing when it returns none, and at most one when an exception leaves the handler.
\<close>

theorem bridge_answers_at_most_once:
  assumes "build_parts c fc = Inr (bg, ts)"
    and "process_message (run_builtin (build_services c client reader fc)) ev bg m w = (r, w')"
  shows "case r of
      Inr None \<Rightarrow> w_sent w' = w_sent w
    | Inr (Some out) \<Rightarrow> w_sent w' = w_sent w @ [out]
    | Inl e \<Rightarrow> w_sent w' = w_sent w \<or> (\<exists>out. w_sent w' = w_sent w @ [out])"
proof -
  obtain mf where "parts.wired (build_services c client reader fc) mf bg"
    by (rule build_parts_wired [OF assms(1)])
  from parts.process_message_once [OF this assms(2)] show ?thesis
    by (simp add: sent_at_most_once_def)
qed

theorem bridge_answers_at_most_once_witness:
  "case process_message (run_builtin (build_services sample_config sample_client sample_reader sample_flow)) sample_env
      sample_bridge (sample_message (lit ''!ping'')) sample_world of
     (Inr None, w') \<Rightarrow> w_sent w' = w_sent sample_world
   | (Inr (Some out), w') \<Rightarrow> w_sent w' = w_sent sample_world @ [out]
   | (Inl e, w') \<Rightarrow> w_sent w' = w_sent sample_world \<or> (\<exists>out. w_sent w' = w_sent sample_world @ [out])"
  using bridge_answers_at_most_once [OF sample_built surjective_pairing]
  by (simp only: split_def case_prod_beta split: sum.split option.split)

text \<open>
  With a configuration that passes its validation and an audit database in order, in every
  state that the bridge and the Telegram service reach together, in any order of messages and
  polls and with any failures: the audit log is well-formed, and every message put on the mesh
  is on a positive channel, never on channel 0, and within the configured number of bytes
  (the fixed text \<open>Rate limit.\<close>, 11 bytes long, may exceed a smaller limit).
\<close>

theorem radio_discipline:
  assumes "build_parts c fc = Inr (bg, Some ts)" and "validate_config c = Inr ()"
    and "audit_inv fc (new_audit_state audit)"
    and "(system_step (run_builtin (build_services c client reader fc)) ev bg ts)\<^sup>*\<^sup>*
           (start_world c version now audit telegram send_faults tg_faults) w"
  shows "audit_inv fc (w_audit w)
    \<and> (\<forall>out \<in> set (w_sent w). 0 < om_channel_index out
         \<and> int (length (utf8 (om_text out))) \<le> max (tc_max_meshcore_length (cf_telegram c)) 11)"
proof -
  have "0 < mk_channel_index (cf_meshcore c)" "0 < tc_channel_index (cf_telegram c)"
      "0 \<le> tc_max_meshcore_length (cf_telegram c)"
    using assms(2) unfolding validate_config_def Let_def guards_Inr_iff by auto
  note valid = this
  from assms(4) have "world_inv (Some fc) None w \<and> list_all (on_air c) (w_sent w)"
  proof (induction rule: rtranclp_induct)
    case base
    show ?case using start_world_inv [OF assms(3)] by (simp add: start_world_def)
  next
    case (step v w)
    with system_step_keeps [OF assms(1) valid(3)] show ?case by blast
  qed
  with valid(1,2) show ?thesis by (auto simp: world_inv_def list_all_iff on_air_def)
qed

theorem radio_discipline_witness:
  "let w = snd (poll_once (run_builtin (build_services sample_config sample_client sample_reader sample_flow)) sample_env
       sample_service (Inr [sample_update (lit ''hola'')]) sample_world)
   in audit_inv sample_flow (w_audit w) \<and> list_all (\<lambda>out. 0 < om_channel_index out) (w_sent w)"
proof -
  let ?run = "run_builtin (build_services sample_config sample_client sample_reader sample_flow)"
  let ?w = "snd (poll_once ?run sample_env sample_service (Inr [sample_update (lit ''hola'')]) sample_world)"
  have "system_step ?run sample_env sample_bridge sample_service sample_world ?w"
    by (rule system_step.poll) (rule surjective_pairing)
  then have "(system_step ?run sample_env sample_bridge sample_service)\<^sup>*\<^sup>* sample_world ?w" by simp
  from radio_discipline [OF sample_built sample_valid sample_world_inv this [unfolded sample_world_def]]
  show ?thesis by (simp add: sample_world_def list_all_iff)
qed

text \<open>
  Whoever writes on the mesh and whoever writes to the bot, every message that the program sends
  in Telegram, replies, confirmations and forwarded texts alike, goes to the one configured
  private chat.
\<close>

theorem only_the_owner_is_messaged:
  assumes "build_parts c fc = Inr (bg, Some ts)"
    and "(system_step (run_builtin (build_services c client reader fc)) ev bg ts)\<^sup>*\<^sup>*
           (start_world c version now audit telegram send_faults tg_faults) w"
  shows "\<forall>(chat, t) \<in> set (w_tg_sent w). chat = tc_allowed_private_chat_id (cf_telegram c)"
proof -
  from assms(2) have "chat_step (tc_allowed_private_chat_id (cf_telegram c))
      (start_world c version now audit telegram send_faults tg_faults) w"
    unfolding program_step_with_telegram [symmetric]
    by (induction rule: rtranclp_induct) (auto intro: chat_step_trans program_step_chat [OF assms(1)])
  then show ?thesis by (auto simp: chat_step_def start_world_def)
qed

theorem only_the_owner_is_messaged_witness:
  "list_all (\<lambda>(chat, t). chat = lit ''100'') (w_tg_sent (snd (poll_once (run_builtin (build_services sample_config sample_client sample_reader sample_flow))
     sample_env sample_service (Inr [sample_update (lit ''!ping'')]) sample_world)))"
proof -
  let ?run = "run_builtin (build_services sample_config sample_client sample_reader sample_flow)"
  let ?w = "snd (poll_once ?run sample_env sample_service (Inr [sample_update (lit ''!ping'')]) sample_world)"
  have "system_step ?run sample_env sample_bridge sample_service sample_world ?w"
    by (rule system_step.poll) (rule surjective_pairing)
  then have "(system_step ?run sample_env sample_bridge sample_service)\<^sup>*\<^sup>* sample_world ?w" by simp
  from only_the_owner_is_messaged [OF sample_built this [unfolded sample_world_def]]
  show ?thesis by (simp add: sample_world_def sample_config_def sample_telegram_def list_all_iff)
qed

text \<open>
  C1. From the launch to every state of the services: whatever the environment, the options and the
  configuration file hold, when the program starts at all and the audit log in the configured
  database file was in order at the launch, then in every state that its services reach, in any
  order of messages and polls and with any failures, the audit log is in order; every message put
  on the mesh is on the positive channel of the bridge or of Telegram and no longer than the
  configured number of bytes or the 11 bytes of the fixed text \<open>Rate limit.\<close>, whichever is more
  (validation admits limits from 1 on, and that text is never cut); and every message sent in
  Telegram goes to the one configured private chat.
\<close>

theorem launched_program_safe:
  assumes "assemble cr path_of la version now (io0, so0) = (Inr pg, io, so)"
    and "fc = \<lparr>fc_crypto = cr, fc_settings = pg_settings pg\<rparr>"
    and "audit_inv fc (new_audit_state (so_audit so0 (cf_database_path (pg_config pg))))"
    and "(program_step (run_builtin (build_services (pg_config pg) client reader fc)) ev (pg_bridge pg)
           (pg_telegram pg))\<^sup>*\<^sup>* (launch_world pg version now so send_faults tg_faults) w"
  shows "audit_inv fc (w_audit w)
    \<and> (\<forall>out \<in> set (w_sent w). 0 < om_channel_index out
         \<and> om_channel_index out \<in> {mk_channel_index (cf_meshcore (pg_config pg)),
                                   tc_channel_index (cf_telegram (pg_config pg))}
         \<and> int (length (utf8 (om_text out))) \<le> max (tc_max_meshcore_length (cf_telegram (pg_config pg))) 11)
    \<and> (\<forall>(chat, t) \<in> set (w_tg_sent w). chat = tc_allowed_private_chat_id (cf_telegram (pg_config pg)))"
proof -
  let ?c = "pg_config pg" and ?start = "launch_world pg version now so send_faults tg_faults"
  have "choose_config la = Inr ?c" by (rule assemble_Inr [OF assms(1)])
  note valid = chosen_config_bounds [OF this]
  from assms(1) have built: "build_parts ?c fc = Inr (pg_bridge pg, pg_telegram pg)"
    unfolding assms(2) by (rule assemble_Inr)
  from assemble_audit [of cr path_of la version now "(io0, so0)"] assms(1,3)
  have audit: "audit_inv fc (new_audit_state (so_audit so (cf_database_path ?c)))" by simp
  from assms(4) have "(world_inv (Some fc) None w \<and> list_all (on_air ?c) (w_sent w))
      \<and> chat_step (tc_allowed_private_chat_id (cf_telegram ?c)) ?start w"
  proof (induction rule: rtranclp_induct)
    case base
    show ?case
      using start_world_inv [OF audit] by (simp add: launch_world_def) (simp add: start_world_def)
  next
    case (step v w)
    from valid(3) have "0 \<le> tc_max_meshcore_length (cf_telegram ?c)" by simp
    with step program_step_keeps [OF built] program_step_chat [OF built] chat_step_trans show ?case by blast
  qed
  with valid(1,2) show ?thesis
    by (auto simp: world_inv_def list_all_iff on_air_def chat_step_def launch_world_def start_world_def)
qed

theorem launched_program_safe_witness:
  "\<exists>pg io so. assemble sample_digests (\<lambda>t. ([], t)) sample_launch (lit ''1.0.0'') 0 (sample_io [], sample_store)
       = (Inr pg, io, so)
     \<and> (let fc = \<lparr>fc_crypto = sample_digests, fc_settings = pg_settings pg\<rparr>;
            w = snd (process_message (run_builtin (build_services (pg_config pg) sample_client sample_reader fc))
                       sample_env (pg_bridge pg) (sample_message (lit ''!ping''))
                       (launch_world pg (lit ''1.0.0'') 0 so [] []))
        in audit_inv fc (w_audit w) \<and> list_all (\<lambda>out. 0 < om_channel_index out) (w_sent w))"
proof -
  obtain pg io so where pg: "assemble sample_digests (\<lambda>t. ([], t)) sample_launch (lit ''1.0.0'') 0
        (sample_io [], sample_store) = (Inr pg, io, so)"
    using sample_assembled by (metis prod.collapse)
  let ?fc = "\<lparr>fc_crypto = sample_digests, fc_settings = pg_settings pg\<rparr>"
  let ?run = "run_builtin (build_services (pg_config pg) sample_client sample_reader ?fc)"
  let ?start = "launch_world pg (lit ''1.0.0'') 0 so [] []"
  let ?w = "snd (process_message ?run sample_env (pg_bridge pg) (sample_message (lit ''!ping'')) ?start)"
  have inv: "audit_inv ?fc (new_audit_state (so_audit sample_store (cf_database_path (pg_config pg))))"
    by (simp add: audit_inv_def new_audit_state_def new_conn_def empty_tables_def stored_events_def events_ok_def
        sample_store_def)
  have "program_step ?run sample_env (pg_bridge pg) (pg_telegram pg) ?start ?w"
    by (rule program_step.on_message) (rule surjective_pairing)
  then have "(program_step ?run sample_env (pg_bridge pg) (pg_telegram pg))\<^sup>*\<^sup>* ?start ?w" by simp
  from launched_program_safe [OF pg refl inv this] pg
  show ?thesis by (auto simp: Let_def list_all_iff)
qed

text \<open>
  C3. From a fresh start with an audit database that is in order, a run of the bridge over any
  messages, with any failures of the transport and of the databases, leaves an audit log in
  which identifiers are distinct, every row passed its validation, and every event names only
  causes stored before it; the service is closed, and \<open>close\<close> of the transport was called exactly
  once.
\<close>

theorem audit_log_kept:
  assumes "build_parts c fc = Inr (bg, ts)" and "audit_inv fc (new_audit_state audit)"
    and "run_forever (run_builtin (build_services c client reader fc)) ev bg ms ended
           (start_world c version now audit telegram send_faults tg_faults) = (e, w')"
  shows "audit_inv fc (w_audit w') \<and> w_closed w' \<and> w_transport_closed w' = 1"
proof -
  obtain mf where "parts.wired (build_services c client reader fc) mf bg"
    by (rule build_parts_wired [OF assms(1)])
  moreover have "sv_flow (build_services c client reader fc) = Some fc"
    by (simp add: build_services_def Let_def)
  ultimately have "audit_inv fc (w_audit w')"
    using parts.run_forever_inv [OF _ _ assms(3), of mf]
      start_world_inv [OF assms(2), of c version now telegram send_faults tg_faults]
    by (simp add: world_inv_def)
  moreover have "closing w' = (True, Suc 0)"
    by (rule run_forever_closes [OF assms(1,3)]) (simp add: start_world_def closing_def)
  ultimately show ?thesis by (simp add: closing_def)
qed

theorem audit_log_kept_witness:
  "let w = snd (run_forever
     (run_builtin (build_services sample_config sample_client sample_reader sample_flow)) sample_env sample_bridge
     [sample_message (lit ''!ping''), sample_message (lit ''!bridge tg2mc off'')]
     (Exn CancelledError []) sample_world) in audit_inv sample_flow (w_audit w) \<and> w_transport_closed w = 1"
  using audit_log_kept [OF sample_built sample_world_inv surjective_pairing]
  unfolding sample_world_def Let_def by blast

section \<open>What senders can cause\<close>

text \<open>
  C6. A sender who is not registered has no influence beyond a fixed answer: the outcome and
  the whole state afterwards are the same whichever programs stand behind the commands and
  behind the forwarder, so neither is reached.
\<close>

theorem unregistered_reaches_nothing:
  assumes "get_user (ro_authorizer (bg_router bg)) (sender_of m) = None"
    and "bg_forwarder bg = Some forward"
  shows "process_message run' ev (bg\<lparr>bg_forwarder := Some forward'\<rparr>) m w
    = process_message run ev bg m w"
proof -
  have h: "handle run' ev (bg_router bg) m t v = handle run ev (bg_router bg) m t v" for t v
    by (rule handle_unregistered [OF assms(1)])
  have "process_admitted run' ev (bg\<lparr>bg_forwarder := Some forward'\<rparr>) m t v = process_admitted run ev bg m t v" for t v
    by (simp add: process_admitted_def h process_normal_text_unregistered [OF assms]
        split: sum.split prod.split option.split)
  then have "process_new run' ev (bg\<lparr>bg_forwarder := Some forward'\<rparr>) m t v = process_new run ev bg m t v" for t v
    by (simp add: process_new_def Let_def split: prod.split)
  then show ?thesis
    by (simp add: process_message_def split: prod.split sum.split bool.split)
qed

theorem unregistered_reaches_nothing_witness:
  "process_message (\<lambda>_ _ cx _ w. (Inr (lit ''leak''), cx, w)) sample_env
     (sample_bridge\<lparr>bg_forwarder := Some (\<lambda>_ _ _ w. (Inr False, w))\<rparr>)
     ((sample_message (lit ''!bridge tg2mc off''))\<lparr>im_sender := None, im_sender_id := lit ''x''\<rparr>) sample_world
   = process_message (run_builtin (build_services sample_config sample_client sample_reader sample_flow)) sample_env
     sample_bridge
     ((sample_message (lit ''!bridge tg2mc off''))\<lparr>im_sender := None, im_sender_id := lit ''x''\<rparr>) sample_world"
  by (rule unregistered_reaches_nothing)
    (simp_all add: sample_bridge_def build_router_def authorized_users_def sample_config_def
      sample_telegram_def get_user_def sender_of_def sample_message_def sample_sender_def
      telegram_sender_id_def)

text \<open>
  C4. An update that is not a non-empty text of the authorized user, who is no bot, in the authorized
  private chat, or that is the edit of an earlier message, is only noted: it puts nothing on the
  mesh, sends nothing in Telegram, writes nothing to the audit log and uses no quota.
\<close>

theorem foreign_updates_do_nothing:
  assumes "process_update run ev ts u w = (r, w')" and "\<not> authorized_text (ts_config ts) u"
  shows "w_sent w' = w_sent w \<and> w_tg_sent w' = w_tg_sent w \<and> w_audit w' = w_audit w
    \<and> w_limiter w' = w_limiter w \<and> w_tg_limiter w' = w_tg_limiter w \<and> w_mc_limiter w' = w_mc_limiter w
    \<and> (\<forall>d. r = Inr d \<longrightarrow> td_reason d \<notin> {lit ''command'', lit ''forwarded''})"
proof -
  have plain: "lit ''duplicate'' \<notin> {lit ''command'', lit ''forwarded''}"
      "lit ''edited_message'' \<notin> {lit ''command'', lit ''forwarded''}" by (auto simp: lit_eq_iff)
  have decided: "quiet w w' \<and> (\<forall>d. r = Inr d \<longrightarrow> td_reason d \<notin> {lit ''command'', lit ''forwarded''})"
    if "quiet w v" "decide ev i ty reason rf ct mt v = (r, w')" "reason \<notin> {lit ''command'', lit ''forwarded''}"
    for v i ty reason rf ct mt
    using decide_quiet [OF that(2)] that(1,3) by (auto intro: quiet_trans)
  have "quiet w w' \<and> (\<forall>d. r = Inr d \<longrightarrow> td_reason d \<notin> {lit ''command'', lit ''forwarded''})"
  proof (cases "update_id_of u")
    case (Inl e)
    with assms(1) show ?thesis by (auto simp: process_update_def)
  next
    case (Inr i)
    show ?thesis
    proof (cases "is_mapping (jget_null u (lit ''edited_message''))")
      case True
      then obtain x where x: "jget u (lit ''edited_message'') = Some (JObj x)"
        by (cases "jget_null u (lit ''edited_message'')")
          (auto simp: jget_null_def jget_or_def split: option.splits)
      show ?thesis
      proof (cases "refs (ev_crypto ev) (ts_key ts) (Some i) None None")
        case (Inl e)
        with assms(1) Inr x show ?thesis by (auto simp: process_update_def)
      next
        case rf: (Inr rf)
        obtain s v where s: "tg_seen_or_store ev (ts_key ts) i w = (s, v)" by force
        from assms(1) Inr x rf s
        have "(\<exists>e. s = Inl e \<and> r = Inl e \<and> w' = v)
            \<or> (\<exists>ty y ct mt. decide ev i ty y rf ct mt v = (r, w')
                  \<and> y \<in> {lit ''duplicate'', lit ''edited_message''})"
          by (cases s) (auto simp: process_update_def split: if_splits)
        with tg_seen_quiet [OF s] decided [OF tg_seen_quiet [OF s]] plain show ?thesis by blast
      qed
    next
      case False
      then have edited: "(case jget u (lit ''edited_message'') of Some (JObj x) \<Rightarrow> a | _ \<Rightarrow> b) = b"
        for a b :: "tg_decision result \<times> world"
        by (auto simp: jget_null_def jget_or_def split: option.split json.split)
      define chat where "chat = (case message_of u of None \<Rightarrow> [] | Some m \<Rightarrow> mapping_of (jget m (lit ''chat'')))"
      define sender where "sender = (case message_of u of None \<Rightarrow> [] | Some m \<Rightarrow> mapping_of (jget m (lit ''from'')))"
      obtain reason mt where c: "classify (ts_config ts) (message_of u) (id_text (jget chat (lit ''id'')))
          (id_text (jget sender (lit ''id''))) = (reason, mt)" by force
      with classify_authorized [OF _ False chat_def sender_def, of "ts_config ts"] assms(2)
      have reason: "reason \<noteq> lit ''foundation_only''" by auto
      from c classify_reason [of "ts_config ts" "message_of u" "id_text (jget chat (lit ''id''))"
          "id_text (jget sender (lit ''id''))"]
      have other: "reason \<notin> {lit ''command'', lit ''forwarded''}" by simp
      show ?thesis
      proof (cases "refs (ev_crypto ev) (ts_key ts) (Some i) (id_text (jget chat (lit ''id'')))
          (id_text (jget sender (lit ''id'')))")
        case (Inl e)
        with assms(1) Inr show ?thesis
          by (auto simp: process_update_def edited Let_def chat_def [symmetric] sender_def [symmetric])
      next
        case rf: (Inr rf)
        obtain s v where s: "tg_seen_or_store ev (ts_key ts) i w = (s, v)" by force
        from assms(1) Inr rf s c reason
        have "(\<exists>e. s = Inl e \<and> r = Inl e \<and> w' = v)
            \<or> (\<exists>ty x ct mt'. decide ev i ty x rf ct mt' v = (r, w') \<and> x \<in> {reason, lit ''duplicate''})"
          by (cases s) (auto simp: process_update_def edited Let_def chat_def [symmetric] sender_def [symmetric]
              split: if_splits option.splits json.splits)
        with tg_seen_quiet [OF s] decided [OF tg_seen_quiet [OF s]] other plain(1) show ?thesis by blast
      qed
    qed
  qed
  then show ?thesis by (simp add: quiet_def)
qed

theorem foreign_updates_do_nothing_witness:
  "w_sent (snd (process_update (run_builtin (build_services sample_config sample_client sample_reader sample_flow)) sample_env
      sample_service [(lit ''update_id'', JInt 7)] sample_world)) = []"
  using foreign_updates_do_nothing [OF surjective_pairing, of sample_service "[(lit ''update_id'', JInt 7)]"]
  by (simp add: authorized_text_def message_of_def jget_def lit_eq_iff sample_world_def start_world_def)

text \<open>
  C5. Only an administrator moves the switches of the bridge: when the sender has no role or a role
  below administrator, whatever the command says, the effective values are the same afterwards.
\<close>

theorem only_admin_moves_switches:
  assumes "\<And>u. map_of (az_users (ro_authorizer ro)) (sender_of m) = Some u \<Longrightarrow> au_role u < Admin"
    and "handle (run_builtin sv) ev ro m trail w = (r, trail', w')"
  shows "switches w' = switches w"
proof -
  obtain t1 w1 where 1: "audit_command_parsed ev ro (parse_command (im_text m) (ro_prefix ro)) trail w = (t1, w1)"
    by force
  then have s1: "switches w1 = switches w" unfolding router_stage_defs by (rule router_staged_switches)
  show ?thesis
  proof (cases "parse_command (im_text m) (ro_prefix ro)")
    case None
    with assms(2) 1 s1 show ?thesis by (simp add: handle_def)
  next
    case (Some p)
    obtain out w2 where 2: "handle_command (run_builtin sv) ev ro m p t1 (tick w1) = (out, w2)" by force
    from handle_command_switches [OF assms(1) this] have "switches w2 = switches w1" by simp
    with assms(2) 1 2 Some s1 show ?thesis
      by (auto simp: handle_def split: prod.splits dest: handle_finally_switches)
  qed
qed

theorem only_admin_moves_switches_witness:
  "switches (snd (snd (handle (run_builtin (build_services sample_config sample_client sample_reader sample_flow)) sample_env
      (build_router sample_config sample_flow
         \<lparr>ro_authorizer := \<lparr>az_users = [(sample_sender, \<lparr>au_sender_id = sample_sender,
            au_name = lit ''eva'', au_role = Operator\<rparr>)], az_room_policies = []\<rparr>\<rparr>)
      (sample_message (lit ''!bridge tg2mc off'')) None sample_world))) = switches sample_world"
  (is "switches (snd (snd ?h)) = _")
proof -
  obtain r t w' where h: "?h = (r, t, w')" by (metis prod_cases3)
  have "switches w' = switches sample_world"
    by (rule only_admin_moves_switches [OF _ h]) (auto simp: less_role_def split: if_splits)
  with h show ?thesis by simp
qed

text \<open>
  C26. An administrator who sets a switch gets a reply, the switch has the value asked for, and the
  others keep theirs, also when the audit of the change fails.
\<close>

theorem admin_override_applies:
  assumes "w_health w = Some h" "au_role (cx_user cx) = Admin"
    and "map_of override_targets (lower op) = Some target" "lower v \<in> {lit ''on'', lit ''off''}"
    and "bridge_command ev sv cx [op, v] w = (r, cx', w')"
  shows "(\<exists>reply. r = Inr reply)
    \<and> switches w' = Some ((effective_value h)(target := Inr (lower v = lit ''on'')))"
proof -
  let ?md = "request_metadata cx ''set'' target (JBool (lower v = lit ''on''))"
  obtain cx1 w1 where 1: "audit_bridge_override ev sv BRIDGE_RUNTIME_OVERRIDE_REQUESTED ?md cx w = (cx1, w1)"
    by force
  note about = override_about [OF 1]
  with assms(1) obtain h1 where h1: "w_health w1 = Some h1" "effective_value h1 = effective_value h"
    by (auto simp: switches_def)
  have "target \<in> {lit ''telegram_to_meshcore'', lit ''meshcore_to_telegram'', lit ''confirmation''}"
    using assms(3) by (auto simp: override_targets_def split: if_splits)
  then obtain b where b: "effective_value h1 target = Inr b" by (auto simp: effective_value_def)
  obtain x h2 where s: "set_runtime_override (ev_now ev (w_tick w1)) target (lower v = lit ''on'') h1 = (x, h2)"
    by force
  with b obtain c where c: "x = Inr c"
    using effective_value_with_override [OF b, of "lower v = lit ''on''" target]
    by (auto simp: set_runtime_override_def Let_def)
  from set_runtime_override_effect(1) [OF s [unfolded c]] h1(2)
  have h2: "effective_value h2 = (effective_value h)(target := Inr (lower v = lit ''on''))"
    by (simp add: fun_eq_iff)
  obtain cx2 w2 where 2: "audit_bridge_override ev sv BRIDGE_RUNTIME_OVERRIDE_APPLIED
      (change_metadata cx ''set'' c) cx1 (tick (w1\<lparr>w_health := Some h2\<rparr>)) = (cx2, w2)" by force
  have "switches w2 = Some (effective_value h2)"
    using override_about [OF 2] by (simp add: switches_def frame_simps)
  moreover have "r = Inr (override_reply (is_short cx) (lower op) (lower v = lit ''on''))" "w' = w2"
  proof -
    have "lower op \<noteq> lit ''reset''"
      using assms(3) by (auto simp: override_targets_def lit_eq_iff split: if_splits)
    with assms(1,3,4) have "bridge_command ev sv cx [op, v] w
        = bridge_set ev sv cx (lower op) target (lower v = lit ''on'') w"
      by (auto simp: bridge_command_def handle_bridge_admin_def Let_def)
    moreover have "bridge_set ev sv cx (lower op) target (lower v = lit ''on'') w
        = (Inr (override_reply (is_short cx) (lower op) (lower v = lit ''on'')), cx2, w2)"
      using assms(2) 1 2 s c h1(1) by (simp add: bridge_set_def change_override_def Let_def)
    ultimately have "(r, cx', w') = (Inr (override_reply (is_short cx) (lower op) (lower v = lit ''on'')), cx2, w2)"
      using assms(5) by simp
    then show "r = Inr (override_reply (is_short cx) (lower op) (lower v = lit ''on''))" "w' = w2" by auto
  qed
  ultimately show ?thesis using h2 by simp
qed

theorem admin_override_applies_witness:
  "case bridge_command sample_env (build_services sample_config sample_client sample_reader sample_flow)
      \<lparr>cx_message = sample_message [], cx_user = \<lparr>au_sender_id = [], au_name = [], au_role = Admin\<rparr>,
       cx_audit_trail = None, cx_audit_metadata = []\<rparr> [lit ''TG2MC'', lit ''off''] sample_world
   of (r, cx', w') \<Rightarrow> switches w'
     = Some ((effective_value (start_health sample_config (lit ''1'') 0))
         (lit ''telegram_to_meshcore'' := Inr False))"
  (is "case ?b of (r, cx', w') \<Rightarrow> _ r cx' w'")
proof -
  obtain r cx' w' where b: "?b = (r, cx', w')" by (metis prod_cases3)
  have l: "lower (lit ''TG2MC'') = lit ''tg2mc''" "lower (lit ''off'') = lit ''off''"
    by (simp_all add: lower_def lower_cp_def lit_def)
  have "switches w' = Some ((effective_value (start_health sample_config (lit ''1'') 0))
      (lit ''telegram_to_meshcore'' := Inr (lower (lit ''off'') = lit ''on'')))"
    by (rule admin_override_applies [OF _ _ _ _ b, THEN conjunct2])
      (simp_all add: l sample_world_def start_world_def override_targets_def lit_eq_iff)
  with b l show ?thesis by (simp add: lit_eq_iff)
qed

text \<open>
  C35. A message from another channel, or from a room without a policy that allows it, is only
  audited: nothing is answered or sent, to the mesh or to Telegram, no quota of any limiter is
  used, the tables of Telegram stay, and the programs behind the commands are not reached, since
  with any others the outcome and the state are the same.
\<close>

theorem elsewhere_only_audited:
  assumes "im_channel_index m \<noteq> bg_channel_index bg \<or> \<not> allows_room (ro_authorizer (bg_router bg)) m"
    and "process_message run ev bg m w = (r, w')"
  shows "(\<forall>out. r \<noteq> Inr (Some out)) \<and> w_sent w' = w_sent w \<and> w_tg_sent w' = w_tg_sent w
    \<and> w_limiter w' = w_limiter w \<and> w_tg_limiter w' = w_tg_limiter w \<and> w_mc_limiter w' = w_mc_limiter w
    \<and> w_telegram w' = w_telegram w \<and> process_message run' ev bg m w = (r, w')"
proof -
  note e = assms(1) and p = assms(2)
  obtain x w1 where 1: "app_message_received ev bg m w = (x, w1)" by force
  note received = app_message_received_frame [of ev bg m w] app_message_received_limiter [of ev bg m w]
  note frames = app_staged_frame app_staged_limiter
  show ?thesis
  proof (cases x)
    case (Inl y)
    with p 1 received show ?thesis by (auto simp: process_message_def)
  next
    case (Inr trail)
    with e p 1 obtain reason where "r = Inr None" "w' = snd (app_message_ignored ev bg reason trail w1)"
      by (auto simp: process_message_def split: if_splits)
    moreover from Inr e p 1 have "process_message run' ev bg m w = (r, w')"
      by (auto simp: process_message_def)
    ultimately show ?thesis using 1 received by (simp add: app_stage_defs frames)
  qed
qed

theorem elsewhere_only_audited_witness:
  "w_sent (snd (process_message (run_builtin (build_services sample_config sample_client sample_reader sample_flow))
     sample_env sample_bridge ((sample_message (lit ''!ping''))\<lparr>im_channel_index := 1\<rparr>) sample_world)) = []"
  using elsewhere_only_audited
    [OF _ surjective_pairing, of "(sample_message (lit ''!ping''))\<lparr>im_channel_index := 1\<rparr>" sample_bridge]
  by (simp add: sample_bridge_def sample_world_def start_world_def)

text \<open>
  C7. The same content does not pass twice within the window: any two acceptances of messages with
  one deduplication key are further apart than the window, whatever arrives between them.
\<close>

theorem message_passes_once:
  assumes "sorted (map fst ms)" "dedup_key cr m = Inr key" "at_dedup (db_tables c) key = None"
    and "accepted = times_of (dedup_key cr) (Inr key) (admitted (message_admit cr window) c ms)"
    and "i < j" "j < length accepted"
  shows "accepted ! j - accepted ! i > of_int window"
proof -
  have "key_times window c (Inr key) = []" using assms(3) by (simp add: key_times_def stored_at_def)
  from contents.run_spaced [OF this assms(1)] have s: "spaced (window_over window) 1 accepted"
    by (simp add: assms(4))
  have sorted: "sorted accepted"
    using assms(1) by (simp add: assms(4) admitted_sorted)
  from s assms(5,6) have "accepted ! Suc i - accepted ! i > of_int window"
    by (auto simp: spaced_def window_over_def)
  moreover from sorted assms(5,6) have "accepted ! Suc i \<le> accepted ! j" by (simp add: sorted_nth_mono)
  ultimately show ?thesis by linarith
qed

theorem message_passes_once_witness:
  "\<exists>k. dedup_key sample_crypto (sample_message (lit ''a'')) = Inr k
     \<and> length (times_of (dedup_key sample_crypto) (Inr k)
          (admitted (message_admit sample_crypto 30) (new_conn empty_tables [])
            [(0, sample_message (lit ''a'')), (1, sample_message (lit ''a''))])) < 2"
proof -
  let ?ms = "[(0, sample_message (lit ''a'')), (1, sample_message (lit ''a''))]"
  obtain k where k: "dedup_key sample_crypto (sample_message (lit ''a'')) = Inr k"
    using sample_dedup_keys by blast
  define ts where "ts = times_of (dedup_key sample_crypto) (Inr k)
      (admitted (message_admit sample_crypto 30) (new_conn empty_tables []) ?ms)"
  have "\<not> 1 < length ts"
  proof
    assume l: "1 < length ts"
    have "ts ! 1 - ts ! 0 > of_int 30"
      by (rule message_passes_once [of ?ms, OF _ k _ ts_def _ l]) (simp_all add: new_conn_def empty_tables_def)
    moreover have "set ts \<subseteq> {0, 1}"
      using admitted_times [of "dedup_key sample_crypto" "Inr k" "message_admit sample_crypto 30" _ ?ms]
      by (simp add: ts_def)
    moreover have "ts ! 0 \<in> set ts" "ts ! 1 \<in> set ts" using l by (auto intro!: nth_mem)
    ultimately have "ts ! 0 \<in> {0, 1}" "ts ! 1 \<in> {0, 1}" "ts ! 1 - ts ! 0 > 30" by auto
    then show False by auto
  qed
  with k show ?thesis by (auto simp: ts_def)
qed

text \<open>
  A reply never exceeds the byte limit of the mesh, once encoded; the fixed text
  \<open>Rate limit.\<close>, 11 bytes long, is sent as it is.
\<close>

theorem reply_fits:
  assumes "process_message run ev bg m w = (Inr (Some out), w')" "0 \<le> bg_max_bytes bg"
  shows "int (length (utf8 (om_text out))) \<le> max (bg_max_bytes bg) 11"
proof -
  have limit: "length (utf8 (lit ''Rate limit.'')) = 11" by (simp add: utf8_lit_length)
  have admitted: "int (length (utf8 (om_text out))) \<le> bg_max_bytes bg"
    if "process_admitted run ev bg m t v = (Inr (Some out), w')" for t v
  proof -
    have "process_normal_text ev bg m x y \<noteq> (Inr (Some out), w')" for x y
      by (auto simp: process_normal_text_def split: option.splits if_splits prod.splits sum.splits bool.splits)
    with that obtain x y z where "trim_lora_response x (bg_max_bytes bg) = Inr y"
        "send_reply ev bg m y z (snd (snd (handle run ev (bg_router bg) m t v))) = (Inr (Some out), w')"
      by (auto simp: process_admitted_def split: prod.splits sum.splits option.splits)
    from fit_marked_bound [OF this(1) [unfolded trim_lora_response_def] assms(2)]
      send_reply_text [OF this(2)] show ?thesis by simp
  qed
  from assms(1) obtain t v where "process_new run ev bg m t v = (Inr (Some out), w')"
    by (auto simp: process_message_def split: prod.splits sum.splits if_splits bool.splits)
  then show ?thesis
    using admitted limit
    by (fastforce simp: process_new_def Let_def split: prod.splits if_splits dest: send_reply_text)
qed

theorem reply_fits_witness:
  "\<exists>out w'. process_message sample_run sample_env (sample_bridge\<lparr>bg_flow := None\<rparr>) (sample_message (lit ''!ping''))
       (sample_world\<lparr>w_limiter := new_limiter 0 60\<rparr>) = (Inr (Some out), w')
     \<and> length (utf8 (om_text out)) \<le> 140"
proof -
  obtain out w' where p: "process_message sample_run sample_env (sample_bridge\<lparr>bg_flow := None\<rparr>)
      (sample_message (lit ''!ping'')) (sample_world\<lparr>w_limiter := new_limiter 0 60\<rparr>) = (Inr (Some out), w')"
    using sample_rate_limited by blast
  from reply_fits [OF this] p show ?thesis by (auto simp: sample_bridge_def)
qed

section \<open>The audit log and the echoes\<close>

text \<open>
  C8. An event that is inserted appends exactly one row, with an identifier that was not there: its
  identifiers and its type have the documented form, its references were made with the current
  key, and its metadata is the canonical JSON of an object with allowed keys only, of at most
  4096 characters; the other tables are unchanged.
\<close>

theorem insertion_stores_valid_event:
  assumes "insert_event s now e t = (Inr True, t')" "as_audit_key s = Some k"
  shows "\<exists>r. at_events t' = at_events t @ [r] \<and> er_event_id r = ae_event_id e
    \<and> er_event_id r \<notin> er_event_id ` set (at_events t) \<and> er_event_type r = event_type_value (ae_event_type e)
    \<and> matches_event_id (er_event_id r) \<and> matches_correlation_id (er_correlation_id r)
    \<and> (\<forall>h \<in> set (opt_list (er_sender_ref_hash r)) \<union> set (opt_list (er_message_ref_hash r)).
         reference_key_id h = Some (ak_key_id k))
    \<and> length (er_metadata_json r) \<le> 4096
    \<and> (\<exists>m. er_metadata_json r = dumps_compact (json_sort m) \<and> is_mapping m
         \<and> set (map fst (obj_items m)) \<subseteq> set (metadata_allowlist (ae_event_type e)))
    \<and> at_inbound t' = at_inbound t \<and> at_commands t' = at_commands t \<and> at_dedup t' = at_dedup t"
proof -
  obtain r where r: "at_events t' = at_events t @ [r]" "er_event_id r = ae_event_id e"
      "er_event_id r \<notin> er_event_id ` set (at_events t)"
      "er_event_type r = event_type_value (ae_event_type e)"
      "at_inbound t' = at_inbound t" "at_commands t' = at_commands t" "at_dedup t' = at_dedup t"
    and ok: "stored_event_ok k r"
    by (rule insert_event_stored [OF assms])
  from ok r(4) have "\<exists>m. er_metadata_json r = dumps_compact (json_sort m) \<and> is_mapping m
      \<and> set (map fst (obj_items m)) \<subseteq> set (metadata_allowlist (ae_event_type e))"
    by (auto simp: stored_event_ok_def dest: event_type_value_inj [THEN injD])
  with ok r show ?thesis
    by (intro exI [of _ r]) (simp add: stored_event_ok_def audit_metadata_max_bytes_def)
qed

theorem insertion_stores_valid_event_witness:
  "\<exists>e t'. insert_event (fc_settings sample_flow) 0 e empty_tables = (Inr True, t')
     \<and> length (at_events t') = 1"
proof -
  obtain e t' where i: "insert_event (fc_settings sample_flow) 0 e empty_tables = (Inr True, t')"
    using sample_inserted by blast
  have k: "as_audit_key (fc_settings sample_flow) = Some sample_key" by (simp add: sample_flow_def)
  from insertion_stores_valid_event [OF i k] have "length (at_events t') = 1"
    by (auto simp: empty_tables_def)
  with i show ?thesis by blast
qed

text \<open>
  C13. The table of normalized events, with all the constraints of the schema, refines the list of
  rows of the repository's model: for a validated event SQLite accepts the row exactly when the
  model appends it, and otherwise raises an error of the same class and changes nothing. Of all
  constraints only the uniqueness of the identifier can fail.
\<close>

theorem events_table_refines:
  assumes "validate_event k e = Inr u" and "canonical_metadata_json (ae_event_type e) (ae_metadata e) = Inr m"
    and "represents db t" and "is_fresh i db"
  shows "case insert_event_row (event_row_of e m created_at) t of
      (Inr _, t') \<Rightarrow> \<exists>db'. insert_row i now events_table (event_values (event_row_of e m created_at)) db
                        = (Inr (), db') \<and> represents db' t'
    | (Inl x, t') \<Rightarrow> \<exists>y. insert_row i now events_table (event_values (event_row_of e m created_at)) db
                        = (Inl y, db) \<and> exn_class y = exn_class x \<and> represents db t'"
proof -
  let ?r = "event_row_of e m created_at"
  let ?row = "(''id'', IntV i) # event_values ?r"
  from validate_event_stored [OF assms(1,2), of created_at] have "stored_event_ok k ?r" by simp
  moreover have "er_schema_version ?r = 1"
    using assms(1) by (simp add: validate_event_def validate_event_identity_def bind_result_Inr_iff check_def
        event_row_of_def normalized_audit_schema_version_def split: if_splits)
  moreover have "er_sender_stable ?r \<in> {0, 1}" by (simp add: event_row_of_def)
  ultimately have fits: "\<forall>c \<in> set event_columns. \<forall>q \<in> set (constraints c).
      constraint_ok q (the (map_of ?row (column_name c)))"
    by (intro event_constraints) (auto simp: stored_event_ok_def audit_metadata_max_bytes_def)
  have rows: "list_all2 carries (sd_rows db events_table) (at_events t)"
    using assms(3) by (simp add: represents_def)
  have "(\<exists>old \<in> set (sd_rows db events_table). clashes event_columns ?row old)
      \<longleftrightarrow> er_event_id ?r \<in> er_event_id ` set (at_events t)" (is "?clash \<longleftrightarrow> ?dup")
    using rows assms(4) unfolding is_fresh_def
    by (induction rule: list_all2_induct) (auto simp: event_clashes)
  moreover have "insert_row i now events_table (event_values ?r) db =
      (if ?clash then (raise IntegrityError ''UNIQUE constraint failed'', db)
       else (Inr (), db\<lparr>sd_rows := (sd_rows db)(events_table := sd_rows db events_table @ [?row])\<rparr>))"
    using assms(3) fits event_row_columns [of ?r]
    by (auto simp: insert_row_def represents_def fill_event_row Let_def)
  moreover have "represents (db\<lparr>sd_rows := (sd_rows db)(events_table := sd_rows db events_table @ [?row])\<rparr>)
      (t\<lparr>at_events := at_events t @ [?r]\<rparr>)"
    using assms(3) by (simp add: represents_def carries_def list_all2_appendI)
  ultimately show ?thesis
    using assms(3) by (auto simp: insert_event_row_def)
qed

theorem events_table_refines_witness:
  "\<exists>r db' t'. insert_event_row r empty_tables = (Inr (), t')
     \<and> insert_row 1 [] events_table (event_values r)
          (empty_database\<lparr>sd_tables := [(events_table, event_columns)]\<rparr>) = (Inr (), db')
     \<and> represents db' t'"
proof -
  let ?db = "empty_database\<lparr>sd_tables := [(events_table, event_columns)]\<rparr>"
  obtain e m where e: "validate_event sample_key e = Inr ()"
      "canonical_metadata_json (ae_event_type e) (ae_metadata e) = Inr m"
    using sample_valid_event by blast
  have db: "represents ?db empty_tables" "is_fresh 1 ?db"
    by (simp_all add: represents_def is_fresh_def empty_database_def empty_tables_def)
  let ?r = "event_row_of e m []"
  have "insert_event_row ?r empty_tables = (Inr (), empty_tables\<lparr>at_events := [?r]\<rparr>)"
    by (simp add: insert_event_row_def empty_tables_def)
  with events_table_refines [OF e db, of "[]" "[]"] show ?thesis by fastforce
qed

text \<open>
  The audit log does not know what was said: two messages that differ only in their text and
  in their metadata give the same event, or the same error.
\<close>

theorem audit_ignores_text:
  "event_from_message cr k uuid ty (m\<lparr>im_text := t, im_metadata := x\<rparr>) corr args
     = event_from_message cr k uuid ty m corr args"
  by (simp add: event_from_message_def cong: option.case_cong if_cong)

text \<open>
  C9. What the bridge has put on the mesh for Telegram, and finds there again within ten minutes, is
  recognized as its own: the pending record is found and marked as an observed echo.
\<close>

theorem forwarded_text_is_recognised:
  assumes created: "create_bridge_record cr k uuid now corr tr room content n
      (lit ''accepted_by_meshcore_transport'') c = (Inr r, c')"
    and seen: "consume_pending_echo cr k now' tr room content n c' = (Inr x, c'')"
    and "now' < now + 600"
  shows "\<exists>p. x = Some p \<and> br_status p = lit ''observed_echo''"
proof -
  from created obtain h where h: "content_ref_hash cr k content = Inr h"
    by (auto simp: create_bridge_record_def split: sum.splits if_splits)
  with created have r: "r = \<lparr>br_bridge_message_id = lit ''bridge:'' @ uuid,
        br_correlation_id = corr, br_destination_transport = tr,
        br_destination_room_id = room, br_content_ref_hash = h,
        br_size_bytes = n, br_status = lit ''accepted_by_meshcore_transport'', br_created_at = now,
        br_expires_at = now + bridge_pending_window\<rparr>"
      and w: "\<exists>u. write_transaction (store_record now r) c = (Inr u, c')"
    by (auto simp: create_bridge_record_def Let_def split: sum.splits if_splits prod.splits)
  from w obtain u where "store_record now r (db_tables c) = (Inr u, db_tables c')"
    by (auto dest: sqlite.write_commits)
  then have stored: "r \<in> set (tt_pending (db_tables c'))"
    by (auto simp: store_record_def Let_def then_tx_Inr_iff bind_texts_Inr_iff split: if_splits
        dest!: sym [of _ "db_tables c'"])
  have match: "matches_echo now' tr room h n r"
    using assms(3) by (simp add: r matches_echo_def bridge_pending_window_def Let_def)
  from seen h obtain y where y: "x = map_option (\<lambda>p. p\<lparr>br_status := lit ''observed_echo''\<rparr>) y"
      and w': "write_transaction (then_tx (bind_texts [room]) (\<lambda>_. consume_record now' tr room h n)) c' = (Inr y, c'')"
    by (auto simp: consume_pending_echo_def split: sum.splits prod.splits)
  from sqlite.write_commits [OF w'] have "consume_record now' tr room h n (db_tables c') = (Inr y, db_tables c'')"
    by (auto simp: then_tx_Inr_iff bind_texts_Inr_iff)
  with stored match y show ?thesis by (cases y) (auto dest: consume_record_None)
qed

theorem forwarded_text_is_recognised_witness:
  "\<exists>p c. consume_pending_echo sample_crypto sample_key 5 [] [] (lit ''x'') 1
       (new_conn (empty_tg_tables\<lparr>tt_pending := [sample_record]\<rparr>) []) = (Inr (Some p), c)
     \<and> br_status p = lit ''observed_echo''"
proof -
  let ?c = "new_conn (empty_tg_tables\<lparr>tt_pending := [sample_record]\<rparr>) []"
  let ?f = "then_tx (bind_texts [[]]) (\<lambda>_. consume_record 5 [] [] (br_content_ref_hash sample_record) 1)"
  obtain t where "?f (empty_tg_tables\<lparr>tt_pending := [sample_record]\<rparr>) = (Inr (Some sample_record), t)"
    by (simp add: then_tx_def bind_texts_def consume_record_def purge_pending_def matches_echo_def
        sample_record_def Let_def)
  from undisturbed_write [where operation = ?f, OF this]
  have "write_transaction ?f ?c = (Inr (Some sample_record), new_conn t [])" .
  moreover have "content_ref_hash sample_crypto sample_key (lit ''x'') = Inr (br_content_ref_hash sample_record)"
    by (simp add: content_ref_hash_def key_reference_def sample_crypto_def sample_key_def encode_def
        sample_record_def is_scalar_def)
  ultimately obtain x c'' where x: "consume_pending_echo sample_crypto sample_key 5 [] [] (lit ''x'') 1 ?c = (Inr x, c'')"
    by (simp add: consume_pending_echo_def)
  from forwarded_text_is_recognised [OF sample_create x] x show ?thesis by auto
qed

text \<open>
  C25. One pending record recognizes one echo: two texts recognized one after the other, at whatever
  times, were recognized by different records.
\<close>

theorem echo_consumed_once:
  assumes "consume_record now tr room h n t = (Inr (Some r), t')"
    and "consume_record now' tr room h n t' = (Inr (Some r'), t'')"
  shows "br_bridge_message_id r' \<noteq> br_bridge_message_id r"
proof
  assume "br_bridge_message_id r' = br_bridge_message_id r"
  with consume_record_Some(3) [OF assms(1)] consume_record_Some(2) [OF assms(2)]
  have "br_status r' = lit ''observed_echo''" by blast
  with consume_record_Some(1) [OF assms(2)] show False by (simp add: matches_echo_def)
qed

theorem echo_consumed_once_witness:
  "br_bridge_message_id (sample_record\<lparr>br_bridge_message_id := []\<rparr>) \<noteq> br_bridge_message_id sample_record"
proof -
  let ?b = "sample_record\<lparr>br_bridge_message_id := []\<rparr>" and ?h = "br_content_ref_hash sample_record"
  have "consume_record 5 [] [] ?h 1 (empty_tg_tables\<lparr>tt_pending := [sample_record, ?b]\<rparr>)
      = (Inr (Some sample_record), empty_tg_tables\<lparr>tt_pending := [sample_record\<lparr>br_status := lit ''observed_echo''\<rparr>, ?b]\<rparr>)"
    by (simp add: consume_record_def purge_pending_def matches_echo_def sample_record_def Let_def)
  moreover have "consume_record 6 [] [] ?h 1
      (empty_tg_tables\<lparr>tt_pending := [sample_record\<lparr>br_status := lit ''observed_echo''\<rparr>, ?b]\<rparr>)
      = (Inr (Some ?b), empty_tg_tables\<lparr>tt_pending := [sample_record\<lparr>br_status := lit ''observed_echo''\<rparr>, ?b\<lparr>br_status := lit ''observed_echo''\<rparr>]\<rparr>)"
    by (simp add: consume_record_def purge_pending_def matches_echo_def sample_record_def Let_def)
  ultimately show ?thesis by (rule echo_consumed_once)
qed

section \<open>Polling and commands from Telegram\<close>

text \<open>
  C33. Of a command typed in Telegram only known words go on: the name of a registered command, the
  fixed arguments of \<open>estado\<close> and \<open>bridge\<close>, or \<open>unknown\<close>, after the configured prefix.
\<close>

theorem only_known_words_go_on:
  assumes "safe_command_text tc (Some ro) t = Inr s"
  shows "\<exists>name. s = tc_command_prefix tc @ name
    \<and> (name \<in> {lit ''unknown'', lit ''estado ha'', lit ''bridge reset''}
       \<or> resolve (ro_registry ro) name \<noteq> None
       \<or> (\<exists>op \<in> set override_words. \<exists>v \<in> {lit ''on'', lit ''off''}. name = lit ''bridge '' @ op @ [32] @ v))"
proof -
  obtain token words where split: "split_ws (strip t) = token # words"
    using assms by (cases "split_ws (strip t)") (auto simp: safe_command_text_def)
  let ?name = "lower (removeprefix token (tc_command_prefix tc))"
  show ?thesis
  proof (cases "resolve (ro_registry ro) ?name = None")
    case True
    with assms split show ?thesis by (auto simp: safe_command_text_def Let_def)
  next
    case False
    show ?thesis
    proof (cases "?name = lit ''bridge''")
      case True
      with False assms split have s: "s = safe_bridge_command_text (strip t) (tc_command_prefix tc)"
        by (auto simp: safe_command_text_def Let_def lit_eq_iff)
      show ?thesis
        unfolding s safe_bridge_command_text_def Let_def using True False by auto
    next
      case other: False
      with False assms split have "s \<in> {tc_command_prefix tc @ ?name, tc_command_prefix tc @ lit ''estado ha''}"
        by (auto simp: safe_command_text_def Let_def split: list.splits if_splits)
      with False show ?thesis by auto
    qed
  qed
qed

theorem only_known_words_go_on_witness:
  "safe_command_text sample_telegram (Some (build_router sample_config sample_flow\<lparr>ro_registry := []\<rparr>))
     (lit ''!rm -rf'') = Inr (lit ''!'' @ lit ''unknown'')"
proof -
  have "split_ws (strip (lit ''!rm -rf'')) \<noteq> []"
    by (simp add: split_ws_eq_Nil_iff strip_def lstrip_def rstrip_def lit_def is_space_def)
  then obtain c cs where c: "split_ws (strip (lit ''!rm -rf'')) = c # cs" by (cases "split_ws (strip (lit ''!rm -rf''))") auto
  have s: "safe_command_text sample_telegram (Some (build_router sample_config sample_flow\<lparr>ro_registry := []\<rparr>)) (lit ''!rm -rf'')
      = Inr (lit ''!'' @ lit ''unknown'')"
    by (simp add: safe_command_text_def c Let_def resolve_def sample_telegram_def)
  from only_known_words_go_on [OF s] s show ?thesis by simp
qed

text \<open>
  C27. A network that is down does not stop the polling, however long: after any number of failed
  calls the service is still there, has slept the doubling delays capped at the maximum, and has
  sent nothing and changed nothing in its database.
\<close>

theorem polling_survives_outages:
  assumes "list_all (\<lambda>e. is_network_error e \<and> \<not> is_rate_limit e \<and> \<not> is_conflict e) es"
    and "last_update_id (w_telegram w) = (Inr l, w_telegram w)"
    and "\<not> w_stopping w" "b \<le> ts_backoff_max ts" "0 \<le> b"
  shows "\<exists>w'. poll_loop run ev ts b (map (\<lambda>e. Answer (Inl e)) es) w = (None, w')
    \<and> w_slept w' = w_slept w @ map (\<lambda>k. min (b * 2 ^ k) (ts_backoff_max ts)) [0..<length es]
    \<and> w_sent w' = w_sent w \<and> w_telegram w' = w_telegram w"
  using assms
proof (induction es arbitrary: b w)
  case (Cons e es)
  let ?w1 = "polling_failure ev ''transport_error'' (w\<lparr>w_tg_offsets := w_tg_offsets w @ [case l of None \<Rightarrow> None | Some i \<Rightarrow> Some (i + 1)]\<rparr>)"
  let ?w2 = "sleep_or_stop (w_stopping ?w1) b ?w1"
  have p: "poll_once run ev ts (Inl e) w
      = (Inl e, w\<lparr>w_tg_offsets := w_tg_offsets w @ [case l of None \<Rightarrow> None | Some i \<Rightarrow> Some (i + 1)]\<rparr>)"
    using Cons.prems(2) by (simp add: poll_once_def on_telegram_def Let_def)
  have frame: "w_stopping ?w1 = w_stopping w" "w_telegram ?w1 = w_telegram w" "w_slept ?w1 = w_slept w"
      "w_sent ?w1 = w_sent w"
    by (simp_all add: polling_failure_def polling_state_def frame_simps)
  have step: "poll_loop run ev ts b (map (\<lambda>e. Answer (Inl e)) (e # es)) w
      = poll_loop run ev ts (min (b * 2) (ts_backoff_max ts)) (map (\<lambda>e. Answer (Inl e)) es) ?w2"
    using Cons.prems(1,3) p by (simp add: Let_def)
  have w2: "w_slept ?w2 = w_slept w @ [b]" "w_telegram ?w2 = w_telegram w" "w_sent ?w2 = w_sent w"
      "\<not> w_stopping ?w2"
    using Cons.prems(3) frame by (simp_all add: sleep_or_stop_def)
  let ?m = "ts_backoff_max ts"
  have cap: "min (min (b * 2) ?m * 2 ^ k) ?m = min (b * 2 ^ Suc k) ?m" for k :: nat
  proof (cases "b * 2 \<le> ?m")
    case True
    then show ?thesis by (simp add: algebra_simps)
  next
    case False
    have "?m \<le> ?m * 2 ^ k" "b * 2 \<le> b * 2 * 2 ^ k"
      using Cons.prems(4,5) by (simp_all add: mult_le_cancel_left1)
    with False show ?thesis by (simp add: min_def algebra_simps)
  qed
  have "\<exists>w'. poll_loop run ev ts (min (b * 2) ?m) (map (\<lambda>e. Answer (Inl e)) es) ?w2 = (None, w')
      \<and> w_slept w' = w_slept ?w2 @ map (\<lambda>k. min (min (b * 2) ?m * 2 ^ k) ?m) [0..<length es]
      \<and> w_sent w' = w_sent ?w2 \<and> w_telegram w' = w_telegram ?w2"
    by (rule Cons.IH) (use Cons.prems w2 in auto)
  moreover have "map (\<lambda>k. min (b * 2 ^ k) ?m) [0..<length (e # es)]
      = b # map (\<lambda>k. min (b * 2 ^ Suc k) ?m) [0..<length es]"
    using Cons.prems(4) by (simp add: upt_conv_Cons map_Suc_upt [symmetric] del: upt_Suc)
  ultimately show ?case unfolding step cap w2 by simp
qed auto

theorem polling_survives_outages_witness:
  "\<exists>w'. poll_loop (run_builtin (build_services sample_config sample_client sample_reader sample_flow)) sample_env
      sample_service 1 [Answer (Inl (Exn TelegramApiError [])), Answer (Inl (Exn TelegramApiError []))] sample_world
      = (None, w') \<and> w_slept w' = [1, 2]"
proof -
  have l: "last_update_id (w_telegram sample_world) = (Inr None, w_telegram sample_world)"
    by (simp add: sample_world_def start_world_def last_update_id_def get_state_def empty_tg_tables_def opt_result_def)
  have e: "is_network_error (Exn TelegramApiError [])" "\<not> is_rate_limit (Exn TelegramApiError [])"
      "\<not> is_conflict (Exn TelegramApiError [])"
    by simp_all
  let ?run = "run_builtin (build_services sample_config sample_client sample_reader sample_flow)"
  have "\<exists>w'. poll_loop ?run sample_env sample_service 1
      (map (\<lambda>e. Answer (Inl e)) [Exn TelegramApiError [], Exn TelegramApiError []]) sample_world = (None, w')
    \<and> w_slept w' = w_slept sample_world @ map (\<lambda>k. min (1 * 2 ^ k) (ts_backoff_max sample_service))
        [0..<length [Exn TelegramApiError [], Exn TelegramApiError []]]
    \<and> w_sent w' = w_sent sample_world \<and> w_telegram w' = w_telegram sample_world"
    by (rule polling_survives_outages [OF _ l])
      (simp_all add: e sample_service_def sample_world_def start_world_def)
  then obtain w' where p: "poll_loop ?run sample_env sample_service 1
      (map (\<lambda>e. Answer (Inl e)) [Exn TelegramApiError [], Exn TelegramApiError []]) sample_world = (None, w')"
    and slept: "w_slept w' = w_slept sample_world @ map (\<lambda>k. min (1 * 2 ^ k) (ts_backoff_max sample_service))
        [0..<length [Exn TelegramApiError [], Exn TelegramApiError []]]" by blast
  from slept have "w_slept w' = [1, 2]"
    by (simp add: sample_service_def sample_world_def start_world_def upt_rec)
  with p show ?thesis unfolding list.map by blast
qed

text \<open>
  What does stop the polling is an answer without an error status whose body is no JSON, which a
  proxy may give: the exception is none of those that the loop handles.
\<close>

theorem invalid_answer_ends_polling:
  assumes "hr_status response < 400" "hr_json response = None"
    and "last_update_id (w_telegram w) = (Inr l, w_telegram w)" "\<not> w_stopping w"
  shows "\<exists>e w'. poll_loop run ev ts b (Answer (updates_of (Inr response)) # es) w = (Some e, w')
    \<and> w_slept w' = w_slept w"
proof -
  obtain e where e: "updates_of (Inr response) = Inl e" "\<not> is_network_error e" "\<not> is_rate_limit e" "\<not> is_conflict e"
    using assms(1,2) by (auto simp: updates_of_def post_result_def)
  let ?w1 = "w\<lparr>w_tg_offsets := w_tg_offsets w @ [case l of None \<Rightarrow> None | Some i \<Rightarrow> Some (i + 1)]\<rparr>"
  have "poll_once run ev ts (Inl e) w = (Inl e, ?w1)"
    using assms(3) by (simp add: poll_once_def on_telegram_def Let_def)
  with e assms(4) show ?thesis by simp
qed

text \<open>
  After an update has been handled and its number was stored, the next call asks for the updates
  after it.
\<close>

theorem next_poll_asks_after_last:
  assumes "on_telegram (persist_last_update_id i) w = (Inr u, w1)"
    and "on_telegram last_update_id w1 = (Inr l, w2)"
  shows "\<exists>w3. w_tg_offsets w3 = w_tg_offsets w1 @ [Some (i + 1)]
    \<and> poll_once run ev ts (Inl e) w1 = (Inl e, w3)"
proof -
  from assms obtain c1 c2 where p: "persist_last_update_id i (w_telegram w) = (Inr u, c1)" "w1 = w\<lparr>w_telegram := c1\<rparr>"
    and r: "last_update_id c1 = (Inr l, c2)" "w2 = w1\<lparr>w_telegram := c2\<rparr>"
    by (auto simp: on_telegram_def split: prod.splits)
  from persisted_offset_read [OF p(1) r(1)] have "l = Some i" .
  with assms(2) r(2) p(2) show ?thesis by (simp add: poll_once_def Let_def)
qed

theorem next_poll_asks_after_last_witness:
  "\<exists>w1 (w3 :: world). on_telegram (persist_last_update_id 7) sample_world = (Inr (), w1)
     \<and> w_tg_offsets w3 = w_tg_offsets w1 @ [Some 8]"
proof -
  let ?t = "empty_tg_tables\<lparr>tt_state := (tt_state empty_tg_tables)(lit ''last_update_id'' \<mapsto> dec 7)\<rparr>"
  have p: "on_telegram (persist_last_update_id 7) sample_world
      = (Inr (), sample_world\<lparr>w_telegram := new_conn ?t []\<rparr>)"
    by (simp add: on_telegram_def sample_world_def start_world_def persist_last_update_id_def set_state_def
        put_state_def)
  have r: "on_telegram last_update_id (sample_world\<lparr>w_telegram := new_conn ?t []\<rparr>)
      = (Inr (Some 7), sample_world\<lparr>w_telegram := new_conn ?t []\<rparr>)"
    by (simp add: on_telegram_def last_update_id_def get_state_def opt_result_def)
  have "\<exists>w3. w_tg_offsets w3 = w_tg_offsets (sample_world\<lparr>w_telegram := new_conn ?t []\<rparr>) @ [Some (7 + 1)]
      \<and> poll_once (run_builtin (build_services sample_config (\<lambda>_. undefined) (\<lambda>_. undefined) sample_flow)) sample_env
          sample_service (Inl (Exn TimeoutError [])) (sample_world\<lparr>w_telegram := new_conn ?t []\<rparr>)
        = (Inl (Exn TimeoutError []), w3)"
    by (rule next_poll_asks_after_last [OF p r])
  then obtain w3 :: world where "w_tg_offsets w3 = w_tg_offsets (sample_world\<lparr>w_telegram := new_conn ?t []\<rparr>) @ [Some (7 + 1)]"
    by blast
  with p show ?thesis by (intro exI [of _ "sample_world\<lparr>w_telegram := new_conn ?t []\<rparr>"] exI [of _ w3]) simp
qed

section \<open>What the mesh brings in\<close>

text \<open>
  C36. The transport makes a message only of an event that is a channel message, was not sent by the
  bridge's own node, names the configured channel as the one it came from, and is from an
  identified sender when that is required. The message is then on that channel, holds the text of
  the event without surrounding blanks, which is not empty, is answered where it came from, and
  satisfies what the message model guarantees.
\<close>

theorem accepted_events:
  assumes "event_to_inbound cr uuid now ms e = Inr (Some m)"
  shows "ve_event_type e = lit ''meshcore_message''
    \<and> jget (ve_data e) (lit ''message_type'') = Some (JStr (lit ''channel''))
    \<and> jget (ve_data e) (lit ''outgoing'') \<noteq> Some (JBool True)
    \<and> json_int (jget_or (ve_data e) (lit ''channel_idx'') (JInt (-1))) = Inr (ms_channel_index ms)
    \<and> (ms_require_stable_sender ms \<longrightarrow>
         has_stable_sender (ve_data e) \<and> identity_kind_of (im_sender_id m) = lit ''meshcore_pubkey_prefix'')
    \<and> im_channel_index m = ms_channel_index ms
    \<and> im_text m = strip (py_str (jget_or (ve_data e) (lit ''message'') (JStr []))) \<and> im_text m \<noteq> []
    \<and> (\<exists>room. im_source_room m = Some room \<and> im_reply_target m = Some room
         \<and> rr_room_id room = channel_room_id mc_name (ms_channel_index ms))
    \<and> wf_inbound m"
proof -
  note parts = event_to_inbound_Some [OF assms]
  have "identity_kind_of (im_sender_id m) = lit ''meshcore_pubkey_prefix''" if "ms_require_stable_sender ms"
    using parts(6,7) that by (simp add: identified_sender)
  with parts(1-6,8-10) event_to_inbound_room [OF assms] show ?thesis by simp
qed

theorem accepted_events_witness:
  "\<exists>m. event_to_inbound sample_crypto (lit ''0'') 0 sample_settings sample_event = Inr (Some m)
     \<and> im_channel_index m = 3 \<and> wf_inbound m"
proof -
  obtain m where m: "event_to_inbound sample_crypto (lit ''0'') 0 sample_settings sample_event = Inr (Some m)"
    using sample_event_accepted by blast
  from m accepted_events [OF m] show ?thesis by (simp add: sample_settings_def)
qed

section \<open>The configuration\<close>

text \<open>
  C40. A configuration that passes its validation has positive channels and limits, prefixes that
  are not empty, an authorized user and chat when Telegram is enabled, and an address and a token
  when the mesh is reached through Home Assistant.
\<close>

theorem validated_config:
  assumes "validate_config c = Inr ()"
  shows "0 < mk_channel_index (cf_meshcore c) \<and> 0 < tc_channel_index (cf_telegram c)
    \<and> 1 \<le> tc_max_meshcore_length (cf_telegram c) \<and> 1 \<le> tc_max_telegram_length (cf_telegram c)
    \<and> cf_command_prefix c \<noteq> [] \<and> tc_command_prefix (cf_telegram c) \<noteq> []
    \<and> list_all (\<lambda>rc. 1 \<le> rc_commands rc \<and> 1 \<le> rc_window_seconds rc)
        [cf_rate_limit c, tc_forwarding_rate_limit (cf_telegram c), tc_inbound_rate_limit (cf_telegram c)]
    \<and> (tc_enabled (cf_telegram c) \<longrightarrow> tc_allowed_private_chat_id (cf_telegram c) \<noteq> []
         \<and> tc_allowed_user_id (cf_telegram c) \<noteq> [])
    \<and> (mk_transport (cf_meshcore c) = lit ''homeassistant'' \<longrightarrow>
         hc_base_url (cf_homeassistant c) \<noteq> [] \<and> hc_token (cf_homeassistant c) \<noteq> []
         \<and> lit ''meshcore_message'' \<in> set (mk_event_types (cf_meshcore c)))
    \<and> 15 \<le> hg_heartbeat_seconds (cf_health c) \<and> hg_heartbeat_seconds (cf_health c) \<le> 3600"
  using assms unfolding validate_config_def Let_def guards_Inr_iff by auto

theorem validated_config_witness:
  "0 < mk_channel_index (cf_meshcore sample_config)"
proof -
  have "validate_config sample_config = Inr ()" by (rule sample_valid)
  from validated_config [OF this] show ?thesis by simp
qed

end
